(* ===== verification/Prelude.thy ===== *)
theory Prelude
  imports Main
begin

text \<open>
  Shared material of the development: the collections of facts that carry the component
  proofs, results that are either an error or a value, Python loops that thread a state
  and may raise, tables as lists of rows that are found and updated by a key, and sums of
  integers over the rows of a table.
\<close>

named_theorems frame_simps \<open>what an operation leaves unchanged\<close>
named_theorems status_simps \<open>facts about status columns\<close>

section \<open>Results\<close>

text \<open>A Python call returns a value or raises: \<open>Inr\<close> the value, \<open>Inl\<close> the exception.\<close>

definition bind_res :: "'e + 'a \<Rightarrow> ('a \<Rightarrow> 'e + 'b) \<Rightarrow> 'e + 'b" where
  "bind_res r f = (case r of Inl e \<Rightarrow> Inl e | Inr x \<Rightarrow> f x)"

lemma bind_res_simps [simp]:
  "bind_res (Inl e) f = Inl e"
  "bind_res (Inr x) f = f x"
  by (simp_all add: bind_res_def)

lemma bind_res_Inr_iff:
  "bind_res r f = Inr y \<longleftrightarrow> (\<exists>x. r = Inr x \<and> f x = Inr y)"
  by (cases r) simp_all

lemma bind_res_InrE [elim!]:
  assumes "bind_res r f = Inr y"
  obtains x where "r = Inr x" "f x = Inr y"
  using assms by (auto simp: bind_res_Inr_iff)

lemma bind_res_cong [fundef_cong]:
  "r = r' \<Longrightarrow> (\<And>x. r' = Inr x \<Longrightarrow> f x = g x) \<Longrightarrow> bind_res r f = bind_res r' g"
  by (cases r') simp_all

definition is_ok :: "'e + 'a \<Rightarrow> bool" where
  "is_ok r = (case r of Inl _ \<Rightarrow> False | Inr _ \<Rightarrow> True)"

lemma is_ok_simps [simp]: "is_ok (Inl e) = False" "is_ok (Inr x) = True"
  by (simp_all add: is_ok_def)

lemma is_ok_iff: "is_ok r \<longleftrightarrow> (\<exists>x. r = Inr x)"
  by (cases r) simp_all

section \<open>Loops\<close>

text \<open>
  \<open>for x in xs: body\<close>, where the body updates a state and may raise. An exception ends the
  loop and is the result of the loop.
\<close>

fun for_each :: "('x \<Rightarrow> 's \<Rightarrow> 'e + 's) \<Rightarrow> 'x list \<Rightarrow> 's \<Rightarrow> 'e + 's" where
  "for_each f [] s = Inr s"
| "for_each f (x # xs) s = bind_res (f x s) (for_each f xs)"

text \<open>An invariant of the body is an invariant of the loop.\<close>

lemma for_each_inv:
  assumes "for_each f xs s = Inr s'" and "I s"
    and "\<And>x s s'. x \<in> set xs \<Longrightarrow> I s \<Longrightarrow> f x s = Inr s' \<Longrightarrow> I s'"
  shows "I s'"
  using assms
proof (induction xs arbitrary: s)
  case Nil
  then show ?case by simp
next
  case (Cons x xs)
  from Cons.prems(1) obtain t where t: "f x s = Inr t" "for_each f xs t = Inr s'"
    by auto
  have "I t" using Cons.prems(2,3) t(1) by (meson list.set_intros(1))
  then show ?case using Cons.IH [OF t(2)] Cons.prems(3) by (meson list.set_intros(2))
qed

text \<open>An invariant that also speaks of the elements still to come.\<close>

lemma for_each_rest_inv:
  assumes "for_each f xs s = Inr s'" and "I xs s"
    and "\<And>x ys s s'. I (x # ys) s \<Longrightarrow> f x s = Inr s' \<Longrightarrow> I ys s'"
  shows "I [] s'"
  using assms(1,2)
proof (induction xs arbitrary: s)
  case Nil
  then show ?case by simp
next
  case (Cons x xs)
  from Cons.prems(1) obtain t where t: "f x s = Inr t" "for_each f xs t = Inr s'" by auto
  show ?case by (rule Cons.IH [OF t(2) assms(3) [OF Cons.prems(2) t(1)]])
qed

text \<open>A reflexive and transitive relation between the states around each body relates the ends.\<close>

lemma for_each_rel:
  assumes "for_each f xs s = Inr s'" and "\<And>s. R s s"
    and "\<And>s t u. R s t \<Longrightarrow> R t u \<Longrightarrow> R s u"
    and "\<And>x s s'. x \<in> set xs \<Longrightarrow> f x s = Inr s' \<Longrightarrow> R s s'"
  shows "R s s'"
  by (rule for_each_inv [OF assms(1), where I = "R s"]) (use assms(2-4) in blast)+

lemma for_each_append:
  "for_each f (xs @ ys) s = bind_res (for_each f xs s) (for_each f ys)"
proof (induction xs arbitrary: s)
  case Nil
  then show ?case by simp
next
  case (Cons x xs)
  show ?case using Cons.IH by (cases "f x s") simp_all
qed

text \<open>A loop whose body never raises never raises.\<close>

lemma for_each_total:
  assumes "\<And>x s. x \<in> set xs \<Longrightarrow> \<exists>s'. f x s = Inr s'"
  shows "\<exists>s'. for_each f xs s = Inr s'"
  using assms
proof (induction xs arbitrary: s)
  case (Cons x xs)
  then obtain t where "f x s = Inr t" by (meson list.set_intros(1))
  then show ?case using Cons by simp
qed simp

text \<open>A comprehension whose element expression may raise, and one whose condition may.\<close>

fun map_res :: "('a \<Rightarrow> 'e + 'b) \<Rightarrow> 'a list \<Rightarrow> 'e + 'b list" where
  "map_res f [] = Inr []"
| "map_res f (x # xs) = bind_res (f x) (\<lambda>y. bind_res (map_res f xs) (\<lambda>ys. Inr (y # ys)))"

fun filter_res :: "('a \<Rightarrow> 'e + bool) \<Rightarrow> 'a list \<Rightarrow> 'e + 'a list" where
  "filter_res p [] = Inr []"
| "filter_res p (x # xs) =
     bind_res (p x) (\<lambda>b. bind_res (filter_res p xs) (\<lambda>ys. Inr (if b then x # ys else ys)))"

lemma map_res_Inr: "map_res f xs = Inr ys \<Longrightarrow> list_all2 (\<lambda>x y. f x = Inr y) xs ys"
  by (induction xs arbitrary: ys) auto

lemma filter_res_Inr: "filter_res p xs = Inr ys \<Longrightarrow> ys = filter (\<lambda>x. p x = Inr True) xs"
  by (induction xs arbitrary: ys) auto

section \<open>Rows and tables\<close>

text \<open>A table is a list of rows; \<open>upd_row\<close> is an UPDATE by key and \<open>get_row\<close> a SELECT by key.\<close>

definition upd_row :: "('r \<Rightarrow> 'k) \<Rightarrow> 'k \<Rightarrow> ('r \<Rightarrow> 'r) \<Rightarrow> 'r list \<Rightarrow> 'r list" where
  "upd_row key k f rows = map (\<lambda>r. if key r = k then f r else r) rows"

definition get_row :: "('r \<Rightarrow> 'k) \<Rightarrow> 'k \<Rightarrow> 'r list \<Rightarrow> 'r option" where
  "get_row key k rows = find (\<lambda>r. key r = k) rows"

lemma upd_row_Nil [simp]: "upd_row key k f [] = []"
  by (simp add: upd_row_def)

lemma upd_row_Cons [simp]:
  "upd_row key k f (r # rs) = (if key r = k then f r else r) # upd_row key k f rs"
  by (simp add: upd_row_def)

lemma length_upd_row [simp]: "length (upd_row key k f rows) = length rows"
  by (simp add: upd_row_def)

lemma map_key_upd_row:
  "(\<And>r. g (f r) = g r) \<Longrightarrow> map g (upd_row key k f rows) = map g rows"
  by (simp add: upd_row_def)

lemma in_upd_row_iff:
  "x \<in> set (upd_row key k f rows) \<longleftrightarrow>
     (\<exists>r \<in> set rows. x = (if key r = k then f r else r))"
  unfolding upd_row_def set_map by blast

text \<open>An update by key leaves every row with another key in the table.\<close>

lemma in_upd_row_other: "x \<in> set rows \<Longrightarrow> key x \<noteq> k \<Longrightarrow> x \<in> set (upd_row key k f rows)"
  unfolding in_upd_row_iff by (intro bexI [of _ x]) simp_all

lemma in_upd_row_same: "x \<in> set rows \<Longrightarrow> f x \<in> set (upd_row key (key x) f rows)"
  unfolding in_upd_row_iff by (intro bexI [of _ x]) simp_all

lemma map_upd_row:
  "(\<And>r. r \<in> set rows \<Longrightarrow> key r = k \<Longrightarrow> g (f r) = g r) \<Longrightarrow> map g (upd_row key k f rows) = map g rows"
  by (simp add: upd_row_def)

lemma upd_row_id: "(\<And>r. r \<in> set rows \<Longrightarrow> key r = k \<Longrightarrow> f r = r) \<Longrightarrow> upd_row key k f rows = rows"
  by (simp add: upd_row_def map_idI)

lemma upd_row_upd_row:
  "(\<And>r. key r = k \<Longrightarrow> key (f r) = k) \<Longrightarrow>
   upd_row key k g (upd_row key k f rows) = upd_row key k (g \<circ> f) rows"
  by (simp add: upd_row_def)

lemma get_row_upd_row_same:
  "(\<And>r. key r = k \<Longrightarrow> key (f r) = k) \<Longrightarrow>
   get_row key k (upd_row key k f rows) = map_option f (get_row key k rows)"
  unfolding get_row_def by (induction rows) auto

lemma get_row_upd_row_other:
  "k \<noteq> k' \<Longrightarrow> (\<And>r. key r = k' \<Longrightarrow> key (f r) = k') \<Longrightarrow>
   get_row key k (upd_row key k' f rows) = get_row key k rows"
  unfolding get_row_def by (induction rows) auto

lemma get_row_append:
  "get_row key k (rows @ rows') =
     (case get_row key k rows of None \<Rightarrow> get_row key k rows' | Some r \<Rightarrow> Some r)"
  unfolding get_row_def by (induction rows) auto

lemma get_row_single [simp]: "get_row key k [r] = (if key r = k then Some r else None)"
  by (simp add: get_row_def)

lemma upd_row_absent: "k \<notin> key ` set rows \<Longrightarrow> upd_row key k f rows = rows"
  by (induction rows) auto

lemma get_row_Some_in: "get_row key k rows = Some r \<Longrightarrow> r \<in> set rows \<and> key r = k"
  unfolding get_row_def by (auto simp: find_Some_iff)

lemma get_row_None_iff: "get_row key k rows = None \<longleftrightarrow> k \<notin> key ` set rows"
  unfolding get_row_def by (auto simp: find_None_iff)

lemma get_row_distinct:
  "distinct (map key rows) \<Longrightarrow> r \<in> set rows \<Longrightarrow> get_row key (key r) rows = Some r"
  unfolding get_row_def
proof (induction rows)
  case (Cons a rows)
  then show ?case by (auto simp: image_iff)
qed simp

lemma get_row_append_new:
  "get_row key k rows \<noteq> None \<Longrightarrow> get_row key k (rows @ [r]) = get_row key k rows"
  unfolding get_row_def by (induction rows) auto

section \<open>Sums over rows\<close>

definition sum_rows :: "('r \<Rightarrow> bool) \<Rightarrow> ('r \<Rightarrow> int) \<Rightarrow> 'r list \<Rightarrow> int" where
  "sum_rows P f rows = sum_list (map f (filter P rows))"

lemma sum_rows_Nil [simp]: "sum_rows P f [] = 0"
  by (simp add: sum_rows_def)

lemma sum_rows_Cons [simp]:
  "sum_rows P f (r # rs) = (if P r then f r else 0) + sum_rows P f rs"
  by (simp add: sum_rows_def)

lemma sum_rows_append [simp]:
  "sum_rows P f (xs @ ys) = sum_rows P f xs + sum_rows P f ys"
  by (simp add: sum_rows_def)

lemma sum_rows_cong:
  "(\<And>r. r \<in> set rows \<Longrightarrow> P r = Q r) \<Longrightarrow> (\<And>r. r \<in> set rows \<Longrightarrow> f r = g r) \<Longrightarrow>
   sum_rows P f rows = sum_rows Q g rows"
  by (induction rows) auto

lemma sum_rows_zero: "(\<And>r. r \<in> set rows \<Longrightarrow> P r \<Longrightarrow> f r = 0) \<Longrightarrow> sum_rows P f rows = 0"
  by (induction rows) auto

text \<open>Updating one row changes the sum by what that row contributes before and after.\<close>

lemma sum_rows_upd_row:
  assumes "distinct (map key rows)" and "r \<in> set rows"
  shows "sum_rows P f (upd_row key (key r) g rows) =
    sum_rows P f rows - (if P r then f r else 0) + (if P (g r) then f (g r) else 0)"
  using assms
proof (induction rows)
  case (Cons a rows)
  show ?case
  proof (cases "key a = key r")
    case True
    with Cons.prems have "a = r" by (auto simp: image_iff)
    moreover have "upd_row key (key r) g rows = rows"
      using Cons.prems True by (intro upd_row_absent) auto
    ultimately show ?thesis by simp
  next
    case False
    with Cons.prems have "r \<in> set rows" "distinct (map key rows)" by auto
    with Cons.IH False show ?thesis by simp
  qed
qed simp

lemma sum_rows_without:
  assumes "distinct (map key rows)" "r \<in> set rows"
  shows "sum_rows P f rows - (if P r then f r else 0) = sum_rows (\<lambda>x. x \<noteq> r \<and> P x) f rows"
proof -
  have "distinct rows" using assms(1) by (simp add: distinct_map)
  then show ?thesis using assms(2)
  proof (induction rows)
    case (Cons a rows)
    have "sum_rows (\<lambda>x. x \<noteq> a \<and> P x) f rows = sum_rows P f rows" if "a \<notin> set rows"
      by (rule sum_rows_cong) (use that in auto)
    then show ?case using Cons by auto
  qed simp
qed

text \<open>Grouping a sum by a key of the rows, over a list of distinct keys that covers them.\<close>

lemma sum_rows_group:
  assumes "distinct ks" and "\<And>r. r \<in> set rows \<Longrightarrow> P r \<Longrightarrow> key r \<in> set ks"
  shows "sum_rows P f rows =
    sum_list (map (\<lambda>k. sum_rows (\<lambda>r. P r \<and> key r = k) f rows) ks)"
  using assms(2)
proof (induction rows)
  case Nil
  then show ?case by (simp add: sum_list_0)
next
  case (Cons r rows)
  have IH: "sum_rows P f rows =
      sum_list (map (\<lambda>k. sum_rows (\<lambda>r. P r \<and> key r = k) f rows) ks)"
    using Cons by simp
  have one: "sum_list (map (\<lambda>k. if P r \<and> key r = k then f r else 0) ks) = (if P r then f r else 0)"
  proof (cases "P r")
    case True
    then have "key r \<in> set ks" using Cons.prems by simp
    then show ?thesis using True assms(1)
      by (simp add: sum_list_distinct_conv_sum_set)
  qed (simp add: sum_list_0)
  show ?case using one IH by (simp add: sum_list_addf)
qed

section \<open>Python dicts\<close>

text \<open>A dict is the list of its items in insertion order.\<close>

fun dict_set :: "'k \<Rightarrow> 'v \<Rightarrow> ('k \<times> 'v) list \<Rightarrow> ('k \<times> 'v) list" where
  "dict_set k v [] = [(k, v)]"
| "dict_set k v ((k', v') # ds) = (if k = k' then (k', v) # ds else (k', v') # dict_set k v ds)"

definition dict_of :: "('k \<times> 'v) list \<Rightarrow> ('k \<times> 'v) list" where
  "dict_of items = fold (\<lambda>(k, v) d. dict_set k v d) items []"

lemma map_of_dict_set [simp]: "map_of (dict_set k v d) = (map_of d)(k \<mapsto> v)"
  by (induction k v d rule: dict_set.induct) (auto simp: fun_eq_iff)

end
