(* ===== verification/Strings.thy ===== *)
theory Strings
  imports Prelude "HOL-Library.Char_ord"
begin

text \<open>
  The Python string operations the program uses, on ASCII strings (a \<open>string\<close> is a list of
  characters): decimal and hexadecimal rendering and parsing of integers, padding, case
  mapping, prefix tests, splitting at a separator, and the canonical text of a UUID. The
  facts are the round trips the components rest on and the characters each rendering uses.
\<close>

type_synonym uuid = nat \<comment> \<open>the 128-bit value of a \<open>uuid.UUID\<close>\<close>

section \<open>Characters\<close>

definition is_digit :: "char \<Rightarrow> bool" where
  "is_digit c \<longleftrightarrow> 48 \<le> (of_char c :: nat) \<and> (of_char c :: nat) \<le> 57"

definition digit_val :: "char \<Rightarrow> nat" where
  "digit_val c = of_char c - 48"

definition digit_char :: "nat \<Rightarrow> char" where
  "digit_char n = char_of (48 + n)"

definition lower_char :: "char \<Rightarrow> char" where
  "lower_char c = (if 65 \<le> (of_char c :: nat) \<and> (of_char c :: nat) \<le> 90
     then char_of ((of_char c :: nat) + 32) else c)"

definition upper_char :: "char \<Rightarrow> char" where
  "upper_char c = (if 97 \<le> (of_char c :: nat) \<and> (of_char c :: nat) \<le> 122
     then char_of ((of_char c :: nat) - 32) else c)"

definition is_hex :: "char \<Rightarrow> bool" where
  "is_hex c \<longleftrightarrow> is_digit c
     \<or> 65 \<le> (of_char c :: nat) \<and> (of_char c :: nat) \<le> 70
     \<or> 97 \<le> (of_char c :: nat) \<and> (of_char c :: nat) \<le> 102"

definition hex_char :: "nat \<Rightarrow> char" where
  "hex_char n = (if n < 10 then char_of (48 + n) else char_of (87 + n))"

definition hex_val :: "char \<Rightarrow> nat" where
  "hex_val c = (if is_digit c then of_char c - 48
     else if 97 \<le> (of_char c :: nat) then of_char c - 87 else of_char c - 55)"

definition is_space :: "char \<Rightarrow> bool" where
  "is_space c \<longleftrightarrow> (of_char c :: nat) \<in> {9, 10, 11, 12, 13, 28, 29, 30, 31, 32}"

lemma of_digit_char [simp]: "n < 10 \<Longrightarrow> (of_char (digit_char n) :: nat) = 48 + n"
  by (simp add: digit_char_def)

lemma is_digit_digit_char [simp]: "n < 10 \<Longrightarrow> is_digit (digit_char n)"
  by (simp add: is_digit_def)

lemma digit_val_digit_char [simp]: "n < 10 \<Longrightarrow> digit_val (digit_char n) = n"
  by (simp add: digit_val_def)

lemma of_hex_char: "n < 16 \<Longrightarrow>
  (of_char (hex_char n) :: nat) = (if n < 10 then 48 + n else 87 + n)"
  by (simp add: hex_char_def)

lemma is_hex_hex_char [simp]: "n < 16 \<Longrightarrow> is_hex (hex_char n)"
  by (simp add: is_hex_def is_digit_def of_hex_char)

lemma hex_val_hex_char [simp]: "n < 16 \<Longrightarrow> hex_val (hex_char n) = n"
  by (simp add: hex_val_def is_digit_def of_hex_char)

section \<open>str, int, hex\<close>

fun nat_str :: "nat \<Rightarrow> string" where
  "nat_str n = (if n < 10 then [digit_char n] else nat_str (n div 10) @ [digit_char (n mod 10)])"

declare nat_str.simps [simp del]

definition int_str :: "int \<Rightarrow> string" where
  "int_str i = (if i < 0 then CHR ''-'' # nat_str (nat (- i)) else nat_str (nat i))"

definition digits_val :: "string \<Rightarrow> nat" where
  "digits_val s = foldl (\<lambda>a c. 10 * a + digit_val c) 0 s"

fun hex_str :: "nat \<Rightarrow> string" where
  "hex_str n = (if n < 16 then [hex_char n] else hex_str (n div 16) @ [hex_char (n mod 16)])"

declare hex_str.simps [simp del]

definition hexs_val :: "string \<Rightarrow> nat" where
  "hexs_val s = foldl (\<lambda>a c. 16 * a + hex_val c) 0 s"

lemma digits_val_simps [simp]:
  "digits_val [] = 0" "digits_val (s @ [c]) = 10 * digits_val s + digit_val c"
  by (simp_all add: digits_val_def)

lemma hexs_val_simps [simp]:
  "hexs_val [] = 0" "hexs_val (s @ [c]) = 16 * hexs_val s + hex_val c"
  by (simp_all add: hexs_val_def)

lemma digits_val_single [simp]: "digits_val [c] = digit_val c"
  by (simp add: digits_val_def)

lemma hexs_val_single [simp]: "hexs_val [c] = hex_val c"
  by (simp add: hexs_val_def)

lemma nat_str_nonempty [simp]: "nat_str n \<noteq> []"
  by (subst nat_str.simps) simp

lemma nat_str_digits: "c \<in> set (nat_str n) \<Longrightarrow> is_digit c"
proof (induction n rule: nat_str.induct)
  case (1 n)
  then show ?case by (subst (asm) (2) nat_str.simps) (auto split: if_splits)
qed

lemma digits_val_nat_str [simp]: "digits_val (nat_str n) = n"
proof (induction n rule: nat_str.induct)
  case (1 n)
  then show ?case by (subst nat_str.simps) simp
qed

lemma hex_str_hex: "c \<in> set (hex_str n) \<Longrightarrow> is_hex c"
proof (induction n rule: hex_str.induct)
  case (1 n)
  then show ?case by (subst (asm) (2) hex_str.simps) (auto split: if_splits)
qed

lemma hexs_val_hex_str [simp]: "hexs_val (hex_str n) = n"
proof (induction n rule: hex_str.induct)
  case (1 n)
  then show ?case by (subst hex_str.simps) simp
qed

text \<open>A decimal numeral has no leading zero unless it is \<open>0\<close>.\<close>

lemma nat_str_head: "n \<noteq> 0 \<Longrightarrow> hd (nat_str n) \<noteq> digit_char 0"
proof (induction n rule: nat_str.induct)
  case (1 n)
  show ?case
  proof (cases "n < 10")
    case True
    have "(of_char (digit_char n) :: nat) \<noteq> of_char (digit_char 0)" using True 1 by simp
    then have "digit_char n \<noteq> digit_char 0" by metis
    then show ?thesis using True by (subst nat_str.simps) simp
  next
    case False
    then have "n div 10 \<noteq> 0" by simp
    then show ?thesis using 1 False by (subst nat_str.simps) simp
  qed
qed

lemma nat_str_inj: "nat_str a = nat_str b \<Longrightarrow> a = b"
  by (metis digits_val_nat_str)

lemma int_str_inj: "int_str a = int_str b \<Longrightarrow> a = b"
proof -
  assume eq: "int_str a = int_str b"
  have no: "nat_str n \<noteq> CHR ''-'' # s" for n s
  proof
    assume "nat_str n = CHR ''-'' # s"
    then have "is_digit (CHR ''-'')" by (metis list.set_intros(1) nat_str_digits)
    then show False by (simp add: is_digit_def)
  qed
  consider "a < 0" "b < 0" | "0 \<le> a" "0 \<le> b" | "a < 0" "0 \<le> b" | "0 \<le> a" "b < 0"
    by linarith
  then show "a = b"
  proof cases
    case 1
    then have "nat (- a) = nat (- b)" using eq by (intro nat_str_inj) (simp add: int_str_def)
    then show ?thesis using 1 by simp
  next
    case 2
    then have "nat a = nat b" using eq by (intro nat_str_inj) (simp add: int_str_def)
    then show ?thesis using 2 by simp
  next
    case 3
    then show ?thesis using eq no [of "nat b" "nat_str (nat (- a))"] by (simp add: int_str_def)
  next
    case 4
    then show ?thesis using eq no [of "nat a" "nat_str (nat (- b))"] by (simp add: int_str_def)
  qed
qed

section \<open>Padding, case, prefixes, splitting\<close>

definition zfill :: "nat \<Rightarrow> string \<Rightarrow> string" where
  "zfill w s = replicate (w - length s) (digit_char 0) @ s"

definition ljust0 :: "nat \<Rightarrow> string \<Rightarrow> string" where
  "ljust0 w s = s @ replicate (w - length s) (digit_char 0)"

definition rstrip0 :: "string \<Rightarrow> string" where
  "rstrip0 s = rev (dropWhile (\<lambda>c. c = digit_char 0) (rev s))"

definition strip :: "string \<Rightarrow> string" where
  "strip s = rev (dropWhile is_space (rev (dropWhile is_space s)))"

definition lower :: "string \<Rightarrow> string" where "lower s = map lower_char s"

definition upper :: "string \<Rightarrow> string" where "upper s = map upper_char s"

definition startswith :: "string \<Rightarrow> string \<Rightarrow> bool" where
  "startswith s p \<longleftrightarrow> take (length p) s = p"

definition removeprefix :: "string \<Rightarrow> string \<Rightarrow> string" where
  "removeprefix s p = (if startswith s p then drop (length p) s else s)"

text \<open>\<open>s.partition(c)\<close>: the text before the first \<open>c\<close>, whether there is one, and the rest.\<close>

definition partition_at :: "char \<Rightarrow> string \<Rightarrow> string \<times> bool \<times> string" where
  "partition_at c s = (takeWhile (\<lambda>x. x \<noteq> c) s, c \<in> set s, drop 1 (dropWhile (\<lambda>x. x \<noteq> c) s))"

text \<open>\<open>s.isdigit()\<close>: not empty and only digits.\<close>

definition isdigit :: "string \<Rightarrow> bool" where
  "isdigit s \<longleftrightarrow> s \<noteq> [] \<and> list_all is_digit s"

fun join :: "string \<Rightarrow> string list \<Rightarrow> string" where
  "join sep [] = []"
| "join sep [s] = s"
| "join sep (s # t # ss) = s @ sep @ join sep (t # ss)"

text \<open>\<open>p in s\<close> for strings.\<close>

fun contains :: "string \<Rightarrow> string \<Rightarrow> bool" where
  "contains p [] \<longleftrightarrow> p = []"
| "contains p (c # s) \<longleftrightarrow> startswith (c # s) p \<or> contains p s"

lemma length_lower [simp]: "length (lower s) = length s"
  by (simp add: lower_def)

lemma length_zfill [simp]: "length (zfill w s) = max w (length s)"
  by (simp add: zfill_def)

lemma lower_char_idem [simp]: "lower_char (lower_char c) = lower_char c"
proof -
  have "(of_char (char_of ((of_char c :: nat) + 32) :: char) :: nat) = of_char c + 32"
    if "65 \<le> (of_char c :: nat)" "(of_char c :: nat) \<le> 90"
    using that by simp
  then show ?thesis by (auto simp: lower_char_def)
qed

lemma lower_idem [simp]: "lower (lower s) = lower s"
  by (simp add: lower_def)

lemma digits_val_append_zeros:
  "digits_val (replicate k (digit_char 0) @ s) = digits_val s"
proof -
  have "foldl (\<lambda>a c. 10 * a + digit_val c) 0 (replicate k (digit_char 0)) = 0"
    by (induction k) simp_all
  then show ?thesis by (simp add: digits_val_def)
qed

lemma digits_val_zfill [simp]: "digits_val (zfill w s) = digits_val s"
  by (simp add: zfill_def digits_val_append_zeros)

lemma digits_val_snoc_zeros:
  "digits_val (s @ replicate k (digit_char 0)) = digits_val s * 10 ^ k"
proof (induction k)
  case (Suc k)
  have "digits_val (s @ replicate (Suc k) (digit_char 0)) =
      10 * digits_val (s @ replicate k (digit_char 0))"
    using digits_val_simps(2) [of "s @ replicate k (digit_char 0)" "digit_char 0"]
    by (simp add: replicate_append_same)
  then show ?case using Suc by simp
qed simp

lemma rstrip0_ljust0:
  assumes "length s = k"
  shows "ljust0 k (rstrip0 s) = s"
proof -
  let ?z = "takeWhile (\<lambda>c. c = digit_char 0) (rev s)"
  have rs: "rev ?z @ [] = replicate (length ?z) (digit_char 0)"
    using set_takeWhileD [of _ "\<lambda>c. c = digit_char 0" "rev s"]
    by (metis append_Nil2 length_rev replicate_length_same set_rev)
  have "s = rstrip0 s @ rev ?z"
    unfolding rstrip0_def by (metis rev_append rev_rev_ident takeWhile_dropWhile_id)
  moreover have "length ?z = k - length (rstrip0 s)"
    using calculation assms by (metis add_diff_cancel_left' length_append length_rev)
  ultimately show ?thesis using rs by (simp add: ljust0_def)
qed

lemma set_rstrip0: "set (rstrip0 s) \<subseteq> set s"
  unfolding rstrip0_def by (auto dest: set_dropWhileD)

section \<open>UUIDs\<close>

text \<open>
  \<open>str(uuid)\<close>: 32 hexadecimal digits in groups of 8, 4, 4, 4 and 12. (A value of 128 bits or
  more, which no UUID has, would only lengthen the first group.)
\<close>

definition hex32 :: "uuid \<Rightarrow> string" where
  "hex32 u = zfill 32 (hex_str u)"

definition uuid_str :: "uuid \<Rightarrow> string" where
  "uuid_str u =
     (let h = hex32 u; n = length h in
      take (n - 24) h @ ''-'' @ take 4 (drop (n - 24) h) @ ''-'' @ take 4 (drop (n - 20) h)
      @ ''-'' @ take 4 (drop (n - 16) h) @ ''-'' @ drop (n - 12) h)"

text \<open>\<open>UUID(s)\<close> for the canonical spelling: drop the hyphens, then exactly 32 hex digits.\<close>

definition uuid_parse :: "string \<Rightarrow> uuid option" where
  "uuid_parse s = (let h = filter (\<lambda>c. c \<noteq> CHR ''-'') s in
     if length h = 32 \<and> list_all is_hex h then Some (hexs_val h) else None)"

lemma hexs_val_zfill [simp]: "hexs_val (zfill w s) = hexs_val s"
proof -
  have "foldl (\<lambda>a c. 16 * a + hex_val c) 0 (replicate k (digit_char 0)) = 0" for k
    by (induction k) (simp_all add: hex_val_def)
  then show ?thesis by (simp add: hexs_val_def zfill_def)
qed

lemma hexs_val_hex32 [simp]: "hexs_val (hex32 u) = u"
  by (simp add: hex32_def)

lemma hex32_hex: "c \<in> set (hex32 u) \<Longrightarrow> is_hex c"
  by (auto simp: hex32_def zfill_def is_hex_def dest: hex_str_hex)

lemma not_hex_hyphen [simp]: "\<not> is_hex (CHR ''-'')"
  by code_simp

lemma not_hex_colon [simp]: "\<not> is_hex (CHR '':'')"
  by code_simp

lemma filter_hyphen_hex:
  "(\<And>c. c \<in> set h \<Longrightarrow> is_hex c) \<Longrightarrow> filter (\<lambda>c. c \<noteq> CHR ''-'') h = h"
  by (rule filter_True) (metis not_hex_hyphen)

lemma split5: "(24::nat) \<le> n \<Longrightarrow> n = length h \<Longrightarrow>
  take (n - 24) h @ take 4 (drop (n - 24) h) @ take 4 (drop (n - 20) h) @
  take 4 (drop (n - 16) h) @ drop (n - 12) h = h"
proof -
  assume n: "24 \<le> n" "n = length h"
  have step: "take k (drop i h) @ drop (i + k) h = drop i h" for i k
    by (metis add.commute append_take_drop_id drop_drop)
  have ar: "n - 16 + 4 = n - 12" "n - 20 + 4 = n - 16" "n - 24 + 4 = n - 20"
    using n(1) by linarith+
  show ?thesis
    using step [of 4 "n - 16"] step [of 4 "n - 20"] step [of 4 "n - 24"]
    unfolding ar by (metis append_take_drop_id)
qed

lemma uuid_str_no_hyphen: "filter (\<lambda>c. c \<noteq> CHR ''-'') (uuid_str u) = hex32 u"
proof -
  let ?h = "hex32 u"
  have sub: "filter (\<lambda>c. c \<noteq> CHR ''-'') x = x" if "set x \<subseteq> set ?h" for x
    using that hex32_hex by (intro filter_hyphen_hex) auto
  have "24 \<le> length ?h" by (simp add: hex32_def)
  then show ?thesis
    using split5 [of "length ?h" ?h]
    by (simp add: uuid_str_def Let_def sub set_take_subset set_drop_subset
        order_trans [OF set_take_subset set_drop_subset])
qed

lemma uuid_str_inj [simp]: "uuid_str a = uuid_str b \<longleftrightarrow> a = b"
  by (metis hexs_val_hex32 uuid_str_no_hyphen)

lemma hex_str_length: "0 < k \<Longrightarrow> n < 16 ^ k \<Longrightarrow> length (hex_str n) \<le> k"
proof (induction n arbitrary: k rule: hex_str.induct)
  case (1 n)
  show ?case
  proof (cases "n < 16")
    case True
    then show ?thesis using 1 by (subst hex_str.simps) simp
  next
    case False
    obtain j where j: "k = Suc j" "0 < j"
      using False 1(2,3) by (cases k; cases "k - 1") auto
    with 1(3) have "n div 16 < 16 ^ j" by (simp add: less_mult_imp_div_less mult.commute)
    with 1(1) False j have "length (hex_str (n div 16)) \<le> j" by simp
    then show ?thesis using False j by (subst hex_str.simps) simp
  qed
qed

lemma uuid_parse_str: "u < 2 ^ 128 \<Longrightarrow> uuid_parse (uuid_str u) = Some u"
proof -
  assume "u < 2 ^ 128"
  then have "u < 16 ^ 32" by simp
  then have "length (hex32 u) = 32" using hex_str_length [of 32 u] by (simp add: hex32_def)
  moreover have "list_all is_hex (hex32 u)" using hex32_hex by (auto simp: list_all_iff)
  ultimately show ?thesis by (simp add: uuid_parse_def uuid_str_no_hyphen)
qed

lemma uuid_str_chars: "c \<in> set (uuid_str u) \<Longrightarrow> is_hex c \<or> c = CHR ''-''"
proof -
  assume "c \<in> set (uuid_str u)"
  then have "c = CHR ''-'' \<or> c \<in> set (hex32 u)"
    unfolding uuid_str_no_hyphen [of u, symmetric] by auto
  then show ?thesis using hex32_hex by blast
qed

lemma uuid_str_no_colon: "CHR '':'' \<notin> set (uuid_str u)"
  using uuid_str_chars [of "CHR '':''" u] by auto

text \<open>Splitting a text at its first colon is unambiguous when the head has no colon.\<close>

lemma colon_split:
  assumes "CHR '':'' \<notin> set a" "CHR '':'' \<notin> set b" "a @ CHR '':'' # s = b @ CHR '':'' # t"
  shows "a = b \<and> s = t"
proof -
  have tw: "takeWhile (\<lambda>x. x \<noteq> CHR '':'') (a @ CHR '':'' # s) = a"
    using assms(1) by (subst takeWhile_append2) auto
  have "takeWhile (\<lambda>x. x \<noteq> CHR '':'') (b @ CHR '':'' # t) = b"
    using assms(2) by (subst takeWhile_append2) auto
  with tw assms(3) show ?thesis by auto
qed

end
