(* ===== verification/Tables.thy ===== *)
theory Tables
  imports Strings
begin

text \<open>
  The data model: the enumerations of \<open>app/core/enums.py\<close>, the tables of
  \<open>app/models/tables.py\<close> as one record per mapped class, the database as the record of all
  its tables, the exceptions the program raises, and the reads every component uses. A
  status column is CHECKed to be one of the enumeration's values, so it has the
  enumeration's type. Field names carry a prefix for their table. A table is the list of its
  rows in insertion order. The column defaults are explicit: \<open>next_uuid\<close> is the supply behind
  \<open>default=uuid.uuid4\<close> and \<open>db_now\<close> (microseconds) the clock behind \<open>server_default=now()\<close>.
\<close>

section \<open>Enumerations\<close>

datatype user_role = USER | ADMIN
datatype asset_type = NATIVE | ERC20 | ERC721
datatype deposit_status = DepSeen | DepConfirmed | DepCredited | DepOrphaned
datatype nft_deposit_status = NdSeen | NdConfirmed | NdCredited | NdOrphaned
datatype withdrawal_status =
  WdRequested | WdApproved | WdSigning | WdBroadcast | WdConfirmed | WdFailed | WdRejected
datatype transfer_status = TrPending | TrSubmitted | TrConfirmed | TrFailed
datatype nft_holding_status = HoHeld | HoWithdrawing | HoWithdrawn
datatype nft_mint_status = MiRequested | MiSigning | MiBroadcast | MiConfirmed | MiFailed
datatype nft_withdrawal_status =
  NwRequested | NwApproved | NwSigning | NwBroadcast | NwConfirmed | NwFailed
datatype nft_sweep_status = SwPending | SwFunding | SwFunded | SwSweeping | SwSwept | SwFailed
datatype gas_status = GasOk | GasLow | GasCritical | GasUnknown
datatype ledger_entry_type =
  LeDeposit | LeWithdrawal | LeTransferIn | LeTransferOut | LeFee | LeAdjustment | LeReversal
datatype error_code =
  VALIDATION_ERROR | INSUFFICIENT_FUNDS | UNKNOWN_ASSET | UNSUPPORTED_CHAIN
  | WITHDRAWAL_REJECTED | NOT_FOUND | UNAUTHORIZED | RATE_LIMITED | INTERNAL_ERROR
datatype owner_type = OwUser | OwSystem

text \<open>The value of an asset type, as it is stored.\<close>

fun asset_type_str :: "asset_type \<Rightarrow> string" where
  "asset_type_str NATIVE = ''native''"
| "asset_type_str ERC20 = ''erc20''"
| "asset_type_str ERC721 = ''erc721''"

section \<open>Exceptions\<close>

text \<open>
  \<open>ApiError\<close> is the HTTPException of \<open>raise_api_error\<close> with its status, code and message;
  \<open>OtherError\<close> stands for any exception of a called library that no handler here names.
\<close>

datatype error =
    ApiError int error_code string
  | ValueError string
  | LedgerInvariantError string
  | InvalidAddressError string
  | IntegrityError
  | NoResultFound
  | MultipleResultsFound
  | ChainRpcError string
  | KeyError string
  | OverflowError
  | TypeError string
  | BlockNotFound string
  | TransactionNotFound string
  | OtherError string

text \<open>What \<open>except ValueError\<close> catches: the class and its two subclasses here.\<close>

fun is_value_error :: "error \<Rightarrow> bool" where
  "is_value_error (ValueError m) = True"
| "is_value_error (LedgerInvariantError m) = True"
| "is_value_error (InvalidAddressError m) = True"
| "is_value_error _ = False"

fun is_chain_rpc_error :: "error \<Rightarrow> bool" where
  "is_chain_rpc_error (ChainRpcError m) = True"
| "is_chain_rpc_error _ = False"

text \<open>\<open>str(exc)\<close> for the exceptions that carry a message.\<close>

fun error_text :: "error \<Rightarrow> string" where
  "error_text (ValueError m) = m"
| "error_text (LedgerInvariantError m) = m"
| "error_text (InvalidAddressError m) = m"
| "error_text (ChainRpcError m) = m"
| "error_text (KeyError m) = m"
| "error_text (TypeError m) = m"
| "error_text (BlockNotFound m) = m"
| "error_text (TransactionNotFound m) = m"
| "error_text (OtherError m) = m"
| "error_text _ = []"

definition raise_api_error :: "int \<Rightarrow> error_code \<Rightarrow> string \<Rightarrow> error + 'a" where
  "raise_api_error status_code code message = Inl (ApiError status_code code message)"

definition raise_not_found :: "string \<Rightarrow> error + 'a" where
  "raise_not_found message = raise_api_error 404 NOT_FOUND message"

lemma raise_simps [simp]:
  "raise_api_error s c m \<noteq> Inr x" "raise_not_found m \<noteq> Inr x"
  by (simp_all add: raise_api_error_def raise_not_found_def)

section \<open>Tables\<close>

record user =
  usr_id :: uuid
  usr_email :: string
  usr_password_hash :: string
  usr_role :: user_role
  usr_hd_index :: int
  usr_created_at :: int

record asset =
  ast_id :: uuid
  ast_chain_id :: int
  ast_symbol :: string
  ast_type :: asset_type
  ast_contract_address :: "string option"
  ast_decimals :: nat

record deposit_address =
  da_id :: uuid
  da_user_id :: uuid
  da_address :: string
  da_derivation_path :: string

record ledger_account =
  acc_id :: uuid
  acc_owner_type :: owner_type
  acc_user_id :: "uuid option"
  acc_asset_id :: uuid
  acc_name :: string

record ledger_transaction =
  txn_id :: uuid
  txn_type :: ledger_entry_type
  txn_ref_type :: string
  txn_ref_id :: string
  txn_idempotency_key :: string
  txn_created_at :: int

record ledger_entry =
  ent_id :: uuid
  ent_transaction_id :: uuid
  ent_account_id :: uuid
  ent_asset_id :: uuid
  ent_amount :: int
  ent_created_at :: int

record onchain_deposit =
  dep_id :: uuid
  dep_chain_id :: int
  dep_tx_hash :: string
  dep_log_index :: "int option"
  dep_block_number :: int
  dep_block_hash :: string
  dep_to_address :: string
  dep_asset_id :: uuid
  dep_amount :: int
  dep_status :: deposit_status
  dep_user_id :: "uuid option"
  dep_credit_revision :: int
  dep_created_at :: int

record nft_deposit =
  nd_id :: uuid
  nd_user_id :: "uuid option"
  nd_chain_id :: int
  nd_contract :: string
  nd_token_id :: string
  nd_from_address :: string
  nd_to_address :: string
  nd_tx_hash :: string
  nd_log_index :: "int option"
  nd_block_number :: int
  nd_block_hash :: string
  nd_status :: nft_deposit_status
  nd_credit_revision :: int
  nd_created_at :: int

record nft_holding =
  ho_id :: uuid
  ho_user_id :: uuid
  ho_chain_id :: int
  ho_contract :: string
  ho_token_id :: string
  ho_status :: nft_holding_status
  ho_acquired_at :: int

record nft_transfer =
  nt_id :: uuid
  nt_nft_holding_id :: uuid
  nt_sender_user_id :: uuid
  nt_recipient_user_id :: uuid
  nt_status :: transfer_status
  nt_idempotency_key :: string
  nt_created_at :: int

record nft_mint_request =
  mi_id :: uuid
  mi_user_id :: uuid
  mi_chain_id :: int
  mi_contract :: string
  mi_to_address :: string
  mi_status :: nft_mint_status
  mi_nonce :: "int option"
  mi_unmined_since_block :: "int option"
  mi_signed_tx :: "string option"
  mi_tx_hash :: "string option"
  mi_token_id :: "string option"
  mi_error :: "string option"
  mi_attempts :: int
  mi_created_at :: int

record nft_withdrawal_request =
  nw_id :: uuid
  nw_user_id :: uuid
  nw_nft_holding_id :: uuid
  nw_chain_id :: int
  nw_contract :: string
  nw_token_id :: string
  nw_to_address :: string
  nw_status :: nft_withdrawal_status
  nw_nonce :: "int option"
  nw_unmined_since_block :: "int option"
  nw_signed_tx :: "string option"
  nw_tx_hash :: "string option"
  nw_error :: "string option"
  nw_attempts :: int
  nw_idempotency_key :: "string option"
  nw_created_at :: int

record nft_sweep =
  sw_id :: uuid
  sw_chain_id :: int
  sw_contract :: string
  sw_token_id :: string
  sw_deposit_address :: string
  sw_hd_index :: int
  sw_nft_deposit_id :: uuid
  sw_status :: nft_sweep_status
  sw_gas_fund_tx_hash :: "string option"
  sw_gas_fund_nonce :: "int option"
  sw_sweep_signed_tx :: "string option"
  sw_sweep_tx_hash :: "string option"
  sw_sweep_nonce :: "int option"
  sw_unmined_since_block :: "int option"
  sw_attempts :: int
  sw_error :: "string option"
  sw_created_at :: int

record withdrawal_request =
  wd_id :: uuid
  wd_user_id :: uuid
  wd_asset_id :: uuid
  wd_chain_id :: int
  wd_to_address :: string
  wd_amount :: int
  wd_status :: withdrawal_status
  wd_tx_hash :: "string option"
  wd_signed_tx :: "string option"
  wd_nonce :: "int option"
  wd_unmined_since_block :: "int option"
  wd_attempts :: int
  wd_error :: "string option"
  wd_created_at :: int

record chain_cursor =
  cc_chain_id :: int
  cc_last_scanned_block :: int
  cc_last_finalized_block :: int

record hot_wallet_nonce =
  hw_chain_id :: int
  hw_address :: string
  hw_next_nonce :: int

record rate_limit_event =
  rl_id :: uuid
  rl_scope_key :: string
  rl_action :: string
  rl_created_at :: int

section \<open>The database\<close>

record db =
  users :: "user list"
  assets :: "asset list"
  deposit_addresses :: "deposit_address list"
  ledger_accounts :: "ledger_account list"
  ledger_transactions :: "ledger_transaction list"
  ledger_entries :: "ledger_entry list"
  onchain_deposits :: "onchain_deposit list"
  nft_deposits :: "nft_deposit list"
  nft_holdings :: "nft_holding list"
  nft_transfers :: "nft_transfer list"
  nft_mint_requests :: "nft_mint_request list"
  nft_withdrawal_requests :: "nft_withdrawal_request list"
  nft_sweeps :: "nft_sweep list"
  withdrawal_requests :: "withdrawal_request list"
  chain_cursors :: "chain_cursor list"
  hot_wallet_nonces :: "hot_wallet_nonce list"
  rate_limit_events :: "rate_limit_event list"
  next_uuid :: uuid
  db_now :: int

definition empty_db :: db where
  "empty_db = \<lparr>users = [], assets = [], deposit_addresses = [], ledger_accounts = [],
     ledger_transactions = [], ledger_entries = [], onchain_deposits = [], nft_deposits = [],
     nft_holdings = [], nft_transfers = [], nft_mint_requests = [],
     nft_withdrawal_requests = [], nft_sweeps = [], withdrawal_requests = [],
     chain_cursors = [], hot_wallet_nonces = [], rate_limit_events = [],
     next_uuid = 1, db_now = 0\<rparr>"

section \<open>Reads\<close>

text \<open>SQLAlchemy's \<open>scalar_one_or_none()\<close>, \<open>scalar_one()\<close> and \<open>first()\<close> on a result list.\<close>

fun scalar_one_or_none :: "'a list \<Rightarrow> error + 'a option" where
  "scalar_one_or_none [] = Inr None"
| "scalar_one_or_none [x] = Inr (Some x)"
| "scalar_one_or_none (x # y # zs) = Inl MultipleResultsFound"

fun scalar_one :: "'a list \<Rightarrow> error + 'a" where
  "scalar_one [] = Inl NoResultFound"
| "scalar_one [x] = Inr x"
| "scalar_one (x # y # zs) = Inl MultipleResultsFound"

fun first_row :: "'a list \<Rightarrow> 'a option" where
  "first_row [] = None"
| "first_row (x # xs) = Some x"

lemma scalar_one_or_none_None [simp]: "scalar_one_or_none xs = Inr None \<longleftrightarrow> xs = []"
  by (cases xs rule: scalar_one_or_none.cases) simp_all

lemma scalar_one_or_none_Some [simp]: "scalar_one_or_none xs = Inr (Some x) \<longleftrightarrow> xs = [x]"
  by (cases xs rule: scalar_one_or_none.cases) simp_all

lemma scalar_one_Inr [simp]: "scalar_one xs = Inr x \<longleftrightarrow> xs = [x]"
  by (cases xs rule: scalar_one.cases) simp_all

lemma filter_single_in: "filter P xs = [x] \<Longrightarrow> x \<in> set xs \<and> P x"
proof -
  assume "filter P xs = [x]"
  then have "x \<in> set (filter P xs)" by simp
  then show ?thesis by simp
qed

lemma first_row_filter_Some: "first_row (filter P xs) = Some x \<Longrightarrow> x \<in> set xs \<and> P x"
proof -
  assume "first_row (filter P xs) = Some x"
  then have "x \<in> set (filter P xs)" by (cases "filter P xs") simp_all
  then show ?thesis by simp
qed

lemma first_row_None [simp]: "first_row xs = None \<longleftrightarrow> xs = []"
  by (cases xs) simp_all

text \<open>A key that is unique in a table selects at most one row.\<close>

lemma filter_key_distinct:
  "distinct (map key rows) \<Longrightarrow> r \<in> set rows \<Longrightarrow> filter (\<lambda>x. key x = key r) rows = [r]"
proof (induction rows)
  case (Cons a rows)
  show ?case
  proof (cases "a = r")
    case True
    then have "filter (\<lambda>x. key x = key r) rows = []"
      using Cons.prems by (auto simp: filter_empty_conv image_iff)
    with True show ?thesis by simp
  next
    case False
    with Cons.prems have "key a \<noteq> key r" "r \<in> set rows" by (auto simp: image_iff)
    with Cons show ?thesis by simp
  qed
qed simp

text \<open>\<open>get_asset\<close> of the wallet service: an unknown id is a 404.\<close>

definition get_asset :: "db \<Rightarrow> uuid \<Rightarrow> error + asset" where
  "get_asset db asset_id =
     bind_res (scalar_one_or_none (filter (\<lambda>a. ast_id a = asset_id) (assets db)))
       (\<lambda>asset. case asset of
          None \<Rightarrow> raise_api_error 404 UNKNOWN_ASSET ''Unknown asset''
        | Some a \<Rightarrow> Inr a)"

text \<open>The workers' \<open>_load_asset\<close> and \<open>_load_user\<close> insist on exactly one row.\<close>

definition load_asset :: "db \<Rightarrow> uuid \<Rightarrow> error + asset" where
  "load_asset db asset_id = scalar_one (filter (\<lambda>a. ast_id a = asset_id) (assets db))"

definition load_user :: "db \<Rightarrow> uuid \<Rightarrow> error + user" where
  "load_user db user_id = scalar_one (filter (\<lambda>u. usr_id u = user_id) (users db))"

definition normalize_email :: "string \<Rightarrow> string" where
  "normalize_email email = lower (strip email)"

definition user_by_email :: "db \<Rightarrow> string \<Rightarrow> error + user option" where
  "user_by_email db email =
     scalar_one_or_none (filter (\<lambda>u. usr_email u = normalize_email email) (users db))"

lemma get_asset_Inr: "get_asset db i = Inr a \<Longrightarrow> a \<in> set (assets db) \<and> ast_id a = i"
  by (auto simp: get_asset_def dest: filter_single_in split: option.splits)

lemma load_asset_Inr: "load_asset db i = Inr a \<Longrightarrow> a \<in> set (assets db) \<and> ast_id a = i"
  by (auto simp: load_asset_def dest: filter_single_in)

lemma load_user_Inr: "load_user db i = Inr u \<Longrightarrow> u \<in> set (users db) \<and> usr_id u = i"
  by (auto simp: load_user_def dest: filter_single_in)

lemma user_by_email_Inr:
  "user_by_email db e = Inr (Some u) \<Longrightarrow> u \<in> set (users db) \<and> usr_email u = normalize_email e"
  by (auto simp: user_by_email_def dest: filter_single_in)

end
