(* ===== verification/Ledger.thy ===== *)
theory Ledger
  imports Tables
begin

text \<open>
  The double-entry ledger of \<open>app/services/ledger.py\<close>: accounts created on demand, the
  validation of a transaction's legs, posting under an idempotency key, and the balances
  read back. Behind it stands an abstract ledger, a function from account keys to amounts
  (\<open>bal\<close>); the refinement lemmas say what each operation does to it.
\<close>

section \<open>Operations\<close>

definition USER_WALLET_ACCOUNT :: string where "USER_WALLET_ACCOUNT = ''wallet''"
definition FAUCET_SOURCE_ACCOUNT :: string where "FAUCET_SOURCE_ACCOUNT = ''faucet_source''"
definition DEPOSITS_IN_TRANSIT_ACCOUNT :: string where
  "DEPOSITS_IN_TRANSIT_ACCOUNT = ''deposits_in_transit''"
definition WITHDRAWALS_RESERVED_ACCOUNT :: string where
  "WITHDRAWALS_RESERVED_ACCOUNT = ''withdrawals_reserved''"
definition WITHDRAWALS_SETTLED_ACCOUNT :: string where
  "WITHDRAWALS_SETTLED_ACCOUNT = ''withdrawals_settled''"

record ledger_leg =
  leg_account :: ledger_account
  leg_asset :: asset
  leg_amount :: int

definition LedgerLeg :: "ledger_account \<Rightarrow> asset \<Rightarrow> int \<Rightarrow> ledger_leg" where
  "LedgerLeg account asset amount =
     \<lparr>leg_account = account, leg_asset = asset, leg_amount = amount\<rparr>"

type_synonym account_key = "owner_type \<times> uuid option \<times> uuid \<times> string"

definition account_key :: "ledger_account \<Rightarrow> account_key" where
  "account_key a = (acc_owner_type a, acc_user_id a, acc_asset_id a, acc_name a)"

definition select_account ::
  "db \<Rightarrow> owner_type \<Rightarrow> uuid option \<Rightarrow> uuid \<Rightarrow> string \<Rightarrow> ledger_account option" where
  "select_account db owner_type user_id asset_id name =
     first_row (filter (\<lambda>a. acc_owner_type a = owner_type \<and> acc_user_id a = user_id
       \<and> acc_asset_id a = asset_id \<and> acc_name a = name) (ledger_accounts db))"

text \<open>The flush of a new account inside its savepoint, with the unique constraint of the table.\<close>

definition insert_account :: "db \<Rightarrow> ledger_account \<Rightarrow> error + db" where
  "insert_account db account =
     (if account_key account \<in> account_key ` set (ledger_accounts db) then Inl IntegrityError
      else Inr (db\<lparr>ledger_accounts := ledger_accounts db @ [account],
                  next_uuid := Suc (next_uuid db)\<rparr>))"

definition get_or_create_account ::
  "db \<Rightarrow> asset \<Rightarrow> string \<Rightarrow> owner_type \<Rightarrow> user option \<Rightarrow> error + (ledger_account \<times> db)" where
  "get_or_create_account db asset name owner_type user =
     (let user_id = map_option usr_id user in
      case select_account db owner_type user_id (ast_id asset) name of
        Some account \<Rightarrow> Inr (account, db)
      | None \<Rightarrow>
          (let account = \<lparr>acc_id = next_uuid db, acc_owner_type = owner_type,
                 acc_user_id = user_id, acc_asset_id = ast_id asset, acc_name = name\<rparr> in
           case insert_account db account of
             Inr db' \<Rightarrow> Inr (account, db')
           | Inl e \<Rightarrow>
               (case select_account db owner_type user_id (ast_id asset) name of
                  None \<Rightarrow> Inl e
                | Some existing \<Rightarrow> Inr (existing, db))))"

definition get_user_wallet_account ::
  "db \<Rightarrow> user \<Rightarrow> asset \<Rightarrow> error + (ledger_account \<times> db)" where
  "get_user_wallet_account db user asset =
     get_or_create_account db asset USER_WALLET_ACCOUNT OwUser (Some user)"

text \<open>
  \<open>lock_user_asset\<close> returns the wallet account; its row lock has no effect on the state and
  serialises the callers, which the sequential runs of this model are.
\<close>

definition lock_user_asset :: "db \<Rightarrow> user \<Rightarrow> asset \<Rightarrow> error + (ledger_account \<times> db)" where
  "lock_user_asset db user asset = get_user_wallet_account db user asset"

definition find_transaction_by_idempotency_key ::
  "db \<Rightarrow> string \<Rightarrow> error + ledger_transaction option" where
  "find_transaction_by_idempotency_key db key =
     scalar_one_or_none (filter (\<lambda>t. txn_idempotency_key t = key) (ledger_transactions db))"

text \<open>\<open>totals[asset] += amount\<close> on a \<open>defaultdict(int)\<close>, in insertion order.\<close>

fun add_total :: "uuid \<Rightarrow> int \<Rightarrow> (uuid \<times> int) list \<Rightarrow> (uuid \<times> int) list" where
  "add_total k n [] = [(k, n)]"
| "add_total k n ((k', m) # ts) =
     (if k = k' then (k', m + n) # ts else (k', m) # add_total k n ts)"

fun leg_totals :: "ledger_leg list \<Rightarrow> (uuid \<times> int) list \<Rightarrow> error + (uuid \<times> int) list" where
  "leg_totals [] totals = Inr totals"
| "leg_totals (leg # legs) totals =
     (if acc_asset_id (leg_account leg) \<noteq> ast_id (leg_asset leg)
      then Inl (LedgerInvariantError ''ledger leg account asset does not match leg asset'')
      else leg_totals legs (add_total (ast_id (leg_asset leg)) (leg_amount leg) totals))"

definition totals_text :: "(uuid \<times> int) list \<Rightarrow> string" where
  "totals_text ts = ''{'' @ join '', ''
     (map (\<lambda>(k, n). ''UUID('' @ [CHR 39] @ uuid_str k @ [CHR 39] @ ''): '' @ int_str n) ts)
     @ ''}''"

definition validate_legs :: "ledger_leg list \<Rightarrow> error + unit" where
  "validate_legs legs =
     (if legs = [] then
        Inl (LedgerInvariantError ''ledger transaction requires at least one leg'')
      else bind_res (leg_totals legs []) (\<lambda>totals.
        let nonzero = filter (\<lambda>(k, n). n \<noteq> 0) totals in
        if nonzero \<noteq> [] then Inl (LedgerInvariantError
          (''ledger transaction does not sum to zero per asset: '' @ totals_text nonzero))
        else Inr ()))"

definition assert_replay_compatible ::
  "ledger_transaction \<Rightarrow> string \<Rightarrow> string \<Rightarrow> error + unit" where
  "assert_replay_compatible existing ref_type ref_id =
     (if txn_ref_type existing \<noteq> ref_type \<or> txn_ref_id existing \<noteq> ref_id then
        Inl (LedgerInvariantError (''idempotency key already used for a different operation ''
          @ ''('' @ txn_ref_type existing @ '':'' @ txn_ref_id existing @ '', not ''
          @ ref_type @ '':'' @ ref_id @ '')''))
      else Inr ())"

text \<open>The first flush of \<open>post\<close> inserts the transaction row under its unique key.\<close>

definition flush_transaction ::
  "db \<Rightarrow> ledger_entry_type \<Rightarrow> string \<Rightarrow> string \<Rightarrow> string \<Rightarrow> error + (ledger_transaction \<times> db)" where
  "flush_transaction db transaction_type ref_type ref_id idempotency_key =
     (if idempotency_key \<in> txn_idempotency_key ` set (ledger_transactions db)
      then Inl IntegrityError
      else let t = \<lparr>txn_id = next_uuid db, txn_type = transaction_type,
                    txn_ref_type = ref_type, txn_ref_id = ref_id,
                    txn_idempotency_key = idempotency_key, txn_created_at = db_now db\<rparr>
           in Inr (t, db\<lparr>ledger_transactions := ledger_transactions db @ [t],
                        next_uuid := Suc (next_uuid db)\<rparr>))"

text \<open>The second flush inserts one entry per leg; its foreign keys are the account and the asset.\<close>

definition entry_of :: "db \<Rightarrow> ledger_transaction \<Rightarrow> ledger_leg \<Rightarrow> uuid \<Rightarrow> ledger_entry" where
  "entry_of db t leg i =
     \<lparr>ent_id = i, ent_transaction_id = txn_id t, ent_account_id = acc_id (leg_account leg),
      ent_asset_id = ast_id (leg_asset leg), ent_amount = leg_amount leg,
      ent_created_at = db_now db\<rparr>"

definition flush_entries :: "db \<Rightarrow> ledger_transaction \<Rightarrow> ledger_leg list \<Rightarrow> error + db" where
  "flush_entries db t legs =
     (if \<exists>leg \<in> set legs. acc_id (leg_account leg) \<notin> acc_id ` set (ledger_accounts db)
         \<or> ast_id (leg_asset leg) \<notin> ast_id ` set (assets db)
      then Inl IntegrityError
      else Inr (db\<lparr>ledger_entries := ledger_entries db @
                     map2 (entry_of db t) legs [next_uuid db ..< next_uuid db + length legs],
                   next_uuid := next_uuid db + length legs\<rparr>))"

definition post ::
  "db \<Rightarrow> ledger_entry_type \<Rightarrow> string \<Rightarrow> ledger_leg list \<Rightarrow> string \<Rightarrow> string
    \<Rightarrow> error + (ledger_transaction \<times> db)" where
  "post db transaction_type idempotency_key legs ref_type ref_id =
     bind_res (find_transaction_by_idempotency_key db idempotency_key) (\<lambda>existing.
     case existing of
       Some t \<Rightarrow> bind_res (assert_replay_compatible t ref_type ref_id) (\<lambda>_. Inr (t, db))
     | None \<Rightarrow>
         bind_res (validate_legs legs) (\<lambda>_.
         bind_res (flush_transaction db transaction_type ref_type ref_id idempotency_key)
           (\<lambda>(t, db1).
         case flush_entries db1 t legs of
           Inr db2 \<Rightarrow> Inr (t, db2)
         | Inl e \<Rightarrow>
             bind_res (find_transaction_by_idempotency_key db idempotency_key) (\<lambda>replay.
             case replay of
               Some r \<Rightarrow> bind_res (assert_replay_compatible r ref_type ref_id)
                            (\<lambda>_. Inr (r, db))
             | None \<Rightarrow> Inl e))))"

definition available_balance :: "db \<Rightarrow> user \<Rightarrow> asset \<Rightarrow> error + int" where
  "available_balance db user asset =
     bind_res (scalar_one_or_none (filter (\<lambda>a. acc_owner_type a = OwUser
         \<and> acc_user_id a = Some (usr_id user) \<and> acc_asset_id a = ast_id asset
         \<and> acc_name a = USER_WALLET_ACCOUNT) (ledger_accounts db)))
       (\<lambda>account. case account of
          None \<Rightarrow> Inr 0
        | Some a \<Rightarrow> Inr (sum_rows (\<lambda>e. ent_account_id e = acc_id a
                          \<and> ent_asset_id e = ast_id asset) ent_amount (ledger_entries db)))"

definition pending_balance :: "db \<Rightarrow> user \<Rightarrow> asset \<Rightarrow> int" where
  "pending_balance db user asset =
     sum_rows (\<lambda>d. dep_user_id d = Some (usr_id user) \<and> dep_asset_id d = ast_id asset
       \<and> dep_status d \<in> {DepSeen, DepConfirmed}) dep_amount (onchain_deposits db)"

definition balance :: "db \<Rightarrow> user \<Rightarrow> asset \<Rightarrow> error + int \<times> int" where
  "balance db user asset =
     bind_res (available_balance db user asset)
       (\<lambda>available. Inr (available, pending_balance db user asset))"

section \<open>The abstract ledger and the invariant\<close>

definition wallet_key :: "uuid \<Rightarrow> uuid \<Rightarrow> account_key" where
  "wallet_key u a = (OwUser, Some u, a, USER_WALLET_ACCOUNT)"

definition system_key :: "string \<Rightarrow> uuid \<Rightarrow> account_key" where
  "system_key name a = (OwSystem, None, a, name)"

definition bal :: "db \<Rightarrow> account_key \<Rightarrow> int" where
  "bal db k = sum_rows (\<lambda>e. \<exists>a \<in> set (ledger_accounts db).
     acc_id a = ent_account_id e \<and> account_key a = k) ent_amount (ledger_entries db)"

definition used_keys :: "db \<Rightarrow> string set" where
  "used_keys db = txn_idempotency_key ` set (ledger_transactions db)"

definition asset_total :: "db \<Rightarrow> uuid \<Rightarrow> int" where
  "asset_total db a = sum_rows (\<lambda>e. ent_asset_id e = a) ent_amount (ledger_entries db)"

definition txn_total :: "db \<Rightarrow> uuid \<Rightarrow> uuid \<Rightarrow> int" where
  "txn_total db t a = sum_rows (\<lambda>e. ent_asset_id e = a \<and> ent_transaction_id e = t)
     ent_amount (ledger_entries db)"

definition entry_ok :: "db \<Rightarrow> ledger_entry \<Rightarrow> bool" where
  "entry_ok db e \<longleftrightarrow> ent_transaction_id e \<in> txn_id ` set (ledger_transactions db) \<and>
     (\<exists>a \<in> set (ledger_accounts db).
        acc_id a = ent_account_id e \<and> acc_asset_id a = ent_asset_id e)"

text \<open>
  The ledger is well formed: ids and keys are unique and below the id supply, every entry
  belongs to a transaction and to an account of its asset, and every transaction sums to
  zero in every asset it touches.
\<close>

definition ledger_wf :: "db \<Rightarrow> bool" where
  "ledger_wf db \<longleftrightarrow>
     distinct (map acc_id (ledger_accounts db)) \<and>
     distinct (map account_key (ledger_accounts db)) \<and>
     distinct (map txn_id (ledger_transactions db)) \<and>
     distinct (map txn_idempotency_key (ledger_transactions db)) \<and>
     (\<forall>a \<in> set (ledger_accounts db). acc_id a < next_uuid db) \<and>
     (\<forall>t \<in> set (ledger_transactions db). txn_id t < next_uuid db) \<and>
     (\<forall>e \<in> set (ledger_entries db). entry_ok db e) \<and>
     (\<forall>t \<in> set (ledger_transactions db). \<forall>e \<in> set (ledger_entries db).
        txn_total db (txn_id t) (ent_asset_id e) = 0)"

text \<open>What a ledger operation may change: the ledger tables and the id supply.\<close>

definition ledger_only :: "db \<Rightarrow> db \<Rightarrow> bool" where
  "ledger_only db db' \<longleftrightarrow> db' = db\<lparr>ledger_accounts := ledger_accounts db',
     ledger_transactions := ledger_transactions db', ledger_entries := ledger_entries db',
     next_uuid := next_uuid db'\<rparr>"

text \<open>Moving an amount between two accounts of the abstract ledger.\<close>

definition moved :: "account_key \<Rightarrow> account_key \<Rightarrow> int \<Rightarrow> (account_key \<Rightarrow> int) \<Rightarrow> account_key \<Rightarrow> int"
where
  "moved src dst n b k = b k - (if k = src then n else 0) + (if k = dst then n else 0)"

end
