(* ===== verification/Ledger_Laws.thy ===== *)
theory Ledger_Laws
  imports Ledger
begin

text \<open>
  What the ledger promises its callers: every operation keeps the invariant and touches only
  the ledger tables, creating an account moves no money, posting under a fresh key adds the
  legs to the abstract balances, posting under a used key changes nothing. The locale
  \<open>ledger_client\<close> states what an operation that posts once per argument promises; its facts are
  proved once, and the posting operations of the workers interpret it.
\<close>

section \<open>Frame\<close>

lemma ledger_only_refl [simp, intro]: "ledger_only db db"
  by (simp add: ledger_only_def)

lemma ledger_only_trans [trans]:
  assumes "ledger_only a b" "ledger_only b c" shows "ledger_only a c"
proof -
  have b: "b = a\<lparr>ledger_accounts := ledger_accounts b,
     ledger_transactions := ledger_transactions b, ledger_entries := ledger_entries b,
     next_uuid := next_uuid b\<rparr>"
    using assms(1) by (simp only: ledger_only_def)
  have "c = b\<lparr>ledger_accounts := ledger_accounts c,
     ledger_transactions := ledger_transactions c, ledger_entries := ledger_entries c,
     next_uuid := next_uuid c\<rparr>"
    using assms(2) by (simp only: ledger_only_def)
  also have "\<dots> = a\<lparr>ledger_accounts := ledger_accounts c,
     ledger_transactions := ledger_transactions c, ledger_entries := ledger_entries c,
     next_uuid := next_uuid c\<rparr>"
    by (subst b) simp
  finally show ?thesis by (simp only: ledger_only_def)
qed

lemma ledger_only_frame:
  assumes "ledger_only db db'"
  shows "users db' = users db" "assets db' = assets db"
    "deposit_addresses db' = deposit_addresses db"
    "onchain_deposits db' = onchain_deposits db" "nft_deposits db' = nft_deposits db"
    "nft_holdings db' = nft_holdings db" "nft_transfers db' = nft_transfers db"
    "nft_mint_requests db' = nft_mint_requests db"
    "nft_withdrawal_requests db' = nft_withdrawal_requests db" "nft_sweeps db' = nft_sweeps db"
    "withdrawal_requests db' = withdrawal_requests db" "chain_cursors db' = chain_cursors db"
    "hot_wallet_nonces db' = hot_wallet_nonces db"
    "rate_limit_events db' = rate_limit_events db" "db_now db' = db_now db"
  using assms unfolding ledger_only_def by - (erule ssubst, simp)+

text \<open>The invariant speaks of the ledger's tables and the id supply only.\<close>

lemma ledger_frame:
  assumes "ledger_accounts db' = ledger_accounts db"
    "ledger_transactions db' = ledger_transactions db" "ledger_entries db' = ledger_entries db"
  shows "bal db' = bal db" "used_keys db' = used_keys db"
    "next_uuid db \<le> next_uuid db' \<Longrightarrow> ledger_wf db \<Longrightarrow> ledger_wf db'"
  using assms by (auto simp: fun_eq_iff bal_def used_keys_def ledger_wf_def entry_ok_def
      txn_total_def intro: less_le_trans)

section \<open>Accounts\<close>

text \<open>What creating accounts does: the ledger grows by accounts and moves no money.\<close>

definition accounts_grew :: "db \<Rightarrow> db \<Rightarrow> bool" where
  "accounts_grew db db' \<longleftrightarrow> ledger_wf db' \<and> ledger_only db db' \<and>
     set (ledger_accounts db) \<subseteq> set (ledger_accounts db') \<and>
     ledger_transactions db' = ledger_transactions db \<and>
     ledger_entries db' = ledger_entries db \<and> bal db' = bal db \<and>
     next_uuid db \<le> next_uuid db'"

lemma accounts_grew_refl: "ledger_wf db \<Longrightarrow> accounts_grew db db"
  by (simp add: accounts_grew_def)

lemma accounts_grew_trans: "accounts_grew a b \<Longrightarrow> accounts_grew b c \<Longrightarrow> accounts_grew a c"
  unfolding accounts_grew_def by (auto intro: ledger_only_trans)

lemma ledger_wf_new_account:
  assumes wf: "ledger_wf db" and id: "acc_id a = next_uuid db"
    and key: "account_key a \<notin> account_key ` set (ledger_accounts db)"
  shows "accounts_grew db
    (db\<lparr>ledger_accounts := ledger_accounts db @ [a], next_uuid := Suc (next_uuid db)\<rparr>)"
    (is "accounts_grew db ?d")
proof -
  have fresh: "acc_id a \<notin> acc_id ` set (ledger_accounts db)"
    using wf id by (auto simp: ledger_wf_def)
  have eok: "entry_ok ?d e" if "entry_ok db e" for e
    using that by (auto simp: entry_ok_def)
  have "bal ?d k = bal db k" for k
    unfolding bal_def
  proof (simp, rule sum_rows_cong)
    fix e assume "e \<in> set (ledger_entries db)"
    then have "entry_ok db e" using wf by (simp add: ledger_wf_def)
    then have "ent_account_id e \<noteq> acc_id a"
      using fresh unfolding entry_ok_def by (metis image_eqI)
    then show "(acc_id a = ent_account_id e \<and> account_key a = k \<or>
        (\<exists>a \<in> set (ledger_accounts db). acc_id a = ent_account_id e \<and> account_key a = k)) =
      (\<exists>a \<in> set (ledger_accounts db). acc_id a = ent_account_id e \<and> account_key a = k)"
      by auto
  qed simp
  moreover have "ledger_wf ?d"
    using wf fresh key id eok
    by (auto simp: ledger_wf_def txn_total_def less_Suc_eq)
  ultimately show ?thesis
    by (auto simp: accounts_grew_def ledger_only_def fun_eq_iff)
qed

lemma select_account_Some:
  assumes "select_account db ow u a n = Some x"
  shows "x \<in> set (ledger_accounts db) \<and> account_key x = (ow, u, a, n)"
  using first_row_filter_Some [OF assms [unfolded select_account_def]]
  by (auto simp: account_key_def)

lemma select_account_None:
  "select_account db ow u a n = None \<longleftrightarrow> (ow, u, a, n) \<notin> account_key ` set (ledger_accounts db)"
  by (auto simp: select_account_def filter_empty_conv account_key_def image_iff)

lemma get_or_create_account_ok:
  assumes wf: "ledger_wf db"
    and g: "get_or_create_account db asset name ow user = Inr (a, db')"
  shows "accounts_grew db db' \<and> a \<in> set (ledger_accounts db') \<and>
    account_key a = (ow, map_option usr_id user, ast_id asset, name)"
proof (cases "select_account db ow (map_option usr_id user) (ast_id asset) name")
  case (Some x)
  then show ?thesis using g wf select_account_Some [OF Some]
    by (auto simp: get_or_create_account_def accounts_grew_refl)
next
  case None
  let ?a = "\<lparr>acc_id = next_uuid db, acc_owner_type = ow, acc_user_id = map_option usr_id user,
    acc_asset_id = ast_id asset, acc_name = name\<rparr>"
  have k: "account_key ?a = (ow, map_option usr_id user, ast_id asset, name)"
    by (simp add: account_key_def)
  have new: "account_key ?a \<notin> account_key ` set (ledger_accounts db)"
    using None unfolding k by (simp only: select_account_None simp_thms)
  then have "get_or_create_account db asset name ow user = Inr (?a,
      db\<lparr>ledger_accounts := ledger_accounts db @ [?a], next_uuid := Suc (next_uuid db)\<rparr>)"
    using None by (simp add: get_or_create_account_def insert_account_def Let_def)
  with g have "(a, db') = (?a, db\<lparr>ledger_accounts := ledger_accounts db @ [?a],
      next_uuid := Suc (next_uuid db)\<rparr>)"
    by (metis sum.inject(2))
  then show ?thesis using ledger_wf_new_account [OF wf _ new] k by simp
qed

lemma get_or_create_account_only:
  "get_or_create_account db asset name ow user = Inr (a, db') \<Longrightarrow> ledger_only db db'"
  by (auto simp: get_or_create_account_def insert_account_def Let_def ledger_only_def
      split: option.splits if_splits)

text \<open>Creating an account never fails: the savepoint's fallback is for concurrent callers only.\<close>

lemma get_or_create_account_total:
  "\<exists>a db'. get_or_create_account db asset name ow user = Inr (a, db')"
proof (cases "select_account db ow (map_option usr_id user) (ast_id asset) name")
  case (Some x)
  then show ?thesis by (simp add: get_or_create_account_def)
next
  case None
  have "(ow, map_option usr_id user, ast_id asset, name)
      \<notin> account_key ` set (ledger_accounts db)"
    using None by (simp only: select_account_None simp_thms)
  then show ?thesis using None
    by (auto simp: get_or_create_account_def insert_account_def Let_def account_key_def)
qed

lemma get_user_wallet_account_ok:
  "ledger_wf db \<Longrightarrow> get_user_wallet_account db user asset = Inr (a, db') \<Longrightarrow>
   accounts_grew db db' \<and> a \<in> set (ledger_accounts db') \<and>
   account_key a = wallet_key (usr_id user) (ast_id asset)"
  unfolding get_user_wallet_account_def wallet_key_def
  by (drule (1) get_or_create_account_ok) simp

lemma get_system_account_ok:
  "ledger_wf db \<Longrightarrow> get_or_create_account db asset name OwSystem None = Inr (a, db') \<Longrightarrow>
   accounts_grew db db' \<and> a \<in> set (ledger_accounts db') \<and>
   account_key a = system_key name (ast_id asset)"
  unfolding system_key_def by (drule (1) get_or_create_account_ok) simp

section \<open>Legs\<close>

definition legs_total :: "ledger_leg list \<Rightarrow> uuid \<Rightarrow> int" where
  "legs_total legs a = sum_rows (\<lambda>l. ast_id (leg_asset l) = a) leg_amount legs"

lemma map_of_add_total:
  "map_of (add_total k n ts) = (map_of ts)(k \<mapsto> (case map_of ts k of None \<Rightarrow> n | Some m \<Rightarrow> m + n))"
  by (induction k n ts rule: add_total.induct) (auto simp: fun_eq_iff)

lemma keys_add_total:
  "distinct (map fst ts) \<Longrightarrow> distinct (map fst (add_total k n ts))"
proof -
  have "fst ` set (add_total k n ts) = insert k (fst ` set ts)" for ts
    by (induction k n ts rule: add_total.induct) auto
  then show "distinct (map fst ts) \<Longrightarrow> distinct (map fst (add_total k n ts))"
    by (induction k n ts rule: add_total.induct) auto
qed

definition total_in :: "(uuid \<times> int) list \<Rightarrow> uuid \<Rightarrow> int" where
  "total_in ts a = (case map_of ts a of None \<Rightarrow> 0 | Some m \<Rightarrow> m)"

lemma leg_totals_ok:
  "leg_totals legs ts = Inr ts' \<Longrightarrow> distinct (map fst ts) \<Longrightarrow>
   distinct (map fst ts') \<and> (\<forall>a. total_in ts' a = total_in ts a + legs_total legs a) \<and>
   (\<forall>l \<in> set legs. acc_asset_id (leg_account l) = ast_id (leg_asset l))"
proof (induction legs ts rule: leg_totals.induct)
  case (2 leg legs totals)
  then show ?case
    by (auto simp: legs_total_def total_in_def map_of_add_total keys_add_total
        split: if_splits option.splits)
qed (simp add: legs_total_def)

lemma validate_legs_ok:
  assumes "validate_legs legs = Inr ()"
  shows "legs \<noteq> []" "\<And>a. legs_total legs a = 0"
    "\<And>l. l \<in> set legs \<Longrightarrow> acc_asset_id (leg_account l) = ast_id (leg_asset l)"
proof -
  from assms obtain ts where ts: "leg_totals legs [] = Inr ts"
      and nz: "filter (\<lambda>(k, n). n \<noteq> 0) ts = []" and ne: "legs \<noteq> []"
    by (auto simp: validate_legs_def Let_def split: if_splits)
  note ok = leg_totals_ok [OF ts, simplified]
  show "legs \<noteq> []" by (fact ne)
  have "total_in ts a = 0" for a
    using nz by (auto simp: total_in_def filter_empty_conv split: option.splits dest!: map_of_SomeD)
  then show "\<And>a. legs_total legs a = 0" using ok by (simp add: total_in_def)
  show "\<And>l. l \<in> set legs \<Longrightarrow> acc_asset_id (leg_account l) = ast_id (leg_asset l)"
    using ok by simp
qed

text \<open>Two opposite legs on accounts of the asset are always valid.\<close>

lemma validate_legs_pair:
  "acc_asset_id a = ast_id x \<Longrightarrow> acc_asset_id b = ast_id x \<Longrightarrow>
   validate_legs [LedgerLeg a x (- n), LedgerLeg b x n] = Inr ()"
  by (simp add: validate_legs_def LedgerLeg_def)

section \<open>Posting\<close>

lemma find_transaction_None:
  "find_transaction_by_idempotency_key db key = Inr None \<longleftrightarrow> key \<notin> used_keys db"
  by (auto simp: find_transaction_by_idempotency_key_def used_keys_def filter_empty_conv)

lemma find_transaction_Some:
  "find_transaction_by_idempotency_key db key = Inr (Some t) \<Longrightarrow>
   t \<in> set (ledger_transactions db) \<and> txn_idempotency_key t = key"
  unfolding find_transaction_by_idempotency_key_def by (auto dest: filter_single_in)

lemma find_transaction_used:
  assumes "ledger_wf db" "t \<in> set (ledger_transactions db)"
  shows "find_transaction_by_idempotency_key db (txn_idempotency_key t) = Inr (Some t)"
  using assms filter_key_distinct [of txn_idempotency_key "ledger_transactions db" t]
  by (simp add: find_transaction_by_idempotency_key_def ledger_wf_def)

text \<open>A used key is either replayed, leaving the state alone, or refused.\<close>

lemma post_used:
  assumes "key \<in> used_keys db" "post db ty key legs rt ri = Inr (t, db')"
  shows "db' = db \<and> txn_idempotency_key t = key \<and> txn_ref_type t = rt \<and> txn_ref_id t = ri \<and>
    t \<in> set (ledger_transactions db)"
proof -
  from assms(2) obtain ex
    where ex: "find_transaction_by_idempotency_key db key = Inr ex"
    by (auto simp: post_def)
  with assms(1) obtain t' where t': "ex = Some t'"
    using find_transaction_None by (cases ex) auto
  show ?thesis
    using assms(2) find_transaction_Some [OF ex [unfolded t']]
    by (auto simp: post_def ex t' assert_replay_compatible_def split: if_splits)
qed

definition new_entries :: "db \<Rightarrow> ledger_transaction \<Rightarrow> ledger_leg list \<Rightarrow> ledger_entry list" where
  "new_entries db t legs = map2 (entry_of db t) legs
     [Suc (next_uuid db) ..< Suc (next_uuid db) + length legs]"

lemma post_fresh:
  assumes "key \<notin> used_keys db" "post db ty key legs rt ri = Inr (t, db')"
  shows "validate_legs legs = Inr ()"
    "\<forall>l \<in> set legs. acc_id (leg_account l) \<in> acc_id ` set (ledger_accounts db)"
    "t = \<lparr>txn_id = next_uuid db, txn_type = ty, txn_ref_type = rt, txn_ref_id = ri,
          txn_idempotency_key = key, txn_created_at = db_now db\<rparr>"
    "db' = db\<lparr>ledger_transactions := ledger_transactions db @ [t],
          ledger_entries := ledger_entries db @ new_entries db t legs,
          next_uuid := Suc (next_uuid db) + length legs\<rparr>"
proof -
  have none: "find_transaction_by_idempotency_key db key = Inr None"
    using assms(1) by (simp add: find_transaction_None)
  from assms(2) obtain t1 db1 where v: "validate_legs legs = Inr ()"
      and t1: "flush_transaction db ty rt ri key = Inr (t1, db1)"
      and t: "(case flush_entries db1 t1 legs of Inr db2 \<Rightarrow> Inr (t1, db2)
        | Inl e \<Rightarrow> bind_res (Inr None) (\<lambda>replay. case replay of
            Some r \<Rightarrow> bind_res (assert_replay_compatible r rt ri) (\<lambda>_. Inr (r, db))
          | None \<Rightarrow> Inl e)) = Inr (t, db')"
    unfolding post_def none by (simp add: bind_res_Inr_iff) blast
  show "validate_legs legs = Inr ()" by (fact v)
  from t obtain fe: "flush_entries db1 t1 legs = Inr db'" and tt: "t1 = t"
    by (auto split: sum.splits)
  have d1: "t = \<lparr>txn_id = next_uuid db, txn_type = ty, txn_ref_type = rt, txn_ref_id = ri,
          txn_idempotency_key = key, txn_created_at = db_now db\<rparr>"
      "db1 = db\<lparr>ledger_transactions := ledger_transactions db @ [t],
          next_uuid := Suc (next_uuid db)\<rparr>"
    using t1 tt by (auto simp: flush_transaction_def Let_def split: if_splits)
  show "t = \<lparr>txn_id = next_uuid db, txn_type = ty, txn_ref_type = rt, txn_ref_id = ri,
          txn_idempotency_key = key, txn_created_at = db_now db\<rparr>" by (fact d1(1))
  show "\<forall>l \<in> set legs. acc_id (leg_account l) \<in> acc_id ` set (ledger_accounts db)"
    using fe unfolding d1(2) by (auto simp: flush_entries_def split: if_splits)
  have eo: "entry_of (db\<lparr>ledger_transactions := ts, next_uuid := n\<rparr>) t = entry_of db t" for ts n
    by (intro ext) (simp add: entry_of_def)
  show "db' = db\<lparr>ledger_transactions := ledger_transactions db @ [t],
          ledger_entries := ledger_entries db @ new_entries db t legs,
          next_uuid := Suc (next_uuid db) + length legs\<rparr>"
    using fe unfolding tt flush_entries_def new_entries_def d1(2)
    by (simp add: eo del: upt_Suc split: if_splits)
qed

lemma sum_new_entries:
  assumes "\<And>l i. P (entry_of db t l i) = Q l"
  shows "sum_rows P ent_amount (new_entries db t legs) = sum_rows Q leg_amount legs"
proof -
  have gen: "sum_rows P ent_amount (map2 (entry_of db t) legs ids) = sum_rows Q leg_amount legs"
    if "length ids = length legs" for ids
    using that
  proof (induction legs ids rule: list_induct2')
    case (4 l legs i ids)
    then show ?case using assms by (simp add: entry_of_def)
  qed simp_all
  show ?thesis unfolding new_entries_def by (rule gen) (simp del: upt_Suc)
qed

lemma in_new_entries: "e \<in> set (new_entries db t legs) \<Longrightarrow> \<exists>l \<in> set legs. \<exists>i. e = entry_of db t l i"
  by (auto simp: new_entries_def dest: set_zip_leftD)

text \<open>The effect of a posting on the abstract ledger.\<close>

lemma post_fresh_bal:
  assumes wf: "ledger_wf db" and key: "key \<notin> used_keys db"
    and p: "post db ty key legs rt ri = Inr (t, db')"
    and accs: "\<forall>l \<in> set legs. leg_account l \<in> set (ledger_accounts db)"
  shows "bal db' k = bal db k + sum_rows (\<lambda>l. account_key (leg_account l) = k) leg_amount legs"
proof -
  note f = post_fresh [OF key p]
  have "sum_rows (\<lambda>e. \<exists>a \<in> set (ledger_accounts db). acc_id a = ent_account_id e \<and> account_key a = k)
      ent_amount (new_entries db t legs) =
    sum_rows (\<lambda>l. \<exists>a \<in> set (ledger_accounts db). acc_id a = acc_id (leg_account l) \<and>
      account_key a = k) leg_amount legs"
    by (rule sum_new_entries) (simp add: entry_of_def)
  also have "\<dots> = sum_rows (\<lambda>l. account_key (leg_account l) = k) leg_amount legs"
  proof (rule sum_rows_cong)
    fix l assume "l \<in> set legs"
    then have l: "leg_account l \<in> set (ledger_accounts db)" using accs by simp
    have "a = leg_account l"
      if "a \<in> set (ledger_accounts db)" "acc_id a = acc_id (leg_account l)" for a
      using wf that l by (auto simp: ledger_wf_def distinct_map inj_on_def)
    with l show "(\<exists>a \<in> set (ledger_accounts db). acc_id a = acc_id (leg_account l) \<and>
        account_key a = k) = (account_key (leg_account l) = k)"
      by blast
  qed simp
  finally show ?thesis unfolding f(4) bal_def by simp
qed

lemma txn_total_foreign:
  assumes "ledger_wf db" "t \<notin> txn_id ` set (ledger_transactions db)"
  shows "txn_total db t a = 0"
  unfolding txn_total_def using assms by (intro sum_rows_zero) (auto simp: ledger_wf_def entry_ok_def)

lemma txn_total_zero:
  assumes "ledger_wf db" "t \<in> txn_id ` set (ledger_transactions db)"
  shows "txn_total db t a = 0"
proof (cases "\<exists>e \<in> set (ledger_entries db). ent_asset_id e = a")
  case True
  then show ?thesis using assms by (auto simp: ledger_wf_def)
next
  case False
  then show ?thesis unfolding txn_total_def by (intro sum_rows_zero) auto
qed

lemma post_fresh_wf:
  assumes wf: "ledger_wf db" and key: "key \<notin> used_keys db"
    and p: "post db ty key legs rt ri = Inr (t, db')"
    and accs: "\<forall>l \<in> set legs. leg_account l \<in> set (ledger_accounts db)"
  shows "ledger_wf db'"
proof -
  note f = post_fresh [OF key p]
  have tid: "txn_id t = next_uuid db" "txn_idempotency_key t = key" by (simp_all add: f(3))
  have fresh: "txn_id t \<notin> txn_id ` set (ledger_transactions db)"
    using wf tid by (auto simp: ledger_wf_def)
  have new: "sum_rows (\<lambda>e. ent_asset_id e = a \<and> ent_transaction_id e = x) ent_amount
      (new_entries db t legs) = 0" for a x
  proof -
    have "sum_rows (\<lambda>e. ent_asset_id e = a \<and> ent_transaction_id e = x) ent_amount
        (new_entries db t legs)
      = sum_rows (\<lambda>l. ast_id (leg_asset l) = a \<and> txn_id t = x) leg_amount legs"
      by (rule sum_new_entries) (simp add: entry_of_def)
    also have "\<dots> = (if txn_id t = x then legs_total legs a else 0)"
      by (auto simp: legs_total_def intro: sum_rows_zero)
    finally show ?thesis using validate_legs_ok(2) [OF f(1)] by simp
  qed
  have totals: "txn_total db' x a = txn_total db x a" for x a
    unfolding f(4) txn_total_def using new by simp
  have eok: "entry_ok db' e" if "e \<in> set (ledger_entries db')" for e
  proof (cases "e \<in> set (ledger_entries db)")
    case True
    then show ?thesis using wf unfolding f(4) by (auto simp: ledger_wf_def entry_ok_def)
  next
    case False
    with that have "e \<in> set (new_entries db t legs)" unfolding f(4) by simp
    then obtain l i where "l \<in> set legs" "e = entry_of db t l i" using in_new_entries by blast
    then show ?thesis using accs validate_legs_ok(3) [OF f(1)] unfolding f(4)
      by (auto simp: entry_ok_def entry_of_def)
  qed
  have "txn_total db' x a = 0" if "x \<in> txn_id ` set (ledger_transactions db')" for x a
    using that txn_total_zero [OF wf] txn_total_foreign [OF wf fresh]
    unfolding totals by (auto simp: f(4))
  moreover have "next_uuid db' = Suc (next_uuid db) + length legs"
    and "ledger_accounts db' = ledger_accounts db"
    and "ledger_transactions db' = ledger_transactions db @ [t]"
    unfolding f(4) by simp_all
  moreover have "txn_idempotency_key t \<notin> txn_idempotency_key ` set (ledger_transactions db)"
    using key tid by (simp add: used_keys_def)
  ultimately show ?thesis
    using wf fresh tid eok by (fastforce simp: ledger_wf_def)
qed

lemma post_ledger_only:
  assumes "post db ty key legs rt ri = Inr (t, db')"
  shows "ledger_only db db' \<and> ledger_accounts db' = ledger_accounts db \<and>
    used_keys db' = insert key (used_keys db) \<and> next_uuid db \<le> next_uuid db'"
proof (cases "key \<in> used_keys db")
  case True
  then show ?thesis using post_used [OF True assms] by (simp add: insert_absorb)
next
  case False
  note f = post_fresh [OF False assms]
  have "txn_idempotency_key t = key" by (simp add: f(3))
  then show ?thesis unfolding f(4) by (auto simp: ledger_only_def used_keys_def)
qed

section \<open>The contract of a two-legged posting\<close>

text \<open>
  One step of the ledger: the invariant holds afterwards, only ledger tables changed, the key
  is used, and the amount moved from \<open>src\<close> to \<open>dst\<close> unless the key was used before, in
  which case no balance changed.
\<close>

definition ledger_step :: "db \<Rightarrow> db \<Rightarrow> string \<Rightarrow> account_key \<Rightarrow> account_key \<Rightarrow> int \<Rightarrow> bool" where
  "ledger_step db db' key src dst n \<longleftrightarrow> ledger_wf db' \<and> ledger_only db db' \<and>
     used_keys db' = insert key (used_keys db) \<and> next_uuid db \<le> next_uuid db' \<and>
     bal db' = (if key \<in> used_keys db then bal db else moved src dst n (bal db))"

lemma ledger_step_D:
  assumes "ledger_step db db' key src dst n"
  shows "ledger_wf db'" "ledger_only db db'" "used_keys db' = insert key (used_keys db)"
    "next_uuid db \<le> next_uuid db'" "key \<in> used_keys db \<Longrightarrow> bal db' = bal db"
    "key \<notin> used_keys db \<Longrightarrow> bal db' = moved src dst n (bal db)"
  using assms by (simp_all add: ledger_step_def)

lemma accounts_grew_used: "accounts_grew db db' \<Longrightarrow> used_keys db' = used_keys db"
  by (simp add: accounts_grew_def used_keys_def)

lemma accounts_then_step:
  "accounts_grew db db1 \<Longrightarrow> ledger_step db1 db2 key src dst n \<Longrightarrow> ledger_step db db2 key src dst n"
  using accounts_grew_used [of db db1]
  by (auto simp: ledger_step_def accounts_grew_def intro: ledger_only_trans)

lemma account_key_asset: "account_key a = (ow, u, x, m) \<Longrightarrow> acc_asset_id a = x"
  by (simp add: account_key_def)

lemma post_pair:
  assumes wf: "ledger_wf db"
    and a: "a \<in> set (ledger_accounts db)" "account_key a = src"
    and b: "b \<in> set (ledger_accounts db)" "account_key b = dst"
    and p: "post db ty key [LedgerLeg a x (- n), LedgerLeg b x n] rt ri = Inr (t, db')"
  shows "ledger_step db db' key src dst n"
proof (cases "key \<in> used_keys db")
  case True
  then show ?thesis using post_used [OF True p] wf by (simp add: ledger_step_def insert_absorb)
next
  case False
  have accs: "\<forall>l \<in> set [LedgerLeg a x (- n), LedgerLeg b x n].
      leg_account l \<in> set (ledger_accounts db)"
    using a b by (simp add: LedgerLeg_def)
  have "bal db' = moved src dst n (bal db)"
    using post_fresh_bal [OF wf False p accs] a(2) b(2)
    by (auto simp: fun_eq_iff moved_def LedgerLeg_def)
  then show ?thesis
    using post_fresh_wf [OF wf False p accs] post_ledger_only [OF p] False
    by (simp add: ledger_step_def)
qed

text \<open>A posting under a fresh key between two accounts of a known asset always succeeds.\<close>

lemma post_pair_total:
  assumes "key \<notin> used_keys db" "a \<in> set (ledger_accounts db)" "b \<in> set (ledger_accounts db)"
    and "acc_asset_id a = ast_id x" "acc_asset_id b = ast_id x" "x \<in> set (assets db)"
  shows "\<exists>t db'. post db ty key [LedgerLeg a x (- n), LedgerLeg b x n] rt ri = Inr (t, db')"
proof -
  have none: "find_transaction_by_idempotency_key db key = Inr None"
    using assms(1) by (simp add: find_transaction_None)
  have v: "validate_legs [LedgerLeg a x (- n), LedgerLeg b x n] = Inr ()"
    using assms(4,5) by (rule validate_legs_pair)
  show ?thesis
    using assms none v
    by (auto simp: post_def flush_transaction_def flush_entries_def used_keys_def Let_def
        LedgerLeg_def simp del: upt_Suc)
qed

text \<open>
  The interface between the ledger and the workers: an operation that, for each argument,
  makes one ledger step under that argument's key. Whatever keeps this contract never moves
  an argument's amount twice, and a pass over arguments with distinct fresh keys moves
  exactly the sum of their amounts.
\<close>

locale ledger_client =
  fixes op :: "'x \<Rightarrow> db \<Rightarrow> error + db"
    and key :: "'x \<Rightarrow> string"
    and src :: "'x \<Rightarrow> account_key"
    and dst :: "'x \<Rightarrow> account_key"
    and amt :: "'x \<Rightarrow> int"
  assumes step: "ledger_wf db \<Longrightarrow> op x db = Inr db' \<Longrightarrow>
    ledger_step db db' (key x) (src x) (dst x) (amt x)"
begin

lemma keeps_wf: "ledger_wf db \<Longrightarrow> op x db = Inr db' \<Longrightarrow> ledger_wf db'"
  by (drule (1) step) (simp add: ledger_step_def)

lemma twice:
  assumes "ledger_wf db" "op x db = Inr db1" "op x db1 = Inr db2"
  shows "bal db2 = bal db1"
proof -
  have "key x \<in> used_keys db1" using step [OF assms(1,2)] by (simp add: ledger_step_def)
  then show ?thesis using step [OF keeps_wf [OF assms(1,2)] assms(3)] by (simp add: ledger_step_def)
qed

lemma pass_bal:
  assumes "ledger_wf db" "for_each op xs db = Inr db'"
    and "distinct (map key xs)" "\<forall>x \<in> set xs. key x \<notin> used_keys db"
  shows "ledger_wf db' \<and> bal db' k = bal db k
    - sum_rows (\<lambda>x. src x = k) amt xs + sum_rows (\<lambda>x. dst x = k) amt xs"
  using assms
proof (induction xs arbitrary: db)
  case Nil
  then show ?case by simp
next
  case (Cons x xs)
  from Cons.prems(2) obtain db1 where o: "op x db = Inr db1" and r: "for_each op xs db1 = Inr db'"
    by auto
  note st = ledger_step_D [OF step [OF Cons.prems(1) o]]
  have "\<forall>y \<in> set xs. key y \<notin> used_keys db1" using Cons.prems(3,4) st(3) by (auto simp: image_iff)
  with Cons.IH [OF st(1) r] Cons.prems(3) have
    "ledger_wf db' \<and> bal db' k = bal db1 k
      - sum_rows (\<lambda>x. src x = k) amt xs + sum_rows (\<lambda>x. dst x = k) amt xs"
    by simp
  moreover have "bal db1 = moved (src x) (dst x) (amt x) (bal db)"
    using Cons.prems(4) by (intro st(6)) simp
  ultimately show ?case by (auto simp: moved_def)
qed

end

section \<open>Conservation\<close>

text \<open>Every asset's entries sum to zero: money is moved, never made.\<close>

lemma asset_total_zero: "ledger_wf db \<Longrightarrow> asset_total db a = 0"
proof -
  assume wf: "ledger_wf db"
  let ?ts = "map txn_id (ledger_transactions db)"
  have "asset_total db a = sum_list (map (\<lambda>t. txn_total db t a) ?ts)"
    unfolding asset_total_def txn_total_def
    by (rule sum_rows_group) (use wf in \<open>auto simp: ledger_wf_def entry_ok_def\<close>)
  also have "\<dots> = sum_list (map (\<lambda>t. 0) ?ts)"
    by (rule arg_cong [where f = sum_list], rule map_cong)
      (use txn_total_zero [OF wf] in auto)
  finally show ?thesis by (simp only: sum_list_0)
qed

text \<open>On a well-formed ledger the balance read back is the abstract balance of the wallet.\<close>

lemma available_balance_bal:
  assumes wf: "ledger_wf db"
  shows "available_balance db user asset = Inr (bal db (wallet_key (usr_id user) (ast_id asset)))"
proof -
  let ?k = "wallet_key (usr_id user) (ast_id asset)"
  have sel: "filter (\<lambda>a. acc_owner_type a = OwUser \<and> acc_user_id a = Some (usr_id user)
      \<and> acc_asset_id a = ast_id asset \<and> acc_name a = USER_WALLET_ACCOUNT) (ledger_accounts db)
    = filter (\<lambda>a. account_key a = ?k) (ledger_accounts db)"
    by (rule filter_cong) (auto simp: account_key_def wallet_key_def)
  show ?thesis
  proof (cases "?k \<in> account_key ` set (ledger_accounts db)")
    case False
    then have "filter (\<lambda>a. account_key a = ?k) (ledger_accounts db) = []"
      by (auto simp: filter_empty_conv) (metis image_eqI)
    moreover have "bal db ?k = 0"
      unfolding bal_def using False by (intro sum_rows_zero) (metis image_eqI)
    ultimately show ?thesis by (simp add: available_balance_def sel)
  next
    case True
    then obtain a where a: "a \<in> set (ledger_accounts db)" "account_key a = ?k" by auto
    have f: "filter (\<lambda>a. account_key a = ?k) (ledger_accounts db) = [a]"
      using filter_key_distinct [of account_key "ledger_accounts db" a] wf a
      by (simp add: ledger_wf_def)
    have "sum_rows (\<lambda>e. ent_account_id e = acc_id a \<and> ent_asset_id e = ast_id asset)
        ent_amount (ledger_entries db) = bal db ?k"
      unfolding bal_def
    proof (rule sum_rows_cong)
      fix e assume e: "e \<in> set (ledger_entries db)"
      then obtain b where b: "b \<in> set (ledger_accounts db)" "acc_id b = ent_account_id e"
          "acc_asset_id b = ent_asset_id e"
        using wf by (auto simp: ledger_wf_def entry_ok_def)
      have inj: "x = y" if "x \<in> set (ledger_accounts db)" "y \<in> set (ledger_accounts db)"
          "acc_id x = acc_id y" for x y
        using wf that by (auto simp: ledger_wf_def distinct_map inj_on_def)
      have key_inj: "x = y" if "x \<in> set (ledger_accounts db)" "y \<in> set (ledger_accounts db)"
          "account_key x = account_key y" for x y
        using wf that by (auto simp: ledger_wf_def distinct_map inj_on_def)
      have aa: "acc_asset_id a = ast_id asset" using a(2) by (simp add: account_key_def wallet_key_def)
      show "(ent_account_id e = acc_id a \<and> ent_asset_id e = ast_id asset) =
          (\<exists>x \<in> set (ledger_accounts db). acc_id x = ent_account_id e \<and> account_key x = ?k)"
        using a b inj key_inj aa by metis
    qed simp
    then show ?thesis by (simp add: available_balance_def sel f)
  qed
qed

section \<open>Fetching accounts, then posting\<close>

lemma lock_user_asset_ok:
  "ledger_wf db \<Longrightarrow> lock_user_asset db user asset = Inr (a, db') \<Longrightarrow> accounts_grew db db'"
  unfolding lock_user_asset_def by (drule (1) get_user_wallet_account_ok) simp

lemma accounts_grew_wf: "accounts_grew db db' \<Longrightarrow> ledger_wf db'"
  by (simp add: accounts_grew_def)

lemma accounts_grew_bal: "accounts_grew db db' \<Longrightarrow> bal db' = bal db"
  by (simp add: accounts_grew_def)

lemma accounts_grew_in:
  "accounts_grew db db' \<Longrightarrow> a \<in> set (ledger_accounts db) \<Longrightarrow> a \<in> set (ledger_accounts db')"
  by (auto simp: accounts_grew_def)

text \<open>Two accounts fetched one after the other, then a posting between them.\<close>

lemma fetch_fetch_post:
  assumes wf: "ledger_wf db"
    and g1: "ledger_wf db \<Longrightarrow>
      accounts_grew db db1 \<and> a \<in> set (ledger_accounts db1) \<and> account_key a = src"
    and g2: "ledger_wf db1 \<Longrightarrow>
      accounts_grew db1 db2 \<and> b \<in> set (ledger_accounts db2) \<and> account_key b = dst"
    and p: "post db2 ty key [LedgerLeg a x (- n), LedgerLeg b x n] rt ri = Inr (t, db')"
  shows "ledger_step db db' key src dst n"
proof -
  note a1 = g1 [OF wf]
  note a2 = g2 [OF accounts_grew_wf [OF conjunct1 [OF a1]]]
  have "ledger_step db2 db' key src dst n"
    by (rule post_pair [OF _ _ _ _ _ p])
      (use a1 a2 accounts_grew_wf accounts_grew_in in blast)+
  then show ?thesis using a1 a2 by (blast intro: accounts_then_step)
qed

lemma accounts_grew_assets: "accounts_grew db db' \<Longrightarrow> assets db' = assets db"
  by (simp add: accounts_grew_def ledger_only_frame)

text \<open>Two accounts fetched for a known asset can always be posted between, under a fresh key.\<close>

lemma fetch_fetch_post_total:
  assumes wf: "ledger_wf db" and x: "x \<in> set (assets db)" and key: "key \<notin> used_keys db"
    and a: "get_or_create_account db x n1 ow1 u1 = Inr (a, db1)"
    and b: "get_or_create_account db1 x n2 ow2 u2 = Inr (b, db2)"
  shows "\<exists>t db'. post db2 ty key [LedgerLeg a x (- n), LedgerLeg b x n] rt ri = Inr (t, db')"
proof -
  note ga = get_or_create_account_ok [OF wf a]
  note gb = get_or_create_account_ok [OF accounts_grew_wf [OF conjunct1 [OF ga]] b]
  show ?thesis
    by (rule post_pair_total)
      (use ga gb x key in \<open>auto simp: account_key_def accounts_grew_used accounts_grew_assets
        dest: accounts_grew_in\<close>)
qed

end
