(* ===== verification/Chain_Types.thy ===== *)
theory Chain_Types
  imports Tables
begin

text \<open>
  What the workers depend on (\<open>app/chain/types.py\<close>): the network-free data structures and
  the client protocols as one record of operations, each of which answers or raises. A value
  of the record is what one chain's client answers during one phase of a worker. Also the
  strict address validation of \<open>app/core/addresses.py\<close>; the EIP-55 checksum it calls is a
  library function and a parameter.
\<close>

section \<open>Data structures\<close>

definition NATIVE_LOG_INDEX :: int where "NATIVE_LOG_INDEX = -1"

record erc20_transfer =
  et_token_address :: string
  et_from_address :: string
  et_to_address :: string
  et_value :: int
  et_tx_hash :: string
  et_log_index :: int
  et_block_number :: int
  et_block_hash :: string

record erc721_transfer =
  ft_contract_address :: string
  ft_from_address :: string
  ft_to_address :: string
  ft_token_id :: string
  ft_block_number :: int
  ft_block_hash :: string
  ft_tx_hash :: string
  ft_log_index :: int

record native_transfer =
  na_from_address :: string
  na_to_address :: string
  na_value :: int
  na_tx_hash :: string
  na_block_number :: int
  na_block_hash :: string
  na_log_index :: int

record tx_log =
  lg_address :: string
  lg_topics :: "string list"
  lg_data :: string
  lg_log_index :: int

record tx_receipt =
  rc_tx_hash :: string
  rc_status :: int
  rc_block_number :: int
  rc_block_hash :: string
  rc_logs :: "tx_log list"

record signed_tx =
  stx_raw :: string
  stx_tx_hash :: string

section \<open>The client protocols\<close>

text \<open>
  The arguments follow the protocols' keyword arguments in order: private key, (contract),
  (from), to, value or token, nonce, gas price for the signing operations; the address filter
  and the block range for the fetches.
\<close>

record chain_client =
  cl_chain_id :: int
  cl_block_number :: "error + int"
  cl_block_hash :: "int \<Rightarrow> error + string option"
  cl_fetch_erc20_transfers :: "string list \<Rightarrow> string list \<Rightarrow> int \<Rightarrow> int \<Rightarrow> error + erc20_transfer list"
  cl_fetch_erc721_transfers :: "string list \<Rightarrow> string list \<Rightarrow> int \<Rightarrow> int \<Rightarrow> error + erc721_transfer list"
  cl_fetch_native_transfers :: "string list \<Rightarrow> int \<Rightarrow> int \<Rightarrow> error + native_transfer list"
  cl_fetch_internal_transfers :: "string list \<Rightarrow> int \<Rightarrow> int \<Rightarrow> error + native_transfer list"
  cl_pending_nonce :: "string \<Rightarrow> error + int"
  cl_latest_nonce :: "string \<Rightarrow> error + int"
  cl_suggested_gas_price :: "error + int"
  cl_sign_native :: "string \<Rightarrow> string \<Rightarrow> int \<Rightarrow> int \<Rightarrow> int \<Rightarrow> error + signed_tx"
  cl_sign_erc20 :: "string \<Rightarrow> string \<Rightarrow> string \<Rightarrow> int \<Rightarrow> int \<Rightarrow> int \<Rightarrow> error + signed_tx"
  cl_sign_erc721_mint :: "string \<Rightarrow> string \<Rightarrow> string \<Rightarrow> int \<Rightarrow> int \<Rightarrow> error + signed_tx"
  cl_sign_erc721_transfer ::
    "string \<Rightarrow> string \<Rightarrow> string \<Rightarrow> string \<Rightarrow> string \<Rightarrow> int \<Rightarrow> int \<Rightarrow> error + signed_tx"
  cl_broadcast_raw :: "string \<Rightarrow> error + string"
  cl_send_native :: "string \<Rightarrow> string \<Rightarrow> int \<Rightarrow> int \<Rightarrow> int \<Rightarrow> error + string"
  cl_send_erc20 :: "string \<Rightarrow> string \<Rightarrow> string \<Rightarrow> int \<Rightarrow> int \<Rightarrow> int \<Rightarrow> error + string"
  cl_get_receipt :: "string \<Rightarrow> error + tx_receipt option"
  cl_erc721_minted_token_id :: "string \<Rightarrow> string \<Rightarrow> string \<Rightarrow> error + string option"
  cl_erc721_owner_of :: "string \<Rightarrow> string \<Rightarrow> error + string option"
  cl_native_balance :: "string \<Rightarrow> error + int"
  cl_erc20_balance :: "string \<Rightarrow> string \<Rightarrow> error + int"

section \<open>Addresses\<close>

text \<open>
  \<open>^0x[0-9a-fA-F]{40}$\<close> with \<open>match\<close>; \<open>$\<close> also matches before one final line feed.
\<close>

definition hex_address_match :: "string \<Rightarrow> bool" where
  "hex_address_match address \<longleftrightarrow>
     (let body = (if length address = 43 \<and> last address = CHR 0x0A then butlast address
                  else address) in
      length body = 42 \<and> take 2 body = ''0x'' \<and> list_all is_hex (drop 2 body))"

definition ZERO_ADDRESS :: string where
  "ZERO_ADDRESS = ''0x'' @ replicate 40 (CHR ''0'')"

definition to_checksum_address_strict ::
  "(string \<Rightarrow> error + string) \<Rightarrow> string \<Rightarrow> error + string" where
  "to_checksum_address_strict to_checksum_address address =
     (if \<not> hex_address_match address then
        Inl (InvalidAddressError ''address must be a 0x-prefixed 40-hex-character EVM address'')
      else if lower address = ZERO_ADDRESS then
        Inl (InvalidAddressError ''the zero address is not a valid destination'')
      else
        bind_res (to_checksum_address address) (\<lambda>checksummed.
        let body = drop 2 address;
            is_mixed_case = (body \<noteq> lower body \<and> body \<noteq> upper body) in
        if is_mixed_case \<and> address \<noteq> checksummed then
          Inl (InvalidAddressError ''address EIP-55 checksum is invalid'')
        else Inr checksummed))"

text \<open>What an accepted address is: the library's checksummed form of well-shaped, nonzero hex.\<close>

lemma to_checksum_address_strict_Inr:
  assumes "to_checksum_address_strict ck a = Inr b"
  shows "ck a = Inr b" "hex_address_match a" "lower a \<noteq> ZERO_ADDRESS"
    "drop 2 a = lower (drop 2 a) \<or> drop 2 a = upper (drop 2 a) \<or> a = b"
  using assms by (auto simp: to_checksum_address_strict_def Let_def split: if_splits)

section \<open>Hot-wallet nonces\<close>

text \<open>
  \<open>worker/_nonce.py\<close>. The nonce row is read by its chain, the primary key of its table, so
  a first insert cannot clash in a sequential run; \<open>set_next_nonce\<close> is the assignment to the
  row's attribute.
\<close>

definition select_nonce_row :: "db \<Rightarrow> int \<Rightarrow> error + hot_wallet_nonce option" where
  "select_nonce_row db chain_id =
     scalar_one_or_none (filter (\<lambda>r. hw_chain_id r = chain_id) (hot_wallet_nonces db))"

definition set_nonce_row :: "db \<Rightarrow> hot_wallet_nonce \<Rightarrow> db" where
  "set_nonce_row db row =
     db\<lparr>hot_wallet_nonces := upd_row hw_chain_id (hw_chain_id row) (\<lambda>_. row) (hot_wallet_nonces db)\<rparr>"

definition insert_nonce_row :: "db \<Rightarrow> hot_wallet_nonce \<Rightarrow> error + db" where
  "insert_nonce_row db row =
     (if hw_chain_id row \<in> hw_chain_id ` set (hot_wallet_nonces db) then Inl IntegrityError
      else Inr (db\<lparr>hot_wallet_nonces := hot_wallet_nonces db @ [row]\<rparr>))"

definition refresh_nonce_row ::
  "db \<Rightarrow> hot_wallet_nonce \<Rightarrow> string \<Rightarrow> int \<Rightarrow> hot_wallet_nonce \<times> db" where
  "refresh_nonce_row db row hot_wallet_address chain_nonce =
     (let row' = (if hw_address row \<noteq> hot_wallet_address
                  then row\<lparr>hw_address := hot_wallet_address, hw_next_nonce := chain_nonce\<rparr>
                  else row\<lparr>hw_next_nonce := max (hw_next_nonce row) chain_nonce\<rparr>)
      in (row', set_nonce_row db row'))"

definition nonce_row ::
  "db \<Rightarrow> chain_client \<Rightarrow> string \<Rightarrow> error + (hot_wallet_nonce \<times> db)" where
  "nonce_row db client hot_wallet_address =
     (let chain_id = cl_chain_id client in
      bind_res (select_nonce_row db chain_id) (\<lambda>row.
      bind_res (cl_pending_nonce client hot_wallet_address) (\<lambda>chain_nonce.
      case row of
        None \<Rightarrow>
          (let new_row = \<lparr>hw_chain_id = chain_id, hw_address = hot_wallet_address,
                          hw_next_nonce = chain_nonce\<rparr> in
           case insert_nonce_row db new_row of
             Inr db' \<Rightarrow> Inr (new_row, db')
           | Inl e \<Rightarrow>
               bind_res (select_nonce_row db chain_id) (\<lambda>row.
               case row of
                 None \<Rightarrow> Inl e
               | Some r \<Rightarrow> Inr (refresh_nonce_row db r hot_wallet_address chain_nonce)))
      | Some r \<Rightarrow> Inr (refresh_nonce_row db r hot_wallet_address chain_nonce))))"

definition set_next_nonce :: "int \<Rightarrow> int \<Rightarrow> db \<Rightarrow> db" where
  "set_next_nonce chain_id n db =
     db\<lparr>hot_wallet_nonces :=
        upd_row hw_chain_id chain_id (\<lambda>r. r\<lparr>hw_next_nonce := n\<rparr>) (hot_wallet_nonces db)\<rparr>"

definition next_nonce_of :: "db \<Rightarrow> int \<Rightarrow> (string \<times> int) option" where
  "next_nonce_of db chain_id = map_option (\<lambda>r. (hw_address r, hw_next_nonce r))
     (get_row hw_chain_id chain_id (hot_wallet_nonces db))"

lemma next_nonce_of_set:
  "next_nonce_of (set_next_nonce c n db) c' =
     (if c' = c then map_option (\<lambda>(a, _). (a, n)) (next_nonce_of db c) else next_nonce_of db c')"
  by (simp add: next_nonce_of_def set_next_nonce_def get_row_upd_row_same
      get_row_upd_row_other option.map_comp comp_def)

text \<open>
  The counter handed out is never below what the chain already counts, and never below the
  persisted counter as long as the hot wallet stays the same; every other chain keeps its row.
\<close>

lemma nonce_row_ok:
  assumes "nonce_row db client hot = Inr (row, db')"
  shows "\<exists>p. cl_pending_nonce client hot = Inr p \<and> p \<le> hw_next_nonce row \<and>
      (next_nonce_of db (cl_chain_id client) = None \<and> hw_next_nonce row = p \<or>
       (\<exists>a n. next_nonce_of db (cl_chain_id client) = Some (a, n) \<and>
          hw_next_nonce row = (if a = hot then max n p else p)))"
    and "hw_chain_id row = cl_chain_id client" "hw_address row = hot"
    and "next_nonce_of db' = (next_nonce_of db)(cl_chain_id client \<mapsto> (hot, hw_next_nonce row))"
    and "db' = db\<lparr>hot_wallet_nonces := hot_wallet_nonces db'\<rparr>"
proof -
  let ?c = "cl_chain_id client"
  from assms obtain r p where r: "select_nonce_row db ?c = Inr r"
      and p: "cl_pending_nonce client hot = Inr p"
    by (auto simp: nonce_row_def Let_def)
  have get: "get_row hw_chain_id ?c (hot_wallet_nonces db) = r"
  proof (cases r)
    case None
    then have "filter (\<lambda>r. hw_chain_id r = ?c) (hot_wallet_nonces db) = []"
      using r by (simp add: select_nonce_row_def)
    then show ?thesis using None by (auto simp: get_row_None_iff filter_empty_conv)
  next
    case (Some x)
    then have f: "filter (\<lambda>r. hw_chain_id r = ?c) (hot_wallet_nonces db) = [x]"
      using r by (simp add: select_nonce_row_def)
    have "find P xs = Some y" if "filter P xs = [y]" for P and xs :: "hot_wallet_nonce list" and y
      using that by (induction xs) (auto split: if_splits)
    with f show ?thesis using Some by (simp add: get_row_def)
  qed
  have row: "(case r of None \<Rightarrow>
        row = \<lparr>hw_chain_id = ?c, hw_address = hot, hw_next_nonce = p\<rparr> \<and>
        db' = db\<lparr>hot_wallet_nonces := hot_wallet_nonces db @ [row]\<rparr>
      | Some x \<Rightarrow> (row, db') = refresh_nonce_row db x hot p)"
    using assms r p get
    by (auto simp: nonce_row_def Let_def insert_nonce_row_def get_row_None_iff
        split: option.splits if_splits)
  have known: "hw_chain_id x = ?c" if "r = Some x" for x
    using get that by (auto dest: get_row_Some_in)
  show "\<exists>p. cl_pending_nonce client hot = Inr p \<and> p \<le> hw_next_nonce row \<and>
      (next_nonce_of db (cl_chain_id client) = None \<and> hw_next_nonce row = p \<or>
       (\<exists>a n. next_nonce_of db (cl_chain_id client) = Some (a, n) \<and>
          hw_next_nonce row = (if a = hot then max n p else p)))"
    using row p get
    by (cases r) (auto simp: refresh_nonce_row_def Let_def next_nonce_of_def)
  show "hw_chain_id row = ?c" "hw_address row = hot"
    using row known by (cases r; auto simp: refresh_nonce_row_def Let_def)+
  show "db' = db\<lparr>hot_wallet_nonces := hot_wallet_nonces db'\<rparr>"
    using row by (cases r) (auto simp: refresh_nonce_row_def Let_def set_nonce_row_def)
  show "next_nonce_of db' = (next_nonce_of db)(?c \<mapsto> (hot, hw_next_nonce row))"
  proof (cases r)
    case None
    then show ?thesis using row get
      by (auto simp: fun_eq_iff next_nonce_of_def get_row_append split: option.splits)
  next
    case (Some x)
    have eq: "hot_wallet_nonces db' = upd_row hw_chain_id ?c (\<lambda>_. row) (hot_wallet_nonces db)"
      using row Some known
      by (auto simp: refresh_nonce_row_def Let_def set_nonce_row_def split: if_splits)
    have "hw_chain_id row = ?c" "hw_address row = hot"
      using row known Some by (auto simp: refresh_nonce_row_def Let_def)
    then show ?thesis using get Some
      by (auto simp: fun_eq_iff next_nonce_of_def eq get_row_upd_row_same get_row_upd_row_other)
  qed
qed

end
