(* ===== verification/Samples.thy ===== *)
theory Samples
  imports Ledger_Laws Chain_Types
begin

text \<open>
  A small concrete state on which the properties of the development are evaluated: two users,
  one native asset on the local chain, and a ledger in which Alice holds a thousand units of it.
\<close>

definition alice :: user where
  "alice = \<lparr>usr_id = 1, usr_email = ''alice@kasa.dev'', usr_password_hash = [], usr_role = USER,
     usr_hd_index = 1, usr_created_at = 0\<rparr>"

definition bob :: user where
  "bob = \<lparr>usr_id = 2, usr_email = ''bob@kasa.dev'', usr_password_hash = [], usr_role = USER,
     usr_hd_index = 2, usr_created_at = 0\<rparr>"

definition eth :: asset where
  "eth = \<lparr>ast_id = 3, ast_chain_id = 31337, ast_symbol = ''ETH'', ast_type = NATIVE,
     ast_contract_address = None, ast_decimals = 18\<rparr>"

definition addr :: "char \<Rightarrow> string" where
  "addr c = ''0x'' @ replicate 40 c"

definition demo_db :: db where
  "demo_db = empty_db\<lparr>users := [alice, bob], assets := [eth],
     deposit_addresses := [\<lparr>da_id = 12, da_user_id = 1, da_address = addr (CHR ''a''),
       da_derivation_path = ''m/44h/60h/0h/0/1''\<rparr>],
     ledger_accounts := [
       \<lparr>acc_id = 4, acc_owner_type = OwSystem, acc_user_id = None, acc_asset_id = 3,
        acc_name = FAUCET_SOURCE_ACCOUNT\<rparr>,
       \<lparr>acc_id = 5, acc_owner_type = OwUser, acc_user_id = Some 1, acc_asset_id = 3,
        acc_name = USER_WALLET_ACCOUNT\<rparr>],
     ledger_transactions := [
       \<lparr>txn_id = 6, txn_type = LeDeposit, txn_ref_type = ''faucet_sim'', txn_ref_id = ''0x1'',
        txn_idempotency_key = ''faucet:x'', txn_created_at = 0\<rparr>],
     ledger_entries := [
       \<lparr>ent_id = 7, ent_transaction_id = 6, ent_account_id = 4, ent_asset_id = 3,
        ent_amount = -1000, ent_created_at = 0\<rparr>,
       \<lparr>ent_id = 8, ent_transaction_id = 6, ent_account_id = 5, ent_asset_id = 3,
        ent_amount = 1000, ent_created_at = 0\<rparr>],
     next_uuid := 20\<rparr>"

lemma demo_wf: "ledger_wf demo_db"
  by code_simp

text \<open>
  A client of the local chain at block 100: every block has the hash \<open>h\<close>, the hot wallet's
  next nonce is 7, every transaction of the hot wallet is mined in block 10 and succeeded.
\<close>

definition demo_client :: chain_client where
  "demo_client = \<lparr>cl_chain_id = 31337, cl_block_number = Inr 100,
     cl_block_hash = (\<lambda>n. Inr (Some ''h'')),
     cl_fetch_erc20_transfers = (\<lambda>_ _ _ _. Inr []), cl_fetch_erc721_transfers = (\<lambda>_ _ _ _. Inr []),
     cl_fetch_native_transfers = (\<lambda>addresses from_block to_block.
       if from_block \<le> 50 \<and> 50 \<le> to_block
       then Inr [\<lparr>na_from_address = addr (CHR ''f''), na_to_address = addr (CHR ''a''), na_value = 25,
         na_tx_hash = ''0xfeed'', na_block_number = 50, na_block_hash = ''h'', na_log_index = -1\<rparr>]
       else Inr []),
     cl_fetch_internal_transfers = (\<lambda>_ _ _. Inr []),
     cl_pending_nonce = (\<lambda>_. Inr 7), cl_latest_nonce = (\<lambda>_. Inr 9),
     cl_suggested_gas_price = Inr 1,
     cl_sign_native = (\<lambda>_ _ _ n _. Inr \<lparr>stx_raw = ''raw'' @ int_str n, stx_tx_hash = ''tx'' @ int_str n\<rparr>),
     cl_sign_erc20 = (\<lambda>_ _ _ _ n _. Inr \<lparr>stx_raw = ''raw'' @ int_str n, stx_tx_hash = ''tx'' @ int_str n\<rparr>),
     cl_sign_erc721_mint = (\<lambda>_ _ _ n _. Inr \<lparr>stx_raw = ''raw'' @ int_str n, stx_tx_hash = ''tx'' @ int_str n\<rparr>),
     cl_sign_erc721_transfer = (\<lambda>_ _ _ _ _ n _.
       Inr \<lparr>stx_raw = ''raw'' @ int_str n, stx_tx_hash = ''tx'' @ int_str n\<rparr>),
     cl_broadcast_raw = (\<lambda>r. Inr (''tx'' @ drop 3 r)),
     cl_send_native = (\<lambda>_ _ _ _ _. Inr ''0xcafe''), cl_send_erc20 = (\<lambda>_ _ _ _ _ _. Inr ''0xcafe''),
     cl_get_receipt = (\<lambda>h. Inr (Some \<lparr>rc_tx_hash = h, rc_status = 1, rc_block_number = 10,
       rc_block_hash = ''h'', rc_logs = []\<rparr>)),
     cl_erc721_minted_token_id = (\<lambda>_ _ _. Inr (Some ''77'')),
     cl_erc721_owner_of = (\<lambda>_ _. Inr (Some ''hot'')),
     cl_native_balance = (\<lambda>_. Inr 0), cl_erc20_balance = (\<lambda>_ _. Inr 0)\<rparr>"

end
