(* ===== verification/Requests.thy ===== *)
theory Requests
  imports Prelude
begin

text \<open>
  The contract of a request with an idempotency key, as an interface: what a client's retry
  does, at once or after other requests were served. Transfers, withdrawals, the faucet and
  the NFT requests interpret it.
\<close>

section \<open>Requests with an idempotency key\<close>

text \<open>
  \<open>run x d\<close> serves request \<open>x\<close> on state \<open>d\<close>; \<open>seen x d\<close> says that \<open>d\<close> already records it.
  A recorded request never changes the state, a served request is recorded, and what is
  recorded stays recorded.
\<close>

locale idempotent_request =
  fixes run :: "'x \<Rightarrow> 'd \<Rightarrow> 'e + ('r \<times> 'd)"
    and seen :: "'x \<Rightarrow> 'd \<Rightarrow> bool"
    and ok :: "'d \<Rightarrow> bool"
  assumes keeps: "ok d \<Longrightarrow> run x d = Inr (r, d') \<Longrightarrow> ok d'"
    and records: "ok d \<Longrightarrow> run x d = Inr (r, d') \<Longrightarrow> seen x d'"
    and replays: "ok d \<Longrightarrow> seen x d \<Longrightarrow> run x d = Inr (r, d') \<Longrightarrow> d' = d"
    and persists: "ok d \<Longrightarrow> run x d = Inr (r, d') \<Longrightarrow> seen y d \<Longrightarrow> seen y d'"
begin

text \<open>A retry changes nothing.\<close>

lemma retry:
  assumes "ok d" "run x d = Inr (r, d1)" "run x d1 = Inr (r', d2)"
  shows "d2 = d1"
  using replays [OF keeps [OF assms(1,2)] records [OF assms(1,2)] assms(3)] .

text \<open>Neither does a retry that arrives after any other requests were served.\<close>

lemma late_retry:
  assumes "ok d" "run x d = Inr (r, d1)"
    and "for_each (\<lambda>y s. bind_res (run y s) (\<lambda>(_, s'). Inr s')) ys d1 = Inr d2"
    and "run x d2 = Inr (r', d3)"
  shows "d3 = d2"
proof -
  have "ok d2 \<and> seen x d2"
    by (rule for_each_inv [OF assms(3), where I = "\<lambda>s. ok s \<and> seen x s"])
      (use keeps records persists assms(1,2) in \<open>auto split: prod.splits\<close>)
  then show ?thesis using replays assms(4) by blast
qed

end

section \<open>Requests that repeat their answer\<close>

text \<open>
  A stronger contract than \<open>idempotent_request\<close>: the recorded answer can be read back and
  later requests do not change it, so a retry returns what the first call returned.
\<close>

locale answered_request = idempotent_request +
  fixes answer :: "'a \<Rightarrow> 'b \<Rightarrow> 'd"
  assumes answers: "ok d \<Longrightarrow> run x d = Inr (r, d') \<Longrightarrow> answer x d' = r"
    and answer_stays: "ok d \<Longrightarrow> run y d = Inr (r, d') \<Longrightarrow> seen x d \<Longrightarrow> answer x d' = answer x d"
begin

lemma late_state:
  assumes "ok d" "run x d = Inr (r, d1)"
    and "for_each (\<lambda>y s. bind_res (run y s) (\<lambda>(_, s'). Inr s')) ys d1 = Inr d2"
  shows "ok d2 \<and> seen x d2 \<and> answer x d2 = r"
proof (rule for_each_inv [OF assms(3), where I = "\<lambda>s. ok s \<and> seen x s \<and> answer x s = r"])
  show "ok d1 \<and> seen x d1 \<and> answer x d1 = r"
    using keeps [OF assms(1,2)] records [OF assms(1,2)] answers [OF assms(1,2)] by simp
next
  fix y s s'
  assume I: "ok s \<and> seen x s \<and> answer x s = r" and "bind_res (run y s) (\<lambda>(_, s'). Inr s') = Inr s'"
  then obtain r2 where b: "run y s = Inr (r2, s')" by (auto split: prod.splits)
  show "ok s' \<and> seen x s' \<and> answer x s' = r"
    using keeps [OF _ b] persists [OF _ b] answer_stays [OF _ b] I by simp
qed

text \<open>When a recorded request is always answered, the retry cannot fail either.\<close>

lemma late_answer:
  assumes "ok d" "run x d = Inr (r, d1)"
    and "for_each (\<lambda>y s. bind_res (run y s) (\<lambda>(_, s'). Inr s')) ys d1 = Inr d2"
    and "\<And>d. ok d \<Longrightarrow> seen x d \<Longrightarrow> run x d = Inr (answer x d, d)"
  shows "run x d2 = Inr (r, d2)"
  using late_state [OF assms(1-3)] assms(4) by blast

end

end
