(* ===== verification/Config.thy ===== *)
theory Config
  imports Tables
begin

text \<open>
  The settings of \<open>app/core/config.py\<close> that the components read, the three helpers of that
  class, the namespacing of client idempotency keys (\<open>services/idempotency.py\<close>) and the
  per-transaction limits (\<open>services/limits.py\<close>). Reading the environment and \<open>.env\<close> is not
  modelled: a \<open>settings\<close> record is what the reading produced.
\<close>

section \<open>int() and split()\<close>

fun split_on :: "char \<Rightarrow> string \<Rightarrow> string list" where
  "split_on c [] = [[]]"
| "split_on c (x # xs) =
     (if x = c then [] # split_on c xs
      else case split_on c xs of [] \<Rightarrow> [[x]] | s # ss \<Rightarrow> (x # s) # ss)"

text \<open>\<open>int(s)\<close>: blanks around, a sign, digits with single underscores between them.\<close>

definition int_parse :: "string \<Rightarrow> int option" where
  "int_parse s =
     (let t = strip s; neg = startswith t ''-'';
          u = (if neg \<or> startswith t ''+'' then drop 1 t else t);
          parts = split_on (CHR ''_'') u
      in if list_all isdigit parts
         then Some (if neg then - int (digits_val (concat parts))
                    else int (digits_val (concat parts)))
         else None)"

section \<open>Settings\<close>

record settings =
  jwt_secret :: string
  access_ttl_seconds :: int
  refresh_ttl_seconds :: int
  master_mnemonic :: string
  rpc_ethereum_sepolia :: string
  rpc_avalanche_fuji :: string
  rpc_hardhat :: string
  deposit_confirmations_setting :: int
  faucet_private_key :: "string option"
  reorg_depth_setting :: int
  reorg_finality_depth :: int
  block_chunk_size :: int
  watch_internal_transfers :: bool
  rpc_max_retries :: int
  reserves_onchain :: bool
  mint_onchain :: bool
  rate_limit_enabled :: bool
  seed_demo_user :: bool
  gas_warn_wei :: int
  gas_critical_wei :: int
  demo_email :: string
  demo_password :: string
  disabled_chain_ids :: string

definition default_settings :: settings where
  "default_settings = \<lparr>jwt_secret = [], access_ttl_seconds = 900, refresh_ttl_seconds = 2592000,
     master_mnemonic = [], rpc_ethereum_sepolia = [], rpc_avalanche_fuji = [],
     rpc_hardhat = ''http://localhost:8545'', deposit_confirmations_setting = 12,
     faucet_private_key = None, reorg_depth_setting = 5, reorg_finality_depth = 64,
     block_chunk_size = 2000, watch_internal_transfers = False, rpc_max_retries = 3,
     reserves_onchain = False, mint_onchain = False, rate_limit_enabled = True, seed_demo_user = False,
     gas_warn_wei = 20000000000000000, gas_critical_wei = 5000000000000000,
     demo_email = ''demo@kasa.app'', demo_password = ''kasademo123'',
     disabled_chain_ids = []\<rparr>"

definition normalize_database_url :: "string \<Rightarrow> string" where
  "normalize_database_url value =
     (if startswith value ''postgresql+'' \<or> startswith value ''postgres+'' then value
      else if startswith value ''postgresql://'' then
        ''postgresql+psycopg://'' @ drop (length ''postgresql://'') value
      else if startswith value ''postgres://'' then
        ''postgresql+psycopg://'' @ drop (length ''postgres://'') value
      else value)"

fun parse_ids :: "string list \<Rightarrow> error + int list" where
  "parse_ids [] = Inr []"
| "parse_ids (x # xs) =
     (if strip x = [] then parse_ids xs
      else case int_parse x of
        None \<Rightarrow> Inl (ValueError ''invalid literal for int()'')
      | Some i \<Rightarrow> bind_res (parse_ids xs) (\<lambda>is. Inr (i # is)))"

definition is_chain_enabled :: "settings \<Rightarrow> int \<Rightarrow> error + bool" where
  "is_chain_enabled st chain_id =
     bind_res (parse_ids (split_on (CHR '','') (disabled_chain_ids st)))
       (\<lambda>disabled. Inr (chain_id \<notin> set disabled))"

definition rpc_field_by_chain :: "int \<Rightarrow> (settings \<Rightarrow> string) option" where
  "rpc_field_by_chain chain_id =
     (if chain_id = 11155111 then Some rpc_ethereum_sepolia
      else if chain_id = 43113 then Some rpc_avalanche_fuji
      else if chain_id = 31337 then Some rpc_hardhat else None)"

definition rpc_urls :: "settings \<Rightarrow> int \<Rightarrow> error + string list" where
  "rpc_urls st chain_id =
     (case rpc_field_by_chain chain_id of
        None \<Rightarrow> Inl (KeyError (''no RPC configured for chain '' @ int_str chain_id))
      | Some field \<Rightarrow>
          Inr (filter (\<lambda>u. u \<noteq> []) (map strip (split_on (CHR '','') (field st)))))"

text \<open>The scheme is normalised once: applying the validator again changes nothing.\<close>

lemma normalize_database_url_idem:
  "normalize_database_url (normalize_database_url v) = normalize_database_url v"
proof -
  have fixed: "normalize_database_url (''postgresql+psycopg://'' @ x) = ''postgresql+psycopg://'' @ x"
    for x
  proof -
    have "startswith (''postgresql+psycopg://'' @ x) ''postgresql+''" by (simp add: startswith_def)
    then show ?thesis unfolding normalize_database_url_def by (simp only: if_True simp_thms)
  qed
  consider "normalize_database_url v = v"
    | x where "normalize_database_url v = ''postgresql+psycopg://'' @ x"
    unfolding normalize_database_url_def by metis
  then show ?thesis using fixed by cases (simp_all only:)
qed

section \<open>Idempotency keys\<close>

definition scoped_idempotency_key :: "string \<Rightarrow> uuid \<Rightarrow> string \<Rightarrow> string" where
  "scoped_idempotency_key domain user_id client_key =
     domain @ '':'' @ uuid_str user_id @ '':'' @ client_key"

text \<open>A stored key determines the operation, the user and the client's own key.\<close>

lemma scoped_key_inj:
  assumes "CHR '':'' \<notin> set d" "CHR '':'' \<notin> set d'"
    and "scoped_idempotency_key d u k = scoped_idempotency_key d' u' k'"
  shows "d = d' \<and> u = u' \<and> k = k'"
proof -
  have "d = d' \<and> uuid_str u @ CHR '':'' # k = uuid_str u' @ CHR '':'' # k'"
    using assms(3) by (intro colon_split [OF assms(1,2)]) (simp add: scoped_idempotency_key_def)
  moreover from this have "uuid_str u = uuid_str u' \<and> k = k'"
    by (intro colon_split [OF uuid_str_no_colon uuid_str_no_colon]) simp
  ultimately show ?thesis by simp
qed

section \<open>Limits\<close>

type_synonym caps = "((int \<times> string) \<times> (int \<times> int)) list"

text \<open>A cap is a finite, non-negative Decimal: coefficient and exponent.\<close>

definition default_max_amount_whole :: caps where
  "default_max_amount_whole =
     [((11155111, ''ETH''), (1, -3)), ((11155111, ''DEMO''), (100, 0)),
      ((43113, ''AVAX''), (5, -2)), ((43113, ''DEMO''), (100, 0)),
      ((31337, ''ETH''), (1, 0)), ((31337, ''DEMO''), (100, 0))]"

fun default_max_whole :: "asset_type \<Rightarrow> (int \<times> int) option" where
  "default_max_whole NATIVE = Some (1, -3)"
| "default_max_whole ERC20 = Some (100, 0)"
| "default_max_whole ERC721 = None"

definition truncate_div :: "int \<Rightarrow> int \<Rightarrow> int" where
  "truncate_div a b = sgn a * sgn b * (\<bar>a\<bar> div \<bar>b\<bar>)"

text \<open>\<open>int(whole * Decimal(10) ** decimals)\<close>: scale, then truncate towards zero.\<close>

definition scale_decimal :: "int \<times> int \<Rightarrow> nat \<Rightarrow> int" where
  "scale_decimal whole decimals =
     (case whole of (c, e) \<Rightarrow>
        let s = e + int decimals in
        if 0 \<le> s then c * 10 ^ nat s else truncate_div c (10 ^ nat (- s)))"

definition max_amount_base_units :: "caps \<Rightarrow> asset \<Rightarrow> int option" where
  "max_amount_base_units caps asset =
     (case map_of caps (ast_chain_id asset, upper (ast_symbol asset)) of
        Some whole \<Rightarrow> Some (scale_decimal whole (ast_decimals asset))
      | None \<Rightarrow> map_option (\<lambda>whole. scale_decimal whole (ast_decimals asset))
                  (default_max_whole (ast_type asset)))"

text \<open>
  The override \<open>KASA_MAX_AMOUNTS\<close>: \<open>parsed\<close> is the JSON object's items with each value read
  by \<open>Decimal(str(value))\<close> (\<open>None\<close> where that raises), or \<open>None\<close> when the variable is unset,
  is not JSON or is not an object.
\<close>

fun set_cap :: "int \<times> string \<Rightarrow> int \<times> int \<Rightarrow> caps \<Rightarrow> caps" where
  "set_cap k v [] = [(k, v)]"
| "set_cap k v ((k', v') # cs) = (if k = k' then (k, v) # cs else (k', v') # set_cap k v cs)"

definition cap_entry :: "string \<times> (int \<times> int) option option \<Rightarrow> caps \<Rightarrow> caps" where
  "cap_entry item caps =
     (case item of (key, value) \<Rightarrow>
      case partition_at (CHR '':'') key of (raw_chain_id, sep, symbol) \<Rightarrow>
        if \<not> sep \<or> symbol = [] then caps
        else case (int_parse raw_chain_id, value) of
          (Some chain_id, Some (Some (c, e))) \<Rightarrow>
             if c < 0 then caps else set_cap (chain_id, upper symbol) (c, e) caps
        | _ \<Rightarrow> caps)"

definition load_max_amount_whole ::
  "(string \<times> (int \<times> int) option option) list option \<Rightarrow> caps" where
  "load_max_amount_whole parsed =
     (case parsed of None \<Rightarrow> default_max_amount_whole
      | Some items \<Rightarrow> fold cap_entry items default_max_amount_whole)"

lemma map_of_set_cap [simp]: "map_of (set_cap k v cs) = (map_of cs)(k \<mapsto> v)"
  by (induction k v cs rule: set_cap.induct) (auto simp: fun_eq_iff)

definition caps_ok :: "caps \<Rightarrow> bool" where
  "caps_ok caps \<longleftrightarrow> (\<forall>k c e. map_of caps k = Some (c, e) \<longrightarrow> 0 \<le> c)"

lemma caps_ok_cap_entry: "caps_ok caps \<Longrightarrow> caps_ok (cap_entry item caps)"
  by (auto simp: caps_ok_def cap_entry_def split: prod.splits option.splits)

lemma caps_ok_fold: "caps_ok caps \<Longrightarrow> caps_ok (fold cap_entry items caps)"
  by (induction items arbitrary: caps) (simp_all add: caps_ok_cap_entry)

text \<open>However the caps are overridden, a cap is never negative.\<close>

lemma caps_ok_load: "caps_ok (load_max_amount_whole parsed)"
proof -
  have "caps_ok default_max_amount_whole"
    by (auto simp: caps_ok_def default_max_amount_whole_def split: if_splits)
  then show ?thesis by (auto simp: load_max_amount_whole_def caps_ok_fold split: option.splits)
qed

lemma scale_decimal_nonneg: "0 \<le> fst whole \<Longrightarrow> 0 \<le> scale_decimal whole d"
  by (cases whole) (auto simp: scale_decimal_def truncate_div_def Let_def sgn_if
      intro!: pos_imp_zdiv_nonneg_iff [THEN iffD2])

lemma max_amount_nonneg:
  "caps_ok caps \<Longrightarrow> max_amount_base_units caps asset = Some m \<Longrightarrow> 0 \<le> m"
proof -
  assume ok: "caps_ok caps" and m: "max_amount_base_units caps asset = Some m"
  have d: "\<And>t w. default_max_whole t = Some w \<Longrightarrow> 0 \<le> fst w"
    by (elim default_max_whole.elims) auto
  show "0 \<le> m"
  proof (cases "map_of caps (ast_chain_id asset, upper (ast_symbol asset))")
    case None
    then show ?thesis using m d scale_decimal_nonneg by (auto simp: max_amount_base_units_def)
  next
    case (Some w)
    then have "0 \<le> fst w" using ok by (cases w) (auto simp: caps_ok_def)
    moreover have "m = scale_decimal w (ast_decimals asset)"
      using m Some by (simp add: max_amount_base_units_def)
    ultimately show ?thesis by (simp add: scale_decimal_nonneg)
  qed
qed

end
