(* ===== verification/Rate_Limit.thy ===== *)
theory Rate_Limit
  imports Config
begin

text \<open>
  Sliding-window rate limits: \<open>app/services/rate_limit.py\<close>. Times are microseconds. The
  facts: an accepted call leaves every window at or below its limit, a refused one leaves no
  trace, and the pruning never removes an event a window still counts.
\<close>

section \<open>Operations\<close>

type_synonym window_limit = "int \<times> int"

definition LIMITS :: "(string \<times> window_limit list \<times> window_limit list) list" where
  "LIMITS =
     [(''faucet'', [(30, 1), (3600, 5), (86400, 15)], [(3600, 40), (86400, 200)]),
      (''withdrawal'', [(30, 1), (3600, 10), (86400, 30)], [(3600, 60), (86400, 300)]),
      (''nft_withdrawal'', [(30, 1), (3600, 10), (86400, 30)], [(3600, 60), (86400, 300)]),
      (''nft_mint'', [], [(3600, 20), (86400, 100)])]"

definition window_name :: "int \<Rightarrow> string" where
  "window_name window_seconds =
     (if window_seconds mod 86400 = 0 then int_str (window_seconds div 86400) @ '' day''
      else if window_seconds mod 3600 = 0 then int_str (window_seconds div 3600) @ '' hour''
      else if window_seconds mod 60 = 0 then int_str (window_seconds div 60) @ '' minute''
      else int_str window_seconds @ '' second'')"

definition seconds :: "int \<Rightarrow> int" where "seconds n = 1000000 * n"

definition count_events :: "db \<Rightarrow> string \<Rightarrow> int \<Rightarrow> string option \<Rightarrow> int" where
  "count_events db action since scope_key =
     int (length (filter (\<lambda>e. rl_action e = action \<and> since \<le> rl_created_at e
       \<and> (case scope_key of None \<Rightarrow> True | Some k \<Rightarrow> rl_scope_key e = k))
       (rate_limit_events db)))"

definition check_window ::
  "db \<Rightarrow> string \<Rightarrow> int \<Rightarrow> string option \<Rightarrow> string \<Rightarrow> window_limit \<Rightarrow> unit \<Rightarrow> error + unit" where
  "check_window db action current scope_key prefix wl u =
     (case wl of (window_seconds, limit) \<Rightarrow>
        if limit \<le> count_events db action (current - seconds window_seconds) scope_key
        then raise_api_error 429 RATE_LIMITED
          (prefix @ ''ate limit exceeded for '' @ action @ '': max '' @ int_str limit
           @ '' per '' @ window_name window_seconds)
        else Inr ())"

definition user_scope :: "uuid \<Rightarrow> string" where
  "user_scope user_id = ''user:'' @ uuid_str user_id"

definition add_event :: "db \<Rightarrow> string \<Rightarrow> string \<Rightarrow> int \<Rightarrow> db" where
  "add_event db scope_key action current =
     db\<lparr>rate_limit_events := rate_limit_events db @
          [\<lparr>rl_id = next_uuid db, rl_scope_key = scope_key, rl_action = action,
            rl_created_at = current\<rparr>],
        next_uuid := Suc (next_uuid db)\<rparr>"

definition prune_events :: "db \<Rightarrow> string \<Rightarrow> int \<Rightarrow> db" where
  "prune_events db action before =
     db\<lparr>rate_limit_events := filter (\<lambda>e. \<not> (rl_action e = action \<and> rl_created_at e < before))
          (rate_limit_events db)\<rparr>"

definition enforce_rate_limit ::
  "settings \<Rightarrow> db \<Rightarrow> string \<Rightarrow> uuid \<Rightarrow> int option \<Rightarrow> error + db" where
  "enforce_rate_limit st db action user_id now =
     (if \<not> rate_limit_enabled st then Inr db
      else case map_of LIMITS action of
        None \<Rightarrow> Inr db
      | Some (per_user, global_limits) \<Rightarrow>
          let current = (case now of None \<Rightarrow> db_now db | Some t \<Rightarrow> t);
              scope_key = user_scope user_id in
          bind_res (for_each (check_window db action current (Some scope_key) ''R'') per_user ())
            (\<lambda>_.
          bind_res (for_each (check_window db action current None ''Global r'') global_limits ())
            (\<lambda>_.
          let db1 = add_event db scope_key action current;
              windows = map fst (per_user @ global_limits) in
          if windows = [] then Inr db1
          else Inr (prune_events db1 action (current - seconds (Max (set windows)))))))"

section \<open>Facts\<close>

lemma check_windows_ok:
  "for_each (check_window db action current scope p) wls () = Inr () \<Longrightarrow> (w, l) \<in> set wls \<Longrightarrow>
   count_events db action (current - seconds w) scope < l"
proof (induction wls)
  case (Cons x wls)
  then show ?case by (auto simp: check_window_def split: if_splits prod.splits)
qed simp

lemma count_add_event:
  "count_events (add_event db k action current) action since scope \<le>
   count_events db action since scope + 1"
  by (simp add: count_events_def add_event_def)

text \<open>Pruning keeps every event that a window reaching back no further than \<open>before\<close> counts.\<close>

lemma count_prune_eq:
  assumes "before \<le> since"
  shows "count_events (prune_events db action before) action since scope =
    count_events db action since scope"
proof -
  have eq: "filter (\<lambda>e. rl_action e = action \<and> since \<le> rl_created_at e
      \<and> (case scope of None \<Rightarrow> True | Some k \<Rightarrow> rl_scope_key e = k))
      (filter (\<lambda>e. \<not> (rl_action e = action \<and> rl_created_at e < before)) xs) =
    filter (\<lambda>e. rl_action e = action \<and> since \<le> rl_created_at e
      \<and> (case scope of None \<Rightarrow> True | Some k \<Rightarrow> rl_scope_key e = k)) xs" for xs
    unfolding filter_filter using assms by (intro filter_cong) auto
  have ev: "rate_limit_events (prune_events db action before) =
      filter (\<lambda>e. \<not> (rl_action e = action \<and> rl_created_at e < before)) (rate_limit_events db)"
    by (simp add: prune_events_def)
  show ?thesis unfolding count_events_def ev eq ..
qed

lemma window_le_Max: "(w, l) \<in> set (ws :: window_limit list) \<Longrightarrow> w \<le> Max (set (map fst ws))"
  by (rule Max_ge) force+

text \<open>An accepted call: below every limit before, at most at it afterwards.\<close>

lemma enforce_accepts:
  assumes acc: "enforce_rate_limit st db action user_id now = Inr db'"
    and on: "rate_limit_enabled st" and lim: "map_of LIMITS action = Some (pu, gl)"
    and cur: "current = (case now of None \<Rightarrow> db_now db | Some t \<Rightarrow> t)"
  shows "(w, l) \<in> set pu \<Longrightarrow>
      count_events db' action (current - seconds w) (Some (user_scope user_id)) \<le> l"
    and "(w, l) \<in> set gl \<Longrightarrow> count_events db' action (current - seconds w) None \<le> l"
proof -
  let ?db1 = "add_event db (user_scope user_id) action current"
  from acc on lim cur
  have u: "for_each (check_window db action current (Some (user_scope user_id)) ''R'') pu () = Inr ()"
    and g: "for_each (check_window db action current None ''Global r'') gl () = Inr ()"
    and d: "(if map fst (pu @ gl) = [] then Inr ?db1
      else Inr (prune_events ?db1 action (current - seconds (Max (set (map fst (pu @ gl))))))) = Inr db'"
    by (auto simp: enforce_rate_limit_def Let_def)
  have same: "count_events db' action (current - seconds w) scope =
      count_events ?db1 action (current - seconds w) scope"
    if "(w, l) \<in> set (pu @ gl)" for w l scope
  proof (cases "map fst (pu @ gl) = []")
    case True
    then show ?thesis using that by auto
  next
    case False
    have "w \<le> Max (set (map fst (pu @ gl)))" using that by (rule window_le_Max)
    then have "current - seconds (Max (set (map fst (pu @ gl)))) \<le> current - seconds w"
      by (simp add: seconds_def)
    then show ?thesis using d False count_prune_eq by auto
  qed
  have add: "count_events ?db1 action (current - seconds w) scope \<le> l"
    if "count_events db action (current - seconds w) scope < l" for w l scope
    using that count_add_event [of db "user_scope user_id" action current "current - seconds w" scope]
    by linarith
  show "count_events db' action (current - seconds w) (Some (user_scope user_id)) \<le> l"
    if "(w, l) \<in> set pu"
    using same [of w l "Some (user_scope user_id)"] add [OF check_windows_ok [OF u that]] that by simp
  show "count_events db' action (current - seconds w) None \<le> l" if "(w, l) \<in> set gl"
    using same [of w l None] add [OF check_windows_ok [OF g that]] that by simp
qed

text \<open>What the rate limiter may change: its own table and the id supply.\<close>

definition rate_only :: "db \<Rightarrow> db \<Rightarrow> bool" where
  "rate_only db db' \<longleftrightarrow> db' = db\<lparr>rate_limit_events := rate_limit_events db',
     next_uuid := next_uuid db'\<rparr> \<and> next_uuid db \<le> next_uuid db'"

lemma enforce_frame:
  assumes "enforce_rate_limit st db action user_id now = Inr db'"
  shows "rate_only db db'"
proof -
  have "rate_only db db" by (simp add: rate_only_def)
  moreover have "rate_only db (add_event db k action c)" for k c
    by (simp add: rate_only_def add_event_def)
  moreover have "rate_only db (prune_events (add_event db k action c) action b)" for k c b
    by (simp add: rate_only_def add_event_def prune_events_def)
  ultimately show ?thesis
    using assms by (auto simp: enforce_rate_limit_def Let_def split: if_splits option.splits)
qed

lemma rate_only_ledger:
  assumes "rate_only db db'"
  shows "ledger_accounts db' = ledger_accounts db"
    "ledger_transactions db' = ledger_transactions db" "ledger_entries db' = ledger_entries db"
    "users db' = users db" "assets db' = assets db" "nft_holdings db' = nft_holdings db"
    "withdrawal_requests db' = withdrawal_requests db"
    "onchain_deposits db' = onchain_deposits db" "deposit_addresses db' = deposit_addresses db"
    "nft_withdrawal_requests db' = nft_withdrawal_requests db"
    "nft_mint_requests db' = nft_mint_requests db"
    "nft_deposits db' = nft_deposits db" "nft_sweeps db' = nft_sweeps db"
    "nft_transfers db' = nft_transfers db" "db_now db' = db_now db"
    "hot_wallet_nonces db' = hot_wallet_nonces db"
  using assms unfolding rate_only_def by - (erule conjE, erule ssubst, simp)+

end
