(* ===== verification/Amount.thy ===== *)
theory Amount
  imports Tables
begin

text \<open>
  Amounts on the wire and on screen: \<open>app/types/amount.py\<close> and its twin
  \<open>kasa_shared/amounts.py\<close>. A value that reaches the validators is one of the Python types
  they test for; a Decimal is finite (\<open>c * 10 ^ e\<close>), infinite or not a number. The main fact
  is that what \<open>format_amount\<close> prints, \<open>parse_amount\<close> reads back.
\<close>

section \<open>Base units\<close>

datatype decimal = DecFinite int int | DecInfinite | DecNaN

datatype py_value = PyBool bool | PyInt int | PyDecimal decimal | PyStr string | PyOther

text \<open>\<open>^-?(0|[1-9]\d*)$\<close> with \<open>fullmatch\<close>.\<close>

definition wire_digits :: "string \<Rightarrow> bool" where
  "wire_digits s \<longleftrightarrow> isdigit s \<and> (s = [digit_char 0] \<or> hd s \<noteq> digit_char 0)"

definition wire_re :: "string \<Rightarrow> bool" where
  "wire_re s \<longleftrightarrow> wire_digits (if startswith s ''-'' then drop 1 s else s)"

text \<open>\<open>int(s)\<close> for an optional minus sign and decimal digits.\<close>

definition int_of_str :: "string \<Rightarrow> int" where
  "int_of_str s = (if startswith s ''-'' then - int (digits_val (drop 1 s)) else int (digits_val s))"

text \<open>\<open>value != value.to_integral_value()\<close>, then \<open>int(value)\<close>; the latter raises on infinity.\<close>

fun decimal_to_int :: "decimal \<Rightarrow> error + int" where
  "decimal_to_int (DecFinite c e) =
     (if 0 \<le> e then Inr (c * 10 ^ nat e)
      else if c mod 10 ^ nat (- e) \<noteq> 0 then
        Inl (ValueError ''base-unit amount must be a whole number'')
      else Inr (c div 10 ^ nat (- e)))"
| "decimal_to_int DecInfinite = Inl OverflowError"
| "decimal_to_int DecNaN = Inl (ValueError ''base-unit amount must be a whole number'')"

fun to_int :: "py_value \<Rightarrow> error + int" where
  "to_int (PyBool b) = Inl (ValueError ''base-unit amount must not be a boolean'')"
| "to_int (PyInt i) = Inr i"
| "to_int (PyDecimal d) = decimal_to_int d"
| "to_int (PyStr s) =
     (if \<not> wire_re s then
        Inl (ValueError ''base-unit amount must be an integer string without leading zeros'')
      else Inr (int_of_str s))"
| "to_int PyOther = Inl (ValueError ''base-unit amount must be an integer string or int'')"

definition nonneg :: "int \<Rightarrow> error + int" where
  "nonneg value = (if value < 0 then Inl (ValueError ''base-unit amount must be non-negative'')
     else Inr value)"

text \<open>The annotated types: validate, and serialise with \<open>str\<close>.\<close>

definition base_unit_serialize :: "int \<Rightarrow> string" where
  "base_unit_serialize value = int_str value"

definition unsigned_base_unit_validate :: "py_value \<Rightarrow> error + int" where
  "unsigned_base_unit_validate v = bind_res (to_int v) nonneg"

section \<open>Human amounts\<close>

definition invalid_amount :: "string \<Rightarrow> error + 'a" where
  "invalid_amount symbol = Inl (ValueError (''invalid amount for '' @ symbol))"

definition parse_amount :: "asset \<Rightarrow> string \<Rightarrow> error + int" where
  "parse_amount asset human =
     (let decimals = ast_decimals asset; raw = strip human in
      if raw = [] then Inl (ValueError ''amount is required'')
      else
        let neg = startswith raw ''-''; unsigned = (if neg then drop 1 raw else raw) in
        if unsigned = [] \<or> unsigned = ''.'' \<or> 1 < count_list unsigned (CHR ''.'')
        then invalid_amount (ast_symbol asset)
        else case partition_at (CHR ''.'') unsigned of (whole, _, frac) \<Rightarrow>
          if whole \<noteq> [] \<and> \<not> isdigit whole \<or> frac \<noteq> [] \<and> \<not> isdigit frac
          then invalid_amount (ast_symbol asset)
          else if whole = [] \<and> frac = [] then invalid_amount (ast_symbol asset)
          else if decimals < length frac then
            Inl (ValueError (''too many decimals for '' @ ast_symbol asset @ '' (max ''
                   @ nat_str decimals @ '')''))
          else
            let digits = (if whole = [] then ''0'' else whole) @ ljust0 decimals frac;
                value = int (digits_val digits)
            in Inr (if neg then - value else value))"

definition format_value :: "nat \<Rightarrow> int \<Rightarrow> string" where
  "format_value decimals value =
     (let neg = value < 0; digits = nat_str (nat \<bar>value\<bar>);
          formatted =
            (if decimals = 0 then digits
             else let padded = zfill (decimals + 1) digits;
                      whole = take (length padded - decimals) padded;
                      frac = rstrip0 (drop (length padded - decimals) padded)
                  in if frac = [] then whole else whole @ ''.'' @ frac)
      in if neg \<and> formatted \<noteq> ''0'' then ''-'' @ formatted else formatted)"

definition format_amount :: "asset \<Rightarrow> py_value \<Rightarrow> error + string" where
  "format_amount asset base_units =
     bind_res (to_int base_units) (\<lambda>value. Inr (format_value (ast_decimals asset) value))"

section \<open>The shared package's twin\<close>

text \<open>\<open>kasa_shared.amounts\<close> has the same two functions over its own reading of base units.\<close>

fun shared_base_units_to_int :: "py_value \<Rightarrow> error + int" where
  "shared_base_units_to_int (PyBool b) =
     Inl (ValueError ''base-unit amount must not be a boolean'')"
| "shared_base_units_to_int (PyInt i) = Inr i"
| "shared_base_units_to_int (PyStr value) =
     (if value = [] then Inl (ValueError ''base-unit amount is required'')
      else let digits = (if startswith value ''-'' then drop 1 value else value) in
        if digits = [] \<or> \<not> isdigit digits
        then Inl (ValueError ''base-unit amount must be an integer'')
        else Inr (int_of_str value))"
| "shared_base_units_to_int (PyDecimal d) = Inl (OtherError ''AttributeError'')"
| "shared_base_units_to_int PyOther = Inl (OtherError ''AttributeError'')"

definition shared_parse_amount :: "asset \<Rightarrow> string \<Rightarrow> error + int" where
  "shared_parse_amount asset human = parse_amount asset human"

definition shared_format_amount :: "asset \<Rightarrow> py_value \<Rightarrow> error + string" where
  "shared_format_amount asset base_units =
     bind_res (shared_base_units_to_int base_units)
       (\<lambda>value. Inr (format_value (ast_decimals asset) value))"

section \<open>Facts\<close>

lemma digit_char_0: "digit_char 0 = CHR ''0''"
  by code_simp

lemma not_digit_dot [simp]: "\<not> is_digit (CHR ''.'')" by code_simp
lemma not_digit_minus [simp]: "\<not> is_digit (CHR ''-'')" by code_simp
lemma not_space_digit: "is_digit c \<Longrightarrow> \<not> is_space c"
  by (auto simp: is_digit_def is_space_def)
lemma not_space_minus [simp]: "\<not> is_space (CHR ''-'')" by code_simp
lemma not_space_dot [simp]: "\<not> is_space (CHR ''.'')" by code_simp

lemma strip_no_space:
  assumes "s \<noteq> []" "\<not> is_space (hd s)" "\<not> is_space (last s)"
  shows "strip s = s"
proof -
  have d: "dropWhile is_space s = s" using assms(1,2) by (cases s) simp_all
  have "dropWhile is_space (rev s) = rev s"
    using assms(1,3) by (cases s rule: rev_cases) simp_all
  with d show ?thesis by (simp add: strip_def)
qed

lemma startswith_minus: "startswith s ''-'' \<longleftrightarrow> s \<noteq> [] \<and> hd s = CHR ''-''"
  by (cases s) (auto simp: startswith_def)

lemma list_all_digit_nat_str [simp]: "list_all is_digit (nat_str n)"
  using nat_str_digits by (auto simp: list_all_iff)

lemma list_all_digit_zfill: "list_all is_digit s \<Longrightarrow> list_all is_digit (zfill w s)"
  by (auto simp: zfill_def list_all_iff)

text \<open>The unsigned text \<open>format_value\<close> prints: digits, at most one dot, and how it splits.\<close>

lemma split_dot:
  assumes "list_all is_digit w"
  shows "partition_at (CHR ''.'') (w @ CHR ''.'' # f) = (w, True, f)"
    and "partition_at (CHR ''.'') w = (w, False, [])"
proof -
  have nd: "\<And>c. c \<in> set w \<Longrightarrow> c \<noteq> CHR ''.''" using assms not_digit_dot by (metis list_all_iff)
  then have tw: "takeWhile (\<lambda>x. x \<noteq> CHR ''.'') (w @ y) = w @ takeWhile (\<lambda>x. x \<noteq> CHR ''.'') y"
    and dw: "dropWhile (\<lambda>x. x \<noteq> CHR ''.'') (w @ y) = dropWhile (\<lambda>x. x \<noteq> CHR ''.'') y" for y
    by (auto intro: takeWhile_append2 dropWhile_append2)
  show "partition_at (CHR ''.'') (w @ CHR ''.'' # f) = (w, True, f)"
    by (simp add: partition_at_def tw dw)
  show "partition_at (CHR ''.'') w = (w, False, [])"
  proof -
    have 1: "dropWhile (\<lambda>x. x \<noteq> CHR ''.'') w = []" and 2: "takeWhile (\<lambda>x. x \<noteq> CHR ''.'') w = w"
      using nd by (auto simp: dropWhile_eq_Nil_conv takeWhile_eq_all_conv)
    show ?thesis unfolding partition_at_def 1 2 using nd by auto
  qed
qed

lemma count_dot_digits: "list_all is_digit w \<Longrightarrow> count_list w (CHR ''.'') = 0"
  by (induction w) auto


text \<open>Reading a sign, some digits, and up to \<open>decimals\<close> further digits after a dot.\<close>

definition amount_text :: "bool \<Rightarrow> string \<Rightarrow> string \<Rightarrow> string" where
  "amount_text neg w f = (if neg then ''-'' else []) @ w @ (if f = [] then [] else ''.'' @ f)"

lemma parse_amount_text:
  assumes w: "w \<noteq> []" "list_all is_digit w" and f: "list_all is_digit f"
    and len: "length f \<le> ast_decimals a"
  shows "parse_amount a (amount_text neg w f) =
    (let v = int (digits_val (w @ ljust0 (ast_decimals a) f)) in Inr (if neg then - v else v))"
proof -
  let ?u = "w @ (if f = [] then [] else ''.'' @ f)"
  have hw: "is_digit (hd w)" using w by (cases w) simp_all
  have last: "is_digit (last ?u)"
    using w f by (cases "f = []") (auto simp: list_all_iff last_append intro: last_in_set)
  have ne: "amount_text neg w f \<noteq> []" using w by (simp add: amount_text_def)
  have "\<not> is_space (hd (amount_text neg w f))"
    using hw w not_space_digit by (auto simp: amount_text_def)
  moreover have "\<not> is_space (last (amount_text neg w f))"
    using last not_space_digit w by (auto simp: amount_text_def split: if_splits)
  ultimately have strip: "strip (amount_text neg w f) = amount_text neg w f"
    using ne by (intro strip_no_space)
  have sw: "startswith (amount_text neg w f) ''-'' = neg"
    using hw w not_digit_minus by (cases neg) (auto simp: amount_text_def startswith_minus)
  have un: "(if neg then drop 1 (amount_text neg w f) else amount_text neg w f) = ?u"
    by (simp add: amount_text_def)
  have u_ne: "?u \<noteq> []" using w by simp
  have u_dot: "?u \<noteq> ''.''"
    using w hw not_digit_dot by (cases w) auto
  have cnt: "count_list ?u (CHR ''.'') \<le> 1"
    using count_dot_digits [OF w(2)] count_dot_digits [OF f] by (simp add: count_list_append)
  have part: "partition_at (CHR ''.'') ?u = (w, f \<noteq> [], f)"
    using split_dot [OF w(2)] by simp
  have dw: "isdigit w" and df: "f \<noteq> [] \<longrightarrow> isdigit f"
    using w f by (simp_all add: isdigit_def)
  show ?thesis
    using ne u_ne u_dot cnt dw df w(1) len
    by (auto simp add: parse_amount_def strip sw un part Let_def)
qed

lemma format_split:
  fixes d n :: nat
  assumes "0 < d"
  defines "p \<equiv> zfill (d + 1) (nat_str n)"
  defines "w \<equiv> take (length p - d) p" and "f \<equiv> rstrip0 (drop (length p - d) p)"
  shows "w \<noteq> []" "list_all is_digit w" "list_all is_digit f" "length f \<le> d"
    "digits_val (w @ ljust0 d f) = n"
proof -
  have lp: "d + 1 \<le> length p" by (simp add: p_def)
  have dp: "list_all is_digit p" unfolding p_def by (rule list_all_digit_zfill) simp
  have ld: "length (drop (length p - d) p) = d" using lp by simp
  show "w \<noteq> []" using lp by (auto simp: w_def)
  show "list_all is_digit w"
    using dp set_take_subset [of "length p - d" p] by (auto simp: w_def list_all_iff)
  show "list_all is_digit f"
    using dp set_rstrip0 [of "drop (length p - d) p"] set_drop_subset [of "length p - d" p]
    by (auto simp: f_def list_all_iff)
  have lj: "ljust0 d f = drop (length p - d) p" unfolding f_def by (rule rstrip0_ljust0 [OF ld])
  then show "length f \<le> d"
    using ld by (metis le_add1 length_append ljust0_def)
  show "digits_val (w @ ljust0 d f) = n" unfolding lj w_def by (simp add: p_def)
qed

lemma format_value_text:
  "\<exists>w f. format_value d v = amount_text (v < 0) w f \<and> w \<noteq> [] \<and> list_all is_digit w \<and>
     list_all is_digit f \<and> length f \<le> d \<and> digits_val (w @ ljust0 d f) = nat \<bar>v\<bar>"
proof -
  let ?n = "nat \<bar>v\<bar>"
  obtain w f where wf: "w \<noteq> []" "list_all is_digit w" "list_all is_digit f" "length f \<le> d"
      "digits_val (w @ ljust0 d f) = ?n"
    and u: "format_value d v = (let u = w @ (if f = [] then [] else ''.'' @ f)
      in if v < 0 \<and> u \<noteq> ''0'' then ''-'' @ u else u)"
  proof (cases "d = 0")
    case True
    show ?thesis
      by (rule that [of "nat_str ?n" "[]"])
        (simp_all add: True ljust0_def format_value_def Let_def)
  next
    case False
    note fs = format_split [of d ?n, OF False [THEN neq0_conv [THEN iffD1]]]
    show ?thesis
      by (rule that [OF fs]) (auto simp: False format_value_def Let_def)
  qed
  have "w @ (if f = [] then [] else ''.'' @ f) \<noteq> ''0''" if "v < 0"
  proof
    assume z: "w @ (if f = [] then [] else ''.'' @ f) = ''0''"
    then have "w = ''0''" "f = []" using wf(1) by (auto simp: append_eq_Cons_conv split: if_splits)
    then have "digits_val (w @ ljust0 d f) = digits_val ([digit_char 0] @ replicate d (digit_char 0))"
      by (simp add: ljust0_def digit_char_0)
    also have "\<dots> = 0" by (simp only: digits_val_snoc_zeros) simp
    finally show False using wf(5) that by simp
  qed
  then have "format_value d v = amount_text (v < 0) w f"
    unfolding u amount_text_def Let_def by auto
  with wf show ?thesis by blast
qed

lemma parse_format_value: "parse_amount a (format_value (ast_decimals a) v) = Inr v"
proof -
  obtain w f where "format_value (ast_decimals a) v = amount_text (v < 0) w f" "w \<noteq> []"
      "list_all is_digit w" "list_all is_digit f" "length f \<le> ast_decimals a"
      "digits_val (w @ ljust0 (ast_decimals a) f) = nat \<bar>v\<bar>"
    using format_value_text by blast
  then show ?thesis using parse_amount_text [of w f a "v < 0"] by (simp add: Let_def)
qed

text \<open>The wire form: what is serialised is accepted, and read as the same number.\<close>

lemma wire_int_str: "wire_re (int_str i)" "int_of_str (int_str i) = i"
proof -
  have h: "wire_digits (nat_str n)" for n
  proof (cases "n = 0")
    case True
    then show ?thesis by (simp add: wire_digits_def isdigit_def nat_str.simps)
  next
    case False
    then show ?thesis using nat_str_head [OF False] by (simp add: wire_digits_def isdigit_def)
  qed
  have ns: "\<not> startswith (nat_str n) ''-''" for n
  proof -
    have "is_digit (hd (nat_str n))" using list_all_digit_nat_str [of n]
      by (cases "nat_str n") simp_all
    then show ?thesis using not_digit_minus by (auto simp: startswith_minus)
  qed
  show "wire_re (int_str i)"
    using h ns by (auto simp: wire_re_def int_str_def startswith_minus)
  show "int_of_str (int_str i) = i"
    using ns by (auto simp: int_of_str_def int_str_def startswith_minus)
qed

lemma to_int_int_str: "to_int (PyStr (base_unit_serialize i)) = Inr i"
  by (simp add: base_unit_serialize_def wire_int_str)

lemma wire_isdigit: "wire_re s \<Longrightarrow> isdigit (if startswith s ''-'' then drop 1 s else s)"
  by (simp add: wire_re_def wire_digits_def)

lemma shared_accepts_wire: "wire_re s \<Longrightarrow> shared_base_units_to_int (PyStr s) = to_int (PyStr s)"
  using wire_isdigit [of s] by (auto simp: isdigit_def Let_def startswith_minus split: if_splits)

end
