(* ===== verification/Transfers.thy ===== *)
theory Transfers
  imports Samples Requests Rate_Limit Amount
begin

text \<open>
  Internal transfers (\<open>app/services/transfer_service.py\<close>), as requests with an
  idempotency key.
\<close>

section \<open>create_transfer\<close>

definition limit_error :: "asset \<Rightarrow> int \<Rightarrow> error + 'a" where
  "limit_error asset max_amount =
     raise_api_error 422 VALIDATION_ERROR (''Amount exceeds the per-transaction limit of ''
       @ format_value (ast_decimals asset) max_amount @ '' '' @ ast_symbol asset)"

text \<open>Lock, check the balance, then post the two legs: the rest of \<open>create_transfer\<close>.\<close>

definition transfer_funds ::
  "db \<Rightarrow> user \<Rightarrow> user \<Rightarrow> asset \<Rightarrow> int \<Rightarrow> string \<Rightarrow> error + ((uuid \<times> transfer_status) \<times> db)" where
  "transfer_funds db sender recipient asset amount scoped_key =
     bind_res (lock_user_asset db sender asset) (\<lambda>(_, db).
     bind_res (available_balance db sender asset) (\<lambda>available.
     if available < amount
     then raise_api_error 400 INSUFFICIENT_FUNDS ''Insufficient funds''
     else
     bind_res (get_user_wallet_account db sender asset) (\<lambda>(sender_account, db).
     bind_res (get_user_wallet_account db recipient asset) (\<lambda>(recipient_account, db).
     bind_res (post db LeTransferOut scoped_key
         [LedgerLeg sender_account asset (- amount), LedgerLeg recipient_account asset amount]
         ''internal_transfer'' (uuid_str (usr_id sender) @ '':'' @ uuid_str (usr_id recipient)))
       (\<lambda>(transaction, db). Inr ((txn_id transaction, TrConfirmed), db))))))"

definition create_transfer ::
  "caps \<Rightarrow> db \<Rightarrow> user \<Rightarrow> string \<Rightarrow> uuid \<Rightarrow> int \<Rightarrow> string
    \<Rightarrow> error + ((uuid \<times> transfer_status) \<times> db)" where
  "create_transfer caps db sender to_email asset_id amount idempotency_key =
     (if amount \<le> 0 then raise_api_error 422 VALIDATION_ERROR ''Amount must be positive''
      else
        let scoped_key = scoped_idempotency_key ''transfer'' (usr_id sender) idempotency_key in
        bind_res (find_transaction_by_idempotency_key db scoped_key) (\<lambda>existing_tx.
        case existing_tx of
          Some t \<Rightarrow> Inr ((txn_id t, TrConfirmed), db)
        | None \<Rightarrow>
        bind_res (user_by_email db to_email) (\<lambda>recipient.
        case recipient of
          None \<Rightarrow> raise_api_error 404 NOT_FOUND ''Recipient not found''
        | Some recipient \<Rightarrow>
        if usr_id recipient = usr_id sender
        then raise_api_error 422 VALIDATION_ERROR ''Cannot transfer to yourself''
        else
        bind_res (get_asset db asset_id) (\<lambda>asset.
        case max_amount_base_units caps asset of
          Some max_amount \<Rightarrow>
            if max_amount < amount then limit_error asset max_amount
            else transfer_funds db sender recipient asset amount scoped_key
        | None \<Rightarrow> transfer_funds db sender recipient asset amount scoped_key))))"

section \<open>Facts\<close>

lemma transfer_funds_step:
  assumes wf: "ledger_wf db"
    and t: "transfer_funds db sender recipient asset amount key = Inr (r, db')"
  shows "ledger_step db db' key (wallet_key (usr_id sender) (ast_id asset))
      (wallet_key (usr_id recipient) (ast_id asset)) amount \<and>
    amount \<le> bal db (wallet_key (usr_id sender) (ast_id asset))"
proof -
  from t obtain x db1 av a db2 b db3 tx where
    l: "lock_user_asset db sender asset = Inr (x, db1)" and
    av: "available_balance db1 sender asset = Inr av" "\<not> av < amount" and
    a: "get_user_wallet_account db1 sender asset = Inr (a, db2)" and
    b: "get_user_wallet_account db2 recipient asset = Inr (b, db3)" and
    p: "post db3 LeTransferOut key [LedgerLeg a asset (- amount), LedgerLeg b asset amount]
      ''internal_transfer'' (uuid_str (usr_id sender) @ '':'' @ uuid_str (usr_id recipient))
      = Inr (tx, db')"
    by (auto simp: transfer_funds_def split: prod.splits if_splits)
  note g = lock_user_asset_ok [OF wf l]
  note wf1 = accounts_grew_wf [OF g]
  have "ledger_step db1 db' key (wallet_key (usr_id sender) (ast_id asset))
      (wallet_key (usr_id recipient) (ast_id asset)) amount"
    by (rule fetch_fetch_post [OF wf1 get_user_wallet_account_ok [OF _ a]
          get_user_wallet_account_ok [OF _ b] p])
  then show ?thesis
    using accounts_then_step [OF g] av available_balance_bal [OF wf1] accounts_grew_bal [OF g]
    by auto
qed

definition transfer_key :: "user \<Rightarrow> string \<Rightarrow> string" where
  "transfer_key sender k = scoped_idempotency_key ''transfer'' (usr_id sender) k"

text \<open>Every way a transfer can succeed: a replay, or a posting within the sender's balance.\<close>

lemma create_transfer_cases:
  assumes "create_transfer caps db sender to_email asset_id amount k = Inr (r, db')"
  obtains (replay) t where "db' = db" "transfer_key sender k \<in> used_keys db"
      "find_transaction_by_idempotency_key db (transfer_key sender k) = Inr (Some t)"
      "r = (txn_id t, TrConfirmed)" "0 < amount"
    | (posted) recipient asset where "transfer_key sender k \<notin> used_keys db" "0 < amount"
      "user_by_email db to_email = Inr (Some recipient)" "usr_id recipient \<noteq> usr_id sender"
      "get_asset db asset_id = Inr asset"
      "\<And>m. max_amount_base_units caps asset = Some m \<Longrightarrow> amount \<le> m"
      "transfer_funds db sender recipient asset amount (transfer_key sender k) = Inr (r, db')"
proof -
  from assms obtain ex where pos: "0 < amount"
      and ex: "find_transaction_by_idempotency_key db (transfer_key sender k) = Inr ex"
    by (auto simp: create_transfer_def transfer_key_def Let_def split: if_splits)
  show thesis
  proof (cases ex)
    case (Some t)
    then have "transfer_key sender k \<in> used_keys db"
      using ex find_transaction_None [of db "transfer_key sender k"] by force
    then show thesis
      using assms ex Some pos replay
      by (auto simp: create_transfer_def transfer_key_def Let_def)
  next
    case None
    then have "transfer_key sender k \<notin> used_keys db"
      using ex find_transaction_None [of db "transfer_key sender k"] by simp
    moreover obtain recipient asset where
      "user_by_email db to_email = Inr (Some recipient)" "usr_id recipient \<noteq> usr_id sender"
      "get_asset db asset_id = Inr asset"
      "\<forall>m. max_amount_base_units caps asset = Some m \<longrightarrow> amount \<le> m"
      "transfer_funds db sender recipient asset amount (transfer_key sender k) = Inr (r, db')"
      using assms ex None pos
      by (auto simp: create_transfer_def transfer_key_def Let_def limit_error_def
          split: option.splits if_splits)
    ultimately show thesis using pos by (intro posted) auto
  qed
qed

lemma create_transfer_step:
  assumes wf: "ledger_wf db"
    and c: "create_transfer caps db sender to_email asset_id amount k = Inr (r, db')"
  shows "ledger_wf db' \<and> ledger_only db db' \<and>
    used_keys db' = insert (transfer_key sender k) (used_keys db)"
  using c
proof (cases rule: create_transfer_cases)
  case (replay t)
  then show ?thesis using wf by (simp add: insert_absorb)
next
  case (posted recipient asset)
  then show ?thesis using transfer_funds_step [OF wf posted(7)] by (simp add: ledger_step_def)
qed

record transfer_request =
  tr_sender :: user
  tr_to_email :: string
  tr_asset_id :: uuid
  tr_amount :: int
  tr_key :: string

definition serve_transfer ::
  "caps \<Rightarrow> transfer_request \<Rightarrow> db \<Rightarrow> error + ((uuid \<times> transfer_status) \<times> db)" where
  "serve_transfer caps x db = create_transfer caps db (tr_sender x) (tr_to_email x)
     (tr_asset_id x) (tr_amount x) (tr_key x)"

definition transfer_seen :: "transfer_request \<Rightarrow> db \<Rightarrow> bool" where
  "transfer_seen x db \<longleftrightarrow> transfer_key (tr_sender x) (tr_key x) \<in> used_keys db"

interpretation transfer: idempotent_request "serve_transfer caps" transfer_seen ledger_wf
  for caps
proof
  fix d x r d' y
  assume ok: "ledger_wf d" and run: "serve_transfer caps x d = Inr (r, d')"
  note st = create_transfer_step [OF ok run [unfolded serve_transfer_def]]
  show "ledger_wf d'" using st by simp
  show "transfer_seen x d'" using st by (simp add: transfer_seen_def)
  show "transfer_seen y d'" if "transfer_seen y d" using st that by (simp add: transfer_seen_def)
  show "d' = d" if "transfer_seen x d"
    using run that unfolding serve_transfer_def transfer_seen_def
    by (cases rule: create_transfer_cases) simp_all
qed

section \<open>Properties\<close>

lemma transfer_funds_total:
  assumes wf: "ledger_wf db" and x: "asset \<in> set (assets db)" and key: "key \<notin> used_keys db"
    and le: "amount \<le> bal db (wallet_key (usr_id sender) (ast_id asset))"
  shows "\<exists>r db'. transfer_funds db sender recipient asset amount key = Inr (r, db')"
proof -
  obtain l db1 where l: "lock_user_asset db sender asset = Inr (l, db1)"
    using get_or_create_account_total
    unfolding lock_user_asset_def get_user_wallet_account_def by blast
  note g = lock_user_asset_ok [OF wf l]
  obtain a db2 where a: "get_user_wallet_account db1 sender asset = Inr (a, db2)"
    using get_or_create_account_total unfolding get_user_wallet_account_def by blast
  obtain b db3 where b: "get_user_wallet_account db2 recipient asset = Inr (b, db3)"
    using get_or_create_account_total unfolding get_user_wallet_account_def by blast
  note wf1 = accounts_grew_wf [OF g]
  obtain t db' where "post db3 LeTransferOut key
      [LedgerLeg a asset (- amount), LedgerLeg b asset amount]
      ''internal_transfer'' (uuid_str (usr_id sender) @ '':'' @ uuid_str (usr_id recipient))
      = Inr (t, db')"
    using fetch_fetch_post_total [OF wf1 _ _
        a [unfolded get_user_wallet_account_def] b [unfolded get_user_wallet_account_def]]
      x key accounts_grew_used [OF g] accounts_grew_assets [OF g] by metis
  then show ?thesis
    using l a b le accounts_grew_bal [OF g]
    by (simp add: transfer_funds_def available_balance_bal [OF wf1])
qed

text \<open>
  C4: A successful transfer either replays an earlier one and changes nothing, or moves exactly
  the requested, positive amount from the sender's wallet to the wallet of the other user whose
  email was given, never more than the sender had and never more than the configured cap; no
  table but the ledger's changes and the ledger stays well formed.
\<close>

theorem transfer_moves_exactly:
  assumes wf: "ledger_wf db"
    and c: "create_transfer caps db sender to_email asset_id amount k = Inr (r, db')"
  shows "ledger_wf db' \<and> ledger_only db db' \<and> transfer_key sender k \<in> used_keys db' \<and>
    (transfer_key sender k \<in> used_keys db \<and> db' = db \<or>
     (\<exists>recipient asset. recipient \<in> set (users db) \<and> usr_email recipient = normalize_email to_email \<and>
        usr_id recipient \<noteq> usr_id sender \<and> asset \<in> set (assets db) \<and> ast_id asset = asset_id \<and>
        0 < amount \<and> amount \<le> bal db (wallet_key (usr_id sender) asset_id) \<and>
        (\<forall>m. max_amount_base_units caps asset = Some m \<longrightarrow> amount \<le> m) \<and>
        bal db' = moved (wallet_key (usr_id sender) asset_id)
          (wallet_key (usr_id recipient) asset_id) amount (bal db)))"
  using c
proof (cases rule: create_transfer_cases)
  case (replay t)
  then show ?thesis using wf by simp
next
  case (posted recipient asset)
  note st = transfer_funds_step [OF wf posted(7)]
  have "bal db' = moved (wallet_key (usr_id sender) asset_id)
      (wallet_key (usr_id recipient) asset_id) amount (bal db)"
    using ledger_step_D(6) [OF conjunct1 [OF st] posted(1)] get_asset_Inr [OF posted(5)] by simp
  then show ?thesis
    using st posted user_by_email_Inr [OF posted(3)] get_asset_Inr [OF posted(5)]
    by (auto simp: ledger_step_def)
qed

text \<open>
  C5: A transfer is accepted whenever it should be: a positive amount within the sender's
  balance and the cap, under a key the sender has not used, to another registered user, in a
  registered asset.
\<close>

theorem transfer_succeeds:
  assumes "ledger_wf db" "transfer_key sender k \<notin> used_keys db" "0 < amount"
    and "user_by_email db to_email = Inr (Some recipient)" "usr_id recipient \<noteq> usr_id sender"
    and "get_asset db asset_id = Inr asset"
    and "\<forall>m. max_amount_base_units caps asset = Some m \<longrightarrow> amount \<le> m"
    and "amount \<le> bal db (wallet_key (usr_id sender) asset_id)"
  shows "\<exists>t db'. create_transfer caps db sender to_email asset_id amount k = Inr ((t, TrConfirmed), db')"
proof -
  note a = get_asset_Inr [OF assms(6)]
  obtain r db' where r:
    "transfer_funds db sender recipient asset amount (transfer_key sender k) = Inr (r, db')"
    using transfer_funds_total [OF assms(1) _ assms(2)] a assms(8) by metis
  moreover have "snd r = TrConfirmed"
    using r by (auto simp: transfer_funds_def split: if_splits)
  ultimately show ?thesis
    using assms find_transaction_None [of db "transfer_key sender k"]
    by (cases r) (auto simp: create_transfer_def transfer_key_def Let_def split: option.splits)
qed

text \<open>
  C6: Each way a new transfer is refused, in the order of the checks: a non-positive amount, an
  unknown recipient, a transfer to oneself, an unknown asset, an amount above the cap, and an
  amount above the balance.
\<close>

theorem transfer_refusals:
  assumes wf: "ledger_wf db"
  shows "(amount \<le> 0 \<longrightarrow> create_transfer caps db sender to_email asset_id amount k =
      Inl (ApiError 422 VALIDATION_ERROR ''Amount must be positive'')) \<and>
    (0 < amount \<and> transfer_key sender k \<notin> used_keys db \<longrightarrow>
      (user_by_email db to_email = Inr None \<longrightarrow>
        create_transfer caps db sender to_email asset_id amount k =
          Inl (ApiError 404 NOT_FOUND ''Recipient not found'')) \<and>
      (\<forall>recipient. user_by_email db to_email = Inr (Some recipient) \<longrightarrow>
        (usr_id recipient = usr_id sender \<longrightarrow>
          create_transfer caps db sender to_email asset_id amount k =
            Inl (ApiError 422 VALIDATION_ERROR ''Cannot transfer to yourself'')) \<and>
        (usr_id recipient \<noteq> usr_id sender \<longrightarrow>
          (asset_id \<notin> ast_id ` set (assets db) \<longrightarrow>
            create_transfer caps db sender to_email asset_id amount k =
              Inl (ApiError 404 UNKNOWN_ASSET ''Unknown asset'')) \<and>
          (\<forall>asset. get_asset db asset_id = Inr asset \<longrightarrow>
            (\<forall>m. max_amount_base_units caps asset = Some m \<and> m < amount \<longrightarrow>
              create_transfer caps db sender to_email asset_id amount k =
                Inl (ApiError 422 VALIDATION_ERROR (''Amount exceeds the per-transaction limit of ''
                  @ format_value (ast_decimals asset) m @ '' '' @ ast_symbol asset))) \<and>
            ((\<forall>m. max_amount_base_units caps asset = Some m \<longrightarrow> amount \<le> m) \<and>
             bal db (wallet_key (usr_id sender) asset_id) < amount \<longrightarrow>
              create_transfer caps db sender to_email asset_id amount k =
                Inl (ApiError 400 INSUFFICIENT_FUNDS ''Insufficient funds''))))))"
proof -
  have none: "get_asset db asset_id = Inl (ApiError 404 UNKNOWN_ASSET ''Unknown asset'')"
    if "asset_id \<notin> ast_id ` set (assets db)"
  proof -
    have "filter (\<lambda>a. ast_id a = asset_id) (assets db) = []"
      using that by (auto simp: filter_empty_conv)
    then show ?thesis by (simp add: get_asset_def raise_api_error_def)
  qed
  have poor: "transfer_funds db sender recipient asset amount key =
      Inl (ApiError 400 INSUFFICIENT_FUNDS ''Insufficient funds'')"
    if "bal db (wallet_key (usr_id sender) (ast_id asset)) < amount" for recipient asset key
  proof -
    obtain l db1 where l: "lock_user_asset db sender asset = Inr (l, db1)"
      using get_or_create_account_total
      unfolding lock_user_asset_def get_user_wallet_account_def by blast
    note g = lock_user_asset_ok [OF wf l]
    show ?thesis using l that accounts_grew_bal [OF g]
      by (simp add: transfer_funds_def raise_api_error_def
          available_balance_bal [OF accounts_grew_wf [OF g]])
  qed
  have eqs: "create_transfer caps db sender to_email asset_id amount k =
      bind_res (user_by_email db to_email) (\<lambda>recipient.
        case recipient of
          None \<Rightarrow> raise_api_error 404 NOT_FOUND ''Recipient not found''
        | Some recipient \<Rightarrow>
        if usr_id recipient = usr_id sender
        then raise_api_error 422 VALIDATION_ERROR ''Cannot transfer to yourself''
        else
        bind_res (get_asset db asset_id) (\<lambda>asset.
        case max_amount_base_units caps asset of
          Some max_amount \<Rightarrow>
            if max_amount < amount then limit_error asset max_amount
            else transfer_funds db sender recipient asset amount (transfer_key sender k)
        | None \<Rightarrow> transfer_funds db sender recipient asset amount (transfer_key sender k)))"
    if "0 < amount" "transfer_key sender k \<notin> used_keys db"
    using that find_transaction_None [of db "transfer_key sender k"]
    unfolding create_transfer_def transfer_key_def Let_def by simp
  show ?thesis
    apply (intro conjI impI allI; (elim conjE)?)
    subgoal by (simp add: create_transfer_def raise_api_error_def)
    subgoal by (simp add: eqs raise_api_error_def)
    subgoal by (simp add: eqs raise_api_error_def)
    subgoal by (simp add: eqs none raise_api_error_def)
    subgoal by (simp add: eqs raise_api_error_def limit_error_def)
    subgoal for recipient asset
      using get_asset_Inr [of db asset_id asset]
      by (cases "max_amount_base_units caps asset") (simp_all add: eqs poor)
    done
qed

text \<open>
  A client that repeats a transfer, at once or after any number of other transfers were
  served, never moves money twice: the repeated request leaves the state as it is.
\<close>

theorem transfer_retry_is_noop:
  assumes "ledger_wf d" "serve_transfer caps x d = Inr (r, d1)"
    and "for_each (\<lambda>y s. bind_res (serve_transfer caps y s) (\<lambda>(_, s'). Inr s')) ys d1 = Inr d2"
    and "serve_transfer caps x d2 = Inr (r', d3)"
  shows "d3 = d2"
  using assms by (rule transfer.late_retry)

section \<open>The properties on a concrete state\<close>

definition demo_transfer :: transfer_request where
  "demo_transfer = \<lparr>tr_sender = alice, tr_to_email = '' Bob@kasa.dev'', tr_asset_id = 3,
     tr_amount = 10, tr_key = ''k''\<rparr>"

definition demo_transferred :: db where
  "demo_transferred = snd (projr (serve_transfer [] demo_transfer demo_db))"

lemma demo_transfer_runs:
  "serve_transfer [] demo_transfer demo_db = Inr ((21, TrConfirmed), demo_transferred)"
  by code_simp

lemma demo_create_runs:
  "create_transfer [] demo_db alice '' Bob@kasa.dev'' 3 10 ''k'' =
     Inr ((21, TrConfirmed), demo_transferred)"
  using demo_transfer_runs by (simp add: serve_transfer_def demo_transfer_def)

theorem transfer_moves_exactly_witness:
  "ledger_wf demo_transferred \<and> transfer_key alice ''k'' \<in> used_keys demo_transferred"
  using transfer_moves_exactly [OF demo_wf demo_create_runs] by simp

theorem transfer_succeeds_witness:
  "\<exists>t db'. create_transfer [] demo_db alice ''bob@kasa.dev'' 3 990 ''k'' = Inr ((t, TrConfirmed), db')"
proof (rule transfer_succeeds [OF demo_wf, where recipient = bob and asset = eth])
  have "max_amount_base_units [] eth = Some (10 ^ 15)" by code_simp
  then show "\<forall>m. max_amount_base_units [] eth = Some m \<longrightarrow> 990 \<le> m" by simp
qed code_simp+

theorem transfer_refusals_witness:
  "create_transfer [] demo_db alice ''bob@kasa.dev'' 3 1001 ''k'' =
     Inl (ApiError 400 INSUFFICIENT_FUNDS ''Insufficient funds'')"
proof -
  have h: "user_by_email demo_db ''bob@kasa.dev'' = Inr (Some bob)"
    "get_asset demo_db 3 = Inr eth" "usr_id bob \<noteq> usr_id alice"
    "transfer_key alice ''k'' \<notin> used_keys demo_db"
    "bal demo_db (wallet_key (usr_id alice) 3) < 1001"
    "max_amount_base_units [] eth = Some (10 ^ 15)"
    by code_simp+
  then show ?thesis
    using transfer_refusals [OF demo_wf, of 1001 "[]" alice "''bob@kasa.dev''" 3 "''k''"]
    by simp
qed

theorem transfer_retry_is_noop_witness:
  "\<exists>d3. serve_transfer [] demo_transfer demo_transferred = Inr ((21, TrConfirmed), d3) \<and>
     d3 = demo_transferred"
proof -
  have again: "serve_transfer [] demo_transfer demo_transferred =
      Inr ((21, TrConfirmed), demo_transferred)"
    by code_simp
  show ?thesis
    using transfer_retry_is_noop [OF demo_wf demo_transfer_runs, of "[]" demo_transferred] again
    by simp
qed

end
