(* ===== verification/Withdrawals.thy ===== *)
theory Withdrawals
  imports Transfers Chain_Types
begin

text \<open>
  Withdrawal requests (\<open>app/services/withdrawal_service.py\<close>): the request reserves the amount
  in the ledger and enters the outbox of the withdrawal worker. The invariant
  \<open>withdrawals_ok\<close> ties the outbox to the ledger: the reserve account holds the sum of
  the open requests, the settled account the sum of the confirmed ones, and the settlement and
  reversal keys of a request are used exactly according to its status.
\<close>

section \<open>create_withdrawal\<close>

definition get_withdrawal_for_user :: "db \<Rightarrow> user \<Rightarrow> uuid \<Rightarrow> error + withdrawal_request" where
  "get_withdrawal_for_user db user withdrawal_id =
     bind_res (scalar_one_or_none (filter (\<lambda>w. wd_id w = withdrawal_id \<and> wd_user_id w = usr_id user)
         (withdrawal_requests db)))
       (\<lambda>withdrawal. case withdrawal of
          None \<Rightarrow> raise_not_found ''Withdrawal not found''
        | Some w \<Rightarrow> Inr w)"

text \<open>\<open>UUID(text)\<close> raises on text that is not a UUID.\<close>

definition UUID :: "string \<Rightarrow> error + uuid" where
  "UUID text = (case uuid_parse text of
     None \<Rightarrow> Inl (ValueError ''badly formed hexadecimal UUID string'') | Some u \<Rightarrow> Inr u)"

text \<open>The new row with its column defaults, and its flush.\<close>

definition new_withdrawal :: "db \<Rightarrow> user \<Rightarrow> asset \<Rightarrow> string \<Rightarrow> int \<Rightarrow> withdrawal_request" where
  "new_withdrawal db user asset to_address amount =
     \<lparr>wd_id = next_uuid db, wd_user_id = usr_id user, wd_asset_id = ast_id asset,
      wd_chain_id = ast_chain_id asset, wd_to_address = to_address, wd_amount = amount,
      wd_status = WdRequested, wd_tx_hash = None, wd_signed_tx = None, wd_nonce = None,
      wd_unmined_since_block = None, wd_attempts = 0, wd_error = None,
      wd_created_at = db_now db\<rparr>"

definition insert_withdrawal :: "db \<Rightarrow> withdrawal_request \<Rightarrow> db" where
  "insert_withdrawal db w =
     db\<lparr>withdrawal_requests := withdrawal_requests db @ [w], next_uuid := Suc (next_uuid db)\<rparr>"

definition reserve_withdrawal ::
  "db \<Rightarrow> user \<Rightarrow> asset \<Rightarrow> string \<Rightarrow> int \<Rightarrow> string
    \<Rightarrow> error + ((uuid \<times> withdrawal_status) \<times> db)" where
  "reserve_withdrawal db user asset to_address amount scoped_key =
     bind_res (lock_user_asset db user asset) (\<lambda>(_, db).
     bind_res (available_balance db user asset) (\<lambda>available.
     if available < amount
     then raise_api_error 400 INSUFFICIENT_FUNDS ''Insufficient funds''
     else
     let withdrawal = new_withdrawal db user asset to_address amount;
         db = insert_withdrawal db withdrawal in
     bind_res (get_user_wallet_account db user asset) (\<lambda>(user_account, db).
     bind_res (get_or_create_account db asset WITHDRAWALS_RESERVED_ACCOUNT OwSystem None)
       (\<lambda>(reserve_account, db).
     bind_res (post db LeWithdrawal scoped_key
         [LedgerLeg user_account asset (- amount), LedgerLeg reserve_account asset amount]
         ''withdrawal_request'' (uuid_str (wd_id withdrawal)))
       (\<lambda>(_, db). Inr ((wd_id withdrawal, WdRequested), db))))))"

text \<open>An \<open>InvalidAddressError\<close> becomes a 422; the library's own exceptions pass through.\<close>

definition checked_address :: "(string \<Rightarrow> error + string) \<Rightarrow> string \<Rightarrow> error + string" where
  "checked_address to_checksum_address to_address =
     (case to_checksum_address_strict to_checksum_address to_address of
        Inr a \<Rightarrow> Inr a
      | Inl (InvalidAddressError m) \<Rightarrow> raise_api_error 422 VALIDATION_ERROR m
      | Inl e \<Rightarrow> Inl e)"

definition create_withdrawal ::
  "(string \<Rightarrow> error + string) \<Rightarrow> settings \<Rightarrow> caps \<Rightarrow> db \<Rightarrow> user \<Rightarrow> uuid \<Rightarrow> string \<Rightarrow> int \<Rightarrow> string
    \<Rightarrow> error + ((uuid \<times> withdrawal_status) \<times> db)" where
  "create_withdrawal to_checksum_address st caps db user asset_id to_address amount idempotency_key =
     (let scoped_key = scoped_idempotency_key ''withdraw'' (usr_id user) idempotency_key in
      bind_res (find_transaction_by_idempotency_key db scoped_key) (\<lambda>existing_tx.
      let replay = (case existing_tx of
            None \<Rightarrow> None
          | Some t \<Rightarrow> if txn_ref_type t = ''withdrawal_request'' then Some (txn_ref_id t) else None) in
      case replay of
        Some ref_id \<Rightarrow>
          bind_res (UUID ref_id) (\<lambda>withdrawal_id.
          bind_res (get_withdrawal_for_user db user withdrawal_id) (\<lambda>existing.
          Inr ((wd_id existing, wd_status existing), db)))
      | None \<Rightarrow>
      bind_res (enforce_rate_limit st db ''withdrawal'' (usr_id user) None) (\<lambda>db.
      if amount \<le> 0 then raise_api_error 422 VALIDATION_ERROR ''Amount must be positive''
      else
      bind_res (checked_address to_checksum_address to_address) (\<lambda>to_address.
      bind_res (get_asset db asset_id) (\<lambda>asset.
      case max_amount_base_units caps asset of
        Some max_amount \<Rightarrow>
          if max_amount < amount then limit_error asset max_amount
          else reserve_withdrawal db user asset to_address amount scoped_key
      | None \<Rightarrow> reserve_withdrawal db user asset to_address amount scoped_key)))))"

section \<open>Frame\<close>

text \<open>
  What lies outside the withdrawal outbox: everything but the ledger's tables, the requests,
  the nonce counters, the rate-limit events and the id supply.
\<close>

definition outside_withdrawals :: "db \<Rightarrow> db" where
  "outside_withdrawals db = db\<lparr>ledger_accounts := [], ledger_transactions := [],
     ledger_entries := [], withdrawal_requests := [], hot_wallet_nonces := [],
     rate_limit_events := [], next_uuid := 0\<rparr>"

lemma outside_withdrawals_ledger:
  "ledger_only db db' \<Longrightarrow> outside_withdrawals db' = outside_withdrawals db"
  unfolding ledger_only_def outside_withdrawals_def by (erule ssubst) simp

lemma outside_withdrawals_rate:
  "rate_only db db' \<Longrightarrow> outside_withdrawals db' = outside_withdrawals db"
  unfolding rate_only_def outside_withdrawals_def by (erule conjE, erule ssubst) simp

lemma outside_withdrawals_D:
  assumes "outside_withdrawals db' = outside_withdrawals db"
  shows "users db' = users db" "assets db' = assets db"
    "deposit_addresses db' = deposit_addresses db"
    "onchain_deposits db' = onchain_deposits db" "nft_deposits db' = nft_deposits db"
    "nft_holdings db' = nft_holdings db" "nft_transfers db' = nft_transfers db"
    "nft_mint_requests db' = nft_mint_requests db"
    "nft_withdrawal_requests db' = nft_withdrawal_requests db" "nft_sweeps db' = nft_sweeps db"
    "chain_cursors db' = chain_cursors db" "db_now db' = db_now db"
proof -
  show "users db' = users db" "assets db' = assets db"
    "deposit_addresses db' = deposit_addresses db"
    "onchain_deposits db' = onchain_deposits db" "nft_deposits db' = nft_deposits db"
    "nft_holdings db' = nft_holdings db" "nft_transfers db' = nft_transfers db"
    "nft_mint_requests db' = nft_mint_requests db"
    "nft_withdrawal_requests db' = nft_withdrawal_requests db" "nft_sweeps db' = nft_sweeps db"
    "chain_cursors db' = chain_cursors db" "db_now db' = db_now db"
    using arg_cong [OF assms, of users] arg_cong [OF assms, of assets]
      arg_cong [OF assms, of deposit_addresses] arg_cong [OF assms, of onchain_deposits]
      arg_cong [OF assms, of nft_deposits] arg_cong [OF assms, of nft_holdings]
      arg_cong [OF assms, of nft_transfers] arg_cong [OF assms, of nft_mint_requests]
      arg_cong [OF assms, of nft_withdrawal_requests] arg_cong [OF assms, of nft_sweeps]
      arg_cong [OF assms, of chain_cursors] arg_cong [OF assms, of db_now]
    by (simp_all add: outside_withdrawals_def)
qed

section \<open>What a reservation does\<close>

definition withdraw_key :: "user \<Rightarrow> string \<Rightarrow> string" where
  "withdraw_key user k = scoped_idempotency_key ''withdraw'' (usr_id user) k"

definition reserved_key :: "uuid \<Rightarrow> account_key" where
  "reserved_key a = system_key WITHDRAWALS_RESERVED_ACCOUNT a"

definition settled_key :: "uuid \<Rightarrow> account_key" where
  "settled_key a = system_key WITHDRAWALS_SETTLED_ACCOUNT a"

text \<open>A reservation: one new request row, its amount moved to the reserve under its key.\<close>

definition reserved :: "db \<Rightarrow> db \<Rightarrow> string \<Rightarrow> withdrawal_request \<Rightarrow> bool" where
  "reserved db db' key w \<longleftrightarrow> ledger_wf db' \<and> key \<notin> used_keys db \<and>
     used_keys db' = insert key (used_keys db) \<and>
     bal db' = moved (wallet_key (wd_user_id w) (wd_asset_id w)) (reserved_key (wd_asset_id w))
       (wd_amount w) (bal db) \<and>
     wd_amount w \<le> bal db (wallet_key (wd_user_id w) (wd_asset_id w)) \<and>
     withdrawal_requests db' = withdrawal_requests db @ [w] \<and>
     next_uuid db \<le> wd_id w \<and> wd_id w < next_uuid db' \<and>
     wd_status w = WdRequested \<and> wd_nonce w = None \<and> wd_signed_tx w = None \<and>
     wd_tx_hash w = None \<and>
     hot_wallet_nonces db' = hot_wallet_nonces db \<and>
     outside_withdrawals db' = outside_withdrawals db"

lemma accounts_grew_next: "accounts_grew db db' \<Longrightarrow> next_uuid db \<le> next_uuid db'"
  by (simp add: accounts_grew_def)

lemma accounts_grew_ledger: "accounts_grew db db' \<Longrightarrow> ledger_only db db'"
  by (simp add: accounts_grew_def)

lemma reserve_withdrawal_ok:
  assumes wf: "ledger_wf db"
    and new: "\<And>t. find_transaction_by_idempotency_key db key = Inr (Some t) \<Longrightarrow>
      txn_ref_type t \<noteq> ''withdrawal_request''"
    and r: "reserve_withdrawal db user asset to amount key = Inr (res, db')"
  shows "\<exists>w. reserved db db' key w \<and> res = (wd_id w, WdRequested) \<and> wd_user_id w = usr_id user \<and>
    wd_asset_id w = ast_id asset \<and> wd_chain_id w = ast_chain_id asset \<and>
    wd_to_address w = to \<and> wd_amount w = amount"
proof -
  from r obtain x db1 av a db3 b db4 t where
    l: "lock_user_asset db user asset = Inr (x, db1)" and
    av: "available_balance db1 user asset = Inr av" "\<not> av < amount" and
    a: "get_user_wallet_account (insert_withdrawal db1 (new_withdrawal db1 user asset to amount))
      user asset = Inr (a, db3)" and
    b: "get_or_create_account db3 asset WITHDRAWALS_RESERVED_ACCOUNT OwSystem None = Inr (b, db4)" and
    p: "post db4 LeWithdrawal key [LedgerLeg a asset (- amount), LedgerLeg b asset amount]
      ''withdrawal_request'' (uuid_str (wd_id (new_withdrawal db1 user asset to amount)))
      = Inr (t, db')" and
    res: "res = (wd_id (new_withdrawal db1 user asset to amount), WdRequested)"
    by (auto simp: reserve_withdrawal_def Let_def split: prod.splits if_splits)
  let ?w = "new_withdrawal db1 user asset to amount"
  let ?db2 = "insert_withdrawal db1 ?w"
  note g1 = lock_user_asset_ok [OF wf l]
  note f2 = ledger_frame [of ?db2 db1, unfolded insert_withdrawal_def, simplified]
  have wf2: "ledger_wf ?db2"
    using f2(3) accounts_grew_wf [OF g1] by (simp add: insert_withdrawal_def)
  note a' = get_user_wallet_account_ok [OF wf2 a]
  note b' = get_system_account_ok [OF accounts_grew_wf [OF conjunct1 [OF a']] b]
  have st: "ledger_step ?db2 db' key (wallet_key (usr_id user) (ast_id asset))
      (system_key WITHDRAWALS_RESERVED_ACCOUNT (ast_id asset)) amount"
    by (rule fetch_fetch_post [OF wf2 a' get_system_account_ok [OF _ b] p]) simp
  have used2: "used_keys ?db2 = used_keys db" "bal ?db2 = bal db"
    using f2 g1 accounts_grew_used accounts_grew_bal by (simp_all add: insert_withdrawal_def)
  have fresh: "key \<notin> used_keys db"
  proof
    assume used: "key \<in> used_keys db"
    then have "key \<in> used_keys db4"
      using used2 accounts_grew_used [OF conjunct1 [OF a']]
        accounts_grew_used [OF conjunct1 [OF b']] by simp
    note t = post_used [OF this p]
    have "t \<in> set (ledger_transactions db)"
      using t a' b' g1 by (simp add: accounts_grew_def insert_withdrawal_def)
    then show False using new [of t] t find_transaction_used [OF wf] by auto
  qed
  have out: "outside_withdrawals db' = outside_withdrawals db"
    using outside_withdrawals_ledger [OF accounts_grew_ledger [OF g1]]
      outside_withdrawals_ledger [OF ledger_step_D(2) [OF st]]
    by (simp add: insert_withdrawal_def outside_withdrawals_def)
  have "amount \<le> bal db (wallet_key (usr_id user) (ast_id asset))"
    using av accounts_grew_bal [OF g1]
    by (auto simp: available_balance_bal [OF accounts_grew_wf [OF g1]])
  then have "reserved db db' key ?w"
    using st fresh used2 out ledger_only_frame [OF accounts_grew_ledger [OF g1]]
      ledger_only_frame [OF ledger_step_D(2) [OF st]] accounts_grew_next [OF g1]
      ledger_step_D(4) [OF st]
    by (auto simp: reserved_def ledger_step_def new_withdrawal_def reserved_key_def
        insert_withdrawal_def)
  then show ?thesis using res by (intro exI [of _ ?w]) (simp add: new_withdrawal_def)
qed

text \<open>Every way a withdrawal request can succeed: a replay, or a reservation of new funds.\<close>

lemma create_withdrawal_cases:
  assumes wf: "ledger_wf db"
    and c: "create_withdrawal ck st caps db user asset_id to amount k = Inr (res, db')"
  obtains (replay) t w where "db' = db" "withdraw_key user k \<in> used_keys db"
      "find_transaction_by_idempotency_key db (withdraw_key user k) = Inr (Some t)"
      "txn_ref_type t = ''withdrawal_request''" "uuid_parse (txn_ref_id t) = Some (wd_id w)"
      "w \<in> set (withdrawal_requests db)" "wd_user_id w = usr_id user" "res = (wd_id w, wd_status w)"
    | (fresh) db1 w asset where "enforce_rate_limit st db ''withdrawal'' (usr_id user) None = Inr db1"
      "0 < amount" "get_asset db asset_id = Inr asset"
      "\<forall>m. max_amount_base_units caps asset = Some m \<longrightarrow> amount \<le> m"
      "reserved db db' (withdraw_key user k) w" "res = (wd_id w, WdRequested)"
      "wd_user_id w = usr_id user" "wd_asset_id w = asset_id"
      "wd_chain_id w = ast_chain_id asset" "wd_amount w = amount"
      "to_checksum_address_strict ck to = Inr (wd_to_address w)"
proof -
  from c obtain ex where
    ex: "find_transaction_by_idempotency_key db (withdraw_key user k) = Inr ex"
    by (auto simp: create_withdrawal_def withdraw_key_def Let_def)
  show thesis
  proof (cases "\<exists>t. ex = Some t \<and> txn_ref_type t = ''withdrawal_request''")
    case True
    then obtain t where t: "ex = Some t" "txn_ref_type t = ''withdrawal_request''" by blast
    have "withdraw_key user k \<in> used_keys db"
      using ex t(1) find_transaction_Some by (force simp: used_keys_def)
    then show thesis
      using c ex t
      by (auto simp: create_withdrawal_def withdraw_key_def Let_def UUID_def
          get_withdrawal_for_user_def dest!: filter_single_in split: option.splits
          intro!: replay)
  next
    case False
    from False c ex obtain db1 addr asset where
      rate: "enforce_rate_limit st db ''withdrawal'' (usr_id user) None = Inr db1" and
      pos: "0 < amount" and addr: "checked_address ck to = Inr addr" and
      asset: "get_asset db1 asset_id = Inr asset" and
      cap: "\<forall>m. max_amount_base_units caps asset = Some m \<longrightarrow> amount \<le> m" and
      res: "reserve_withdrawal db1 user asset addr amount (withdraw_key user k) = Inr (res, db')"
      by (auto simp: create_withdrawal_def withdraw_key_def Let_def limit_error_def
          split: option.splits if_splits)
    note fr = enforce_frame [OF rate]
    note fl = rate_only_ledger [OF fr]
    have mono: "next_uuid db \<le> next_uuid db1" using fr by (simp add: rate_only_def)
    note lf = ledger_frame [OF fl(1,2,3)]
    have find1: "find_transaction_by_idempotency_key db1 = find_transaction_by_idempotency_key db"
      by (intro ext) (simp add: find_transaction_by_idempotency_key_def fl)
    have nr: "txn_ref_type t \<noteq> ''withdrawal_request''"
      if "find_transaction_by_idempotency_key db1 (withdraw_key user k) = Inr (Some t)" for t
      using that ex False unfolding find1 by auto
    obtain w where w: "reserved db1 db' (withdraw_key user k) w" "res = (wd_id w, WdRequested)"
        "wd_user_id w = usr_id user" "wd_asset_id w = ast_id asset"
        "wd_chain_id w = ast_chain_id asset" "wd_to_address w = addr" "wd_amount w = amount"
      using reserve_withdrawal_ok [OF lf(3) [OF mono wf] nr res] by blast
    have "reserved db db' (withdraw_key user k) w"
      using w(1) mono outside_withdrawals_rate [OF fr] unfolding reserved_def lf(1,2) fl by simp
    moreover have "to_checksum_address_strict ck to = Inr addr"
      using addr by (auto simp: checked_address_def split: sum.splits error.splits)
    moreover have "get_asset db asset_id = Inr asset" "ast_id asset = asset_id"
      using asset get_asset_Inr [OF asset] by (simp_all add: get_asset_def fl)
    ultimately show thesis using fresh [OF rate pos] w cap by simp
  qed
qed

section \<open>The invariant between the outbox and the ledger\<close>

definition settle_key :: "uuid \<Rightarrow> string" where
  "settle_key i = ''withdrawal-settle:'' @ uuid_str i"

definition reverse_key :: "uuid \<Rightarrow> string" where
  "reverse_key i = ''withdrawal-reverse:'' @ uuid_str i"

definition settlement_key :: "string \<Rightarrow> bool" where
  "settlement_key k \<longleftrightarrow> startswith k ''withdrawal-settle:'' \<or> startswith k ''withdrawal-reverse:''"

lemma settlement_keys [simp]:
  "settlement_key (settle_key i)" "settlement_key (reverse_key i)"
  "settle_key i = settle_key j \<longleftrightarrow> i = j" "reverse_key i = reverse_key j \<longleftrightarrow> i = j"
  "settle_key i \<noteq> reverse_key j" "reverse_key j \<noteq> settle_key i"
  by (simp_all add: settlement_key_def settle_key_def reverse_key_def startswith_def)

lemma request_keys_no_settlement [simp]:
  "\<not> settlement_key (withdraw_key u k)" "\<not> settlement_key (transfer_key u k)"
  by (simp_all add: settlement_key_def withdraw_key_def transfer_key_def
      scoped_idempotency_key_def startswith_def)

definition wd_open :: "withdrawal_status \<Rightarrow> bool" where
  "wd_open s \<longleftrightarrow> s \<in> {WdRequested, WdApproved, WdSigning, WdBroadcast}"

lemma wd_open_simps [simp, status_simps]:
  "wd_open WdRequested" "wd_open WdApproved" "wd_open WdSigning" "wd_open WdBroadcast"
  "\<not> wd_open WdConfirmed" "\<not> wd_open WdFailed" "\<not> wd_open WdRejected"
  by (simp_all add: wd_open_def)

text \<open>
  A request's keys say what became of its reservation: an open one is neither settled nor
  reversed, a confirmed one is settled only, a failed one is reversed only.
\<close>

definition wd_keys_ok :: "string set \<Rightarrow> withdrawal_request \<Rightarrow> bool" where
  "wd_keys_ok used w \<longleftrightarrow>
     (settle_key (wd_id w) \<in> used \<longleftrightarrow> wd_status w = WdConfirmed) \<and>
     (reverse_key (wd_id w) \<in> used \<longleftrightarrow> wd_status w = WdFailed)"

text \<open>Signing fixes the nonce and the signed transaction together.\<close>

definition wd_signed_ok :: "withdrawal_request \<Rightarrow> bool" where
  "wd_signed_ok w \<longleftrightarrow>
     (wd_status w \<in> {WdRequested, WdApproved} \<longrightarrow> wd_nonce w = None \<and> wd_signed_tx w = None) \<and>
     (wd_status w \<in> {WdSigning, WdBroadcast, WdConfirmed} \<longrightarrow>
        wd_nonce w \<noteq> None \<and> wd_signed_tx w \<noteq> None)"

definition open_total :: "db \<Rightarrow> uuid \<Rightarrow> int" where
  "open_total db a = sum_rows (\<lambda>w. wd_open (wd_status w) \<and> wd_asset_id w = a) wd_amount
     (withdrawal_requests db)"

definition confirmed_total :: "db \<Rightarrow> uuid \<Rightarrow> int" where
  "confirmed_total db a = sum_rows (\<lambda>w. wd_status w = WdConfirmed \<and> wd_asset_id w = a) wd_amount
     (withdrawal_requests db)"

definition wd_row_ok :: "db \<Rightarrow> withdrawal_request \<Rightarrow> bool" where
  "wd_row_ok db w \<longleftrightarrow> wd_id w < next_uuid db \<and> 0 < wd_amount w \<and>
     wd_keys_ok (used_keys db) w \<and> wd_signed_ok w"

definition withdrawals_ok :: "db \<Rightarrow> bool" where
  "withdrawals_ok db \<longleftrightarrow> ledger_wf db \<and> distinct (map wd_id (withdrawal_requests db)) \<and>
     (\<forall>w \<in> set (withdrawal_requests db). wd_row_ok db w) \<and>
     (\<forall>k \<in> used_keys db. settlement_key k \<longrightarrow>
        (\<exists>w \<in> set (withdrawal_requests db). k = settle_key (wd_id w) \<or> k = reverse_key (wd_id w))) \<and>
     (\<forall>a. bal db (reserved_key a) = open_total db a) \<and>
     (\<forall>a. bal db (settled_key a) = confirmed_total db a)"

lemma system_wallet_keys [simp]:
  "reserved_key a \<noteq> wallet_key u b" "settled_key a \<noteq> wallet_key u b"
  "wallet_key u b \<noteq> reserved_key a" "wallet_key u b \<noteq> settled_key a"
  "reserved_key a \<noteq> settled_key b" "settled_key b \<noteq> reserved_key a"
  "reserved_key a = reserved_key b \<longleftrightarrow> a = b" "settled_key a = settled_key b \<longleftrightarrow> a = b"
  by (auto simp: reserved_key_def settled_key_def wallet_key_def system_key_def
      WITHDRAWALS_RESERVED_ACCOUNT_def WITHDRAWALS_SETTLED_ACCOUNT_def)

text \<open>A fresh id has no settlement keys yet.\<close>

lemma fresh_settlement:
  assumes "withdrawals_ok db" "next_uuid db \<le> i"
  shows "settle_key i \<notin> used_keys db" "reverse_key i \<notin> used_keys db"
proof -
  have "i \<noteq> wd_id w" if "w \<in> set (withdrawal_requests db)" for w
    using assms that by (auto simp: withdrawals_ok_def wd_row_ok_def)
  then show "settle_key i \<notin> used_keys db" "reverse_key i \<notin> used_keys db"
    using assms(1) by (auto simp: withdrawals_ok_def dest!: bspec)
qed

text \<open>
  Whatever leaves the requests, the settlement keys and the two accounts alone keeps the
  invariant: deposits, transfers and the faucet.
\<close>

lemma withdrawals_ok_frame:
  assumes ok: "withdrawals_ok db" and wf: "ledger_wf db'"
    and rows: "withdrawal_requests db' = withdrawal_requests db"
    and mono: "next_uuid db \<le> next_uuid db'"
    and used: "used_keys db \<subseteq> used_keys db'"
      "\<And>k. k \<in> used_keys db' \<Longrightarrow> settlement_key k \<Longrightarrow> k \<in> used_keys db"
    and bals: "\<And>a. bal db' (reserved_key a) = bal db (reserved_key a)"
      "\<And>a. bal db' (settled_key a) = bal db (settled_key a)"
  shows "withdrawals_ok db'"
proof -
  have keys: "settle_key i \<in> used_keys db' \<longleftrightarrow> settle_key i \<in> used_keys db"
    "reverse_key i \<in> used_keys db' \<longleftrightarrow> reverse_key i \<in> used_keys db" for i
    using used by (auto dest: subsetD)
  have "wd_row_ok db' w" if "wd_row_ok db w" for w
    using that mono by (simp add: wd_row_ok_def wd_keys_ok_def keys)
  then show ?thesis
    using ok wf used(2) by (auto simp: withdrawals_ok_def rows bals open_total_def confirmed_total_def)
qed

lemma withdrawals_ok_step:
  assumes ok: "withdrawals_ok db" and st: "ledger_step db db' key src dst n"
    and key: "\<not> settlement_key key"
    and ends: "\<And>a. reserved_key a \<notin> {src, dst}" "\<And>a. settled_key a \<notin> {src, dst}"
  shows "withdrawals_ok db'"
proof (rule withdrawals_ok_frame [OF ok])
  note d = ledger_step_D [OF st]
  show "ledger_wf db'" "next_uuid db \<le> next_uuid db'" using d by simp_all
  show "withdrawal_requests db' = withdrawal_requests db" using ledger_only_frame [OF d(2)] by simp
  show "used_keys db \<subseteq> used_keys db'" using d(3) by auto
  show "k \<in> used_keys db" if "k \<in> used_keys db'" "settlement_key k" for k
    using that key d(3) by auto
  have "bal db' x = bal db x" if "x \<notin> {src, dst}" for x
    using d(5,6) that by (cases "key \<in> used_keys db") (simp_all add: moved_def)
  then show "bal db' (reserved_key a) = bal db (reserved_key a)"
    "bal db' (settled_key a) = bal db (settled_key a)" for a
    using ends by blast+
qed

text \<open>A reservation keeps the invariant: the new open request is matched by the reserve.\<close>

lemma withdrawals_ok_reserved:
  assumes ok: "withdrawals_ok db" and r: "reserved db db' (withdraw_key u k) w"
    and pos: "0 < wd_amount w"
  shows "withdrawals_ok db'"
proof -
  have rows: "withdrawal_requests db' = withdrawal_requests db @ [w]"
    and used: "used_keys db' = insert (withdraw_key u k) (used_keys db)"
    and ids: "next_uuid db \<le> wd_id w" "wd_id w < next_uuid db'"
    and st: "wd_status w = WdRequested" "wd_nonce w = None" "wd_signed_tx w = None"
    using r by (simp_all add: reserved_def)
  have keys: "settle_key i \<in> used_keys db' \<longleftrightarrow> settle_key i \<in> used_keys db"
    "reverse_key i \<in> used_keys db' \<longleftrightarrow> reverse_key i \<in> used_keys db" for i
    using used request_keys_no_settlement settlement_keys by (metis insert_iff)+
  have old: "wd_row_ok db' x \<and> wd_id x \<noteq> wd_id w" if "x \<in> set (withdrawal_requests db)" for x
    using ok that ids by (auto simp: withdrawals_ok_def wd_row_ok_def wd_keys_ok_def keys)
  have new: "wd_row_ok db' w"
    using fresh_settlement [OF ok ids(1)] ids(2) pos st
    by (simp add: wd_row_ok_def wd_keys_ok_def wd_signed_ok_def keys)
  have "bal db' (reserved_key a) = open_total db' a" "bal db' (settled_key a) = confirmed_total db' a"
    for a
    using ok r st by (auto simp: withdrawals_ok_def reserved_def moved_def open_total_def
        confirmed_total_def)
  moreover have "wd_id w \<notin> wd_id ` set (withdrawal_requests db)" using old by force
  moreover have "ledger_wf db'" using r by (simp add: reserved_def)
  ultimately show ?thesis
    using ok old new unfolding withdrawals_ok_def rows used by auto
qed

text \<open>Every withdrawal request keeps the invariant.\<close>

lemma create_withdrawal_keeps_ok:
  assumes ok: "withdrawals_ok db"
    and c: "create_withdrawal ck st caps db user asset_id to amount k = Inr (res, db')"
  shows "withdrawals_ok db'"
proof -
  have wf: "ledger_wf db" using ok by (simp add: withdrawals_ok_def)
  show ?thesis using wf c
  proof (cases rule: create_withdrawal_cases)
    case (replay t w)
    then show ?thesis using ok by simp
  next
    case (fresh db1 w asset)
    then show ?thesis using withdrawals_ok_reserved [OF ok] by simp
  qed
qed

section \<open>Retries\<close>

record withdraw_request =
  wr_user :: user
  wr_asset_id :: uuid
  wr_to_address :: string
  wr_amount :: int
  wr_key :: string

definition serve_withdrawal ::
  "(string \<Rightarrow> error + string) \<Rightarrow> settings \<Rightarrow> caps \<Rightarrow> withdraw_request \<Rightarrow> db
    \<Rightarrow> error + ((uuid \<times> withdrawal_status) \<times> db)" where
  "serve_withdrawal ck st caps x db = create_withdrawal ck st caps db (wr_user x) (wr_asset_id x)
     (wr_to_address x) (wr_amount x) (wr_key x)"

definition withdrawal_seen :: "withdraw_request \<Rightarrow> db \<Rightarrow> bool" where
  "withdrawal_seen x db \<longleftrightarrow> withdraw_key (wr_user x) (wr_key x) \<in> used_keys db"

interpretation withdrawal: idempotent_request "serve_withdrawal ck st caps" withdrawal_seen ledger_wf
  for ck st caps
proof
  fix d x r d' y
  assume ok: "ledger_wf d" and run: "serve_withdrawal ck st caps x d = Inr (r, d')"
  note run' = run [unfolded serve_withdrawal_def]
  have st: "ledger_wf d' \<and> used_keys d' = insert (withdraw_key (wr_user x) (wr_key x)) (used_keys d)"
    using ok run' by (cases rule: create_withdrawal_cases) (auto simp: ok reserved_def)
  show "ledger_wf d'" using st by simp
  show "withdrawal_seen x d'" using st by (simp add: withdrawal_seen_def)
  show "withdrawal_seen y d'" if "withdrawal_seen y d"
    using st that by (simp add: withdrawal_seen_def)
  show "d' = d" if "withdrawal_seen x d"
    using ok run' that unfolding withdrawal_seen_def
    by (cases rule: create_withdrawal_cases) (simp_all add: reserved_def)
qed

end
