(* ===== verification/Outbox.thy ===== *)
theory Outbox
  imports Chain_Types "HOL-Library.Sublist"
begin

text \<open>
  What the outbox workers share: the state their signing loops thread, the state their
  broadcast loops thread, the gate that decides about a broadcast transaction with no receipt,
  and the test that a receipt is buried and canonical. Two interfaces state what a worker's
  loop body promises; the facts proved in them (gap-free nonces, only durable transactions are
  broadcast) hold for every worker that interprets them.
\<close>

section \<open>Signing in nonce order\<close>

lemma subseq_set: "subseq xs ys \<Longrightarrow> set xs \<subseteq> set ys"
  by (induction rule: list_emb.induct) auto

lemma subseq_keeps_distinct: "subseq xs ys \<Longrightarrow> distinct ys \<Longrightarrow> distinct xs"
  by (induction rule: list_emb.induct) (auto dest: subseq_set)

record sign_state =
  ss_db :: db
  ss_next :: int      \<comment> \<open>\<open>hot_nonce.next_nonce\<close>\<close>
  ss_signed :: nat    \<comment> \<open>the loop's counter\<close>

text \<open>
  \<open>signed d i\<close> is the nonce and the raw transaction that row \<open>i\<close> of the outbox is bound to,
  \<open>known d\<close> the row ids. One body either leaves all bindings and the counter alone, or binds
  its row to the counter and advances it.
\<close>

locale nonce_outbox =
  fixes body :: "'r \<Rightarrow> sign_state \<Rightarrow> error + sign_state"
    and rid :: "'r \<Rightarrow> uuid"
    and known :: "db \<Rightarrow> uuid set"
    and signed :: "db \<Rightarrow> uuid \<Rightarrow> (int \<times> string) option"
    and chain :: int
  assumes body_known: "body r s = Inr s' \<Longrightarrow> known (ss_db s') = known (ss_db s)"
    and body_signs: "body r s = Inr s' \<Longrightarrow> rid r \<in> known (ss_db s) \<Longrightarrow>
      signed (ss_db s') = signed (ss_db s) \<and> ss_next s' = ss_next s \<and> ss_signed s' = ss_signed s \<or>
      (\<exists>raw. signed (ss_db s') = (signed (ss_db s))(rid r \<mapsto> (ss_next s, raw)) \<and>
         ss_next s' = ss_next s + 1 \<and> ss_signed s' = Suc (ss_signed s))"
    and body_counter: "body r s = Inr s' \<Longrightarrow> next_nonce_of (ss_db s) chain = Some (a, ss_next s) \<Longrightarrow>
      next_nonce_of (ss_db s') chain = Some (a, ss_next s')"
begin

text \<open>
  A pass signs some of the claimed rows, in the order claimed, with consecutive nonces from
  the counter; no other row's binding changes.
\<close>

lemma pass_gap_free:
  assumes "for_each body rs s = Inr s'" "distinct (map rid rs)"
    and "rid ` set rs \<subseteq> known (ss_db s)"
  shows "\<exists>js. subseq js (map rid rs) \<and> ss_next s' = ss_next s + int (length js) \<and>
    ss_signed s' = ss_signed s + length js \<and>
    (\<forall>k < length js. \<exists>raw. signed (ss_db s') (js ! k) = Some (ss_next s + int k, raw)) \<and>
    (\<forall>i. i \<notin> set js \<longrightarrow> signed (ss_db s') i = signed (ss_db s) i)"
  using assms
proof (induction rs arbitrary: s)
  case Nil
  then show ?case by (intro exI [of _ "[]"]) simp
next
  case (Cons r rs)
  from Cons.prems(1) obtain t where b: "body r s = Inr t" and l: "for_each body rs t = Inr s'"
    by auto
  have "rid ` set rs \<subseteq> known (ss_db t)" using Cons.prems(3) body_known [OF b] by simp
  with Cons.IH [OF l] Cons.prems(2) obtain js where
    js: "subseq js (map rid rs)" "ss_next s' = ss_next t + int (length js)"
      "ss_signed s' = ss_signed t + length js"
      "\<forall>k < length js. \<exists>raw. signed (ss_db s') (js ! k) = Some (ss_next t + int k, raw)"
      "\<forall>i. i \<notin> set js \<longrightarrow> signed (ss_db s') i = signed (ss_db t) i"
    by auto
  have notin: "rid r \<notin> set js" using Cons.prems(2) subseq_set [OF js(1)] by auto
  consider (skip) "signed (ss_db t) = signed (ss_db s)" "ss_next t = ss_next s"
      "ss_signed t = ss_signed s"
    | (sign) raw where "signed (ss_db t) = (signed (ss_db s))(rid r \<mapsto> (ss_next s, raw))"
      "ss_next t = ss_next s + 1" "ss_signed t = Suc (ss_signed s)"
    using body_signs [OF b] Cons.prems(3) by auto
  then show ?case
  proof cases
    case skip
    then show ?thesis using js by (intro exI [of _ js]) (auto simp: subseq_Cons')
  next
    case sign
    have "\<exists>raw. signed (ss_db s') ((rid r # js) ! k) = Some (ss_next s + int k, raw)"
      if "k < length (rid r # js)" for k
      using that js(4,5) sign notin by (cases k) (auto simp: algebra_simps)
    then show ?thesis using js sign by (intro exI [of _ "rid r # js"]) auto
  qed
qed

lemma pass_counter:
  assumes "for_each body rs s = Inr s'" "next_nonce_of (ss_db s) chain = Some (a, ss_next s)"
  shows "next_nonce_of (ss_db s') chain = Some (a, ss_next s')"
  by (rule for_each_inv [OF assms(1), where I = "\<lambda>s. next_nonce_of (ss_db s) chain = Some (a, ss_next s)"])
    (use assms(2) body_counter in auto)

text \<open>
  Hence every nonce the pass used was used once, and a row bound before the pass keeps its
  binding when the pass only claims unbound rows.
\<close>

lemma pass_nonces:
  assumes "for_each body rs s = Inr s'" "distinct (map rid rs)"
    and "rid ` set rs \<subseteq> known (ss_db s)" "\<forall>r \<in> set rs. signed (ss_db s) (rid r) = None"
  shows "signed (ss_db s) i = Some x \<Longrightarrow> signed (ss_db s') i = Some x"
    and "signed (ss_db s') i = Some (n, raw) \<Longrightarrow> signed (ss_db s) i = None \<Longrightarrow>
      i \<in> rid ` set rs \<and> ss_next s \<le> n \<and> n < ss_next s'"
    and "ss_next s \<le> n \<Longrightarrow> n < ss_next s' \<Longrightarrow>
      \<exists>!j. signed (ss_db s) j = None \<and> (\<exists>raw. signed (ss_db s') j = Some (n, raw))"
    and "ss_next s' = ss_next s + int (ss_signed s' - ss_signed s) \<and> ss_signed s \<le> ss_signed s'"
proof -
  obtain js where js: "subseq js (map rid rs)" "ss_next s' = ss_next s + int (length js)"
      "ss_signed s' = ss_signed s + length js"
      "\<And>k. k < length js \<Longrightarrow> \<exists>raw. signed (ss_db s') (js ! k) = Some (ss_next s + int k, raw)"
      "\<And>i. i \<notin> set js \<Longrightarrow> signed (ss_db s') i = signed (ss_db s) i"
    using pass_gap_free [OF assms(1-3)] by blast
  have sub: "set js \<subseteq> rid ` set rs" using subseq_set [OF js(1)] by simp
  have dist: "distinct js" by (rule subseq_keeps_distinct [OF js(1) assms(2)])
  have none: "signed (ss_db s) j = None" if "j \<in> set js" for j
    using that sub assms(4) by auto
  show "signed (ss_db s) i = Some x \<Longrightarrow> signed (ss_db s') i = Some x"
    using none js(5) by (cases "i \<in> set js") auto
  have pos: "\<exists>k < length js. i = js ! k \<and> n = ss_next s + int k"
    if "signed (ss_db s') i = Some (n, raw)" "signed (ss_db s) i = None" for i n raw
  proof -
    have "i \<in> set js" using that js(5) by (cases "i \<in> set js") auto
    then obtain k where "k < length js" "i = js ! k" by (auto simp: in_set_conv_nth)
    then show ?thesis using js(4) that by fastforce
  qed
  show "i \<in> rid ` set rs \<and> ss_next s \<le> n \<and> n < ss_next s'"
    if "signed (ss_db s') i = Some (n, raw)" "signed (ss_db s) i = None"
    using pos [OF that] sub js(2) by auto
  show "\<exists>!j. signed (ss_db s) j = None \<and> (\<exists>raw. signed (ss_db s') j = Some (n, raw))"
    if "ss_next s \<le> n" "n < ss_next s'"
  proof (rule ex1I)
    let ?k = "nat (n - ss_next s)"
    have k: "?k < length js" "ss_next s + int ?k = n" using that js(2) by auto
    then show "signed (ss_db s) (js ! ?k) = None \<and>
        (\<exists>raw. signed (ss_db s') (js ! ?k) = Some (n, raw))"
      using js(4) [OF k(1)] none by auto
    show "j = js ! ?k" if "signed (ss_db s) j = None \<and> (\<exists>raw. signed (ss_db s') j = Some (n, raw))" for j
      using pos that k(2) by fastforce
  qed
  show "ss_next s' = ss_next s + int (ss_signed s' - ss_signed s) \<and> ss_signed s \<le> ss_signed s'"
    using js(2,3) by simp
qed

end

section \<open>Broadcasting what was signed\<close>

text \<open>\<open>ORDER BY nonce\<close>: a missing nonce sorts last.\<close>

definition nonce_order :: "int option \<Rightarrow> nat \<times> int" where
  "nonce_order n = (case n of Some k \<Rightarrow> (0, k) | None \<Rightarrow> (1, 0))"

record broadcast_state =
  bs_db :: db
  bs_count :: nat
  bs_sent :: "string list"   \<comment> \<open>every raw transaction handed to the network\<close>

locale raw_broadcaster =
  fixes body :: "'r \<Rightarrow> broadcast_state \<Rightarrow> error + broadcast_state"
    and raw :: "'r \<Rightarrow> string option"
    and signed :: "db \<Rightarrow> uuid \<Rightarrow> (int \<times> string) option"
  assumes body_sends: "body r s = Inr s' \<Longrightarrow>
      bs_sent s' = bs_sent s \<or> (\<exists>x. raw r = Some x \<and> bs_sent s' = bs_sent s @ [x])"
    and body_keeps: "body r s = Inr s' \<Longrightarrow> signed (bs_db s') = signed (bs_db s)"
begin

text \<open>Only the stored raw transactions of the selected rows are sent, and none is re-signed.\<close>

lemma pass_sends:
  assumes "for_each body rs s = Inr s'"
  shows "set (bs_sent s') \<subseteq> set (bs_sent s) \<union> {x. \<exists>r \<in> set rs. raw r = Some x}"
  by (rule for_each_inv [OF assms, where
        I = "\<lambda>t. set (bs_sent t) \<subseteq> set (bs_sent s) \<union> {x. \<exists>r \<in> set rs. raw r = Some x}"])
    (use body_sends in fastforce)+

lemma pass_keeps:
  assumes "for_each body rs s = Inr s'" shows "signed (bs_db s') = signed (bs_db s)"
  by (rule for_each_inv [OF assms, where I = "\<lambda>t. signed (bs_db t) = signed (bs_db s)"])
    (use body_keeps in auto)

end

section \<open>Passes over the rows of a table\<close>

text \<open>
  A worker runs its body over rows it selected (\<open>pick\<close>) from a table. The contract of a body:
  it keeps an invariant, leaves the rows with other keys alone, and turns its own row into one
  that stands in the relation \<open>out\<close>; what holds of a row stays true afterwards.
\<close>

locale row_worker =
  fixes body :: "'r \<Rightarrow> 's \<Rightarrow> error + 's"
    and tab :: "'s \<Rightarrow> 'r list"
    and key :: "'r \<Rightarrow> uuid"
    and pick :: "'r \<Rightarrow> bool"
    and ok :: "'s \<Rightarrow> bool"
    and out :: "'s \<Rightarrow> 'r \<Rightarrow> 'r \<Rightarrow> bool"
  assumes keeps: "ok t \<Longrightarrow> r \<in> set (tab t) \<Longrightarrow> pick r \<Longrightarrow> body r t = Inr t' \<Longrightarrow> ok t'"
    and others: "ok t \<Longrightarrow> r \<in> set (tab t) \<Longrightarrow> pick r \<Longrightarrow> body r t = Inr t' \<Longrightarrow>
      x \<in> set (tab t) \<Longrightarrow> key x \<noteq> key r \<Longrightarrow> x \<in> set (tab t')"
    and row: "ok t \<Longrightarrow> r \<in> set (tab t) \<Longrightarrow> pick r \<Longrightarrow> body r t = Inr t' \<Longrightarrow>
      \<exists>r' \<in> set (tab t'). key r' = key r \<and> out t' r r'"
    and stays: "ok t \<Longrightarrow> r \<in> set (tab t) \<Longrightarrow> pick r \<Longrightarrow> body r t = Inr t' \<Longrightarrow>
      out t x x' \<Longrightarrow> out t' x x'"
begin

definition at :: "'s \<Rightarrow> 'r list \<Rightarrow> 'r list \<Rightarrow> 's \<Rightarrow> bool" where
  "at s done rest t \<longleftrightarrow> ok t \<and> distinct (map key rest) \<and> set rest \<subseteq> set (tab t) \<and>
     set rest \<subseteq> set (tab s) \<inter> set done \<and> (\<forall>r \<in> set rest. pick r) \<and>
     (\<forall>d \<in> set (tab s). d \<notin> set rest \<longrightarrow>
        (\<exists>d' \<in> set (tab t). key d' = key d \<and> (if d \<in> set done then out t d d' else d' = d)))"

text \<open>After the pass the invariant holds, every claimed row has its outcome, every other row is as before.\<close>

lemma pass:
  assumes l: "for_each body rs s = Inr s'" and s: "ok s" "distinct (map key (tab s))"
    and rs: "set rs \<subseteq> set (tab s)" "\<forall>r \<in> set rs. pick r" "distinct (map key rs)"
  shows "ok s'"
    and "d \<in> set (tab s) \<Longrightarrow>
      \<exists>d' \<in> set (tab s'). key d' = key d \<and> (if d \<in> set rs then out s' d d' else d' = d)"
proof -
  have uniq: "x = y" if "x \<in> set (tab s)" "y \<in> set (tab s)" "key x = key y" for x y
    using that s(2) by (auto simp: distinct_map inj_on_def)
  have "at s rs [] s'"
  proof (rule for_each_rest_inv [OF l, where I = "at s rs"])
    show "at s rs rs s" using s rs by (auto simp: at_def)
  next
    fix r rest t t'
    assume I: "at s rs (r # rest) t" and b: "body r t = Inr t'"
    have r: "ok t" "r \<in> set (tab t)" "pick r" "r \<in> set (tab s)" "r \<in> set rs"
      using I by (simp_all add: at_def)
    note K = keeps [OF r(1-3) b] others [OF r(1-3) b] row [OF r(1-3) b] stays [OF r(1-3) b]
    have ne: "key x \<noteq> key r" if "x \<in> set rest" for x using I that by (auto simp: at_def image_iff)
    have "\<exists>d' \<in> set (tab t'). key d' = key d \<and> (if d \<in> set rs then out t' d d' else d' = d)"
      if d: "d \<in> set (tab s)" "d \<notin> set rest" for d
    proof (cases "d = r")
      case True
      then show ?thesis using K(3) r(5) by auto
    next
      case False
      then obtain d' where d': "d' \<in> set (tab t)" "key d' = key d"
          "if d \<in> set rs then out t d d' else d' = d"
        using I d by (auto simp: at_def)
      have "key d' \<noteq> key r" using uniq [OF d(1) r(4)] False d'(2) by auto
      then show ?thesis using K(2,4) d' by (intro bexI [of _ d']) (auto split: if_splits)
    qed
    then show "at s rs rest t'" using I K(1,2) ne by (auto simp: at_def)
  qed
  then show "ok s'"
    and "d \<in> set (tab s) \<Longrightarrow>
      \<exists>d' \<in> set (tab s'). key d' = key d \<and> (if d \<in> set rs then out s' d d' else d' = d)"
    by (simp_all add: at_def)
qed

end

text \<open>A worker whose body also adds a weight of its row to a quantity of the state.\<close>

locale counting_worker = row_worker +
  fixes total :: "'b \<Rightarrow> int" and weight :: "'a \<Rightarrow> int"
  assumes counts: "ok t \<Longrightarrow> r \<in> set (tab t) \<Longrightarrow> pick r \<Longrightarrow> body r t = Inr t' \<Longrightarrow>
    total t' = total t + weight r"
begin

lemma pass_total:
  assumes "for_each body rs s = Inr s'" "ok s" "set rs \<subseteq> set (tab s)" "\<forall>r \<in> set rs. pick r"
    "distinct (map key rs)"
  shows "total s' = total s + sum_list (map weight rs)"
  using assms
proof (induction rs arbitrary: s)
  case (Cons r rs)
  from Cons.prems(1) obtain t where b: "body r s = Inr t" and l: "for_each body rs t = Inr s'" by auto
  have r: "ok s" "r \<in> set (tab s)" "pick r" using Cons.prems by simp_all
  have "set rs \<subseteq> set (tab t)"
  proof
    fix x assume x: "x \<in> set rs"
    then have "key x \<noteq> key r" using Cons.prems(5) by (auto simp: image_iff)
    with x show "x \<in> set (tab t)" using others [OF r b, of x] Cons.prems(3) by auto
  qed
  then show ?case using Cons.IH [OF l keeps [OF r b]] counts [OF r b] Cons.prems(4,5) by simp
qed simp

end

section \<open>Confirmation\<close>

text \<open>A receipt counts once it is buried under \<open>confirmations\<close> blocks and its block is canonical.\<close>

definition receipt_final :: "chain_client \<Rightarrow> int \<Rightarrow> int \<Rightarrow> tx_receipt \<Rightarrow> error + bool" where
  "receipt_final client head confirmations receipt =
     (if head - rc_block_number receipt < confirmations then Inr False
      else bind_res (cl_block_hash client (rc_block_number receipt)) (\<lambda>canonical.
        Inr (canonical = Some (rc_block_hash receipt))))"

text \<open>
  \<open>_reconcile_unmined\<close>: keep waiting, clear the marker, set it to the current head, or treat
  the transaction as dropped.
\<close>

datatype gate = GateKeep | GateClear | GateMark | GateDrop

definition unmined_gate ::
  "chain_client \<Rightarrow> string option \<Rightarrow> int option \<Rightarrow> int option \<Rightarrow> int \<Rightarrow> int \<Rightarrow> error + gate" where
  "unmined_gate client hot_wallet_address nonce unmined_since_block head confirmations =
     (case (hot_wallet_address, nonce) of
        (Some address, Some n) \<Rightarrow>
          bind_res (cl_latest_nonce client address) (\<lambda>latest.
          if latest \<le> n then Inr GateClear
          else case unmined_since_block of
            None \<Rightarrow> Inr GateMark
          | Some since \<Rightarrow> if confirmations \<le> head - since then Inr GateDrop else Inr GateKeep)
      | _ \<Rightarrow> Inr GateKeep)"

lemma receipt_final_True:
  "receipt_final client head c r = Inr True \<longleftrightarrow>
     c \<le> head - rc_block_number r \<and>
     cl_block_hash client (rc_block_number r) = Inr (Some (rc_block_hash r))"
  by (auto simp: receipt_final_def bind_res_Inr_iff)

lemma unmined_gate_Drop:
  "unmined_gate client hot nonce since head c = Inr GateDrop \<longleftrightarrow>
     (\<exists>a n latest b. hot = Some a \<and> nonce = Some n \<and> cl_latest_nonce client a = Inr latest \<and>
        n < latest \<and> since = Some b \<and> c \<le> head - b)"
proof
  assume "unmined_gate client hot nonce since head c = Inr GateDrop"
  then show "\<exists>a n latest b. hot = Some a \<and> nonce = Some n \<and> cl_latest_nonce client a = Inr latest \<and>
      n < latest \<and> since = Some b \<and> c \<le> head - b"
    by (auto simp: unmined_gate_def split: option.splits if_splits)
qed (auto simp: unmined_gate_def)

end
