(* ===== verification/Withdrawer.thy ===== *)
theory Withdrawer
  imports Withdrawals Outbox "HOL-Library.Product_Lexorder"
begin

text \<open>
  The withdrawal worker (\<open>worker/withdrawer.py\<close>): claim pending requests, sign them under
  consecutive hot-wallet nonces, broadcast what is signed, and settle or reverse the
  reservation once the chain has decided. Rows claimed by a query are the snapshot the loop
  runs over; an assignment to a row's attribute updates the row of that id.
\<close>

section \<open>Operations\<close>

definition update_withdrawal ::
  "uuid \<Rightarrow> (withdrawal_request \<Rightarrow> withdrawal_request) \<Rightarrow> db \<Rightarrow> db" where
  "update_withdrawal i f db =
     db\<lparr>withdrawal_requests := upd_row wd_id i f (withdrawal_requests db)\<rparr>"

definition DEFAULT_BATCH :: nat where "DEFAULT_BATCH = 20"

definition claim_pending :: "db \<Rightarrow> int \<Rightarrow> nat \<Rightarrow> withdrawal_request list" where
  "claim_pending db chain_id batch =
     take batch (sort_key (\<lambda>w. (wd_created_at w, wd_id w))
       (filter (\<lambda>w. wd_chain_id w = chain_id \<and> wd_status w \<in> {WdRequested, WdApproved})
         (withdrawal_requests db)))"

definition withdrawal_sign ::
  "chain_client \<Rightarrow> asset \<Rightarrow> withdrawal_request \<Rightarrow> string \<Rightarrow> int \<Rightarrow> int \<Rightarrow> error + signed_tx" where
  "withdrawal_sign client asset request private_key nonce gas_price =
     (let amount = wd_amount request;
          unsupported = Inl (ValueError (''withdrawal asset '' @ uuid_str (ast_id asset) @ '' (''
            @ asset_type_str (ast_type asset) @ '') is not withdrawable'')) in
      case ast_type asset of
        NATIVE \<Rightarrow> cl_sign_native client private_key (wd_to_address request) amount nonce gas_price
      | ERC20 \<Rightarrow>
          (case ast_contract_address asset of
             Some token \<Rightarrow>
               cl_sign_erc20 client private_key token (wd_to_address request) amount nonce gas_price
           | None \<Rightarrow> unsupported)
      | ERC721 \<Rightarrow> unsupported)"

text \<open>The ledger part of \<open>_reverse_reservation\<close>, then its two assignments to the request.\<close>

definition post_reversal :: "withdrawal_request \<Rightarrow> db \<Rightarrow> error + db" where
  "post_reversal request db =
     bind_res (load_asset db (wd_asset_id request)) (\<lambda>asset.
     bind_res (load_user db (wd_user_id request)) (\<lambda>user.
     let amount = wd_amount request in
     bind_res (get_or_create_account db asset WITHDRAWALS_RESERVED_ACCOUNT OwSystem None)
       (\<lambda>(reserved, db).
     bind_res (get_user_wallet_account db user asset) (\<lambda>(wallet, db).
     bind_res (post db LeReversal (''withdrawal-reverse:'' @ uuid_str (wd_id request))
         [LedgerLeg reserved asset (- amount), LedgerLeg wallet asset amount]
         ''withdrawal_request'' (uuid_str (wd_id request))) (\<lambda>(_, db). Inr db)))))"

definition reverse_reservation :: "db \<Rightarrow> withdrawal_request \<Rightarrow> string \<Rightarrow> error + db" where
  "reverse_reservation db request error_message =
     bind_res (post_reversal request db) (\<lambda>db.
     Inr (update_withdrawal (wd_id request)
       (\<lambda>w. w\<lparr>wd_status := WdFailed, wd_error := Some error_message\<rparr>) db))"

definition settle :: "withdrawal_request \<Rightarrow> db \<Rightarrow> error + db" where
  "settle request db =
     bind_res (load_asset db (wd_asset_id request)) (\<lambda>asset.
     let amount = wd_amount request in
     bind_res (get_or_create_account db asset WITHDRAWALS_RESERVED_ACCOUNT OwSystem None)
       (\<lambda>(reserved, db).
     bind_res (get_or_create_account db asset WITHDRAWALS_SETTLED_ACCOUNT OwSystem None)
       (\<lambda>(settled, db).
     bind_res (post db LeWithdrawal (''withdrawal-settle:'' @ uuid_str (wd_id request))
         [LedgerLeg reserved asset (- amount), LedgerLeg settled asset amount]
         ''withdrawal_request'' (uuid_str (wd_id request))) (\<lambda>(_, db). Inr db))))"

text \<open>
  One iteration of the signing loop. \<open>except ValueError\<close> refunds, any other exception leaves
  the request for a later pass.
\<close>

definition sign_request ::
  "chain_client \<Rightarrow> string \<Rightarrow> int \<Rightarrow> withdrawal_request \<Rightarrow> sign_state \<Rightarrow> error + sign_state" where
  "sign_request client hot_wallet_key gas_price request s =
     (let nonce = ss_next s in
      case load_asset (ss_db s) (wd_asset_id request) of
        Inl exc \<Rightarrow>
          if is_value_error exc
          then bind_res (reverse_reservation (ss_db s) request (error_text exc))
                 (\<lambda>db. Inr (s\<lparr>ss_db := db\<rparr>))
          else Inr s
      | Inr asset \<Rightarrow>
          let db = update_withdrawal (wd_id request)
                (\<lambda>w. w\<lparr>wd_attempts := wd_attempts w + 1\<rparr>) (ss_db s) in
          case withdrawal_sign client asset request hot_wallet_key nonce gas_price of
            Inl exc \<Rightarrow>
              if is_value_error exc
              then bind_res (reverse_reservation db request (error_text exc))
                     (\<lambda>db. Inr (s\<lparr>ss_db := db\<rparr>))
              else Inr (s\<lparr>ss_db := db\<rparr>)
          | Inr tx \<Rightarrow>
              Inr \<lparr>ss_db = set_next_nonce (cl_chain_id client) (nonce + 1)
                    (update_withdrawal (wd_id request)
                      (\<lambda>w. w\<lparr>wd_signed_tx := Some (stx_raw tx), wd_tx_hash := Some (stx_tx_hash tx),
                             wd_nonce := Some nonce, wd_status := WdSigning\<rparr>) db),
                   ss_next = nonce + 1, ss_signed = Suc (ss_signed s)\<rparr>)"

definition sign_pending ::
  "db \<Rightarrow> chain_client \<Rightarrow> string \<Rightarrow> string \<Rightarrow> nat \<Rightarrow> error + (nat \<times> db)" where
  "sign_pending db client hot_wallet_key hot_wallet_address batch =
     (let requests = claim_pending db (cl_chain_id client) batch in
      if requests = [] then Inr (0, db)
      else
        bind_res (nonce_row db client hot_wallet_address) (\<lambda>(hot_nonce, db).
        bind_res (cl_suggested_gas_price client) (\<lambda>gas_price.
        bind_res (for_each (sign_request client hot_wallet_key gas_price) requests
            \<lparr>ss_db = db, ss_next = hw_next_nonce hot_nonce, ss_signed = 0\<rparr>)
          (\<lambda>s. Inr (ss_signed s, ss_db s)))))"

definition signing_rows :: "db \<Rightarrow> int \<Rightarrow> withdrawal_request list" where
  "signing_rows db chain_id = sort_key (\<lambda>w. nonce_order (wd_nonce w))
     (filter (\<lambda>w. wd_chain_id w = chain_id \<and> wd_status w = WdSigning) (withdrawal_requests db))"

definition broadcast_request ::
  "chain_client \<Rightarrow> withdrawal_request \<Rightarrow> broadcast_state \<Rightarrow> error + broadcast_state" where
  "broadcast_request client request s =
     (case wd_signed_tx request of
        None \<Rightarrow> Inr s
      | Some raw \<Rightarrow>
          (let sent = bs_sent s @ [raw] in
           case cl_broadcast_raw client raw of
             Inl exc \<Rightarrow> if is_chain_rpc_error exc then Inr (s\<lparr>bs_sent := sent\<rparr>) else Inl exc
           | Inr tx_hash \<Rightarrow>
               Inr \<lparr>bs_db = update_withdrawal (wd_id request)
                      (\<lambda>w. w\<lparr>wd_tx_hash := Some tx_hash, wd_status := WdBroadcast\<rparr>) (bs_db s),
                    bs_count = Suc (bs_count s), bs_sent = sent\<rparr>))"

definition broadcast_signed :: "db \<Rightarrow> chain_client \<Rightarrow> error + broadcast_state" where
  "broadcast_signed db client =
     for_each (broadcast_request client) (signing_rows db (cl_chain_id client))
       \<lparr>bs_db = db, bs_count = 0, bs_sent = []\<rparr>"

definition broadcast_pending ::
  "db \<Rightarrow> chain_client \<Rightarrow> string \<Rightarrow> string \<Rightarrow> nat \<Rightarrow> error + broadcast_state" where
  "broadcast_pending db client hot_wallet_key hot_wallet_address batch =
     bind_res (sign_pending db client hot_wallet_key hot_wallet_address batch)
       (\<lambda>(_, db). broadcast_signed db client)"

definition set_unmined :: "int option \<Rightarrow> withdrawal_request \<Rightarrow> db \<Rightarrow> db" where
  "set_unmined m request db =
     update_withdrawal (wd_id request) (\<lambda>w. w\<lparr>wd_unmined_since_block := m\<rparr>) db"

definition reconcile_unmined ::
  "db \<Rightarrow> chain_client \<Rightarrow> withdrawal_request \<Rightarrow> string option \<Rightarrow> int \<Rightarrow> int \<Rightarrow> error + db" where
  "reconcile_unmined db client request hot_wallet_address head confirmations =
     bind_res (unmined_gate client hot_wallet_address (wd_nonce request)
         (wd_unmined_since_block request) head confirmations) (\<lambda>g.
     case g of
       GateKeep \<Rightarrow> Inr db
     | GateClear \<Rightarrow> Inr (set_unmined None request db)
     | GateMark \<Rightarrow> Inr (set_unmined (Some head) request db)
     | GateDrop \<Rightarrow> reverse_reservation db request ''transaction dropped (nonce superseded)'')"

definition confirm_request ::
  "chain_client \<Rightarrow> int \<Rightarrow> int \<Rightarrow> string option \<Rightarrow> withdrawal_request \<Rightarrow> db \<times> nat
    \<Rightarrow> error + (db \<times> nat)" where
  "confirm_request client head confirmations hot_wallet_address request s =
     (case s of (db, settled) \<Rightarrow>
      case wd_tx_hash request of
        None \<Rightarrow> Inr s
      | Some tx_hash \<Rightarrow>
        bind_res (cl_get_receipt client tx_hash) (\<lambda>receipt.
        case receipt of
          None \<Rightarrow>
            bind_res (reconcile_unmined db client request hot_wallet_address head confirmations)
              (\<lambda>db. Inr (db, settled))
        | Some r \<Rightarrow>
            (let db = set_unmined None request db in
             bind_res (receipt_final client head confirmations r) (\<lambda>final.
             if \<not> final then Inr (db, settled)
             else if rc_status r = 1 then
               bind_res (settle request db) (\<lambda>db.
               Inr (update_withdrawal (wd_id request) (\<lambda>w. w\<lparr>wd_status := WdConfirmed\<rparr>) db,
                    Suc settled))
             else
               bind_res (reverse_reservation db request ''transaction reverted on-chain'')
                 (\<lambda>db. Inr (db, settled))))))"

definition broadcast_rows :: "db \<Rightarrow> int \<Rightarrow> withdrawal_request list" where
  "broadcast_rows db chain_id =
     filter (\<lambda>w. wd_chain_id w = chain_id \<and> wd_status w = WdBroadcast) (withdrawal_requests db)"

definition confirm_broadcast ::
  "db \<Rightarrow> chain_client \<Rightarrow> int \<Rightarrow> string option \<Rightarrow> error + (nat \<times> db)" where
  "confirm_broadcast db client confirmations hot_wallet_address =
     bind_res (cl_block_number client) (\<lambda>head.
     bind_res (for_each (confirm_request client head confirmations hot_wallet_address)
         (broadcast_rows db (cl_chain_id client)) (db, 0))
       (\<lambda>(db, settled). Inr (settled, db)))"

section \<open>Bindings of requests to signed transactions\<close>

definition wd_ids :: "db \<Rightarrow> uuid set" where
  "wd_ids db = wd_id ` set (withdrawal_requests db)"

definition wd_bound :: "withdrawal_request \<Rightarrow> (int \<times> string) option" where
  "wd_bound w = (case (wd_nonce w, wd_signed_tx w) of (Some n, Some r) \<Rightarrow> Some (n, r) | _ \<Rightarrow> None)"

definition wd_binding :: "db \<Rightarrow> uuid \<Rightarrow> (int \<times> string) option" where
  "wd_binding db i = (case get_row wd_id i (withdrawal_requests db) of
     None \<Rightarrow> None | Some w \<Rightarrow> wd_bound w)"

text \<open>An update that keeps the row's id.\<close>

definition keeps_id :: "(withdrawal_request \<Rightarrow> withdrawal_request) \<Rightarrow> bool" where
  "keeps_id f \<longleftrightarrow> (\<forall>w. wd_id (f w) = wd_id w)"

lemma wd_ids_update [simp]: "keeps_id f \<Longrightarrow> wd_ids (update_withdrawal i f db) = wd_ids db"
proof -
  assume "keeps_id f"
  then have "map wd_id (upd_row wd_id i f (withdrawal_requests db)) = map wd_id (withdrawal_requests db)"
    by (simp add: keeps_id_def map_key_upd_row)
  from arg_cong [OF this, of set] show ?thesis by (simp add: wd_ids_def update_withdrawal_def)
qed

lemma wd_binding_update:
  "keeps_id f \<Longrightarrow> wd_binding (update_withdrawal i f db) =
     (\<lambda>j. if j = i then (case get_row wd_id i (withdrawal_requests db) of
          None \<Rightarrow> None | Some w \<Rightarrow> wd_bound (f w)) else wd_binding db j)"
  by (auto simp: fun_eq_iff wd_binding_def update_withdrawal_def keeps_id_def
      get_row_upd_row_same get_row_upd_row_other split: option.splits)

lemma wd_binding_update_same:
  "keeps_id f \<Longrightarrow> (\<And>w. wd_bound (f w) = wd_bound w) \<Longrightarrow>
   wd_binding (update_withdrawal i f db) = wd_binding db"
  by (auto simp: wd_binding_update fun_eq_iff wd_binding_def split: option.splits)

lemma next_nonce_update [simp]: "next_nonce_of (update_withdrawal i f db) = next_nonce_of db"
  by (simp add: fun_eq_iff next_nonce_of_def update_withdrawal_def)

lemma wd_binding_set_next [simp]:
  "wd_binding (set_next_nonce c n db) = wd_binding db" "wd_ids (set_next_nonce c n db) = wd_ids db"
  by (simp_all add: fun_eq_iff wd_binding_def wd_ids_def set_next_nonce_def)

lemma withdrawals_ledger_only:
  assumes "ledger_only db db'"
  shows "wd_binding db' = wd_binding db" "wd_ids db' = wd_ids db"
    "next_nonce_of db' = next_nonce_of db"
  using ledger_only_frame [OF assms] by (simp_all add: fun_eq_iff wd_binding_def wd_ids_def next_nonce_of_def)

text \<open>The two postings as clients of the ledger.\<close>

lemma post_reversal_step:
  assumes wf: "ledger_wf db" and r: "post_reversal r db = Inr db'"
  shows "ledger_step db db' (reverse_key (wd_id r)) (reserved_key (wd_asset_id r))
    (wallet_key (wd_user_id r) (wd_asset_id r)) (wd_amount r)"
proof -
  from r obtain asset user a d1 b d2 t where
    asset: "load_asset db (wd_asset_id r) = Inr asset" and
    user: "load_user db (wd_user_id r) = Inr user" and
    a: "get_or_create_account db asset WITHDRAWALS_RESERVED_ACCOUNT OwSystem None = Inr (a, d1)" and
    b: "get_user_wallet_account d1 user asset = Inr (b, d2)" and
    p: "post d2 LeReversal (''withdrawal-reverse:'' @ uuid_str (wd_id r))
         [LedgerLeg a asset (- wd_amount r), LedgerLeg b asset (wd_amount r)]
         ''withdrawal_request'' (uuid_str (wd_id r)) = Inr (t, db')"
    by (auto simp: post_reversal_def Let_def split: prod.splits)
  from fetch_fetch_post [OF wf get_system_account_ok [OF _ a] get_user_wallet_account_ok [OF _ b] p]
  show ?thesis
    using load_asset_Inr [OF asset] load_user_Inr [OF user]
    by (simp add: reverse_key_def reserved_key_def)
qed

lemma settle_step:
  assumes wf: "ledger_wf db" and r: "settle r db = Inr db'"
  shows "ledger_step db db' (settle_key (wd_id r)) (reserved_key (wd_asset_id r))
    (settled_key (wd_asset_id r)) (wd_amount r)"
proof -
  from r obtain asset a d1 b d2 t where
    asset: "load_asset db (wd_asset_id r) = Inr asset" and
    a: "get_or_create_account db asset WITHDRAWALS_RESERVED_ACCOUNT OwSystem None = Inr (a, d1)" and
    b: "get_or_create_account d1 asset WITHDRAWALS_SETTLED_ACCOUNT OwSystem None = Inr (b, d2)" and
    p: "post d2 LeWithdrawal (''withdrawal-settle:'' @ uuid_str (wd_id r))
         [LedgerLeg a asset (- wd_amount r), LedgerLeg b asset (wd_amount r)]
         ''withdrawal_request'' (uuid_str (wd_id r)) = Inr (t, db')"
    by (auto simp: settle_def Let_def split: prod.splits)
  from fetch_fetch_post [OF wf get_system_account_ok [OF _ a] get_system_account_ok [OF _ b] p]
  show ?thesis
    using load_asset_Inr [OF asset] by (simp add: settle_key_def reserved_key_def settled_key_def)
qed

interpretation reversal: ledger_client post_reversal "\<lambda>r. reverse_key (wd_id r)"
    "\<lambda>r. reserved_key (wd_asset_id r)" "\<lambda>r. wallet_key (wd_user_id r) (wd_asset_id r)" wd_amount
  by unfold_locales (rule post_reversal_step)

interpretation settlement: ledger_client settle "\<lambda>r. settle_key (wd_id r)"
    "\<lambda>r. reserved_key (wd_asset_id r)" "\<lambda>r. settled_key (wd_asset_id r)" wd_amount
  by unfold_locales (rule settle_step)

lemma post_reversal_only: "post_reversal r db = Inr db' \<Longrightarrow> ledger_only db db'"
  unfolding post_reversal_def get_user_wallet_account_def Let_def
  by (auto split: prod.splits dest!: get_or_create_account_only post_ledger_only
      intro: ledger_only_trans)

lemma reverse_shape:
  assumes "reverse_reservation db r e = Inr db'"
  obtains db1 where "post_reversal r db = Inr db1" "ledger_only db db1"
    "db' = update_withdrawal (wd_id r) (\<lambda>w. w\<lparr>wd_status := WdFailed, wd_error := Some e\<rparr>) db1"
  using assms post_reversal_only by (auto simp: reverse_reservation_def)

lemma keeps_id_simps [simp]:
  "keeps_id (\<lambda>w. w\<lparr>wd_attempts := f1 w\<rparr>)"
  "keeps_id (\<lambda>w. w\<lparr>wd_status := s, wd_error := e\<rparr>)"
  "keeps_id (\<lambda>w. w\<lparr>wd_status := s\<rparr>)"
  "keeps_id (\<lambda>w. w\<lparr>wd_tx_hash := h, wd_status := s\<rparr>)"
  "keeps_id (\<lambda>w. w\<lparr>wd_unmined_since_block := m\<rparr>)"
  "keeps_id (\<lambda>w. w\<lparr>wd_signed_tx := x, wd_tx_hash := h, wd_nonce := n, wd_status := s\<rparr>)"
  by (simp_all add: keeps_id_def)

lemma reverse_keeps_binding:
  assumes "reverse_reservation db r e = Inr db'"
  shows "wd_binding db' = wd_binding db" "wd_ids db' = wd_ids db"
    "next_nonce_of db' = next_nonce_of db"
  using assms by (rule reverse_shape;
      simp add: wd_binding_update_same wd_bound_def withdrawals_ledger_only)+

text \<open>What one iteration of the signing loop does to the bindings and the counter.\<close>

lemma sign_request_effect:
  assumes "sign_request client key gas r s = Inr s'"
  shows "wd_ids (ss_db s') = wd_ids (ss_db s)"
    and "wd_id r \<in> wd_ids (ss_db s) \<Longrightarrow>
      wd_binding (ss_db s') = wd_binding (ss_db s) \<and> ss_next s' = ss_next s \<and>
        ss_signed s' = ss_signed s \<or>
      (\<exists>raw. wd_binding (ss_db s') = (wd_binding (ss_db s))(wd_id r \<mapsto> (ss_next s, raw)) \<and>
         ss_next s' = ss_next s + 1 \<and> ss_signed s' = Suc (ss_signed s))"
    and "next_nonce_of (ss_db s) (cl_chain_id client) = Some (a, ss_next s) \<Longrightarrow>
      next_nonce_of (ss_db s') (cl_chain_id client) = Some (a, ss_next s')"
proof -
  let ?att = "update_withdrawal (wd_id r) (\<lambda>w. w\<lparr>wd_attempts := wd_attempts w + 1\<rparr>) (ss_db s)"
  have att: "wd_binding ?att = wd_binding (ss_db s)" "wd_ids ?att = wd_ids (ss_db s)"
    by (simp_all add: wd_binding_update_same wd_bound_def)
  consider (same) "ss_next s' = ss_next s" "ss_signed s' = ss_signed s"
      "wd_binding (ss_db s') = wd_binding (ss_db s)" "wd_ids (ss_db s') = wd_ids (ss_db s)"
      "next_nonce_of (ss_db s') = next_nonce_of (ss_db s)"
    | (sign) tx :: signed_tx where "s' = \<lparr>ss_db = set_next_nonce (cl_chain_id client) (ss_next s + 1)
          (update_withdrawal (wd_id r)
            (\<lambda>w. w\<lparr>wd_signed_tx := Some (stx_raw tx), wd_tx_hash := Some (stx_tx_hash tx),
                   wd_nonce := Some (ss_next s), wd_status := WdSigning\<rparr>) ?att),
        ss_next = ss_next s + 1, ss_signed = Suc (ss_signed s)\<rparr>"
  proof (cases "\<exists>asset tx. load_asset (ss_db s) (wd_asset_id r) = Inr asset \<and>
      withdrawal_sign client asset r key (ss_next s) gas = Inr tx")
    case True
    then obtain asset tx where t: "load_asset (ss_db s) (wd_asset_id r) = Inr asset"
      "withdrawal_sign client asset r key (ss_next s) gas = Inr tx" by blast
    show thesis by (rule sign [of tx]) (use assms t in \<open>simp add: sign_request_def Let_def\<close>)
  next
    case False
    then show thesis
      using assms att reverse_keeps_binding
      by (intro same) (auto simp: sign_request_def Let_def split: sum.splits if_splits)
  qed
  note cases = this
  show "wd_ids (ss_db s') = wd_ids (ss_db s)" using cases by cases (simp_all add: att)
  show "next_nonce_of (ss_db s) (cl_chain_id client) = Some (a, ss_next s) \<Longrightarrow>
      next_nonce_of (ss_db s') (cl_chain_id client) = Some (a, ss_next s')"
    using cases by cases (simp_all add: next_nonce_of_set)
  show "wd_binding (ss_db s') = wd_binding (ss_db s) \<and> ss_next s' = ss_next s \<and>
        ss_signed s' = ss_signed s \<or>
      (\<exists>raw. wd_binding (ss_db s') = (wd_binding (ss_db s))(wd_id r \<mapsto> (ss_next s, raw)) \<and>
         ss_next s' = ss_next s + 1 \<and> ss_signed s' = Suc (ss_signed s))"
    if "wd_id r \<in> wd_ids (ss_db s)"
    using cases
  proof cases
    case same
    then show ?thesis by simp
  next
    case (sign tx)
    have "wd_id r \<in> wd_ids ?att" using that by simp
    then have "get_row wd_id (wd_id r) (withdrawal_requests ?att) \<noteq> None"
      unfolding wd_ids_def by (simp only: get_row_None_iff simp_thms)
    then obtain w where "get_row wd_id (wd_id r) (withdrawal_requests ?att) = Some w" by blast
    moreover have "wd_binding (update_withdrawal (wd_id r) f d) = (wd_binding d)(wd_id r := wd_bound (f w))"
      if "keeps_id f" "get_row wd_id (wd_id r) (withdrawal_requests d) = Some w" for f d w
      using that by (simp add: wd_binding_update fun_eq_iff)
    ultimately have "wd_binding (ss_db s') = (wd_binding (ss_db s))(wd_id r \<mapsto> (ss_next s, stx_raw tx))"
      unfolding sign by (simp add: att wd_bound_def)
    then show ?thesis unfolding sign by auto
  qed
qed

interpretation withdrawer: nonce_outbox "sign_request client key gas" wd_id wd_ids wd_binding
    "cl_chain_id client" for client key gas
  by unfold_locales (fact sign_request_effect)+

interpretation withdrawer_send: raw_broadcaster "broadcast_request client" wd_signed_tx wd_binding
    for client
proof
  fix r s s'
  assume b: "broadcast_request client r s = Inr s'"
  show "bs_sent s' = bs_sent s \<or> (\<exists>x. wd_signed_tx r = Some x \<and> bs_sent s' = bs_sent s @ [x])"
    using b by (auto simp: broadcast_request_def Let_def split: option.splits sum.splits if_splits)
  show "wd_binding (bs_db s') = wd_binding (bs_db s)"
    using b by (auto simp: broadcast_request_def Let_def wd_binding_update_same wd_bound_def
        split: option.splits sum.splits if_splits)
qed

section \<open>The phases keep the invariant\<close>

lemma withdrawals_ok_D:
  assumes "withdrawals_ok db"
  shows "ledger_wf db" "distinct (map wd_id (withdrawal_requests db))"
    "w \<in> set (withdrawal_requests db) \<Longrightarrow> wd_row_ok db w"
    "bal db (reserved_key a) = open_total db a" "bal db (settled_key a) = confirmed_total db a"
  using assms by (simp_all add: withdrawals_ok_def)

lemma ledger_update [simp]:
  "ledger_wf (update_withdrawal i f db) = ledger_wf db" "bal (update_withdrawal i f db) = bal db"
  "used_keys (update_withdrawal i f db) = used_keys db"
  "next_uuid (update_withdrawal i f db) = next_uuid db"
  "ledger_wf (set_next_nonce c n db) = ledger_wf db" "bal (set_next_nonce c n db) = bal db"
  "used_keys (set_next_nonce c n db) = used_keys db"
  "next_uuid (set_next_nonce c n db) = next_uuid db"
  "withdrawal_requests (set_next_nonce c n db) = withdrawal_requests db"
  by (simp_all add: update_withdrawal_def set_next_nonce_def ledger_wf_def entry_ok_def
      txn_total_def bal_def used_keys_def fun_eq_iff)

text \<open>
  One row changes, together with the ledger: the postings made for it have to match the change
  of its status.
\<close>

lemma withdrawals_ok_row:
  assumes ok: "withdrawals_ok db" and w: "w \<in> set (withdrawal_requests db)"
    and wf: "ledger_wf db1" and rows: "withdrawal_requests db1 = withdrawal_requests db"
    and mono: "next_uuid db \<le> next_uuid db1"
    and f: "wd_id (f w) = wd_id w" "wd_amount (f w) = wd_amount w" "wd_asset_id (f w) = wd_asset_id w"
      "wd_signed_ok (f w)" "wd_keys_ok (used_keys db1) (f w)"
    and used: "\<And>k. settlement_key k \<Longrightarrow> k \<notin> {settle_key (wd_id w), reverse_key (wd_id w)} \<Longrightarrow>
      k \<in> used_keys db1 \<longleftrightarrow> k \<in> used_keys db"
    and bals: "\<And>a. bal db1 (reserved_key a) = bal db (reserved_key a)
        - (if wd_open (wd_status w) \<and> wd_asset_id w = a then wd_amount w else 0)
        + (if wd_open (wd_status (f w)) \<and> wd_asset_id w = a then wd_amount w else 0)"
      "\<And>a. bal db1 (settled_key a) = bal db (settled_key a)
        - (if wd_status w = WdConfirmed \<and> wd_asset_id w = a then wd_amount w else 0)
        + (if wd_status (f w) = WdConfirmed \<and> wd_asset_id w = a then wd_amount w else 0)"
  shows "withdrawals_ok (update_withdrawal (wd_id w) f db1)"
proof -
  let ?rows = "withdrawal_requests db" and ?d = "update_withdrawal (wd_id w) f db1"
  note D = withdrawals_ok_D [OF ok]
  have rows': "withdrawal_requests ?d = upd_row wd_id (wd_id w) f ?rows"
    by (simp add: update_withdrawal_def rows)
  have uniq: "x = w" if "x \<in> set ?rows" "wd_id x = wd_id w" for x
    using D(2) that w by (auto simp: distinct_map inj_on_def)
  have ids: "map wd_id (withdrawal_requests ?d) = map wd_id ?rows"
    unfolding rows' by (rule map_upd_row) (use uniq f in auto)
  have keys: "settle_key i \<in> used_keys db1 \<longleftrightarrow> settle_key i \<in> used_keys db"
    "reverse_key i \<in> used_keys db1 \<longleftrightarrow> reverse_key i \<in> used_keys db"
    if "i \<noteq> wd_id w" for i
    using used that by simp_all
  have row: "wd_row_ok ?d x" if "x \<in> set (withdrawal_requests ?d)" for x
  proof -
    from that obtain y where y: "y \<in> set ?rows" "x = (if wd_id y = wd_id w then f y else y)"
      unfolding rows' in_upd_row_iff by blast
    show ?thesis
    proof (cases "wd_id y = wd_id w")
      case True
      then have "x = f w" using y(2) uniq [OF y(1) True] by simp
      then show ?thesis using f mono D(3) [OF w] by (simp add: wd_row_ok_def)
    next
      case False
      then show ?thesis using y mono D(3) [OF y(1)] keys
        by (simp add: wd_row_ok_def wd_keys_ok_def)
    qed
  qed
  have "open_total ?d a = bal ?d (reserved_key a)" "confirmed_total ?d a = bal ?d (settled_key a)"
    for a
    unfolding open_total_def confirmed_total_def rows' ledger_update sum_rows_upd_row [OF D(2) w]
    using f(2,3) bals [of a] D(4,5) [of a] by (simp_all add: open_total_def confirmed_total_def)
  moreover have "\<exists>x \<in> set (withdrawal_requests ?d). k = settle_key (wd_id x) \<or> k = reverse_key (wd_id x)"
    if "k \<in> used_keys db1" "settlement_key k" for k
  proof -
    have "k = settle_key (wd_id w) \<or> k = reverse_key (wd_id w) \<or>
        (\<exists>x \<in> set ?rows. k = settle_key (wd_id x) \<or> k = reverse_key (wd_id x))"
      using that used [of k] ok by (auto simp: withdrawals_ok_def)
    then have "\<exists>i \<in> set (map wd_id ?rows). k = settle_key i \<or> k = reverse_key i"
      using w by auto
    then show ?thesis unfolding ids [symmetric] by auto
  qed
  ultimately show ?thesis
    using wf row D(2) by (simp add: withdrawals_ok_def ids)
qed

text \<open>Changes that leave the ledger alone and the request on its side of open and closed.\<close>

lemma withdrawals_ok_update:
  assumes ok: "withdrawals_ok db" and w: "w \<in> set (withdrawal_requests db)"
    and f: "wd_id (f w) = wd_id w" "wd_amount (f w) = wd_amount w" "wd_asset_id (f w) = wd_asset_id w"
      "wd_signed_ok (f w)"
    and status: "wd_status (f w) = wd_status w \<or> wd_open (wd_status w) \<and> wd_open (wd_status (f w))"
  shows "withdrawals_ok (update_withdrawal (wd_id w) f db)"
proof (rule withdrawals_ok_row [OF ok w, where f = f])
  note D = withdrawals_ok_D [OF ok]
  show "ledger_wf db" by (fact D(1))
  show "wd_keys_ok (used_keys db) (f w)"
    using D(3) [OF w] f(1) status by (auto simp: wd_row_ok_def wd_keys_ok_def wd_open_def)
qed (use status f in \<open>auto simp: wd_open_def\<close>)

text \<open>Closing an open request: settled and confirmed, or reversed and failed.\<close>

lemma withdrawals_ok_settle:
  assumes ok: "withdrawals_ok db" and w: "w \<in> set (withdrawal_requests db)"
    and opn: "wd_status w = WdBroadcast" and s: "settle w db = Inr db1"
  shows "withdrawals_ok (update_withdrawal (wd_id w) (\<lambda>w. w\<lparr>wd_status := WdConfirmed\<rparr>) db1)"
proof -
  note D = withdrawals_ok_D [OF ok] and st = ledger_step_D [OF settle_step [OF withdrawals_ok_D(1) [OF ok] s]]
  have row: "wd_row_ok db w" by (rule D(3) [OF w])
  have fresh: "settle_key (wd_id w) \<notin> used_keys db" "reverse_key (wd_id w) \<notin> used_keys db"
    using row opn by (simp_all add: wd_row_ok_def wd_keys_ok_def)
  note b = st(6) [OF fresh(1)]
  show ?thesis
  proof (rule withdrawals_ok_row [OF ok w st(1) _ st(4)])
    show "withdrawal_requests db1 = withdrawal_requests db"
      using ledger_only_frame [OF st(2)] by simp
  qed (use row opn fresh in \<open>auto simp: st(3) b moved_def wd_keys_ok_def wd_signed_ok_def wd_row_ok_def\<close>)
qed

lemma withdrawals_ok_reverse:
  assumes ok: "withdrawals_ok db" and w: "w \<in> set (withdrawal_requests db)"
    and opn: "wd_open (wd_status w)" and s: "post_reversal w db = Inr db1"
  shows "withdrawals_ok (update_withdrawal (wd_id w)
    (\<lambda>w. w\<lparr>wd_status := WdFailed, wd_error := Some e\<rparr>) db1)"
proof -
  note D = withdrawals_ok_D [OF ok] and st = ledger_step_D [OF post_reversal_step [OF withdrawals_ok_D(1) [OF ok] s]]
  have row: "wd_row_ok db w" by (rule D(3) [OF w])
  have fresh: "settle_key (wd_id w) \<notin> used_keys db" "reverse_key (wd_id w) \<notin> used_keys db"
    using row opn by (auto simp: wd_row_ok_def wd_keys_ok_def wd_open_def)
  note b = st(6) [OF fresh(2)]
  have nc: "wd_status w \<noteq> WdConfirmed" using opn by auto
  show ?thesis
  proof (rule withdrawals_ok_row [OF ok w st(1) _ st(4)])
    show "withdrawal_requests db1 = withdrawal_requests db"
      using ledger_only_frame [OF st(2)] by simp
  qed (use row opn fresh nc in \<open>auto simp: st(3) b moved_def wd_keys_ok_def wd_signed_ok_def wd_row_ok_def\<close>)
qed

lemma withdrawals_ok_nonces:
  assumes "withdrawals_ok db"
  shows "withdrawals_ok (db\<lparr>hot_wallet_nonces := ns\<rparr>)"
proof -
  note f = ledger_frame [of "db\<lparr>hot_wallet_nonces := ns\<rparr>" db, simplified]
  show ?thesis
    by (rule withdrawals_ok_frame [OF assms]) (use f withdrawals_ok_D(1) [OF assms] in simp_all)
qed

lemma withdrawals_ok_set_next [simp]: "withdrawals_ok db \<Longrightarrow> withdrawals_ok (set_next_nonce c n db)"
  unfolding set_next_nonce_def by (rule withdrawals_ok_nonces)

lemma outside_update [simp]:
  "outside_withdrawals (update_withdrawal i f db) = outside_withdrawals db"
  "outside_withdrawals (set_next_nonce c n db) = outside_withdrawals db"
  "outside_withdrawals (db\<lparr>hot_wallet_nonces := ns\<rparr>) = outside_withdrawals db"
  by (simp_all add: outside_withdrawals_def update_withdrawal_def set_next_nonce_def)

lemma row_update:
  "w \<in> set (withdrawal_requests db) \<Longrightarrow>
     f w \<in> set (withdrawal_requests (update_withdrawal (wd_id w) f db))"
  "x \<in> set (withdrawal_requests db) \<Longrightarrow> wd_id x \<noteq> i \<Longrightarrow>
     x \<in> set (withdrawal_requests (update_withdrawal i f db))"
  by (simp_all add: update_withdrawal_def in_upd_row_same in_upd_row_other)

text \<open>Reversing the reservation of an open row: the invariant, the frame and the other rows.\<close>

lemma reverse_reservation_ok:
  assumes ok: "withdrawals_ok db" and w: "w \<in> set (withdrawal_requests db)"
    and opn: "wd_open (wd_status w)"
    and same: "wd_id r = wd_id w" "wd_asset_id r = wd_asset_id w" "wd_user_id r = wd_user_id w"
      "wd_amount r = wd_amount w"
    and s: "reverse_reservation db r e = Inr db'"
  shows "withdrawals_ok db'" "outside_withdrawals db' = outside_withdrawals db"
    "x \<in> set (withdrawal_requests db) \<Longrightarrow> wd_id x \<noteq> wd_id w \<Longrightarrow> x \<in> set (withdrawal_requests db')"
    "bal db' = moved (reserved_key (wd_asset_id w)) (wallet_key (wd_user_id w) (wd_asset_id w))
      (wd_amount w) (bal db)"
    "w\<lparr>wd_status := WdFailed, wd_error := Some e\<rparr> \<in> set (withdrawal_requests db')"
proof -
  from s obtain db1 where p: "post_reversal r db = Inr db1" and lo: "ledger_only db db1"
    and d: "db' = update_withdrawal (wd_id r) (\<lambda>w. w\<lparr>wd_status := WdFailed, wd_error := Some e\<rparr>) db1"
    by (rule reverse_shape)
  have p': "post_reversal w db = Inr db1" using p same by (simp add: post_reversal_def)
  have rows: "withdrawal_requests db1 = withdrawal_requests db" using ledger_only_frame [OF lo] by simp
  show "withdrawals_ok db'"
    unfolding d same(1) by (rule withdrawals_ok_reverse [OF ok w opn p'])
  show "outside_withdrawals db' = outside_withdrawals db"
    using outside_withdrawals_ledger [OF lo] by (simp add: d)
  show "x \<in> set (withdrawal_requests db) \<Longrightarrow> wd_id x \<noteq> wd_id w \<Longrightarrow> x \<in> set (withdrawal_requests db')"
    unfolding d same(1) by (rule row_update(2)) (simp_all add: rows)
  have "reverse_key (wd_id w) \<notin> used_keys db"
    using withdrawals_ok_D(3) [OF ok w] opn by (auto simp: wd_row_ok_def wd_keys_ok_def wd_open_def)
  then show "bal db' = moved (reserved_key (wd_asset_id w)) (wallet_key (wd_user_id w) (wd_asset_id w))
      (wd_amount w) (bal db)"
    using ledger_step_D(6) [OF post_reversal_step [OF withdrawals_ok_D(1) [OF ok] p']] by (simp add: d)
  have "w \<in> set (withdrawal_requests db1)" using w rows by simp
  from row_update(1) [OF this, of "\<lambda>w. w\<lparr>wd_status := WdFailed, wd_error := Some e\<rparr>"]
  show "w\<lparr>wd_status := WdFailed, wd_error := Some e\<rparr> \<in> set (withdrawal_requests db')"
    by (simp add: d same(1))
qed

lemma sign_request_ok:
  assumes ok: "withdrawals_ok (ss_db s)" and w: "r \<in> set (withdrawal_requests (ss_db s))"
    and st: "wd_status r \<in> {WdRequested, WdApproved}"
    and b: "sign_request client key gas r s = Inr s'"
  shows "withdrawals_ok (ss_db s') \<and> outside_withdrawals (ss_db s') = outside_withdrawals (ss_db s) \<and>
    (\<forall>x \<in> set (withdrawal_requests (ss_db s)). wd_id x \<noteq> wd_id r \<longrightarrow>
       x \<in> set (withdrawal_requests (ss_db s')))"
proof -
  let ?f = "\<lambda>w. w\<lparr>wd_attempts := wd_attempts w + 1\<rparr>"
  let ?db = "update_withdrawal (wd_id r) ?f (ss_db s)"
  have opn: "wd_open (wd_status r)" using st by auto
  note row = withdrawals_ok_D(3) [OF ok w]
  have ok1: "withdrawals_ok ?db"
    by (rule withdrawals_ok_update [OF ok w]) (use row in \<open>auto simp: wd_row_ok_def wd_signed_ok_def\<close>)
  note fr = row_update(1) [OF w, of ?f]
  have others: "x \<in> set (withdrawal_requests ?db)"
    if "x \<in> set (withdrawal_requests (ss_db s))" "wd_id x \<noteq> wd_id r" for x
    by (rule row_update(2) [OF that])
  have opn1: "wd_open (wd_status (?f r))" using opn by simp
  show ?thesis
  proof (cases "load_asset (ss_db s) (wd_asset_id r)")
    case (Inl exc)
    show ?thesis
    proof (cases "is_value_error exc")
      case True
      then obtain d where d: "reverse_reservation (ss_db s) r (error_text exc) = Inr d" "ss_db s' = d"
        using b Inl by (auto simp: sign_request_def Let_def)
      from reverse_reservation_ok [OF ok w opn refl refl refl refl d(1)] show ?thesis
        unfolding d(2) by blast
    next
      case False
      then show ?thesis using b Inl ok by (auto simp: sign_request_def Let_def)
    qed
  next
    case (Inr asset)
    show ?thesis
    proof (cases "withdrawal_sign client asset r key (ss_next s) gas")
      case (Inl exc)
      show ?thesis
      proof (cases "is_value_error exc")
        case True
        then obtain d where d: "reverse_reservation ?db r (error_text exc) = Inr d" "ss_db s' = d"
          using b Inl Inr by (auto simp: sign_request_def Let_def)
        have "wd_id r = wd_id (?f r)" "wd_asset_id r = wd_asset_id (?f r)"
          "wd_user_id r = wd_user_id (?f r)" "wd_amount r = wd_amount (?f r)" by simp_all
        from reverse_reservation_ok [OF ok1 fr opn1 this d(1)] others show ?thesis
          unfolding d(2) by simp
      next
        case False
        then have "ss_db s' = ?db" using b Inl Inr by (auto simp: sign_request_def Let_def)
        then show ?thesis using ok1 others by simp
      qed
    next
      case tx: (Inr tx)
      let ?g = "\<lambda>w. w\<lparr>wd_signed_tx := Some (stx_raw tx), wd_tx_hash := Some (stx_tx_hash tx),
        wd_nonce := Some (ss_next s), wd_status := WdSigning\<rparr>"
      have "withdrawals_ok (update_withdrawal (wd_id (?f r)) ?g ?db)"
        by (rule withdrawals_ok_update [OF ok1 fr]) (use opn in \<open>auto simp: wd_signed_ok_def\<close>)
      moreover have "ss_db s' = set_next_nonce (cl_chain_id client) (ss_next s + 1)
          (update_withdrawal (wd_id r) ?g ?db)"
        using b Inr tx by (auto simp: sign_request_def Let_def)
      ultimately show ?thesis using row_update(2) [OF others] by simp
    qed
  qed
qed

lemma claim_pending_rows:
  "w \<in> set (claim_pending db c n) \<Longrightarrow> w \<in> set (withdrawal_requests db) \<and> wd_chain_id w = c \<and>
     wd_status w \<in> {WdRequested, WdApproved}"
  by (auto simp: claim_pending_def dest: in_set_takeD)

lemma distinct_sorted_filter:
  "distinct (map g xs) \<Longrightarrow> distinct (map g (sort_key f (filter P xs)))"
  by (auto simp: distinct_map inj_on_def)

lemma claim_pending_distinct:
  "distinct (map wd_id (withdrawal_requests db)) \<Longrightarrow> distinct (map wd_id (claim_pending db c n))"
  unfolding claim_pending_def take_map [symmetric]
  by (rule distinct_take) (rule distinct_sorted_filter)

text \<open>The whole signing phase.\<close>

lemma sign_pending_shape:
  assumes "sign_pending db client key hot batch = Inr (n, db')"
  obtains (none) "db' = db" "n = 0" "claim_pending db (cl_chain_id client) batch = []"
    | (pass) row db1 gas s where "nonce_row db client hot = Inr (row, db1)"
      "for_each (sign_request client key gas) (claim_pending db (cl_chain_id client) batch)
         \<lparr>ss_db = db1, ss_next = hw_next_nonce row, ss_signed = 0\<rparr> = Inr s"
      "n = ss_signed s" "db' = ss_db s"
  using assms by (auto simp: sign_pending_def Let_def split: if_splits)

lemma sign_pending_ok:
  assumes ok: "withdrawals_ok db" and s: "sign_pending db client key hot batch = Inr (n, db')"
  shows "withdrawals_ok db' \<and> outside_withdrawals db' = outside_withdrawals db"
  using s
proof (cases rule: sign_pending_shape)
  case none
  then show ?thesis using ok by simp
next
  case (pass row db1 gas s)
  note nr = nonce_row_ok(5) [OF pass(1)]
  let ?rs = "claim_pending db (cl_chain_id client) batch"
  let ?I = "\<lambda>rs s. withdrawals_ok (ss_db s) \<and> outside_withdrawals (ss_db s) = outside_withdrawals db \<and>
    distinct (map wd_id rs) \<and> (\<forall>r \<in> set rs. wd_status r \<in> {WdRequested, WdApproved} \<and>
      r \<in> set (withdrawal_requests (ss_db s)))"
  have "withdrawals_ok db1" by (subst nr) (rule withdrawals_ok_nonces [OF ok])
  moreover have "outside_withdrawals db1 = outside_withdrawals db"
    "withdrawal_requests db1 = withdrawal_requests db"
    using arg_cong [OF nr, of outside_withdrawals] arg_cong [OF nr, of withdrawal_requests] by simp_all
  ultimately have db1: "withdrawals_ok db1" "outside_withdrawals db1 = outside_withdrawals db"
    "withdrawal_requests db1 = withdrawal_requests db" by simp_all
  have "?I [] s"
  proof (rule for_each_rest_inv [OF pass(2), where I = ?I])
    show "?I ?rs \<lparr>ss_db = db1, ss_next = hw_next_nonce row, ss_signed = 0\<rparr>"
      using db1 claim_pending_rows claim_pending_distinct [OF withdrawals_ok_D(2) [OF ok]] by simp
  next
    fix r rs s s'
    assume I: "?I (r # rs) s" and b: "sign_request client key gas r s = Inr s'"
    have ne: "wd_id x \<noteq> wd_id r" if "x \<in> set rs" for x using I that by (auto simp: image_iff)
    have "withdrawals_ok (ss_db s') \<and> outside_withdrawals (ss_db s') = outside_withdrawals (ss_db s) \<and>
      (\<forall>x \<in> set (withdrawal_requests (ss_db s)). wd_id x \<noteq> wd_id r \<longrightarrow>
         x \<in> set (withdrawal_requests (ss_db s')))"
      by (rule sign_request_ok [OF _ _ _ b]) (use I in auto)
    then show "?I rs s'" using I ne by simp
  qed
  then show ?thesis using pass(4) by simp
qed

lemma signing_rows_in:
  "w \<in> set (signing_rows db c) \<Longrightarrow> w \<in> set (withdrawal_requests db) \<and> wd_chain_id w = c \<and>
     wd_status w = WdSigning"
  by (simp add: signing_rows_def)

lemma signing_rows_distinct:
  "distinct (map wd_id (withdrawal_requests db)) \<Longrightarrow> distinct (map wd_id (signing_rows db c))"
  unfolding signing_rows_def by (rule distinct_sorted_filter)

lemma broadcast_request_ok:
  assumes ok: "withdrawals_ok (bs_db s)" and w: "r \<in> set (withdrawal_requests (bs_db s))"
    and st: "wd_status r = WdSigning" and b: "broadcast_request client r s = Inr s'"
  shows "withdrawals_ok (bs_db s') \<and> outside_withdrawals (bs_db s') = outside_withdrawals (bs_db s) \<and>
    (\<forall>x \<in> set (withdrawal_requests (bs_db s)). wd_id x \<noteq> wd_id r \<longrightarrow>
       x \<in> set (withdrawal_requests (bs_db s')))"
proof (cases "bs_db s' = bs_db s")
  case True
  then show ?thesis using ok by simp
next
  case False
  with b obtain h where h: "bs_db s' = update_withdrawal (wd_id r)
      (\<lambda>w. w\<lparr>wd_tx_hash := Some h, wd_status := WdBroadcast\<rparr>) (bs_db s)"
    by (auto simp: broadcast_request_def Let_def split: option.splits sum.splits if_splits)
  have "withdrawals_ok (bs_db s')"
    unfolding h
    by (rule withdrawals_ok_update [OF ok w])
      (use st withdrawals_ok_D(3) [OF ok w] in \<open>auto simp: wd_row_ok_def wd_signed_ok_def\<close>)
  then show ?thesis by (auto simp: h intro: row_update(2))
qed

lemma broadcast_signed_ok:
  assumes ok: "withdrawals_ok db" and b: "broadcast_signed db client = Inr s"
  shows "withdrawals_ok (bs_db s) \<and> outside_withdrawals (bs_db s) = outside_withdrawals db"
proof -
  let ?rs = "signing_rows db (cl_chain_id client)"
  let ?I = "\<lambda>rs s. withdrawals_ok (bs_db s) \<and> outside_withdrawals (bs_db s) = outside_withdrawals db \<and>
    distinct (map wd_id rs) \<and> (\<forall>r \<in> set rs. wd_status r = WdSigning \<and>
      r \<in> set (withdrawal_requests (bs_db s)))"
  have "?I [] s"
  proof (rule for_each_rest_inv [OF b [unfolded broadcast_signed_def], where I = ?I])
    show "?I ?rs \<lparr>bs_db = db, bs_count = 0, bs_sent = []\<rparr>"
      using ok signing_rows_in signing_rows_distinct [OF withdrawals_ok_D(2) [OF ok]] by simp
  next
    fix r rs s s'
    assume I: "?I (r # rs) s" and b: "broadcast_request client r s = Inr s'"
    have ne: "wd_id x \<noteq> wd_id r" if "x \<in> set rs" for x using I that by (auto simp: image_iff)
    have "withdrawals_ok (bs_db s') \<and> outside_withdrawals (bs_db s') = outside_withdrawals (bs_db s) \<and>
      (\<forall>x \<in> set (withdrawal_requests (bs_db s)). wd_id x \<noteq> wd_id r \<longrightarrow>
         x \<in> set (withdrawal_requests (bs_db s')))"
      by (rule broadcast_request_ok [OF _ _ _ b]) (use I in auto)
    then show "?I rs s'" using I ne by simp
  qed
  then show ?thesis by simp
qed

text \<open>
  One iteration of the confirmation loop: nothing but the marker changes, or the request is
  settled, or its reservation is reversed for one of the two reasons.
\<close>

lemma confirm_request_cases:
  assumes b: "confirm_request client head c hot r (db, n) = Inr (db', n')"
  obtains (keep) "db' = db" "n' = n"
    | (marker) m where "db' = set_unmined m r db" "n' = n"
    | (settled) h rc db1 where "wd_tx_hash r = Some h" "cl_get_receipt client h = Inr (Some rc)"
      "receipt_final client head c rc = Inr True" "rc_status rc = 1"
      "settle r (set_unmined None r db) = Inr db1"
      "db' = update_withdrawal (wd_id r) (\<lambda>w. w\<lparr>wd_status := WdConfirmed\<rparr>) db1" "n' = Suc n"
    | (reverted) h rc where "wd_tx_hash r = Some h" "cl_get_receipt client h = Inr (Some rc)"
      "receipt_final client head c rc = Inr True" "rc_status rc \<noteq> 1"
      "reverse_reservation (set_unmined None r db) r ''transaction reverted on-chain'' = Inr db'"
      "n' = n"
    | (dropped) h where "wd_tx_hash r = Some h" "cl_get_receipt client h = Inr None"
      "unmined_gate client hot (wd_nonce r) (wd_unmined_since_block r) head c = Inr GateDrop"
      "reverse_reservation db r ''transaction dropped (nonce superseded)'' = Inr db'" "n' = n"
proof (cases "wd_tx_hash r")
  case None
  then show thesis using b keep by (simp add: confirm_request_def)
next
  case (Some h)
  with b obtain rc where rc: "cl_get_receipt client h = Inr rc" by (auto simp: confirm_request_def)
  show thesis
  proof (cases rc)
    case None
    with b Some rc obtain g where
      g: "unmined_gate client hot (wd_nonce r) (wd_unmined_since_block r) head c = Inr g"
      by (auto simp: confirm_request_def reconcile_unmined_def)
    show thesis
    proof (cases g)
      case GateKeep
      then show thesis using b Some rc None g keep by (simp add: confirm_request_def reconcile_unmined_def)
    next
      case GateClear
      then show thesis using b Some rc None g marker [of None]
        by (simp add: confirm_request_def reconcile_unmined_def)
    next
      case GateMark
      then show thesis using b Some rc None g marker [of "Some head"]
        by (simp add: confirm_request_def reconcile_unmined_def)
    next
      case GateDrop
      then show thesis using b Some rc None g dropped [OF Some]
        by (auto simp: confirm_request_def reconcile_unmined_def)
    qed
  next
    case receipt: (Some rc')
    with b Some rc obtain final where f: "receipt_final client head c rc' = Inr final"
      by (auto simp: confirm_request_def Let_def)
    consider "\<not> final" | "final" "rc_status rc' = 1" | "final" "rc_status rc' \<noteq> 1" by blast
    then show thesis
    proof cases
      case 1
      then show thesis using b Some rc receipt f marker [of None] by (simp add: confirm_request_def Let_def)
    next
      case 2
      then obtain db1 where "settle r (set_unmined None r db) = Inr db1"
        "db' = update_withdrawal (wd_id r) (\<lambda>w. w\<lparr>wd_status := WdConfirmed\<rparr>) db1" "n' = Suc n"
        using b Some rc receipt f by (auto simp: confirm_request_def Let_def)
      then show thesis using settled [OF Some] rc receipt f 2 by simp
    next
      case 3
      then show thesis using b Some rc receipt f reverted [OF Some, of rc']
        by (auto simp: confirm_request_def Let_def)
    qed
  qed
qed

lemma set_unmined_ok:
  assumes ok: "withdrawals_ok db" and w: "r \<in> set (withdrawal_requests db)"
  shows "withdrawals_ok (set_unmined m r db)"
    "outside_withdrawals (set_unmined m r db) = outside_withdrawals db"
    "r\<lparr>wd_unmined_since_block := m\<rparr> \<in> set (withdrawal_requests (set_unmined m r db))"
    "x \<in> set (withdrawal_requests db) \<Longrightarrow> wd_id x \<noteq> wd_id r \<Longrightarrow>
      x \<in> set (withdrawal_requests (set_unmined m r db))"
    "bal (set_unmined m r db) = bal db"
proof -
  show "withdrawals_ok (set_unmined m r db)"
    unfolding set_unmined_def
    by (rule withdrawals_ok_update [OF ok w])
      (use withdrawals_ok_D(3) [OF ok w] in \<open>auto simp: wd_row_ok_def wd_signed_ok_def\<close>)
  show "r\<lparr>wd_unmined_since_block := m\<rparr> \<in> set (withdrawal_requests (set_unmined m r db))"
    using row_update(1) [OF w, of "\<lambda>w. w\<lparr>wd_unmined_since_block := m\<rparr>"] by (simp add: set_unmined_def)
qed (simp_all add: set_unmined_def row_update(2))

lemma confirm_request_ok:
  assumes ok: "withdrawals_ok db" and w: "r \<in> set (withdrawal_requests db)"
    and st: "wd_status r = WdBroadcast" and b: "confirm_request client head c hot r (db, n) = Inr (db', n')"
  shows "withdrawals_ok db' \<and> outside_withdrawals db' = outside_withdrawals db \<and>
    (\<forall>x \<in> set (withdrawal_requests db). wd_id x \<noteq> wd_id r \<longrightarrow> x \<in> set (withdrawal_requests db'))"
proof -
  let ?r = "r\<lparr>wd_unmined_since_block := None\<rparr>"
  note m = set_unmined_ok [OF ok w, where m = None]
  have opn: "wd_open (wd_status r)" "wd_open (wd_status ?r)" using st by simp_all
  show ?thesis using b
  proof (cases rule: confirm_request_cases)
    case keep
    then show ?thesis using ok by simp
  next
    case (marker m')
    then show ?thesis using set_unmined_ok [OF ok w, where m = m'] by simp
  next
    case (settled h rc db1)
    have s: "settle ?r (set_unmined None r db) = Inr db1"
      using settled(5) by (simp add: settle_def)
    note lo = ledger_step_D(2) [OF settle_step [OF withdrawals_ok_D(1) [OF m(1)] s]]
    have "withdrawals_ok (update_withdrawal (wd_id ?r) (\<lambda>w. w\<lparr>wd_status := WdConfirmed\<rparr>) db1)"
      by (rule withdrawals_ok_settle [OF m(1) m(3) _ s]) (simp add: st)
    then show ?thesis
      using m(2,4) outside_withdrawals_ledger [OF lo] ledger_only_frame [OF lo]
      by (auto simp: settled(6) intro: row_update(2))
  next
    case (reverted h rc)
    have "wd_id r = wd_id ?r" "wd_asset_id r = wd_asset_id ?r" "wd_user_id r = wd_user_id ?r"
      "wd_amount r = wd_amount ?r" by simp_all
    from reverse_reservation_ok [OF m(1,3) opn(2) this reverted(5)] show ?thesis using m(2,4) by simp
  next
    case (dropped h)
    from reverse_reservation_ok [OF ok w opn(1) refl refl refl refl dropped(4)] show ?thesis by blast
  qed
qed

lemma confirm_broadcast_ok:
  assumes ok: "withdrawals_ok db" and b: "confirm_broadcast db client c hot = Inr (n, db')"
  shows "withdrawals_ok db' \<and> outside_withdrawals db' = outside_withdrawals db"
proof -
  let ?rs = "broadcast_rows db (cl_chain_id client)"
  let ?I = "\<lambda>rs (s :: db \<times> nat). withdrawals_ok (fst s) \<and>
    outside_withdrawals (fst s) = outside_withdrawals db \<and>
    distinct (map wd_id rs) \<and> (\<forall>r \<in> set rs. wd_status r = WdBroadcast \<and>
      r \<in> set (withdrawal_requests (fst s)))"
  from b obtain head where l: "for_each (confirm_request client head c hot) ?rs (db, 0) = Inr (db', n)"
    by (auto simp: confirm_broadcast_def split: prod.splits)
  have "?I [] (db', n)"
  proof (rule for_each_rest_inv [OF l, where I = ?I])
    show "?I ?rs (db, 0)"
      using ok distinct_map_filter [OF withdrawals_ok_D(2) [OF ok]] by (simp add: broadcast_rows_def)
  next
    fix r rs s s'
    assume I: "?I (r # rs) s" and b: "confirm_request client head c hot r s = Inr s'"
    have ne: "wd_id x \<noteq> wd_id r" if "x \<in> set rs" for x using I that by (auto simp: image_iff)
    obtain d k d' k' where s: "s = (d, k)" "s' = (d', k')" by (cases s, cases s') blast
    have "withdrawals_ok d' \<and> outside_withdrawals d' = outside_withdrawals d \<and>
      (\<forall>x \<in> set (withdrawal_requests d). wd_id x \<noteq> wd_id r \<longrightarrow> x \<in> set (withdrawal_requests d'))"
      by (rule confirm_request_ok [OF _ _ _ b [unfolded s]]) (use I s in auto)
    then show "?I rs s'" using I ne s by simp
  qed
  then show ?thesis by simp
qed

end
