(* ===== verification/Withdrawal_Facts.thy ===== *)
theory Withdrawal_Facts
  imports Withdrawer
begin

text \<open>
  The properties of withdrawals, from the request to its settlement or refund, and their
  evaluation on a concrete chain client.
\<close>

section \<open>Reservation\<close>

lemma reserve_withdrawal_total:
  assumes wf: "ledger_wf db" and x: "asset \<in> set (assets db)" and key: "key \<notin> used_keys db"
    and le: "amount \<le> bal db (wallet_key (usr_id user) (ast_id asset))"
  shows "\<exists>i db'. reserve_withdrawal db user asset to amount key = Inr ((i, WdRequested), db')"
proof -
  obtain l db1 where l: "lock_user_asset db user asset = Inr (l, db1)"
    using get_or_create_account_total
    unfolding lock_user_asset_def get_user_wallet_account_def by blast
  note g = lock_user_asset_ok [OF wf l]
  let ?db2 = "insert_withdrawal db1 (new_withdrawal db1 user asset to amount)"
  note f2 = ledger_frame [of ?db2 db1, unfolded insert_withdrawal_def, simplified]
  have wf2: "ledger_wf ?db2"
    using f2(3) accounts_grew_wf [OF g] by (simp add: insert_withdrawal_def)
  obtain a db3 where a: "get_user_wallet_account ?db2 user asset = Inr (a, db3)"
    using get_or_create_account_total unfolding get_user_wallet_account_def by blast
  obtain b db4 where b: "get_or_create_account db3 asset WITHDRAWALS_RESERVED_ACCOUNT OwSystem None = Inr (b, db4)"
    using get_or_create_account_total by blast
  have "asset \<in> set (assets ?db2)" "key \<notin> used_keys ?db2"
    using x key f2 accounts_grew_assets [OF g] accounts_grew_used [OF g]
    by (simp_all add: insert_withdrawal_def)
  then obtain t db' where "post db4 LeWithdrawal key
      [LedgerLeg a asset (- amount), LedgerLeg b asset amount] ''withdrawal_request''
      (uuid_str (wd_id (new_withdrawal db1 user asset to amount))) = Inr (t, db')"
    using fetch_fetch_post_total [OF wf2 _ _ a [unfolded get_user_wallet_account_def] b] by metis
  then show ?thesis
    using l a b le accounts_grew_bal [OF g]
    by (simp add: reserve_withdrawal_def Let_def available_balance_bal [OF accounts_grew_wf [OF g]])
qed

text \<open>
  C7: A successful withdrawal request either replays an earlier one, changing nothing and
  reporting that request's id, or reserves the money: it takes exactly the positive amount,
  no more than the user has and no more than the cap, from the user's wallet into the reserve
  account and adds one request row for it in status REQUESTED, addressed to the checksummed
  form of a valid, nonzero destination. The tie between requests and ledger is kept.
\<close>

theorem withdrawal_reserves_funds:
  assumes ok: "withdrawals_ok db"
    and c: "create_withdrawal ck st caps db user asset_id to amount k = Inr ((i, s), db')"
  shows "withdrawals_ok db' \<and>
    (db' = db \<and> withdraw_key user k \<in> used_keys db \<and>
       (\<exists>w \<in> set (withdrawal_requests db). wd_id w = i \<and> wd_user_id w = usr_id user \<and> wd_status w = s) \<or>
     withdraw_key user k \<notin> used_keys db \<and> s = WdRequested \<and> 0 < amount \<and>
       amount \<le> bal db (wallet_key (usr_id user) asset_id) \<and>
       (\<forall>a m. get_asset db asset_id = Inr a \<and> max_amount_base_units caps a = Some m \<longrightarrow> amount \<le> m) \<and>
       bal db' = moved (wallet_key (usr_id user) asset_id) (reserved_key asset_id) amount (bal db) \<and>
       (\<exists>w. withdrawal_requests db' = withdrawal_requests db @ [w] \<and> wd_id w = i \<and>
          wd_status w = WdRequested \<and> wd_user_id w = usr_id user \<and> wd_asset_id w = asset_id \<and>
          wd_amount w = amount \<and> ck to = Inr (wd_to_address w) \<and> hex_address_match to \<and>
          lower to \<noteq> ZERO_ADDRESS))"
proof -
  have wf: "ledger_wf db" using ok by (simp add: withdrawals_ok_def)
  note keeps = create_withdrawal_keeps_ok [OF ok c]
  show ?thesis using wf c
  proof (cases rule: create_withdrawal_cases)
    case (replay t w)
    then show ?thesis using ok by auto
  next
    case (fresh db1 w asset)
    then show ?thesis
      using keeps to_checksum_address_strict_Inr [OF fresh(11)]
      by (auto simp: reserved_def)
  qed
qed

text \<open>
  C8: A withdrawal request is accepted whenever it should be: within the rate limits, a
  positive amount within balance and cap, a destination that passes the address check, in a
  registered asset, under a fresh key.
\<close>

theorem withdrawal_accepted:
  assumes "ledger_wf db" "withdraw_key user k \<notin> used_keys db"
    and "enforce_rate_limit st db ''withdrawal'' (usr_id user) None = Inr db1" "0 < amount"
    and "to_checksum_address_strict ck to = Inr a" "get_asset db asset_id = Inr asset"
    and "\<forall>m. max_amount_base_units caps asset = Some m \<longrightarrow> amount \<le> m"
    and "amount \<le> bal db (wallet_key (usr_id user) asset_id)"
  shows "\<exists>i db'. create_withdrawal ck st caps db user asset_id to amount k = Inr ((i, WdRequested), db')"
proof -
  note fr = enforce_frame [OF assms(3)]
  note fl = rate_only_ledger [OF fr]
  have mono: "next_uuid db \<le> next_uuid db1" using fr by (simp add: rate_only_def)
  note lf = ledger_frame [OF fl(1,2,3)]
  have asset: "get_asset db1 asset_id = Inr asset" using assms(6) by (simp add: get_asset_def fl)
  note asset_in = get_asset_Inr [OF asset]
  have "\<exists>i db'. reserve_withdrawal db1 user asset a amount (withdraw_key user k) =
      Inr ((i, WdRequested), db')"
    by (rule reserve_withdrawal_total [OF lf(3) [OF mono assms(1)]])
      (use asset_in assms(2,8) in \<open>simp_all add: lf\<close>)
  then obtain i db' where r: "reserve_withdrawal db1 user asset a amount (withdraw_key user k) =
      Inr ((i, WdRequested), db')" by blast
  then show ?thesis
    using assms find_transaction_None [of db "withdraw_key user k"] asset
    by (auto simp: create_withdrawal_def withdraw_key_def Let_def checked_address_def
        split: option.splits)
qed

text \<open>
  C9: A client that repeats a withdrawal request, at once or after other requests were served,
  never reserves money twice: the repeated request leaves the state as it is.
\<close>

theorem withdrawal_retry_is_noop:
  assumes "ledger_wf d" "serve_withdrawal ck st caps x d = Inr (r, d1)"
    and "for_each (\<lambda>y s. bind_res (serve_withdrawal ck st caps y s) (\<lambda>(_, s'). Inr s')) ys d1 = Inr d2"
    and "serve_withdrawal ck st caps x d2 = Inr (r', d3)"
  shows "d3 = d2"
  using assms by (rule withdrawal.late_retry)

section \<open>Signing\<close>

text \<open>
  C10: A signing pass over the withdrawal outbox hands out consecutive nonces from the shared
  counter: the counter starts no lower than the chain's own count, advances by exactly the
  number of requests signed, each nonce in between is bound to exactly one request not bound
  before, and every request that was bound to a nonce and a signed transaction stays bound to
  the same ones.
\<close>

theorem sign_pending_nonces:
  assumes ok: "withdrawals_ok db" and s: "sign_pending db client key hot batch = Inr (n, db')"
    and pos: "0 < n"
  shows "\<exists>start p. cl_pending_nonce client hot = Inr p \<and> p \<le> start \<and>
    (\<forall>m. next_nonce_of db (cl_chain_id client) = Some (hot, m) \<longrightarrow> start = max m p) \<and>
    next_nonce_of db' (cl_chain_id client) = Some (hot, start + int n) \<and>
    (\<forall>k. start \<le> k \<and> k < start + int n \<longrightarrow>
       (\<exists>!i. wd_binding db i = None \<and> (\<exists>raw. wd_binding db' i = Some (k, raw)))) \<and>
    (\<forall>i b. wd_binding db i = Some b \<longrightarrow> wd_binding db' i = Some b) \<and>
    (\<forall>i k raw. wd_binding db i = None \<and> wd_binding db' i = Some (k, raw) \<longrightarrow>
       start \<le> k \<and> k < start + int n)"
  using s
proof (cases rule: sign_pending_shape)
  case none
  then show ?thesis using pos by simp
next
  case (pass row db1 gas s)
  let ?rs = "claim_pending db (cl_chain_id client) batch"
  let ?s = "\<lparr>ss_db = db1, ss_next = hw_next_nonce row, ss_signed = 0\<rparr>"
  note nr = nonce_row_ok [OF pass(1)]
  have same: "wd_binding db1 = wd_binding db" "withdrawal_requests db1 = withdrawal_requests db"
    using arg_cong [OF nr(5), of wd_binding] arg_cong [OF nr(5), of withdrawal_requests]
    by (simp_all add: fun_eq_iff wd_binding_def)
  have dist: "distinct (map wd_id ?rs)"
    by (rule claim_pending_distinct [OF withdrawals_ok_D(2) [OF ok]])
  have known: "wd_id ` set ?rs \<subseteq> wd_ids (ss_db ?s)"
    using claim_pending_rows by (fastforce simp: wd_ids_def same)
  have unbound: "\<forall>r \<in> set ?rs. wd_binding (ss_db ?s) (wd_id r) = None"
  proof
    fix r assume "r \<in> set ?rs"
    then have r: "r \<in> set (withdrawal_requests db)" "wd_status r \<in> {WdRequested, WdApproved}"
      using claim_pending_rows by auto
    have "get_row wd_id (wd_id r) (withdrawal_requests db) = Some r"
      by (rule get_row_distinct [OF withdrawals_ok_D(2) [OF ok] r(1)])
    moreover have "wd_bound r = None"
      using withdrawals_ok_D(3) [OF ok r(1)] r(2) by (auto simp: wd_row_ok_def wd_signed_ok_def wd_bound_def)
    ultimately show "wd_binding (ss_db ?s) (wd_id r) = None" by (simp add: same wd_binding_def)
  qed
  note pn = withdrawer.pass_nonces [OF pass(2) dist known unbound, simplified]
  have counter: "next_nonce_of (ss_db ?s) (cl_chain_id client) = Some (hot, ss_next ?s)"
    by (simp add: nr(4))
  have total: "ss_next s = hw_next_nonce row + int n" using pn(4) pass(3) by simp
  have c': "next_nonce_of db' (cl_chain_id client) = Some (hot, hw_next_nonce row + int n)"
    using withdrawer.pass_counter [OF pass(2) counter] pass(4) total by simp
  obtain p where p: "cl_pending_nonce client hot = Inr p" "p \<le> hw_next_nonce row"
      "\<forall>m. next_nonce_of db (cl_chain_id client) = Some (hot, m) \<longrightarrow> hw_next_nonce row = max m p"
    using nr(1) by auto
  show ?thesis
    using p c' pn(1-3) pass(4) total
    by (intro exI [of _ "hw_next_nonce row"] exI [of _ p]) (auto simp: same)
qed

section \<open>Broadcasting\<close>

text \<open>The raw transactions stored for a list of requests, in order.\<close>

definition stored_raws :: "withdrawal_request list \<Rightarrow> string list" where
  "stored_raws ws = concat (map (\<lambda>w. case wd_signed_tx w of None \<Rightarrow> [] | Some raw \<Rightarrow> [raw]) ws)"

lemma broadcast_sends_all:
  "for_each (broadcast_request client) rs s = Inr s' \<Longrightarrow> bs_sent s' = bs_sent s @ stored_raws rs"
proof (induction rs arbitrary: s)
  case Nil
  then show ?case by (simp add: stored_raws_def)
next
  case (Cons r rs)
  from Cons.prems obtain t where t: "broadcast_request client r s = Inr t"
    "for_each (broadcast_request client) rs t = Inr s'" by auto
  have "bs_sent t = bs_sent s @ (case wd_signed_tx r of None \<Rightarrow> [] | Some raw \<Rightarrow> [raw])"
    using t(1) by (auto simp: broadcast_request_def Let_def split: option.splits sum.splits if_splits)
  then show ?case using Cons.IH [OF t(2)] by (simp add: stored_raws_def)
qed

text \<open>
  C11: A broadcast pass hands the network exactly the stored signed transactions of the
  chain's SIGNING requests, in nonce order, and nothing else; whatever the network answers,
  no request's nonce or signed transaction changes and the ledger tie is kept. So a crash
  between the phases can only re-send an identical transaction.
\<close>

theorem broadcast_resends_identical:
  assumes ok: "withdrawals_ok db" and b: "broadcast_signed db client = Inr s"
  shows "bs_sent s = stored_raws (signing_rows db (cl_chain_id client)) \<and>
    sorted (map (\<lambda>w. nonce_order (wd_nonce w)) (signing_rows db (cl_chain_id client))) \<and>
    (\<forall>w \<in> set (signing_rows db (cl_chain_id client)). w \<in> set (withdrawal_requests db) \<and>
       wd_status w = WdSigning \<and> (\<exists>k raw. wd_nonce w = Some k \<and> wd_signed_tx w = Some raw)) \<and>
    wd_binding (bs_db s) = wd_binding db \<and> withdrawals_ok (bs_db s) \<and> bal (bs_db s) = bal db"
proof -
  note l = b [unfolded broadcast_signed_def]
  have signed: "\<exists>k raw. wd_nonce w = Some k \<and> wd_signed_tx w = Some raw"
    if "w \<in> set (signing_rows db (cl_chain_id client))" for w
    using signing_rows_in [OF that] withdrawals_ok_D(3) [OF ok, of w]
    by (auto simp: wd_row_ok_def wd_signed_ok_def)
  have "bal (bs_db s) = bal db"
    by (rule for_each_inv [OF l, where I = "\<lambda>t. bal (bs_db t) = bal db"])
      (auto simp: broadcast_request_def Let_def split: option.splits sum.splits if_splits)
  moreover have "sorted (map (\<lambda>w. nonce_order (wd_nonce w)) (signing_rows db (cl_chain_id client)))"
    by (simp add: signing_rows_def)
  moreover have "bs_sent s = stored_raws (signing_rows db (cl_chain_id client))"
    using broadcast_sends_all [OF l] by simp
  moreover have "wd_binding (bs_db s) = wd_binding db"
    using withdrawer_send.pass_keeps [OF l] by simp
  ultimately show ?thesis
    using broadcast_signed_ok [OF ok b] signing_rows_in signed by blast
qed

section \<open>Confirmation\<close>

text \<open>The chain has finally executed the request's transaction, with the given success.\<close>

definition finally_executed :: "chain_client \<Rightarrow> int \<Rightarrow> int \<Rightarrow> withdrawal_request \<Rightarrow> bool \<Rightarrow> bool" where
  "finally_executed client head c w success \<longleftrightarrow>
     (case wd_tx_hash w of None \<Rightarrow> False | Some h \<Rightarrow>
      case cl_get_receipt client h of Inr (Some rc) \<Rightarrow>
        c \<le> head - rc_block_number rc \<and>
        cl_block_hash client (rc_block_number rc) = Inr (Some (rc_block_hash rc)) \<and>
        (rc_status rc = 1 \<longleftrightarrow> success)
      | _ \<Rightarrow> False)"

text \<open>The transaction has no receipt, its nonce was used up, and so it was \<open>c\<close> blocks ago.\<close>

definition superseded :: "chain_client \<Rightarrow> int \<Rightarrow> int \<Rightarrow> string option \<Rightarrow> withdrawal_request \<Rightarrow> bool" where
  "superseded client head c hot w \<longleftrightarrow>
     (case (wd_tx_hash w, hot, wd_nonce w, wd_unmined_since_block w) of
        (Some h, Some a, Some n, Some b) \<Rightarrow>
          cl_get_receipt client h = Inr None \<and> c \<le> head - b \<and>
          (case cl_latest_nonce client a of Inr l \<Rightarrow> n < l | _ \<Rightarrow> False)
      | _ \<Rightarrow> False)"

definition confirm_outcome ::
  "chain_client \<Rightarrow> int \<Rightarrow> int \<Rightarrow> string option \<Rightarrow> withdrawal_request \<Rightarrow> withdrawal_request \<Rightarrow> bool" where
  "confirm_outcome client head c hot w w' \<longleftrightarrow> wd_id w' = wd_id w \<and> wd_bound w' = wd_bound w \<and>
     wd_amount w' = wd_amount w \<and> wd_user_id w' = wd_user_id w \<and> wd_asset_id w' = wd_asset_id w \<and>
     (wd_status w' = WdBroadcast \<or>
      wd_status w' = WdConfirmed \<and> finally_executed client head c w True \<or>
      wd_status w' = WdFailed \<and>
        (finally_executed client head c w False \<or> superseded client head c hot w))"

lemma confirm_request_outcome:
  assumes ok: "withdrawals_ok db" and w: "r \<in> set (withdrawal_requests db)"
    and st: "wd_status r = WdBroadcast" and b: "confirm_request client head c hot r (db, n) = Inr (db', n')"
  shows "\<exists>w' \<in> set (withdrawal_requests db'). confirm_outcome client head c hot r w'"
proof -
  let ?r = "r\<lparr>wd_unmined_since_block := None\<rparr>"
  note m = set_unmined_ok [OF ok w, where m = None]
  show ?thesis using b
  proof (cases rule: confirm_request_cases)
    case keep
    then show ?thesis using w st by (intro bexI [of _ r]) (simp_all add: confirm_outcome_def)
  next
    case (marker m')
    then show ?thesis using set_unmined_ok(3) [OF ok w, of m'] st
      by (intro bexI [of _ "r\<lparr>wd_unmined_since_block := m'\<rparr>"]) (simp_all add: confirm_outcome_def wd_bound_def)
  next
    case (settled h rc db1)
    have s: "settle ?r (set_unmined None r db) = Inr db1"
      using settled(5) by (simp add: settle_def)
    note lo = ledger_step_D(2) [OF settle_step [OF withdrawals_ok_D(1) [OF m(1)] s]]
    have "?r \<in> set (withdrawal_requests db1)" using m(3) ledger_only_frame [OF lo] by simp
    from row_update(1) [OF this, of "\<lambda>w. w\<lparr>wd_status := WdConfirmed\<rparr>"]
    have "?r\<lparr>wd_status := WdConfirmed\<rparr> \<in> set (withdrawal_requests db')" by (simp add: settled(6))
    moreover have "confirm_outcome client head c hot r (?r\<lparr>wd_status := WdConfirmed\<rparr>)"
      using settled by (simp add: confirm_outcome_def finally_executed_def receipt_final_True wd_bound_def)
    ultimately show ?thesis by (rule bexI [rotated])
  next
    case (reverted h rc)
    have opn: "wd_open (wd_status ?r)" using st by simp
    have same: "wd_id r = wd_id ?r" "wd_asset_id r = wd_asset_id ?r" "wd_user_id r = wd_user_id ?r"
      "wd_amount r = wd_amount ?r" by simp_all
    note rv = reverse_reservation_ok(5) [OF m(1,3) opn same reverted(5)]
    have "confirm_outcome client head c hot r
        (?r\<lparr>wd_status := WdFailed, wd_error := Some ''transaction reverted on-chain''\<rparr>)"
      using reverted by (simp add: confirm_outcome_def finally_executed_def receipt_final_True wd_bound_def)
    with rv show ?thesis by (rule bexI [rotated])
  next
    case (dropped h)
    have opn: "wd_open (wd_status r)" using st by simp
    note rv = reverse_reservation_ok(5) [OF ok w opn refl refl refl refl dropped(4)]
    have "superseded client head c hot r"
      using dropped(1,2,3) by (auto simp: superseded_def unmined_gate_Drop)
    then have "confirm_outcome client head c hot r
        (r\<lparr>wd_status := WdFailed, wd_error := Some ''transaction dropped (nonce superseded)''\<rparr>)"
      by (simp add: confirm_outcome_def wd_bound_def)
    with rv show ?thesis by (rule bexI [rotated])
  qed
qed

interpretation confirm_pass: row_worker "confirm_request client head c hot"
    "\<lambda>s. withdrawal_requests (fst s)" wd_id "\<lambda>w. wd_status w = WdBroadcast"
    "\<lambda>s. withdrawals_ok (fst s)" "\<lambda>s. confirm_outcome client head c hot"
  for client head c hot
proof
  fix t t' :: "db \<times> nat" and r x
  assume ok: "withdrawals_ok (fst t)" and r: "r \<in> set (withdrawal_requests (fst t))" "wd_status r = WdBroadcast"
    and b: "confirm_request client head c hot r t = Inr t'"
  have b': "confirm_request client head c hot r (fst t, snd t) = Inr (fst t', snd t')" using b by simp
  show "withdrawals_ok (fst t')" using confirm_request_ok [OF ok r b'] by simp
  show "x \<in> set (withdrawal_requests (fst t'))"
    if "x \<in> set (withdrawal_requests (fst t))" "wd_id x \<noteq> wd_id r"
    using confirm_request_ok [OF ok r b'] that by simp
  show "\<exists>r' \<in> set (withdrawal_requests (fst t')). wd_id r' = wd_id r \<and> confirm_outcome client head c hot r r'"
    using confirm_request_outcome [OF ok r b'] by (auto simp: confirm_outcome_def)
qed

text \<open>
  C12: A confirmation pass decides each broadcast request on the chain's evidence only. It
  marks a request confirmed only when its transaction's receipt is a success buried under the
  required confirmations in a block that is still canonical; it refunds one only when such a
  final receipt is a revert, or when the transaction has no receipt and its nonce has been
  used up by another transaction since at least that many blocks; otherwise the request stays
  broadcast. Rows it does not look at stay as they are, and the ledger keeps matching: the
  reserve holds the open requests, the settled account the confirmed ones, and no request is
  both settled and refunded.
\<close>

theorem confirm_decides_on_evidence:
  assumes ok: "withdrawals_ok db" and hd: "cl_block_number client = Inr head"
    and b: "confirm_broadcast db client c hot = Inr (n, db')"
  shows "withdrawals_ok db' \<and>
    (\<forall>w \<in> set (withdrawal_requests db). \<exists>w' \<in> set (withdrawal_requests db').
       if wd_status w = WdBroadcast \<and> wd_chain_id w = cl_chain_id client
       then confirm_outcome client head c hot w w' else w' = w)"
proof -
  let ?rs = "broadcast_rows db (cl_chain_id client)"
  have l: "for_each (confirm_request client head c hot) ?rs (db, 0) = Inr (db', n)"
    using b hd by (auto simp: confirm_broadcast_def split: prod.splits)
  note dist = withdrawals_ok_D(2) [OF ok]
  have rs: "set ?rs \<subseteq> set (withdrawal_requests (fst (db, 0 :: nat)))" "\<forall>r \<in> set ?rs. wd_status r = WdBroadcast"
    "distinct (map wd_id ?rs)"
    using distinct_map_filter [OF dist] by (auto simp: broadcast_rows_def)
  note P = confirm_pass.pass [OF l _ _ rs]
  have "\<exists>w' \<in> set (withdrawal_requests db').
       if wd_status w = WdBroadcast \<and> wd_chain_id w = cl_chain_id client
       then confirm_outcome client head c hot w w' else w' = w"
    if w: "w \<in> set (withdrawal_requests db)" for w
  proof -
    have "w \<in> set ?rs \<longleftrightarrow> wd_status w = WdBroadcast \<and> wd_chain_id w = cl_chain_id client"
      using w by (auto simp: broadcast_rows_def)
    moreover have "\<exists>w' \<in> set (withdrawal_requests db'). wd_id w' = wd_id w \<and>
        (if w \<in> set ?rs then confirm_outcome client head c hot w w' else w' = w)"
      using P(2) [of w] ok dist w by (simp only: fst_conv)
    ultimately show ?thesis by (auto split: if_splits)
  qed
  then show ?thesis using confirm_broadcast_ok [OF ok b] by blast
qed
section \<open>The properties on a concrete run\<close>

text \<open>Alice withdraws 40 units; the request is signed, broadcast and confirmed.\<close>

definition demo_withdraw :: withdraw_request where
  "demo_withdraw = \<lparr>wr_user = alice, wr_asset_id = 3, wr_to_address = addr (CHR ''b''),
     wr_amount = 40, wr_key = ''w''\<rparr>"

definition demo_requested :: db where
  "demo_requested = snd (projr (serve_withdrawal Inr default_settings [] demo_withdraw demo_db))"

definition demo_signed :: db where
  "demo_signed = snd (projr (sign_pending demo_requested demo_client ''key'' ''hot'' DEFAULT_BATCH))"

definition demo_broadcast :: broadcast_state where
  "demo_broadcast = projr (broadcast_signed demo_signed demo_client)"

definition demo_settled :: db where
  "demo_settled = snd (projr (confirm_broadcast (bs_db demo_broadcast) demo_client 12 (Some ''hot'')))"

lemma demo_requested_runs:
  "serve_withdrawal Inr default_settings [] demo_withdraw demo_db = Inr ((21, WdRequested), demo_requested)"
  by code_simp

lemma demo_create_withdrawal_runs:
  "create_withdrawal Inr default_settings [] demo_db alice 3 (addr (CHR ''b'')) 40 ''w'' =
     Inr ((21, WdRequested), demo_requested)"
  using demo_requested_runs by (simp add: serve_withdrawal_def demo_withdraw_def)

lemma demo_signed_runs:
  "sign_pending demo_requested demo_client ''key'' ''hot'' DEFAULT_BATCH = Inr (1, demo_signed)"
  by code_simp

lemma demo_broadcast_runs: "broadcast_signed demo_signed demo_client = Inr demo_broadcast"
  by code_simp

lemma demo_settled_runs:
  "confirm_broadcast (bs_db demo_broadcast) demo_client 12 (Some ''hot'') = Inr (1, demo_settled)"
  by code_simp

lemma demo_withdrawals_ok: "withdrawals_ok demo_db"
proof -
  have "withdrawal_requests demo_db = []" "used_keys demo_db = {''faucet:x''}"
    by (simp_all add: demo_db_def empty_db_def used_keys_def)
  moreover have "bal demo_db (system_key n a) = 0"
    if "n \<in> {WITHDRAWALS_RESERVED_ACCOUNT, WITHDRAWALS_SETTLED_ACCOUNT}" for n a
    using that by (auto simp: bal_def demo_db_def empty_db_def system_key_def account_key_def
        WITHDRAWALS_RESERVED_ACCOUNT_def WITHDRAWALS_SETTLED_ACCOUNT_def
        FAUCET_SOURCE_ACCOUNT_def USER_WALLET_ACCOUNT_def)
  ultimately show ?thesis
    using demo_wf by (simp add: withdrawals_ok_def open_total_def confirmed_total_def
        reserved_key_def settled_key_def settlement_key_def startswith_def)
qed

lemma demo_requested_ok: "withdrawals_ok demo_requested"
  by (rule create_withdrawal_keeps_ok [OF demo_withdrawals_ok demo_create_withdrawal_runs])

lemma demo_signed_ok: "withdrawals_ok demo_signed"
  using sign_pending_ok [OF demo_requested_ok demo_signed_runs] by simp

lemma demo_broadcast_ok: "withdrawals_ok (bs_db demo_broadcast)"
  using broadcast_signed_ok [OF demo_signed_ok demo_broadcast_runs] by simp

theorem withdrawal_reserves_funds_witness:
  "withdrawals_ok demo_requested \<and> bal demo_requested (reserved_key 3) = 40"
proof -
  have "withdraw_key alice ''w'' \<notin> used_keys demo_db" "usr_id alice = 1" by code_simp+
  moreover have "bal demo_db (reserved_key 3) = 0"
    using demo_withdrawals_ok
    by (simp add: withdrawals_ok_def open_total_def demo_db_def empty_db_def)
  ultimately show ?thesis
    using withdrawal_reserves_funds [OF demo_withdrawals_ok demo_create_withdrawal_runs]
    by (auto simp: moved_def)
qed

theorem withdrawal_accepted_witness:
  "\<exists>i db'. create_withdrawal Inr default_settings [] demo_db alice 3 (addr (CHR ''b'')) 1000 ''w'' =
     Inr ((i, WdRequested), db')"
proof -
  define r where "r = enforce_rate_limit default_settings demo_db ''withdrawal'' (usr_id alice) None"
  have "is_ok r" unfolding r_def by code_simp
  then obtain db1 where "r = Inr db1" by (auto simp: is_ok_iff)
  moreover have "max_amount_base_units [] eth = Some (10 ^ 15)" by code_simp
  moreover have "withdraw_key alice ''w'' \<notin> used_keys demo_db" "get_asset demo_db 3 = Inr eth"
    "to_checksum_address_strict Inr (addr (CHR ''b'')) = Inr (addr (CHR ''b''))"
    "1000 \<le> bal demo_db (wallet_key (usr_id alice) 3)" by code_simp+
  ultimately show ?thesis
    using withdrawal_accepted [OF demo_wf, of alice "''w''" default_settings db1 1000 Inr
        "addr (CHR ''b'')" "addr (CHR ''b'')" 3 eth "[]"]
    by (simp add: r_def)
qed

theorem withdrawal_retry_is_noop_witness:
  "\<exists>r d3. serve_withdrawal Inr default_settings [] demo_withdraw demo_requested = Inr (r, d3) \<and>
     d3 = demo_requested"
proof -
  have "is_ok (serve_withdrawal Inr default_settings [] demo_withdraw demo_requested)" by code_simp
  then obtain r d3 where again:
    "serve_withdrawal Inr default_settings [] demo_withdraw demo_requested = Inr (r, d3)"
    by (auto simp: is_ok_iff)
  then show ?thesis
    using withdrawal_retry_is_noop [OF demo_wf demo_requested_runs, of "[]" demo_requested] by simp
qed

theorem sign_pending_nonces_witness:
  "\<exists>start. 7 \<le> start \<and> next_nonce_of demo_signed 31337 = Some (''hot'', start + 1)"
proof -
  have "cl_chain_id demo_client = 31337" "cl_pending_nonce demo_client ''hot'' = Inr 7"
    by (simp_all add: demo_client_def)
  then show ?thesis
    using sign_pending_nonces [OF demo_requested_ok demo_signed_runs] by auto
qed

theorem broadcast_resends_identical_witness:
  "bs_sent demo_broadcast = [''raw7''] \<and> wd_binding (bs_db demo_broadcast) = wd_binding demo_signed"
proof -
  have "stored_raws (signing_rows demo_signed (cl_chain_id demo_client)) = [''raw7'']" by code_simp
  then show ?thesis
    using broadcast_resends_identical [OF demo_signed_ok demo_broadcast_runs] by simp
qed

theorem confirm_decides_on_evidence_witness:
  "withdrawals_ok demo_settled \<and> map wd_status (withdrawal_requests demo_settled) = [WdConfirmed]"
proof -
  have hd: "cl_block_number demo_client = Inr 100" by (simp add: demo_client_def)
  have "map wd_status (withdrawal_requests demo_settled) = [WdConfirmed]" by code_simp
  then show ?thesis
    using confirm_decides_on_evidence [OF demo_broadcast_ok hd demo_settled_runs] by simp
qed

end
