(* ===== verification/Watcher.thy ===== *)
theory Watcher
  imports Samples Outbox
begin

text \<open>
  The deposit watcher (\<open>worker/watcher.py\<close>): it records the transfers a chain shows to known
  deposit addresses, credits a deposit once it is buried and still canonical, and reverses the
  credit when its block is reorganised away.
\<close>

section \<open>Reads\<close>

definition get_cursor :: "db \<Rightarrow> int \<Rightarrow> error + chain_cursor option" where
  "get_cursor db chain_id =
     scalar_one_or_none (filter (\<lambda>c. cc_chain_id c = chain_id) (chain_cursors db))"

definition deposit_address_owners :: "db \<Rightarrow> (string \<times> uuid) list" where
  "deposit_address_owners db =
     dict_of (map (\<lambda>a. (lower (da_address a), da_user_id a)) (deposit_addresses db))"

definition chain_assets :: "db \<Rightarrow> int \<Rightarrow> (string \<times> asset) list \<times> asset option" where
  "chain_assets db chain_id =
     (let rows = filter (\<lambda>a. ast_chain_id a = chain_id) (assets db) in
      (dict_of (concat (map (\<lambda>a. case ast_contract_address a of
           Some c \<Rightarrow> if ast_type a = ERC20 then [(lower c, a)] else []
         | None \<Rightarrow> []) rows)),
       first_row (filter (\<lambda>a. ast_type a = NATIVE) rows)))"

section \<open>Recording\<close>

text \<open>A deposit as the loops build it, with the table's column defaults.\<close>

definition new_deposit ::
  "db \<Rightarrow> int \<Rightarrow> string \<Rightarrow> int \<Rightarrow> int \<Rightarrow> string \<Rightarrow> string \<Rightarrow> uuid \<Rightarrow> int \<Rightarrow> uuid \<Rightarrow> onchain_deposit" where
  "new_deposit db chain_id tx_hash log_index block_number block_hash to_address asset_id amount user_id =
     \<lparr>dep_id = next_uuid db, dep_chain_id = chain_id, dep_tx_hash = tx_hash,
      dep_log_index = Some log_index, dep_block_number = block_number, dep_block_hash = block_hash,
      dep_to_address = to_address, dep_asset_id = asset_id, dep_amount = amount,
      dep_status = DepSeen, dep_user_id = Some user_id, dep_credit_revision = 0,
      dep_created_at = db_now db\<rparr>"

definition dep_key :: "onchain_deposit \<Rightarrow> int \<times> string \<times> int option" where
  "dep_key d = (dep_chain_id d, dep_tx_hash d, dep_log_index d)"

definition update_deposit :: "uuid \<Rightarrow> (onchain_deposit \<Rightarrow> onchain_deposit) \<Rightarrow> db \<Rightarrow> db" where
  "update_deposit i f db = db\<lparr>onchain_deposits := upd_row dep_id i f (onchain_deposits db)\<rparr>"

definition resurrect :: "onchain_deposit \<Rightarrow> onchain_deposit \<Rightarrow> onchain_deposit" where
  "resurrect deposit existing = existing\<lparr>dep_block_number := dep_block_number deposit,
     dep_block_hash := dep_block_hash deposit, dep_amount := dep_amount deposit,
     dep_status := DepSeen, dep_credit_revision := dep_credit_revision existing + 1\<rparr>"

definition insert_if_new :: "db \<Rightarrow> onchain_deposit \<Rightarrow> error + (bool \<times> db)" where
  "insert_if_new db deposit =
     bind_res (scalar_one_or_none (filter (\<lambda>d. dep_key d = dep_key deposit) (onchain_deposits db)))
       (\<lambda>existing. case existing of
          None \<Rightarrow> Inr (True, db\<lparr>onchain_deposits := onchain_deposits db @ [deposit],
                              next_uuid := Suc (next_uuid db)\<rparr>)
        | Some e \<Rightarrow>
            if dep_status e = DepOrphaned
            then Inr (True, update_deposit (dep_id e) (resurrect deposit) db)
            else Inr (False, db))"

definition of_bool_int :: "bool \<Rightarrow> int" where "of_bool_int b = (if b then 1 else 0)"

text \<open>\<open>recorded += int(await _insert_if_new(...))\<close>\<close>

definition record_one :: "onchain_deposit \<Rightarrow> db \<times> int \<Rightarrow> error + (db \<times> int)" where
  "record_one deposit s =
     (case s of (db, recorded) \<Rightarrow>
        bind_res (insert_if_new db deposit) (\<lambda>(b, db). Inr (db, recorded + of_bool_int b)))"

definition record_erc20 ::
  "int \<Rightarrow> (string \<times> asset) list \<Rightarrow> (string \<times> uuid) list \<Rightarrow> erc20_transfer \<Rightarrow> db \<times> int
    \<Rightarrow> error + (db \<times> int)" where
  "record_erc20 chain_id erc20_by_contract owners transfer s =
     (case (map_of erc20_by_contract (lower (et_token_address transfer)),
            map_of owners (lower (et_to_address transfer))) of
        (Some asset, Some user_id) \<Rightarrow>
          record_one (new_deposit (fst s) chain_id (et_tx_hash transfer) (et_log_index transfer)
            (et_block_number transfer) (et_block_hash transfer) (et_to_address transfer)
            (ast_id asset) (et_value transfer) user_id) s
      | _ \<Rightarrow> Inr s)"

definition record_native ::
  "int \<Rightarrow> asset \<Rightarrow> string option \<Rightarrow> (string \<times> uuid) list \<Rightarrow> native_transfer \<Rightarrow> db \<times> int
    \<Rightarrow> error + (db \<times> int)" where
  "record_native chain_id native_asset hot_wallet_lower owners native s =
     (if hot_wallet_lower = Some (lower (na_from_address native)) then Inr s
      else case map_of owners (lower (na_to_address native)) of
        None \<Rightarrow> Inr s
      | Some user_id \<Rightarrow>
          record_one (new_deposit (fst s) chain_id (na_tx_hash native) (na_log_index native)
            (na_block_number native) (na_block_hash native) (na_to_address native)
            (ast_id native_asset) (na_value native) user_id) s)"

text \<open>The two parts of \<open>record_deposits\<close>: token transfers, then native ones.\<close>

definition scan_erc20 ::
  "chain_client \<Rightarrow> (string \<times> asset) list \<Rightarrow> (string \<times> uuid) list \<Rightarrow> int \<Rightarrow> int \<Rightarrow> db \<times> int
    \<Rightarrow> error + (db \<times> int)" where
  "scan_erc20 client erc20_by_contract owners from_block to_block s =
     (if erc20_by_contract = [] then Inr s
      else bind_res (cl_fetch_erc20_transfers client (map fst erc20_by_contract) (map fst owners)
          from_block to_block) (\<lambda>transfers.
        for_each (record_erc20 (cl_chain_id client) erc20_by_contract owners) transfers s))"

definition scan_native ::
  "chain_client \<Rightarrow> asset option \<Rightarrow> (string \<times> uuid) list \<Rightarrow> bool \<Rightarrow> string option \<Rightarrow> int \<Rightarrow> int
    \<Rightarrow> db \<times> int \<Rightarrow> error + (db \<times> int)" where
  "scan_native client native_asset owners watch_internal hot_wallet_address from_block to_block s =
     (case native_asset of
        None \<Rightarrow> Inr s
      | Some asset \<Rightarrow>
          bind_res (cl_fetch_native_transfers client (map fst owners) from_block to_block) (\<lambda>natives.
          bind_res (if watch_internal
              then cl_fetch_internal_transfers client (map fst owners) from_block to_block
              else Inr []) (\<lambda>internals.
          for_each (record_native (cl_chain_id client) asset (map_option lower hot_wallet_address) owners)
            (natives @ internals) s)))"

definition record_deposits ::
  "db \<Rightarrow> chain_client \<Rightarrow> int \<Rightarrow> int \<Rightarrow> bool \<Rightarrow> string option \<Rightarrow> error + (int \<times> db)" where
  "record_deposits db client from_block to_block watch_internal hot_wallet_address =
     (if to_block < from_block then Inr (0, db)
      else
      let owners = deposit_address_owners db in
      if owners = [] then Inr (0, db)
      else
      let (erc20_by_contract, native_asset) = chain_assets db (cl_chain_id client) in
      bind_res (scan_erc20 client erc20_by_contract owners from_block to_block (db, 0)) (\<lambda>s.
      bind_res (scan_native client native_asset owners watch_internal hot_wallet_address
          from_block to_block s) (\<lambda>(db, recorded). Inr (recorded, db))))"

section \<open>Crediting and reversing\<close>

definition credit_key :: "uuid \<Rightarrow> int \<Rightarrow> string" where
  "credit_key i revision = ''deposit-credit:'' @ uuid_str i @ '':'' @ int_str revision"

definition uncredit_key :: "uuid \<Rightarrow> int \<Rightarrow> string" where
  "uncredit_key i revision = ''deposit-reverse:'' @ uuid_str i @ '':'' @ int_str revision"

definition credit_deposit :: "onchain_deposit \<times> uuid \<Rightarrow> db \<Rightarrow> error + db" where
  "credit_deposit du db =
     (case du of (deposit, user_id) \<Rightarrow>
     bind_res (load_asset db (dep_asset_id deposit)) (\<lambda>asset.
     bind_res (load_user db user_id) (\<lambda>user.
     let amount = dep_amount deposit in
     bind_res (get_or_create_account db asset DEPOSITS_IN_TRANSIT_ACCOUNT OwSystem None)
       (\<lambda>(in_transit, db).
     bind_res (get_user_wallet_account db user asset) (\<lambda>(wallet, db).
     bind_res (post db LeDeposit (credit_key (dep_id deposit) (dep_credit_revision deposit))
         [LedgerLeg in_transit asset (- amount), LedgerLeg wallet asset amount]
         ''onchain_deposit'' (uuid_str (dep_id deposit))) (\<lambda>(_, db). Inr db))))))"

definition reverse_credit :: "onchain_deposit \<times> uuid \<Rightarrow> db \<Rightarrow> error + db" where
  "reverse_credit du db =
     (case du of (deposit, user_id) \<Rightarrow>
     bind_res (load_asset db (dep_asset_id deposit)) (\<lambda>asset.
     bind_res (load_user db user_id) (\<lambda>user.
     let amount = dep_amount deposit in
     bind_res (get_or_create_account db asset DEPOSITS_IN_TRANSIT_ACCOUNT OwSystem None)
       (\<lambda>(in_transit, db).
     bind_res (get_user_wallet_account db user asset) (\<lambda>(wallet, db).
     bind_res (post db LeReversal (uncredit_key (dep_id deposit) (dep_credit_revision deposit))
         [LedgerLeg wallet asset (- amount), LedgerLeg in_transit asset amount]
         ''onchain_deposit'' (uuid_str (dep_id deposit))) (\<lambda>(_, db). Inr db))))))"

definition set_status :: "deposit_status \<Rightarrow> onchain_deposit \<Rightarrow> onchain_deposit" where
  "set_status s d = d\<lparr>dep_status := s\<rparr>"

definition mark_confirmed :: "db \<Rightarrow> int \<Rightarrow> int \<Rightarrow> db" where
  "mark_confirmed db chain_id threshold =
     db\<lparr>onchain_deposits := map (\<lambda>d.
        if dep_chain_id d = chain_id \<and> dep_status d = DepSeen \<and> dep_block_number d \<le> threshold
        then set_status DepConfirmed d else d) (onchain_deposits db)\<rparr>"

definition credit_one :: "chain_client \<Rightarrow> onchain_deposit \<Rightarrow> db \<times> nat \<Rightarrow> error + (db \<times> nat)" where
  "credit_one client deposit s =
     (case s of (db, credited) \<Rightarrow>
      case dep_user_id deposit of
        None \<Rightarrow> Inr s
      | Some user_id \<Rightarrow>
          bind_res (cl_block_hash client (dep_block_number deposit)) (\<lambda>canonical.
          case canonical of
            None \<Rightarrow> Inr s
          | Some h \<Rightarrow>
              if h \<noteq> dep_block_hash deposit
              then Inr (update_deposit (dep_id deposit) (set_status DepOrphaned) db, credited)
              else bind_res (credit_deposit (deposit, user_id) db) (\<lambda>db.
                Inr (update_deposit (dep_id deposit) (set_status DepCredited) db, Suc credited))))"

definition confirmed_rows :: "db \<Rightarrow> int \<Rightarrow> onchain_deposit list" where
  "confirmed_rows db chain_id =
     filter (\<lambda>d. dep_chain_id d = chain_id \<and> dep_status d = DepConfirmed) (onchain_deposits db)"

definition confirm_and_credit :: "db \<Rightarrow> chain_client \<Rightarrow> int \<Rightarrow> error + (nat \<times> db)" where
  "confirm_and_credit db client confirmations =
     bind_res (cl_block_number client) (\<lambda>head.
     let threshold = head - confirmations;
         db = mark_confirmed db (cl_chain_id client) threshold in
     bind_res (for_each (credit_one client) (confirmed_rows db (cl_chain_id client)) (db, 0))
       (\<lambda>(db, credited). Inr (credited, db)))"

record reorg_state =
  ro_db :: db
  ro_orphaned :: nat
  ro_lowest_block :: "int option"

definition reorg_one :: "chain_client \<Rightarrow> onchain_deposit \<Rightarrow> reorg_state \<Rightarrow> error + reorg_state" where
  "reorg_one client deposit s =
     bind_res (cl_block_hash client (dep_block_number deposit)) (\<lambda>canonical.
     if canonical = None \<or> canonical = Some (dep_block_hash deposit) then Inr s
     else
       bind_res (case dep_user_id deposit of
           Some user_id \<Rightarrow>
             if dep_status deposit = DepCredited then reverse_credit (deposit, user_id) (ro_db s)
             else Inr (ro_db s)
         | None \<Rightarrow> Inr (ro_db s)) (\<lambda>db.
       let block = dep_block_number deposit in
       Inr \<lparr>ro_db = update_deposit (dep_id deposit) (set_status DepOrphaned) db,
            ro_orphaned = Suc (ro_orphaned s),
            ro_lowest_block = Some (case ro_lowest_block s of
              None \<Rightarrow> block | Some l \<Rightarrow> min l block)\<rparr>))"

definition reorg_candidates :: "db \<Rightarrow> int \<Rightarrow> int \<Rightarrow> onchain_deposit list" where
  "reorg_candidates db chain_id window_floor =
     filter (\<lambda>d. dep_chain_id d = chain_id \<and> dep_status d \<in> {DepSeen, DepConfirmed, DepCredited}
       \<and> window_floor < dep_block_number d) (onchain_deposits db)"

definition handle_reorgs :: "db \<Rightarrow> chain_client \<Rightarrow> int \<Rightarrow> error + reorg_state" where
  "handle_reorgs db client reorg_depth =
     bind_res (cl_block_number client) (\<lambda>head.
     for_each (reorg_one client) (reorg_candidates db (cl_chain_id client) (head - reorg_depth))
       \<lparr>ro_db = db, ro_orphaned = 0, ro_lowest_block = None\<rparr>)"

section \<open>A scan pass\<close>

text \<open>
  Before the scan the cursor moves to the head and the scan starts behind its old position;
  after it the cursor goes back below the lowest orphaned block.
\<close>

definition update_cursor :: "int \<Rightarrow> (chain_cursor \<Rightarrow> chain_cursor) \<Rightarrow> db \<Rightarrow> db" where
  "update_cursor chain_id f db =
     db\<lparr>chain_cursors := upd_row cc_chain_id chain_id f (chain_cursors db)\<rparr>"

definition advance_cursor :: "db \<Rightarrow> int \<Rightarrow> int \<Rightarrow> int \<Rightarrow> int \<Rightarrow> error + (int \<times> db)" where
  "advance_cursor db chain_id head finalized start_block =
     bind_res (get_cursor db chain_id) (\<lambda>cursor.
     case cursor of
       None \<Rightarrow> Inr (start_block, db\<lparr>chain_cursors := chain_cursors db @
                 [\<lparr>cc_chain_id = chain_id, cc_last_scanned_block = head,
                   cc_last_finalized_block = finalized\<rparr>]\<rparr>)
     | Some c \<Rightarrow> Inr (cc_last_scanned_block c + 1, update_cursor chain_id (\<lambda>c.
                 c\<lparr>cc_last_scanned_block := max (cc_last_scanned_block c) head,
                   cc_last_finalized_block := finalized\<rparr>) db))"

definition rewind_cursor :: "db \<Rightarrow> int \<Rightarrow> int option \<Rightarrow> db" where
  "rewind_cursor db chain_id lowest_block =
     (case lowest_block of
        None \<Rightarrow> db
      | Some l \<Rightarrow> update_cursor chain_id
          (\<lambda>c. c\<lparr>cc_last_scanned_block := min (cc_last_scanned_block c) (l - 1)\<rparr>) db)"

record scan_report =
  sr_recorded :: int
  sr_credited :: nat
  sr_orphaned :: nat

definition run_scan ::
  "db \<Rightarrow> chain_client \<Rightarrow> int \<Rightarrow> int \<Rightarrow> int \<Rightarrow> int \<Rightarrow> bool \<Rightarrow> error + (scan_report \<times> db)" where
  "run_scan db client confirmations reorg_depth finality_depth start_block watch_internal =
     (let chain_id = cl_chain_id client in
      bind_res (cl_block_number client) (\<lambda>head.
      bind_res (advance_cursor db chain_id head (max 0 (head - confirmations)) start_block)
        (\<lambda>(from_block, db).
      bind_res (record_deposits db client from_block head watch_internal None) (\<lambda>(recorded, db).
      bind_res (confirm_and_credit db client confirmations) (\<lambda>(credited, db).
      let margin = max reorg_depth finality_depth in
      bind_res (handle_reorgs db client (confirmations + margin)) (\<lambda>reorg.
      Inr (\<lparr>sr_recorded = recorded, sr_credited = credited, sr_orphaned = ro_orphaned reorg\<rparr>,
           rewind_cursor (ro_db reorg) chain_id (ro_lowest_block reorg))))))))"

end
