(* ===== verification/Deposits.thy ===== *)
theory Deposits
  imports Watcher
begin

text \<open>
  Deposits and the ledger: the two postings of the watcher as clients of the ledger, and the
  invariant \<open>deposits_ok\<close>. Per revision of a deposit its credit is on the ledger at most once
  and is reversed at most once; a reversed or superseded revision has both postings or none;
  and the in-transit account is minus the sum of the deposits that are credited by a posting
  of the watcher.
\<close>

section \<open>The postings\<close>

definition in_transit_key :: "uuid \<Rightarrow> account_key" where
  "in_transit_key a = system_key DEPOSITS_IN_TRANSIT_ACCOUNT a"

lemma credit_deposit_step:
  assumes wf: "ledger_wf db" and c: "credit_deposit x db = Inr db'"
  shows "ledger_step db db' (credit_key (dep_id (fst x)) (dep_credit_revision (fst x)))
    (in_transit_key (dep_asset_id (fst x))) (wallet_key (snd x) (dep_asset_id (fst x)))
    (dep_amount (fst x))"
proof -
  obtain d u where x: "x = (d, u)" by (cases x) blast
  from c obtain asset user a d1 b d2 t where
    asset: "load_asset db (dep_asset_id d) = Inr asset" and
    user: "load_user db u = Inr user" and
    a: "get_or_create_account db asset DEPOSITS_IN_TRANSIT_ACCOUNT OwSystem None = Inr (a, d1)" and
    b: "get_user_wallet_account d1 user asset = Inr (b, d2)" and
    p: "post d2 LeDeposit (credit_key (dep_id d) (dep_credit_revision d))
         [LedgerLeg a asset (- dep_amount d), LedgerLeg b asset (dep_amount d)]
         ''onchain_deposit'' (uuid_str (dep_id d)) = Inr (t, db')"
    by (auto simp: credit_deposit_def x Let_def split: prod.splits)
  from fetch_fetch_post [OF wf get_system_account_ok [OF _ a] get_user_wallet_account_ok [OF _ b] p]
  show ?thesis
    using load_asset_Inr [OF asset] load_user_Inr [OF user] by (simp add: x in_transit_key_def)
qed

lemma moved_back: "moved a b (- n) f = moved b a n f"
  by (auto simp: fun_eq_iff moved_def)

lemma reverse_credit_step:
  assumes wf: "ledger_wf db" and c: "reverse_credit x db = Inr db'"
  shows "ledger_step db db' (uncredit_key (dep_id (fst x)) (dep_credit_revision (fst x)))
    (wallet_key (snd x) (dep_asset_id (fst x))) (in_transit_key (dep_asset_id (fst x)))
    (dep_amount (fst x))"
proof -
  obtain d u where x: "x = (d, u)" by (cases x) blast
  from c obtain asset user a d1 b d2 t where
    asset: "load_asset db (dep_asset_id d) = Inr asset" and
    user: "load_user db u = Inr user" and
    a: "get_or_create_account db asset DEPOSITS_IN_TRANSIT_ACCOUNT OwSystem None = Inr (a, d1)" and
    b: "get_user_wallet_account d1 user asset = Inr (b, d2)" and
    p: "post d2 LeReversal (uncredit_key (dep_id d) (dep_credit_revision d))
         [LedgerLeg b asset (- dep_amount d), LedgerLeg a asset (dep_amount d)]
         ''onchain_deposit'' (uuid_str (dep_id d)) = Inr (t, db')"
    by (auto simp: reverse_credit_def x Let_def split: prod.splits)
  note a' = get_system_account_ok [OF wf a]
  note wf1 = accounts_grew_wf [OF conjunct1 [OF a']]
  note b' = get_user_wallet_account_ok [OF wf1 b]
  have "ledger_step d2 db' (uncredit_key (dep_id d) (dep_credit_revision d))
      (wallet_key (usr_id user) (ast_id asset)) (system_key DEPOSITS_IN_TRANSIT_ACCOUNT (ast_id asset))
      (dep_amount d)"
    by (rule post_pair [OF accounts_grew_wf [OF conjunct1 [OF b']] _ _ _ _ p])
      (use a' b' accounts_grew_in in blast)+
  then show ?thesis
    using load_asset_Inr [OF asset] load_user_Inr [OF user] unfolding x in_transit_key_def fst_conv snd_conv
    by (intro accounts_then_step [OF conjunct1 [OF a']] accounts_then_step [OF conjunct1 [OF b']]) simp
qed

interpretation crediting: ledger_client credit_deposit
    "\<lambda>x. credit_key (dep_id (fst x)) (dep_credit_revision (fst x))"
    "\<lambda>x. in_transit_key (dep_asset_id (fst x))" "\<lambda>x. wallet_key (snd x) (dep_asset_id (fst x))"
    "\<lambda>x. dep_amount (fst x)"
  by unfold_locales (rule credit_deposit_step)

interpretation uncrediting: ledger_client reverse_credit
    "\<lambda>x. uncredit_key (dep_id (fst x)) (dep_credit_revision (fst x))"
    "\<lambda>x. wallet_key (snd x) (dep_asset_id (fst x))" "\<lambda>x. in_transit_key (dep_asset_id (fst x))"
    "\<lambda>x. dep_amount (fst x)"
  by unfold_locales (rule reverse_credit_step)

section \<open>Keys\<close>

definition deposit_key :: "string \<Rightarrow> bool" where
  "deposit_key k \<longleftrightarrow> startswith k ''deposit-credit:'' \<or> startswith k ''deposit-reverse:''"

lemma deposit_keys [simp]:
  "deposit_key (credit_key i r)" "deposit_key (uncredit_key i r)"
  "credit_key i r \<noteq> uncredit_key j s" "uncredit_key j s \<noteq> credit_key i r"
  by (simp_all add: deposit_key_def credit_key_def uncredit_key_def startswith_def)

lemma credit_key_inj [simp]: "credit_key i r = credit_key j s \<longleftrightarrow> i = j \<and> r = s"
  using colon_split [of "uuid_str i" "uuid_str j" "int_str r" "int_str s"] int_str_inj [of r s]
    uuid_str_no_colon by (auto simp: credit_key_def)

lemma uncredit_key_inj [simp]: "uncredit_key i r = uncredit_key j s \<longleftrightarrow> i = j \<and> r = s"
  using colon_split [of "uuid_str i" "uuid_str j" "int_str r" "int_str s"] int_str_inj [of r s]
    uuid_str_no_colon by (auto simp: uncredit_key_def)

lemma in_transit_keys [simp]:
  "in_transit_key a \<noteq> wallet_key u b" "wallet_key u b \<noteq> in_transit_key a"
  "in_transit_key a = in_transit_key b \<longleftrightarrow> a = b"
  "wallet_key u a = wallet_key v b \<longleftrightarrow> u = v \<and> a = b"
  by (auto simp: in_transit_key_def wallet_key_def system_key_def)

section \<open>The invariant\<close>

definition credited_on_ledger :: "db \<Rightarrow> onchain_deposit \<Rightarrow> bool" where
  "credited_on_ledger db d \<longleftrightarrow> dep_status d = DepCredited \<and>
     credit_key (dep_id d) (dep_credit_revision d) \<in> used_keys db"

definition credited_total :: "db \<Rightarrow> uuid \<Rightarrow> int" where
  "credited_total db a = sum_rows (\<lambda>d. credited_on_ledger db d \<and> dep_asset_id d = a) dep_amount
     (onchain_deposits db)"

definition deposit_row_ok :: "db \<Rightarrow> onchain_deposit \<Rightarrow> bool" where
  "deposit_row_ok db d \<longleftrightarrow> dep_id d < next_uuid db \<and> dep_user_id d \<noteq> None \<and>
     (\<forall>r. credit_key (dep_id d) r \<in> used_keys db \<or> uncredit_key (dep_id d) r \<in> used_keys db \<longrightarrow>
        r \<le> dep_credit_revision d) \<and>
     (dep_status d \<in> {DepSeen, DepConfirmed} \<longrightarrow>
        credit_key (dep_id d) (dep_credit_revision d) \<notin> used_keys db) \<and>
     (dep_status d = DepCredited \<longrightarrow> dep_block_number d = 0 \<or>
        credit_key (dep_id d) (dep_credit_revision d) \<in> used_keys db) \<and>
     (dep_status d \<noteq> DepOrphaned \<longrightarrow>
        uncredit_key (dep_id d) (dep_credit_revision d) \<notin> used_keys db) \<and>
     (\<forall>r. r < dep_credit_revision d \<or> dep_status d = DepOrphaned \<longrightarrow>
        (credit_key (dep_id d) r \<in> used_keys db \<longleftrightarrow> uncredit_key (dep_id d) r \<in> used_keys db))"

definition deposits_ok :: "db \<Rightarrow> bool" where
  "deposits_ok db \<longleftrightarrow> ledger_wf db \<and> distinct (map dep_id (onchain_deposits db)) \<and>
     distinct (map dep_key (onchain_deposits db)) \<and>
     (\<forall>d \<in> set (onchain_deposits db). deposit_row_ok db d) \<and>
     (\<forall>k \<in> used_keys db. deposit_key k \<longrightarrow>
        (\<exists>d \<in> set (onchain_deposits db). \<exists>r. k = credit_key (dep_id d) r \<or> k = uncredit_key (dep_id d) r)) \<and>
     (\<forall>a. bal db (in_transit_key a) = - credited_total db a)"

lemma deposits_ok_D:
  assumes "deposits_ok db"
  shows "ledger_wf db" "distinct (map dep_id (onchain_deposits db))"
    "distinct (map dep_key (onchain_deposits db))"
    "d \<in> set (onchain_deposits db) \<Longrightarrow> deposit_row_ok db d"
    "bal db (in_transit_key a) = - credited_total db a"
  using assms by (simp_all add: deposits_ok_def)

lemma fresh_deposit_keys:
  assumes "deposits_ok db" "next_uuid db \<le> i"
  shows "credit_key i r \<notin> used_keys db" "uncredit_key i r \<notin> used_keys db"
proof -
  have "i \<noteq> dep_id d" if "d \<in> set (onchain_deposits db)" for d
    using assms that by (auto simp: deposits_ok_def deposit_row_ok_def)
  then show "credit_key i r \<notin> used_keys db" "uncredit_key i r \<notin> used_keys db"
    using assms(1) by (auto simp: deposits_ok_def dest!: bspec)
qed

text \<open>Operations that leave the deposits, their keys and the in-transit account alone.\<close>

lemma deposits_ok_frame:
  assumes ok: "deposits_ok db" and wf: "ledger_wf db'"
    and rows: "onchain_deposits db' = onchain_deposits db"
    and mono: "next_uuid db \<le> next_uuid db'"
    and used: "\<And>k. deposit_key k \<Longrightarrow> k \<in> used_keys db' \<longleftrightarrow> k \<in> used_keys db"
    and bals: "\<And>a. bal db' (in_transit_key a) = bal db (in_transit_key a)"
  shows "deposits_ok db'"
proof -
  have keys: "credit_key i r \<in> used_keys db' \<longleftrightarrow> credit_key i r \<in> used_keys db"
    "uncredit_key i r \<in> used_keys db' \<longleftrightarrow> uncredit_key i r \<in> used_keys db" for i r
    using used by simp_all
  have "deposit_row_ok db' d" if "deposit_row_ok db d" for d
    using that mono by (auto simp: deposit_row_ok_def keys)
  then show ?thesis
    using ok wf used by (auto simp: deposits_ok_def rows bals credited_total_def credited_on_ledger_def keys)
qed

lemma deposits_ok_step:
  assumes ok: "deposits_ok db" and st: "ledger_step db db' key src dst n"
    and key: "\<not> deposit_key key" and ends: "\<And>a. in_transit_key a \<notin> {src, dst}"
  shows "deposits_ok db'"
proof (rule deposits_ok_frame [OF ok])
  note d = ledger_step_D [OF st]
  show "ledger_wf db'" "next_uuid db \<le> next_uuid db'" using d by simp_all
  show "onchain_deposits db' = onchain_deposits db" using ledger_only_frame [OF d(2)] by simp
  show "k \<in> used_keys db' \<longleftrightarrow> k \<in> used_keys db" if "deposit_key k" for k
    using that key d(3) by auto
  show "bal db' (in_transit_key a) = bal db (in_transit_key a)" for a
    using d(5,6) ends [of a] by (cases "key \<in> used_keys db") (simp_all add: moved_def)
qed

text \<open>A new deposit row.\<close>

lemma deposits_ok_insert:
  assumes ok: "deposits_ok db" and id: "dep_id d = next_uuid db"
    and new: "dep_key d \<notin> dep_key ` set (onchain_deposits db)"
    and st: "dep_status d = DepSeen \<or> dep_status d = DepCredited \<and> dep_block_number d = 0" and user: "dep_user_id d \<noteq> None"
  shows "deposits_ok (db\<lparr>onchain_deposits := onchain_deposits db @ [d], next_uuid := Suc (next_uuid db)\<rparr>)"
    (is "deposits_ok ?d")
proof -
  note f = ledger_frame [of ?d db, simplified]
  note D = deposits_ok_D [OF ok]
  have fresh: "credit_key (dep_id d) r \<notin> used_keys db" "uncredit_key (dep_id d) r \<notin> used_keys db" for r
    using fresh_deposit_keys [OF ok] id by simp_all
  have old: "deposit_row_ok ?d x \<and> dep_id x \<noteq> dep_id d" if "x \<in> set (onchain_deposits db)" for x
    using D(4) [OF that] id by (auto simp: deposit_row_ok_def f)
  have row: "deposit_row_ok ?d d" using st id user by (auto simp: deposit_row_ok_def f fresh [unfolded id])
  have "credited_total ?d a = credited_total db a" for a
    by (simp add: credited_total_def credited_on_ledger_def f fresh)
  moreover have "dep_id d \<notin> dep_id ` set (onchain_deposits db)" using old by force
  ultimately show ?thesis
    using ok f(3) old row new by (auto simp: deposits_ok_def f)
qed

text \<open>One row changes, together with its own keys and the in-transit account.\<close>

lemma deposits_ok_row:
  assumes ok: "deposits_ok db" and d: "d \<in> set (onchain_deposits db)"
    and wf: "ledger_wf db1" and rows: "onchain_deposits db1 = onchain_deposits db"
    and mono: "next_uuid db \<le> next_uuid db1"
    and f: "dep_id (f d) = dep_id d" "dep_key (f d) = dep_key d" "dep_asset_id (f d) = dep_asset_id d"
      "deposit_row_ok db1 (f d)"
    and used: "\<And>k. deposit_key k \<Longrightarrow> (\<And>r. k \<noteq> credit_key (dep_id d) r \<and> k \<noteq> uncredit_key (dep_id d) r) \<Longrightarrow>
      k \<in> used_keys db1 \<longleftrightarrow> k \<in> used_keys db"
    and bals: "\<And>a. bal db1 (in_transit_key a) = bal db (in_transit_key a)
        + (if credited_on_ledger db d \<and> dep_asset_id d = a then dep_amount d else 0)
        - (if credited_on_ledger db1 (f d) \<and> dep_asset_id d = a then dep_amount (f d) else 0)"
  shows "deposits_ok (update_deposit (dep_id d) f db1)" (is "deposits_ok ?d")
proof -
  let ?rows = "onchain_deposits db"
  note D = deposits_ok_D [OF ok]
  note fr = ledger_frame [of ?d db1, unfolded update_deposit_def, simplified, folded update_deposit_def]
  have nu: "next_uuid ?d = next_uuid db1" by (simp add: update_deposit_def)
  have rows': "onchain_deposits ?d = upd_row dep_id (dep_id d) f ?rows"
    by (simp add: update_deposit_def rows)
  have uniq: "x = d" if "x \<in> set ?rows" "dep_id x = dep_id d" for x
    using D(2) that d by (auto simp: distinct_map inj_on_def)
  have maps: "map dep_id (onchain_deposits ?d) = map dep_id ?rows"
    "map dep_key (onchain_deposits ?d) = map dep_key ?rows"
    unfolding rows' by (rule map_upd_row; use uniq f in auto)+
  have keys: "credit_key i r \<in> used_keys db1 \<longleftrightarrow> credit_key i r \<in> used_keys db"
    "uncredit_key i r \<in> used_keys db1 \<longleftrightarrow> uncredit_key i r \<in> used_keys db"
    if "i \<noteq> dep_id d" for i r
    using used that by simp_all
  have row: "deposit_row_ok ?d x" if "x \<in> set (onchain_deposits ?d)" for x
  proof -
    from that obtain y where y: "y \<in> set ?rows" "x = (if dep_id y = dep_id d then f y else y)"
      unfolding rows' in_upd_row_iff by blast
    show ?thesis
    proof (cases "dep_id y = dep_id d")
      case True
      then have "x = f d" using y(2) uniq [OF y(1) True] by simp
      then show ?thesis using f(4) by (simp add: deposit_row_ok_def fr nu)
    next
      case False
      then show ?thesis using y mono D(4) [OF y(1)]
        by (auto simp: deposit_row_ok_def keys [OF False] fr nu)
    qed
  qed
  have same: "credited_on_ledger ?d x = credited_on_ledger db1 x" for x
    by (simp add: credited_on_ledger_def fr)
  have other: "credited_on_ledger db1 x = credited_on_ledger db x" if "x \<in> set ?rows" "x \<noteq> d" for x
    using keys [of "dep_id x"] uniq [OF that(1)] that(2) by (auto simp: credited_on_ledger_def)
  have "bal ?d (in_transit_key a) = - credited_total ?d a" for a
  proof -
    have "sum_rows (\<lambda>x. credited_on_ledger db1 x \<and> dep_asset_id x = a) dep_amount ?rows
        - (if credited_on_ledger db1 d \<and> dep_asset_id d = a then dep_amount d else 0)
      = sum_rows (\<lambda>x. x \<noteq> d \<and> credited_on_ledger db1 x \<and> dep_asset_id x = a) dep_amount ?rows"
      by (rule sum_rows_without [OF D(2) d])
    also have "\<dots> = sum_rows (\<lambda>x. x \<noteq> d \<and> credited_on_ledger db x \<and> dep_asset_id x = a) dep_amount ?rows"
      by (rule sum_rows_cong) (use other in auto)
    also have "\<dots> = credited_total db a
        - (if credited_on_ledger db d \<and> dep_asset_id d = a then dep_amount d else 0)"
      unfolding credited_total_def by (rule sum_rows_without [OF D(2) d, symmetric])
    finally show ?thesis
      using bals [of a] D(5) [of a] f(3)
      unfolding credited_total_def [of ?d] rows' same sum_rows_upd_row [OF D(2) d]
      by (auto simp: fr)
  qed
  moreover have "\<exists>x \<in> set (onchain_deposits ?d). \<exists>r. k = credit_key (dep_id x) r \<or> k = uncredit_key (dep_id x) r"
    if "k \<in> used_keys db1" "deposit_key k" for k
  proof -
    have "(\<exists>r. k = credit_key (dep_id d) r \<or> k = uncredit_key (dep_id d) r) \<or>
        (\<exists>x \<in> set ?rows. \<exists>r. k = credit_key (dep_id x) r \<or> k = uncredit_key (dep_id x) r)"
      using that used [of k] ok by (auto simp: deposits_ok_def)
    then have "\<exists>i \<in> set (map dep_id ?rows). \<exists>r. k = credit_key i r \<or> k = uncredit_key i r"
      using d by auto
    then show ?thesis unfolding maps(1) [symmetric] by auto
  qed
  ultimately show ?thesis
    using fr(3) wf nu row D(2,3) by (simp add: deposits_ok_def maps fr)
qed

end
