(* ===== verification/Deposit_Phases.thy ===== *)
theory Deposit_Phases
  imports Deposits
begin

text \<open>
  Every phase of the deposit watcher keeps \<open>deposits_ok\<close> and touches only the deposits and
  the ledger: recording, crediting and the handling of reorganisations.
\<close>

section \<open>Frame\<close>

definition outside_deposits :: "db \<Rightarrow> db" where
  "outside_deposits db = db\<lparr>ledger_accounts := [], ledger_transactions := [],
     ledger_entries := [], onchain_deposits := [], next_uuid := 0\<rparr>"

lemma outside_deposits_ledger:
  "ledger_only db db' \<Longrightarrow> outside_deposits db' = outside_deposits db"
  unfolding ledger_only_def outside_deposits_def by (erule ssubst) simp

lemma outside_deposits_D:
  assumes "outside_deposits db' = outside_deposits db"
  shows "users db' = users db" "assets db' = assets db"
    "deposit_addresses db' = deposit_addresses db" "chain_cursors db' = chain_cursors db"
    "withdrawal_requests db' = withdrawal_requests db" "nft_deposits db' = nft_deposits db"
    "nft_holdings db' = nft_holdings db" "hot_wallet_nonces db' = hot_wallet_nonces db"
    "nft_mint_requests db' = nft_mint_requests db"
    "nft_withdrawal_requests db' = nft_withdrawal_requests db" "nft_sweeps db' = nft_sweeps db"
    "db_now db' = db_now db"
  using arg_cong [OF assms, of users] arg_cong [OF assms, of assets]
    arg_cong [OF assms, of deposit_addresses] arg_cong [OF assms, of chain_cursors]
    arg_cong [OF assms, of withdrawal_requests] arg_cong [OF assms, of nft_deposits]
    arg_cong [OF assms, of nft_holdings] arg_cong [OF assms, of hot_wallet_nonces]
    arg_cong [OF assms, of nft_mint_requests] arg_cong [OF assms, of nft_withdrawal_requests]
    arg_cong [OF assms, of nft_sweeps] arg_cong [OF assms, of db_now]
  by (simp_all add: outside_deposits_def)

lemma outside_update_deposit [simp]:
  "outside_deposits (update_deposit i f db) = outside_deposits db"
  "outside_deposits (mark_confirmed db c t) = outside_deposits db"
  by (simp_all add: outside_deposits_def update_deposit_def mark_confirmed_def)

lemma update_deposit_ledger [simp]:
  "bal (update_deposit i f db) = bal db" "used_keys (update_deposit i f db) = used_keys db"
  "next_uuid (update_deposit i f db) = next_uuid db"
  "ledger_wf (update_deposit i f db) = ledger_wf db"
  "ledger_transactions (update_deposit i f db) = ledger_transactions db"
  by (simp_all add: update_deposit_def ledger_wf_def entry_ok_def txn_total_def bal_def
      used_keys_def fun_eq_iff)

lemma deposit_row_update:
  "d \<in> set (onchain_deposits db) \<Longrightarrow> f d \<in> set (onchain_deposits (update_deposit (dep_id d) f db))"
  "x \<in> set (onchain_deposits db) \<Longrightarrow> dep_id x \<noteq> i \<Longrightarrow>
     x \<in> set (onchain_deposits (update_deposit i f db))"
  by (simp_all add: update_deposit_def in_upd_row_same in_upd_row_other)

lemma set_status_simps [simp]:
  "dep_id (set_status s d) = dep_id d" "dep_key (set_status s d) = dep_key d"
  "dep_asset_id (set_status s d) = dep_asset_id d" "dep_amount (set_status s d) = dep_amount d"
  "dep_status (set_status s d) = s" "dep_user_id (set_status s d) = dep_user_id d"
  "dep_credit_revision (set_status s d) = dep_credit_revision d"
  "dep_chain_id (set_status s d) = dep_chain_id d"
  "dep_block_number (set_status s d) = dep_block_number d"
  "dep_block_hash (set_status s d) = dep_block_hash d"
  by (simp_all add: set_status_def dep_key_def)

section \<open>Recording\<close>

text \<open>A deposit known to the watcher and not orphaned.\<close>

definition recorded :: "db \<Rightarrow> int \<times> string \<times> int option \<Rightarrow> bool" where
  "recorded db k \<longleftrightarrow> (\<exists>d \<in> set (onchain_deposits db). dep_key d = k \<and> dep_status d \<noteq> DepOrphaned)"

lemma deposits_ok_unique:
  "deposits_ok db \<Longrightarrow> d \<in> set (onchain_deposits db) \<Longrightarrow>
   filter (\<lambda>x. dep_key x = dep_key d) (onchain_deposits db) = [d]"
  by (rule filter_key_distinct) (simp_all add: deposits_ok_def)

text \<open>Leaving a row's ledger postings as they are.\<close>

lemma deposits_ok_update:
  assumes ok: "deposits_ok db" and d: "d \<in> set (onchain_deposits db)"
    and f: "dep_id (f d) = dep_id d" "dep_key (f d) = dep_key d" "dep_asset_id (f d) = dep_asset_id d"
      "deposit_row_ok db (f d)"
    and cr: "credited_on_ledger db d \<longleftrightarrow> credited_on_ledger db (f d)"
      "credited_on_ledger db d \<Longrightarrow> dep_amount (f d) = dep_amount d"
  shows "deposits_ok (update_deposit (dep_id d) f db)"
  by (rule deposits_ok_row [OF ok d deposits_ok_D(1) [OF ok] refl order_refl, where f = f])
    (use f cr in auto)

lemma insert_if_new_ok:
  assumes ok: "deposits_ok db" and id: "dep_id d = next_uuid db"
    and st: "dep_status d = DepSeen" "dep_user_id d \<noteq> None"
    and i: "insert_if_new db d = Inr (b, db')"
  shows "deposits_ok db'" "outside_deposits db' = outside_deposits db"
    "recorded db' (dep_key d)" "recorded db k \<Longrightarrow> recorded db' k"
    "bal db' = bal db" "used_keys db' = used_keys db" "next_uuid db \<le> next_uuid db'"
    "ledger_transactions db' = ledger_transactions db"
proof -
  obtain e where e: "scalar_one_or_none (filter (\<lambda>x. dep_key x = dep_key d) (onchain_deposits db)) = Inr e"
    using i by (auto simp: insert_if_new_def)
  have "deposits_ok db' \<and> outside_deposits db' = outside_deposits db \<and> recorded db' (dep_key d) \<and>
    (\<forall>k. recorded db k \<longrightarrow> recorded db' k) \<and> bal db' = bal db \<and> used_keys db' = used_keys db \<and>
    next_uuid db \<le> next_uuid db' \<and> ledger_transactions db' = ledger_transactions db"
  proof (cases e)
    case None
    then have d': "db' = db\<lparr>onchain_deposits := onchain_deposits db @ [d], next_uuid := Suc (next_uuid db)\<rparr>"
      and new: "dep_key d \<notin> dep_key ` set (onchain_deposits db)"
      using i e by (auto simp: insert_if_new_def filter_empty_conv)
    have "deposits_ok db'"
      unfolding d' by (rule deposits_ok_insert [OF ok id new]) (use st in auto)
    then show ?thesis using ledger_frame [of db' db] st
      by (auto simp: d' outside_deposits_def recorded_def)
  next
    case (Some x)
    then have x: "x \<in> set (onchain_deposits db)" "dep_key x = dep_key d"
      using e filter_single_in by fastforce+
    note row = deposits_ok_D(4) [OF ok x(1)]
    show ?thesis
    proof (cases "dep_status x = DepOrphaned")
      case False
      then show ?thesis using i e Some ok x by (auto simp: insert_if_new_def recorded_def)
    next
      case True
      then have d': "db' = update_deposit (dep_id x) (resurrect d) db"
        using i e Some by (auto simp: insert_if_new_def)
      have "deposits_ok db'"
        unfolding d'
        by (rule deposits_ok_update [OF ok x(1)])
          (use row True in \<open>force simp: resurrect_def dep_key_def deposit_row_ok_def credited_on_ledger_def\<close>)+
      moreover have "recorded db' (dep_key d)"
        unfolding recorded_def d' using deposit_row_update(1) [OF x(1), of "resurrect d"] x(2)
        by (intro bexI [of _ "resurrect d x"]) (simp_all add: resurrect_def dep_key_def)
      moreover have "recorded db' k" if r: "recorded db k" for k
      proof (cases "k = dep_key d")
        case True
        then show ?thesis using \<open>recorded db' (dep_key d)\<close> by simp
      next
        case False
        obtain y where y: "y \<in> set (onchain_deposits db)" "dep_key y = k" "dep_status y \<noteq> DepOrphaned"
          using r by (auto simp: recorded_def)
        have "dep_id y \<noteq> dep_id x"
          using deposits_ok_D(2) [OF ok] x y False by (auto simp: distinct_map inj_on_def)
        then show ?thesis unfolding recorded_def d' using deposit_row_update(2) [OF y(1)] y by blast
      qed
      ultimately show ?thesis by (simp add: d')
    qed
  qed
  then show "deposits_ok db'" "outside_deposits db' = outside_deposits db"
    "recorded db' (dep_key d)" "recorded db k \<Longrightarrow> recorded db' k"
    "bal db' = bal db" "used_keys db' = used_keys db" "next_uuid db \<le> next_uuid db'"
    "ledger_transactions db' = ledger_transactions db" by blast+
qed

text \<open>What recording does to the state, whatever it records.\<close>

definition recording :: "db \<Rightarrow> db \<Rightarrow> bool" where
  "recording db db' \<longleftrightarrow> deposits_ok db' \<and> outside_deposits db' = outside_deposits db \<and>
     (\<forall>k. recorded db k \<longrightarrow> recorded db' k) \<and> bal db' = bal db \<and> used_keys db' = used_keys db \<and>
     next_uuid db \<le> next_uuid db' \<and> ledger_transactions db' = ledger_transactions db"

lemma recording_refl: "deposits_ok db \<Longrightarrow> recording db db"
  by (simp add: recording_def)

lemma recording_trans: "recording a b \<Longrightarrow> recording b c \<Longrightarrow> recording a c"
  by (simp add: recording_def)

lemma record_one_ok:
  assumes ok: "deposits_ok (fst s)"
    and r: "record_one (new_deposit (fst s) c tx li bn bh ta a n u) s = Inr s'"
  shows "recording (fst s) (fst s') \<and> recorded (fst s') (c, tx, Some li)"
proof -
  let ?d = "new_deposit (fst s) c tx li bn bh ta a n u"
  from r obtain b where i: "insert_if_new (fst s) ?d = Inr (b, fst s')"
    by (cases s) (auto simp: record_one_def)
  have d: "dep_id ?d = next_uuid (fst s)" "dep_status ?d = DepSeen" "dep_user_id ?d \<noteq> None"
    "dep_key ?d = (c, tx, Some li)" by (simp_all add: new_deposit_def dep_key_def)
  note io = insert_if_new_ok [OF ok d(1-3) i]
  show ?thesis using io d(4) by (simp add: recording_def)
qed

lemma record_again:
  assumes ok: "deposits_ok (fst s)" and r: "recorded (fst s) (c, tx, Some li)"
  shows "record_one (new_deposit (fst s) c tx li bn bh ta a n u) s = Inr s"
proof -
  obtain d where d: "d \<in> set (onchain_deposits (fst s))" "dep_key d = (c, tx, Some li)"
      "dep_status d \<noteq> DepOrphaned"
    using r by (auto simp: recorded_def)
  have "dep_key (new_deposit (fst s) c tx li bn bh ta a n u) = dep_key d"
    using d(2) by (simp add: new_deposit_def dep_key_def)
  then show ?thesis using deposits_ok_unique [OF ok d(1)] d(3)
    by (cases s) (simp add: record_one_def insert_if_new_def of_bool_int_def)
qed

text \<open>The two loops have the same shape: each item is irrelevant or names one deposit.\<close>

lemma record_loop:
  assumes "for_each f xs s = Inr s'" "deposits_ok (fst s)"
    and step: "\<And>x t t'. x \<in> set xs \<Longrightarrow> deposits_ok (fst t) \<Longrightarrow> f x t = Inr t' \<Longrightarrow>
      recording (fst t) (fst t') \<and> (rel x \<longrightarrow> recorded (fst t') (key x))"
  shows "recording (fst s) (fst s') \<and> (\<forall>x \<in> set xs. rel x \<longrightarrow> recorded (fst s') (key x))"
  using assms
proof (induction xs arbitrary: s)
  case Nil
  then show ?case by (simp add: recording_refl)
next
  case (Cons x xs)
  from Cons.prems(1) obtain t where t: "f x s = Inr t" "for_each f xs t = Inr s'" by auto
  have st: "recording (fst s) (fst t) \<and> (rel x \<longrightarrow> recorded (fst t) (key x))"
    by (rule Cons.prems(3) [OF _ Cons.prems(2) t(1)]) simp
  have ok: "deposits_ok (fst t)" using st by (simp add: recording_def)
  have rest: "recording (fst t) (fst s') \<and> (\<forall>x \<in> set xs. rel x \<longrightarrow> recorded (fst s') (key x))"
    by (rule Cons.IH [OF t(2) ok]) (rule Cons.prems(3), simp_all)
  have "recording (fst s) (fst s')" using st rest recording_trans by blast
  moreover have "rel x \<longrightarrow> recorded (fst s') (key x)" using st rest unfolding recording_def by blast
  ultimately show ?case using rest by simp
qed

lemma for_each_fixed: "(\<And>x. x \<in> set xs \<Longrightarrow> f x s = Inr s) \<Longrightarrow> for_each f xs s = Inr s"
  by (induction xs) simp_all

definition erc20_relevant ::
  "(string \<times> asset) list \<Rightarrow> (string \<times> uuid) list \<Rightarrow> erc20_transfer \<Rightarrow> bool" where
  "erc20_relevant cs owners t \<longleftrightarrow> map_of cs (lower (et_token_address t)) \<noteq> None \<and>
     map_of owners (lower (et_to_address t)) \<noteq> None"

definition native_relevant ::
  "string option \<Rightarrow> (string \<times> uuid) list \<Rightarrow> native_transfer \<Rightarrow> bool" where
  "native_relevant hot owners t \<longleftrightarrow> hot \<noteq> Some (lower (na_from_address t)) \<and>
     map_of owners (lower (na_to_address t)) \<noteq> None"

lemma record_erc20_ok:
  assumes "deposits_ok (fst s)" "record_erc20 c cs owners t s = Inr s'"
  shows "recording (fst s) (fst s') \<and>
    (erc20_relevant cs owners t \<longrightarrow> recorded (fst s') (c, et_tx_hash t, Some (et_log_index t)))"
  using assms record_one_ok [OF assms(1)]
  by (auto simp: record_erc20_def erc20_relevant_def recording_refl split: option.splits)

lemma record_native_ok:
  assumes "deposits_ok (fst s)" "record_native c a hot owners t s = Inr s'"
  shows "recording (fst s) (fst s') \<and>
    (native_relevant hot owners t \<longrightarrow> recorded (fst s') (c, na_tx_hash t, Some (na_log_index t)))"
  using assms record_one_ok [OF assms(1)]
  by (auto simp: record_native_def native_relevant_def recording_refl split: option.splits if_splits)

text \<open>
  Each part of the pass records what is relevant; where everything it found is recorded
  already, the same part finds nothing new.
\<close>

lemma scan_erc20_ok:
  assumes ok: "deposits_ok (fst s)" and r: "scan_erc20 client cs ow a b s = Inr s'"
  shows "recording (fst s) (fst s')"
    and "deposits_ok d \<Longrightarrow> (\<And>k. recorded (fst s') k \<Longrightarrow> recorded d k) \<Longrightarrow>
      scan_erc20 client cs ow a b (d, n) = Inr (d, n)"
proof -
  let ?f = "record_erc20 (cl_chain_id client) cs ow"
  consider (none) "cs = []" "s' = s"
    | (some) ts where "cs \<noteq> []" "cl_fetch_erc20_transfers client (map fst cs) (map fst ow) a b = Inr ts"
      "for_each ?f ts s = Inr s'"
    using r by (auto simp: scan_erc20_def split: if_splits)
  then have "recording (fst s) (fst s') \<and> (deposits_ok d \<longrightarrow> (\<forall>k. recorded (fst s') k \<longrightarrow> recorded d k) \<longrightarrow>
      scan_erc20 client cs ow a b (d, n) = Inr (d, n))"
  proof cases
    case none
    then show ?thesis using ok by (simp add: recording_refl scan_erc20_def)
  next
    case (some ts)
    have l: "recording (fst s) (fst s') \<and> (\<forall>t \<in> set ts. erc20_relevant cs ow t \<longrightarrow>
        recorded (fst s') (cl_chain_id client, et_tx_hash t, Some (et_log_index t)))"
      by (rule record_loop [OF some(3) ok]) (rule record_erc20_ok)
    have "for_each ?f ts (d, n) = Inr (d, n)"
      if "deposits_ok d" "\<forall>k. recorded (fst s') k \<longrightarrow> recorded d k"
    proof (rule for_each_fixed)
      fix t assume "t \<in> set ts"
      then show "?f t (d, n) = Inr (d, n)"
        using l that record_again [of "(d, n)"]
        by (cases "erc20_relevant cs ow t")
          (auto simp: record_erc20_def erc20_relevant_def split: option.splits)
    qed
    then show ?thesis using l some(1,2) by (simp add: scan_erc20_def)
  qed
  then show "recording (fst s) (fst s')"
    and "deposits_ok d \<Longrightarrow> (\<And>k. recorded (fst s') k \<Longrightarrow> recorded d k) \<Longrightarrow>
      scan_erc20 client cs ow a b (d, n) = Inr (d, n)" by blast+
qed

lemma scan_native_ok:
  assumes ok: "deposits_ok (fst s)" and r: "scan_native client na ow wi hot a b s = Inr s'"
  shows "recording (fst s) (fst s')"
    and "deposits_ok d \<Longrightarrow> (\<And>k. recorded (fst s') k \<Longrightarrow> recorded d k) \<Longrightarrow>
      scan_native client na ow wi hot a b (d, n) = Inr (d, n)"
proof -
  let ?h = "map_option lower hot"
  consider (none) "na = None" "s' = s"
    | (some) asset ns ins where "na = Some asset"
      "cl_fetch_native_transfers client (map fst ow) a b = Inr ns"
      "(if wi then cl_fetch_internal_transfers client (map fst ow) a b else Inr []) = Inr ins"
      "for_each (record_native (cl_chain_id client) asset ?h ow) (ns @ ins) s = Inr s'"
    using r by (cases na) (auto simp: scan_native_def)
  then have "recording (fst s) (fst s') \<and> (deposits_ok d \<longrightarrow> (\<forall>k. recorded (fst s') k \<longrightarrow> recorded d k) \<longrightarrow>
      scan_native client na ow wi hot a b (d, n) = Inr (d, n))"
  proof cases
    case none
    then show ?thesis using ok by (simp add: recording_refl scan_native_def)
  next
    case (some asset ns ins)
    let ?f = "record_native (cl_chain_id client) asset ?h ow"
    have l: "recording (fst s) (fst s') \<and> (\<forall>t \<in> set (ns @ ins). native_relevant ?h ow t \<longrightarrow>
        recorded (fst s') (cl_chain_id client, na_tx_hash t, Some (na_log_index t)))"
      by (rule record_loop [OF some(4) ok]) (rule record_native_ok)
    have "for_each ?f (ns @ ins) (d, n) = Inr (d, n)"
      if "deposits_ok d" "\<forall>k. recorded (fst s') k \<longrightarrow> recorded d k"
    proof (rule for_each_fixed)
      fix t assume "t \<in> set (ns @ ins)"
      then have "native_relevant ?h ow t \<longrightarrow>
          recorded d (cl_chain_id client, na_tx_hash t, Some (na_log_index t))"
        using l that(2) by blast
      then show "?f t (d, n) = Inr (d, n)"
        using that(1) record_again [of "(d, n)"]
        by (cases "native_relevant ?h ow t")
          (auto simp: record_native_def native_relevant_def split: option.splits)
    qed
    then show ?thesis using l some(1-3) by (simp add: scan_native_def)
  qed
  then show "recording (fst s) (fst s')"
    and "deposits_ok d \<Longrightarrow> (\<And>k. recorded (fst s') k \<Longrightarrow> recorded d k) \<Longrightarrow>
      scan_native client na ow wi hot a b (d, n) = Inr (d, n)" by blast+
qed

text \<open>
  The whole pass: what it does to the state, and that the state it leaves is a fixed point of
  the same pass.
\<close>

lemma record_deposits_ok:
  assumes ok: "deposits_ok db"
    and r: "record_deposits db client from_block to_block wi hot = Inr (n, db')"
  shows "recording db db'" "record_deposits db' client from_block to_block wi hot = Inr (0, db')"
proof -
  let ?o = "deposit_address_owners db"
  obtain cs na where ca: "chain_assets db (cl_chain_id client) = (cs, na)" by force
  have "recording db db' \<and> record_deposits db' client from_block to_block wi hot = Inr (0, db')"
  proof (cases "to_block < from_block \<or> ?o = []")
    case True
    then have "db' = db" using r by (auto simp: record_deposits_def Let_def split: if_splits)
    then show ?thesis using True ok by (auto simp: record_deposits_def Let_def recording_refl)
  next
    case False
    then obtain s where e: "scan_erc20 client cs ?o from_block to_block (db, 0) = Inr s"
      and m: "scan_native client na ?o wi hot from_block to_block s = Inr (db', n)"
      using r ca by (auto simp: record_deposits_def Let_def)
    note se = scan_erc20_ok(1) [OF _ e, simplified, OF ok]
    have "deposits_ok (fst s)" using se by (simp add: recording_def)
    note sn = scan_native_ok(1) [OF this m, simplified]
    have rec: "recording db db'" by (rule recording_trans [OF se sn])
    then have ok': "deposits_ok db'" and out: "outside_deposits db' = outside_deposits db"
      by (simp_all add: recording_def)
    have keep: "recorded (fst s) k \<Longrightarrow> recorded db' k" for k using sn unfolding recording_def by blast
    have o': "deposit_address_owners db' = ?o" "chain_assets db' (cl_chain_id client) = (cs, na)"
      using outside_deposits_D(2,3) [OF out] ca by (simp_all add: deposit_address_owners_def chain_assets_def)
    have "scan_erc20 client cs ?o from_block to_block (db', 0) = Inr (db', 0)"
      by (rule scan_erc20_ok(2) [OF _ e ok' keep]) (simp_all add: ok)
    moreover have "scan_native client na ?o wi hot from_block to_block (db', 0) = Inr (db', 0)"
      by (rule scan_native_ok(2) [OF \<open>deposits_ok (fst s)\<close> m ok']) simp
    ultimately show ?thesis using False rec by (simp add: record_deposits_def Let_def o')
  qed
  then show "recording db db'" "record_deposits db' client from_block to_block wi hot = Inr (0, db')"
    by simp_all
qed

section \<open>Crediting\<close>

lemma sum_rows_map: "sum_rows P f (map g rows) = sum_rows (\<lambda>r. P (g r)) (\<lambda>r. f (g r)) rows"
  by (induction rows) simp_all

lemma mark_confirmed_ok:
  assumes ok: "deposits_ok db"
  shows "deposits_ok (mark_confirmed db c t)" (is "deposits_ok ?d")
proof -
  let ?g = "\<lambda>d. if dep_chain_id d = c \<and> dep_status d = DepSeen \<and> dep_block_number d \<le> t
    then set_status DepConfirmed d else d"
  have rows: "onchain_deposits ?d = map ?g (onchain_deposits db)" by (simp add: mark_confirmed_def)
  have fr: "bal ?d = bal db" "used_keys ?d = used_keys db" "ledger_wf ?d" "next_uuid ?d = next_uuid db"
    using ledger_frame [of ?d db] deposits_ok_D(1) [OF ok] by (simp_all add: mark_confirmed_def)
  have maps: "map dep_id (onchain_deposits ?d) = map dep_id (onchain_deposits db)"
    "map dep_key (onchain_deposits ?d) = map dep_key (onchain_deposits db)"
    unfolding rows by simp_all
  have row: "deposit_row_ok ?d (?g x)" if "x \<in> set (onchain_deposits db)" for x
    using deposits_ok_D(4) [OF ok that] by (auto simp: deposit_row_ok_def fr)
  have "credited_total ?d a = credited_total db a" for a
    unfolding credited_total_def rows sum_rows_map
    by (rule sum_rows_cong) (auto simp: credited_on_ledger_def fr)
  moreover have "\<exists>x \<in> set (onchain_deposits ?d). \<exists>r. k = credit_key (dep_id x) r \<or> k = uncredit_key (dep_id x) r"
    if "k \<in> used_keys db" "deposit_key k" for k
  proof -
    have "\<exists>i \<in> set (map dep_id (onchain_deposits db)). \<exists>r. k = credit_key i r \<or> k = uncredit_key i r"
      using ok that by (auto simp: deposits_ok_def)
    then show ?thesis unfolding maps(1) [symmetric] by auto
  qed
  moreover have "\<forall>x \<in> set (onchain_deposits ?d). deposit_row_ok ?d x"
    unfolding rows set_map using row by blast
  ultimately show ?thesis
    using deposits_ok_D(2,3,5) [OF ok] by (simp add: deposits_ok_def fr maps)
qed

lemma credit_one_cases:
  assumes "credit_one client d (db, n) = Inr (db', n')"
  obtains (wait) "db' = db" "n' = n"
      "dep_user_id d = None \<or> cl_block_hash client (dep_block_number d) = Inr None"
    | (orphan) h where "cl_block_hash client (dep_block_number d) = Inr (Some h)" "h \<noteq> dep_block_hash d"
      "db' = update_deposit (dep_id d) (set_status DepOrphaned) db" "n' = n"
    | (credit) u db1 where "dep_user_id d = Some u"
      "cl_block_hash client (dep_block_number d) = Inr (Some (dep_block_hash d))"
      "credit_deposit (d, u) db = Inr db1"
      "db' = update_deposit (dep_id d) (set_status DepCredited) db1" "n' = Suc n"
  using assms by (auto simp: credit_one_def split: option.splits if_splits)

lemma deposits_ok_credit:
  assumes ok: "deposits_ok db" and d: "d \<in> set (onchain_deposits db)"
    and st: "dep_status d = DepConfirmed" and c: "credit_deposit (d, u) db = Inr db1"
  shows "deposits_ok (update_deposit (dep_id d) (set_status DepCredited) db1)"
    "bal db1 = moved (in_transit_key (dep_asset_id d)) (wallet_key u (dep_asset_id d))
      (dep_amount d) (bal db)"
    "ledger_only db db1" "used_keys db1 = insert (credit_key (dep_id d) (dep_credit_revision d)) (used_keys db)"
proof -
  note S = ledger_step_D [OF credit_deposit_step [OF deposits_ok_D(1) [OF ok] c], unfolded fst_conv snd_conv]
  note row = deposits_ok_D(4) [OF ok d]
  have fresh: "credit_key (dep_id d) (dep_credit_revision d) \<notin> used_keys db"
    using row st by (simp add: deposit_row_ok_def)
  note b = S(6) [OF fresh]
  show "deposits_ok (update_deposit (dep_id d) (set_status DepCredited) db1)"
  proof (rule deposits_ok_row [OF ok d S(1) _ S(4)])
    show "onchain_deposits db1 = onchain_deposits db" using ledger_only_frame [OF S(2)] by simp
    show "deposit_row_ok db1 (set_status DepCredited d)"
      using row st S(3,4) by (auto simp: deposit_row_ok_def)
    show "bal db1 (in_transit_key a) = bal db (in_transit_key a)
        + (if credited_on_ledger db d \<and> dep_asset_id d = a then dep_amount d else 0)
        - (if credited_on_ledger db1 (set_status DepCredited d) \<and> dep_asset_id d = a
           then dep_amount (set_status DepCredited d) else 0)" for a
      using st by (auto simp: b S(3) credited_on_ledger_def moved_def)
  qed (use S(3) in auto)
  show "bal db1 = moved (in_transit_key (dep_asset_id d)) (wallet_key u (dep_asset_id d))
      (dep_amount d) (bal db)" "ledger_only db db1"
    "used_keys db1 = insert (credit_key (dep_id d) (dep_credit_revision d)) (used_keys db)"
    using b S(2,3) by simp_all
qed

lemma deposits_ok_orphan:
  assumes ok: "deposits_ok db" and d: "d \<in> set (onchain_deposits db)"
    and st: "dep_status d \<in> {DepSeen, DepConfirmed}"
  shows "deposits_ok (update_deposit (dep_id d) (set_status DepOrphaned) db)"
proof (rule deposits_ok_update [OF ok d])
  note row = deposits_ok_D(4) [OF ok d]
  have "credit_key (dep_id d) r \<in> used_keys db \<longleftrightarrow> uncredit_key (dep_id d) r \<in> used_keys db" for r
    using row st by (cases "r = dep_credit_revision d"; cases "r < dep_credit_revision d")
      (auto simp: deposit_row_ok_def)
  then show "deposit_row_ok db (set_status DepOrphaned d)" using row by (simp add: deposit_row_ok_def)
qed (use st in \<open>auto simp: credited_on_ledger_def\<close>)

lemma deposits_ok_uncredit:
  assumes ok: "deposits_ok db" and d: "d \<in> set (onchain_deposits db)"
    and cr: "credited_on_ledger db d" and c: "reverse_credit (d, u) db = Inr db1"
  shows "deposits_ok (update_deposit (dep_id d) (set_status DepOrphaned) db1)"
    "bal db1 = moved (wallet_key u (dep_asset_id d)) (in_transit_key (dep_asset_id d))
      (dep_amount d) (bal db)"
    "ledger_only db db1" "used_keys db1 = insert (uncredit_key (dep_id d) (dep_credit_revision d)) (used_keys db)"
proof -
  note S = ledger_step_D [OF reverse_credit_step [OF deposits_ok_D(1) [OF ok] c], unfolded fst_conv snd_conv]
  note row = deposits_ok_D(4) [OF ok d]
  have st: "dep_status d = DepCredited"
    and key: "credit_key (dep_id d) (dep_credit_revision d) \<in> used_keys db"
    using cr by (simp_all add: credited_on_ledger_def)
  have fresh: "uncredit_key (dep_id d) (dep_credit_revision d) \<notin> used_keys db"
    using row st by (simp add: deposit_row_ok_def)
  note b = S(6) [OF fresh]
  show "deposits_ok (update_deposit (dep_id d) (set_status DepOrphaned) db1)"
  proof (rule deposits_ok_row [OF ok d S(1) _ S(4)])
    show "onchain_deposits db1 = onchain_deposits db" using ledger_only_frame [OF S(2)] by simp
    have "credit_key (dep_id d) r \<in> used_keys db1 \<longleftrightarrow> uncredit_key (dep_id d) r \<in> used_keys db1" for r
      using row key S(3) by (cases "r = dep_credit_revision d"; cases "r < dep_credit_revision d")
        (auto simp: deposit_row_ok_def)
    then show "deposit_row_ok db1 (set_status DepOrphaned d)"
      using row st key S(3,4) by (auto simp: deposit_row_ok_def)
    show "bal db1 (in_transit_key a) = bal db (in_transit_key a)
        + (if credited_on_ledger db d \<and> dep_asset_id d = a then dep_amount d else 0)
        - (if credited_on_ledger db1 (set_status DepOrphaned d) \<and> dep_asset_id d = a
           then dep_amount (set_status DepOrphaned d) else 0)" for a
      using st key by (auto simp: b credited_on_ledger_def moved_def)
  qed (use S(3) in auto)
  show "bal db1 = moved (wallet_key u (dep_asset_id d)) (in_transit_key (dep_asset_id d))
      (dep_amount d) (bal db)" "ledger_only db db1"
    "used_keys db1 = insert (uncredit_key (dep_id d) (dep_credit_revision d)) (used_keys db)"
    using b S(2,3) by simp_all
qed

text \<open>What the crediting pass makes of a confirmed row, by the chain's answer for its block.\<close>

definition credit_outcome :: "chain_client \<Rightarrow> db \<Rightarrow> onchain_deposit \<Rightarrow> onchain_deposit \<Rightarrow> bool" where
  "credit_outcome client db d d' \<longleftrightarrow>
     (case cl_block_hash client (dep_block_number d) of
        Inl e \<Rightarrow> False
      | Inr None \<Rightarrow> d' = d
      | Inr (Some h) \<Rightarrow>
          if h = dep_block_hash d then d' = set_status DepCredited d \<and> credited_on_ledger db d'
          else d' = set_status DepOrphaned d)"

definition canonical :: "chain_client \<Rightarrow> onchain_deposit \<Rightarrow> bool" where
  "canonical client d \<longleftrightarrow> cl_block_hash client (dep_block_number d) = Inr (Some (dep_block_hash d))"

definition share :: "uuid \<Rightarrow> uuid \<Rightarrow> onchain_deposit \<Rightarrow> int" where
  "share u a d = (if dep_user_id d = Some u \<and> dep_asset_id d = a then dep_amount d else 0)"

lemma credited_on_ledger_mono:
  "credited_on_ledger db d \<Longrightarrow> used_keys db \<subseteq> used_keys db' \<Longrightarrow> credited_on_ledger db' d"
  by (auto simp: credited_on_ledger_def)

text \<open>One iteration of the crediting loop.\<close>

lemma credit_one_ok:
  assumes ok: "deposits_ok db" and d: "d \<in> set (onchain_deposits db)"
    and st: "dep_status d = DepConfirmed" and c: "credit_one client d (db, n) = Inr (db', n')"
  shows "deposits_ok db'" "outside_deposits db' = outside_deposits db"
    "x \<in> set (onchain_deposits db) \<Longrightarrow> dep_id x \<noteq> dep_id d \<Longrightarrow> x \<in> set (onchain_deposits db')"
    "\<exists>d' \<in> set (onchain_deposits db'). dep_id d' = dep_id d \<and> credit_outcome client db' d d'"
    "used_keys db \<subseteq> used_keys db'"
    "bal db' (wallet_key u a) = bal db (wallet_key u a) + (if canonical client d then share u a d else 0)"
proof -
  note row = deposits_ok_D(4) [OF ok d]
  have user: "dep_user_id d \<noteq> None" using row by (simp add: deposit_row_ok_def)
  have "deposits_ok db' \<and> outside_deposits db' = outside_deposits db \<and>
    (x \<in> set (onchain_deposits db) \<longrightarrow> dep_id x \<noteq> dep_id d \<longrightarrow> x \<in> set (onchain_deposits db')) \<and>
    (\<exists>d' \<in> set (onchain_deposits db'). dep_id d' = dep_id d \<and> credit_outcome client db' d d') \<and>
    used_keys db \<subseteq> used_keys db' \<and>
    bal db' (wallet_key u a) = bal db (wallet_key u a) + (if canonical client d then share u a d else 0)"
    using c
  proof (cases rule: credit_one_cases)
    case wait
    then show ?thesis using ok d user by (auto simp: credit_outcome_def canonical_def)
  next
    case (orphan h)
    have "set_status DepOrphaned d \<in> set (onchain_deposits db')"
      using deposit_row_update(1) [OF d] by (simp add: orphan(3))
    moreover have "deposits_ok db'" using deposits_ok_orphan [OF ok d] st by (simp add: orphan(3))
    ultimately show ?thesis using orphan(1,2) deposit_row_update(2)
      by (auto simp: orphan(3) credit_outcome_def canonical_def intro!: bexI [of _ "set_status DepOrphaned d"])
  next
    case (credit u' db1)
    note C = deposits_ok_credit [OF ok d st credit(3)]
    have rows: "onchain_deposits db1 = onchain_deposits db" using ledger_only_frame [OF C(3)] by simp
    have new: "set_status DepCredited d \<in> set (onchain_deposits db')"
      using deposit_row_update(1) [of d db1] d rows by (simp add: credit(4))
    have on: "credited_on_ledger db' (set_status DepCredited d)"
      using C(4) by (simp add: credited_on_ledger_def credit(4))
    show ?thesis
      using C outside_deposits_ledger [OF C(3)] credit(1,2) deposit_row_update(2) [of x db1] rows new on
      by (auto simp: credit(4) credit_outcome_def canonical_def moved_def share_def
          intro!: bexI [of _ "set_status DepCredited d"])
  qed
  then show "deposits_ok db'" "outside_deposits db' = outside_deposits db"
    "x \<in> set (onchain_deposits db) \<Longrightarrow> dep_id x \<noteq> dep_id d \<Longrightarrow> x \<in> set (onchain_deposits db')"
    "\<exists>d' \<in> set (onchain_deposits db'). dep_id d' = dep_id d \<and> credit_outcome client db' d d'"
    "used_keys db \<subseteq> used_keys db'"
    "bal db' (wallet_key u a) = bal db (wallet_key u a) + (if canonical client d then share u a d else 0)"
    by blast+
qed

interpretation crediting_pass: counting_worker "credit_one client" "\<lambda>s. onchain_deposits (fst s)" dep_id
    "\<lambda>d. dep_status d = DepConfirmed" "\<lambda>s. deposits_ok (fst s) \<and> outside_deposits (fst s) = base"
    "\<lambda>s. credit_outcome client (fst s)" "\<lambda>s. bal (fst s) (wallet_key u a)"
    "\<lambda>d. if canonical client d then share u a d else 0"
  for client base u a
proof
  fix t t' :: "db \<times> nat" and r x x'
  assume ok: "deposits_ok (fst t) \<and> outside_deposits (fst t) = base"
    and r: "r \<in> set (onchain_deposits (fst t))" "dep_status r = DepConfirmed"
    and b: "credit_one client r t = Inr t'"
  have b': "credit_one client r (fst t, snd t) = Inr (fst t', snd t')" using b by simp
  note C = credit_one_ok [OF conjunct1 [OF ok] r b']
  show "deposits_ok (fst t') \<and> outside_deposits (fst t') = base" using C(1,2) ok by simp
  show "x \<in> set (onchain_deposits (fst t'))"
    if "x \<in> set (onchain_deposits (fst t))" "dep_id x \<noteq> dep_id r" using C(3) that by simp
  show "\<exists>r' \<in> set (onchain_deposits (fst t')). dep_id r' = dep_id r \<and> credit_outcome client (fst t') r r'"
    by (fact C(4))
  show "credit_outcome client (fst t') x x'" if "credit_outcome client (fst t) x x'"
    using that credited_on_ledger_mono [OF _ C(5)]
    by (auto simp: credit_outcome_def split: sum.splits option.splits if_splits)
  show "bal (fst t') (wallet_key u a) = bal (fst t) (wallet_key u a)
      + (if canonical client r then share u a r else 0)"
    by (fact C(6))
qed

text \<open>The whole crediting phase.\<close>

lemma confirm_and_credit_ok:
  assumes ok: "deposits_ok db" and hd: "cl_block_number client = Inr head"
    and c: "confirm_and_credit db client k = Inr (n, db')"
  shows "deposits_ok db'" "outside_deposits db' = outside_deposits db"
    "d \<in> set (onchain_deposits (mark_confirmed db (cl_chain_id client) (head - k))) \<Longrightarrow>
      \<exists>d' \<in> set (onchain_deposits db'). dep_id d' = dep_id d \<and>
        (if dep_chain_id d = cl_chain_id client \<and> dep_status d = DepConfirmed
         then credit_outcome client db' d d' else d' = d)"
    "bal db' (wallet_key u a) = bal db (wallet_key u a) + sum_rows (canonical client) (share u a)
       (confirmed_rows (mark_confirmed db (cl_chain_id client) (head - k)) (cl_chain_id client))"
proof -
  let ?m = "mark_confirmed db (cl_chain_id client) (head - k)"
  let ?rs = "confirmed_rows ?m (cl_chain_id client)"
  have l: "for_each (credit_one client) ?rs (?m, 0) = Inr (db', n)"
    using c hd by (auto simp: confirm_and_credit_def Let_def split: prod.splits)
  note okm = mark_confirmed_ok [OF ok, of "cl_chain_id client" "head - k"]
  have base: "deposits_ok (fst (?m, 0 :: nat)) \<and> outside_deposits (fst (?m, 0 :: nat)) = outside_deposits db"
    using okm by simp
  have dist: "distinct (map dep_id (onchain_deposits ?m))" by (rule deposits_ok_D(2) [OF okm])
  have rs: "set ?rs \<subseteq> set (onchain_deposits ?m)" "\<forall>r \<in> set ?rs. dep_status r = DepConfirmed"
    "distinct (map dep_id ?rs)"
    using distinct_map_filter [OF dist] by (auto simp: confirmed_rows_def)
  note P = crediting_pass.pass [OF l base, simplified, OF dist rs]
  show "deposits_ok db'" "outside_deposits db' = outside_deposits db" using P(1) by simp_all
  show "\<exists>d' \<in> set (onchain_deposits db'). dep_id d' = dep_id d \<and>
        (if dep_chain_id d = cl_chain_id client \<and> dep_status d = DepConfirmed
         then credit_outcome client db' d d' else d' = d)" if d: "d \<in> set (onchain_deposits ?m)"
  proof -
    have "d \<in> set ?rs \<longleftrightarrow> dep_chain_id d = cl_chain_id client \<and> dep_status d = DepConfirmed"
      using d by (auto simp: confirmed_rows_def)
    then show ?thesis using P(2) [OF d] by (simp only: fst_conv)
  qed
  have "bal db' (wallet_key u a) = bal ?m (wallet_key u a) +
      sum_list (map (\<lambda>d. if canonical client d then share u a d else 0) ?rs)"
    using crediting_pass.pass_total [OF l base, simplified, OF rs] by simp
  moreover have "sum_list (map (\<lambda>d. if P d then f d else (0 :: int)) xs) = sum_rows P f xs" for P f xs
    by (induction xs) simp_all
  moreover have "bal ?m = bal db" by (rule ledger_frame) (simp_all add: mark_confirmed_def)
  ultimately show "bal db' (wallet_key u a) = bal db (wallet_key u a) + sum_rows (canonical client)
      (share u a) ?rs" by simp
qed

section \<open>Reorganisations\<close>

text \<open>The deposit's block has another hash now.\<close>

definition reorged :: "chain_client \<Rightarrow> onchain_deposit \<Rightarrow> bool" where
  "reorged client d \<longleftrightarrow> (case cl_block_hash client (dep_block_number d) of
     Inr (Some h) \<Rightarrow> h \<noteq> dep_block_hash d | _ \<Rightarrow> False)"

text \<open>
  Within the window every credit is one the watcher itself posted: a simulated faucet deposit
  lies at block 0, below any window of a chain longer than the window.
\<close>

definition window_credits :: "db \<Rightarrow> int \<Rightarrow> int \<Rightarrow> bool" where
  "window_credits db c fl \<longleftrightarrow> (\<forall>d \<in> set (onchain_deposits db). dep_chain_id d = c \<longrightarrow>
     dep_status d = DepCredited \<longrightarrow> fl < dep_block_number d \<longrightarrow> credited_on_ledger db d)"

definition reorg_outcome :: "chain_client \<Rightarrow> db \<Rightarrow> onchain_deposit \<Rightarrow> onchain_deposit \<Rightarrow> bool" where
  "reorg_outcome client db d d' \<longleftrightarrow>
     (if reorged client d
      then d' = set_status DepOrphaned d \<and> (dep_status d = DepCredited \<longrightarrow>
        uncredit_key (dep_id d) (dep_credit_revision d) \<in> used_keys db)
      else d' = d)"

lemma reorg_one_cases:
  assumes "reorg_one client d s = Inr s'"
  obtains (same) "\<not> reorged client d" "s' = s"
    | (reverse) u db1 where "reorged client d" "dep_user_id d = Some u" "dep_status d = DepCredited"
      "reverse_credit (d, u) (ro_db s) = Inr db1"
      "ro_db s' = update_deposit (dep_id d) (set_status DepOrphaned) db1"
    | (orphan) "reorged client d" "dep_status d \<noteq> DepCredited \<or> dep_user_id d = None"
      "ro_db s' = update_deposit (dep_id d) (set_status DepOrphaned) (ro_db s)"
proof -
  from assms obtain h where h: "cl_block_hash client (dep_block_number d) = Inr h"
    by (auto simp: reorg_one_def)
  show thesis
  proof (cases "reorged client d")
    case False
    then have "s' = s" using assms h by (auto simp: reorg_one_def reorged_def split: option.splits)
    then show thesis using same False by simp
  next
    case True
    then show thesis using assms h reverse orphan
      by (auto simp: reorg_one_def reorged_def Let_def split: option.splits if_splits)
  qed
qed

lemma reorg_one_lowest:
  assumes "reorg_one client d s = Inr s'"
  shows "reorged client d \<Longrightarrow> \<exists>l. ro_lowest_block s' = Some l \<and> l \<le> dep_block_number d"
    and "ro_lowest_block s = Some l \<Longrightarrow> \<exists>l'. ro_lowest_block s' = Some l' \<and> l' \<le> l"
    and "\<not> reorged client d \<Longrightarrow> s' = s"
    and "ro_orphaned s' = ro_orphaned s + (if reorged client d then 1 else 0)"
  using assms by (auto simp: reorg_one_def reorged_def Let_def split: option.splits if_splits)

lemma reorg_one_ok:
  assumes ok: "deposits_ok (ro_db s)" and w: "window_credits (ro_db s) c fl"
    and d: "d \<in> set (onchain_deposits (ro_db s))"
    and pick: "dep_chain_id d = c" "dep_status d \<in> {DepSeen, DepConfirmed, DepCredited}"
      "fl < dep_block_number d"
    and r: "reorg_one client d s = Inr s'"
  shows "deposits_ok (ro_db s')" "window_credits (ro_db s') c fl"
    "outside_deposits (ro_db s') = outside_deposits (ro_db s)"
    "x \<in> set (onchain_deposits (ro_db s)) \<Longrightarrow> dep_id x \<noteq> dep_id d \<Longrightarrow> x \<in> set (onchain_deposits (ro_db s'))"
    "\<exists>d' \<in> set (onchain_deposits (ro_db s')). dep_id d' = dep_id d \<and> reorg_outcome client (ro_db s') d d'"
    "used_keys (ro_db s) \<subseteq> used_keys (ro_db s')"
    "bal (ro_db s') (wallet_key u a) = bal (ro_db s) (wallet_key u a)
       - (if reorged client d \<and> dep_status d = DepCredited then share u a d else 0)"
proof -
  have user: "dep_user_id d \<noteq> None" using deposits_ok_D(4) [OF ok d] by (simp add: deposit_row_ok_def)
  have uniq: "x = d" if "x \<in> set (onchain_deposits (ro_db s))" "dep_id x = dep_id d" for x
    using deposits_ok_D(2) [OF ok] that d by (auto simp: distinct_map inj_on_def)
  have win: "window_credits (update_deposit (dep_id d) (set_status DepOrphaned) db1) c fl"
    if "onchain_deposits db1 = onchain_deposits (ro_db s)" "used_keys (ro_db s) \<subseteq> used_keys db1" for db1
  proof -
    have "onchain_deposits (update_deposit (dep_id d) (set_status DepOrphaned) db1) =
        upd_row dep_id (dep_id d) (set_status DepOrphaned) (onchain_deposits (ro_db s))"
      using that(1) by (simp add: update_deposit_def)
    then show ?thesis using w subsetD [OF that(2)]
      unfolding window_credits_def credited_on_ledger_def update_deposit_ledger
      by (auto simp: in_upd_row_iff)
  qed
  have "deposits_ok (ro_db s') \<and> window_credits (ro_db s') c fl \<and>
    outside_deposits (ro_db s') = outside_deposits (ro_db s) \<and>
    (x \<in> set (onchain_deposits (ro_db s)) \<longrightarrow> dep_id x \<noteq> dep_id d \<longrightarrow> x \<in> set (onchain_deposits (ro_db s'))) \<and>
    (\<exists>d' \<in> set (onchain_deposits (ro_db s')). dep_id d' = dep_id d \<and> reorg_outcome client (ro_db s') d d') \<and>
    used_keys (ro_db s) \<subseteq> used_keys (ro_db s') \<and>
    bal (ro_db s') (wallet_key u a) = bal (ro_db s) (wallet_key u a)
       - (if reorged client d \<and> dep_status d = DepCredited then share u a d else 0)"
    using r
  proof (cases rule: reorg_one_cases)
    case same
    then show ?thesis using ok w d by (auto simp: reorg_outcome_def)
  next
    case (reverse u' db1)
    have cr: "credited_on_ledger (ro_db s) d" using w d pick reverse(3) by (auto simp: window_credits_def)
    note U = deposits_ok_uncredit [OF ok d cr reverse(4)]
    have rows: "onchain_deposits db1 = onchain_deposits (ro_db s)" using ledger_only_frame [OF U(3)] by simp
    have new: "set_status DepOrphaned d \<in> set (onchain_deposits (ro_db s'))"
      using deposit_row_update(1) [of d db1] d rows by (simp add: reverse(5))
    have "window_credits (ro_db s') c fl" unfolding reverse(5) by (rule win [OF rows]) (auto simp: U(4))
    then show ?thesis
      using U outside_deposits_ledger [OF U(3)] reverse(1-3) deposit_row_update(2) [of x db1] rows new
      by (auto simp: reverse(5) reorg_outcome_def moved_def share_def
          intro!: bexI [of _ "set_status DepOrphaned d"])
  next
    case orphan
    have st: "dep_status d \<in> {DepSeen, DepConfirmed}" using orphan(2) user pick(2) by auto
    have new: "set_status DepOrphaned d \<in> set (onchain_deposits (ro_db s'))"
      using deposit_row_update(1) [OF d] by (simp add: orphan(3))
    show ?thesis
      using deposits_ok_orphan [OF ok d st] win [OF refl] orphan(1,3) st new deposit_row_update(2) [of x "ro_db s"]
      by (auto simp: orphan(3) reorg_outcome_def intro!: bexI [of _ "set_status DepOrphaned d"])
  qed
  then show "deposits_ok (ro_db s')" "window_credits (ro_db s') c fl"
    "outside_deposits (ro_db s') = outside_deposits (ro_db s)"
    "x \<in> set (onchain_deposits (ro_db s)) \<Longrightarrow> dep_id x \<noteq> dep_id d \<Longrightarrow> x \<in> set (onchain_deposits (ro_db s'))"
    "\<exists>d' \<in> set (onchain_deposits (ro_db s')). dep_id d' = dep_id d \<and> reorg_outcome client (ro_db s') d d'"
    "used_keys (ro_db s) \<subseteq> used_keys (ro_db s')"
    "bal (ro_db s') (wallet_key u a) = bal (ro_db s) (wallet_key u a)
       - (if reorged client d \<and> dep_status d = DepCredited then share u a d else 0)"
    by blast+
qed

interpretation reorg_pass: counting_worker "reorg_one client" "\<lambda>s. onchain_deposits (ro_db s)" dep_id
    "\<lambda>d. dep_chain_id d = c \<and> dep_status d \<in> {DepSeen, DepConfirmed, DepCredited} \<and> fl < dep_block_number d"
    "\<lambda>s. deposits_ok (ro_db s) \<and> window_credits (ro_db s) c fl \<and> outside_deposits (ro_db s) = base"
    "\<lambda>s. reorg_outcome client (ro_db s)" "\<lambda>s. bal (ro_db s) (wallet_key u a)"
    "\<lambda>d. - (if reorged client d \<and> dep_status d = DepCredited then share u a d else 0)"
  for client c fl base u a
proof
  fix t t' :: reorg_state and r x x'
  assume ok: "deposits_ok (ro_db t) \<and> window_credits (ro_db t) c fl \<and> outside_deposits (ro_db t) = base"
    and r: "r \<in> set (onchain_deposits (ro_db t))"
    and p: "dep_chain_id r = c \<and> dep_status r \<in> {DepSeen, DepConfirmed, DepCredited} \<and> fl < dep_block_number r"
    and b: "reorg_one client r t = Inr t'"
  note R = reorg_one_ok [OF _ _ r _ _ _ b, of c fl]
  show "deposits_ok (ro_db t') \<and> window_credits (ro_db t') c fl \<and> outside_deposits (ro_db t') = base"
    using R(1-3) ok p by blast
  show "x \<in> set (onchain_deposits (ro_db t'))"
    if "x \<in> set (onchain_deposits (ro_db t))" "dep_id x \<noteq> dep_id r" using R(4) ok p that by blast
  show "\<exists>r' \<in> set (onchain_deposits (ro_db t')). dep_id r' = dep_id r \<and> reorg_outcome client (ro_db t') r r'"
    using R(5) ok p by blast
  show "reorg_outcome client (ro_db t') x x'" if "reorg_outcome client (ro_db t) x x'"
    using that R(6) ok p by (auto simp: reorg_outcome_def split: if_splits)
  show "bal (ro_db t') (wallet_key u a) = bal (ro_db t) (wallet_key u a)
      + - (if reorged client r \<and> dep_status r = DepCredited then share u a r else 0)"
    using R(7) ok p by simp
qed

text \<open>The whole phase.\<close>

lemma handle_reorgs_ok:
  assumes ok: "deposits_ok db" and hd: "cl_block_number client = Inr head"
    and long: "depth \<le> head"
    and r: "handle_reorgs db client depth = Inr s"
  shows "deposits_ok (ro_db s)" "outside_deposits (ro_db s) = outside_deposits db"
    "d \<in> set (onchain_deposits db) \<Longrightarrow> \<exists>d' \<in> set (onchain_deposits (ro_db s)). dep_id d' = dep_id d \<and>
        (if d \<in> set (reorg_candidates db (cl_chain_id client) (head - depth))
         then reorg_outcome client (ro_db s) d d' else d' = d)"
    "bal (ro_db s) (wallet_key u a) = bal db (wallet_key u a) -
       sum_rows (\<lambda>d. reorged client d \<and> dep_status d = DepCredited) (share u a)
         (reorg_candidates db (cl_chain_id client) (head - depth))"
    "d \<in> set (reorg_candidates db (cl_chain_id client) (head - depth)) \<Longrightarrow> reorged client d \<Longrightarrow>
       \<exists>l. ro_lowest_block s = Some l \<and> l \<le> dep_block_number d"
proof -
  let ?c = "cl_chain_id client" and ?fl = "head - depth"
  let ?rs = "reorg_candidates db ?c ?fl"
  let ?s = "\<lparr>ro_db = db, ro_orphaned = 0, ro_lowest_block = None\<rparr>"
  have w: "window_credits db ?c ?fl"
    unfolding window_credits_def
  proof (intro ballI impI)
    fix d assume d: "d \<in> set (onchain_deposits db)" "dep_status d = DepCredited" "?fl < dep_block_number d"
    show "credited_on_ledger db d"
      using deposits_ok_D(4) [OF ok d(1)] d(2,3) long
      by (auto simp: deposit_row_ok_def credited_on_ledger_def)
  qed
  have l: "for_each (reorg_one client) ?rs ?s = Inr s" using r hd by (auto simp: handle_reorgs_def)
  have base: "deposits_ok (ro_db ?s) \<and> window_credits (ro_db ?s) ?c ?fl \<and>
      outside_deposits (ro_db ?s) = outside_deposits db" using ok w by simp
  have dist: "distinct (map dep_id (onchain_deposits db))" by (rule deposits_ok_D(2) [OF ok])
  have rs: "set ?rs \<subseteq> set (onchain_deposits (ro_db ?s))"
    "\<forall>d \<in> set ?rs. dep_chain_id d = ?c \<and> dep_status d \<in> {DepSeen, DepConfirmed, DepCredited} \<and>
      ?fl < dep_block_number d" "distinct (map dep_id ?rs)"
    using distinct_map_filter [OF dist] by (auto simp: reorg_candidates_def)
  have dist': "distinct (map dep_id (onchain_deposits (ro_db ?s)))" using dist by simp
  note P = reorg_pass.pass [OF l base dist' rs]
  show "deposits_ok (ro_db s)" "outside_deposits (ro_db s) = outside_deposits db" using P(1) by simp_all
  show "\<exists>d' \<in> set (onchain_deposits (ro_db s)). dep_id d' = dep_id d \<and>
        (if d \<in> set ?rs then reorg_outcome client (ro_db s) d d' else d' = d)"
    if "d \<in> set (onchain_deposits db)" using P(2) [of d] that by simp
  have "sum_list (map (\<lambda>d. - (if P d then f d else (0 :: int))) xs) = - sum_rows P f xs"
    for P f and xs :: "onchain_deposit list"
    by (induction xs) simp_all
  then show "bal (ro_db s) (wallet_key u a) = bal db (wallet_key u a) -
       sum_rows (\<lambda>d. reorged client d \<and> dep_status d = DepCredited) (share u a) ?rs"
    using reorg_pass.pass_total [OF l base rs, of u a] by simp
  let ?I = "\<lambda>rest t. \<forall>d \<in> set ?rs. d \<notin> set rest \<longrightarrow> reorged client d \<longrightarrow>
    (\<exists>l. ro_lowest_block t = Some l \<and> l \<le> dep_block_number d)"
  have "?I [] s"
  proof (rule for_each_rest_inv [OF l, where I = ?I])
    fix x ys t t'
    assume I: "?I (x # ys) t" and b: "reorg_one client x t = Inr t'"
    show "?I ys t'"
    proof (intro ballI impI)
      fix d assume d: "d \<in> set ?rs" "d \<notin> set ys" "reorged client d"
      show "\<exists>l. ro_lowest_block t' = Some l \<and> l \<le> dep_block_number d"
      proof (cases "d = x")
        case True
        then show ?thesis using reorg_one_lowest(1) [OF b] d(3) by simp
      next
        case False
        then obtain l where "ro_lowest_block t = Some l" "l \<le> dep_block_number d" using I d by auto
        then show ?thesis using reorg_one_lowest(2) [OF b] by fastforce
      qed
    qed
  qed simp
  then show "d \<in> set ?rs \<Longrightarrow> reorged client d \<Longrightarrow>
       \<exists>l. ro_lowest_block s = Some l \<and> l \<le> dep_block_number d" by simp
qed

end
