(* ===== verification/Deposit_Facts.thy ===== *)
theory Deposit_Facts
  imports Deposit_Phases
begin

text \<open>
  The properties of deposits: recording is idempotent and moves no money, crediting pays the
  canonical and buried deposits and only those, a reorganisation takes its credits back and
  rewinds the cursor, and a scan pass keeps deposits and ledger in step.
\<close>

section \<open>Cursors\<close>

definition cursor_of :: "db \<Rightarrow> int \<Rightarrow> int option" where
  "cursor_of db c = map_option cc_last_scanned_block (get_row cc_chain_id c (chain_cursors db))"


lemma cursor_rewind_other: "c' \<noteq> c \<Longrightarrow> cursor_of (rewind_cursor db c l) c' = cursor_of db c'"
  by (cases l) (simp_all add: cursor_of_def rewind_cursor_def update_cursor_def get_row_upd_row_other)


section \<open>Properties\<close>

text \<open>
  C13: Recording deposits is idempotent: scanning the same blocks of an unchanged chain again
  records nothing and changes nothing, and recording as such moves no money, uses no key of
  the ledger and never forgets a recorded deposit.
\<close>

theorem recording_is_idempotent:
  assumes "deposits_ok db" "record_deposits db client from_block to_block wi hot = Inr (n, db')"
  shows "record_deposits db' client from_block to_block wi hot = Inr (0, db') \<and> deposits_ok db' \<and>
    bal db' = bal db \<and> used_keys db' = used_keys db \<and> (\<forall>k. recorded db k \<longrightarrow> recorded db' k) \<and>
    outside_deposits db' = outside_deposits db"
  using record_deposits_ok [OF assms] unfolding recording_def by blast

text \<open>
  C14: The crediting phase decides every deposit of the chain on the block hash the chain
  reports now. A seen deposit is considered only once it is buried under the required
  confirmations. A considered deposit is credited exactly when its block is canonical, with
  a posting on the ledger under the key of its revision; it is orphaned, never credited, when
  the chain reports another hash; it waits when the chain has no answer. Each user's wallet
  grows by exactly the sum of the user's credited deposits, and nothing else moves in it.
\<close>

theorem credits_exactly_the_canonical:
  assumes ok: "deposits_ok db" and hd: "cl_block_number client = Inr head"
    and c: "confirm_and_credit db client k = Inr (n, db')"
  shows "deposits_ok db' \<and>
    (\<forall>d \<in> set (onchain_deposits db). \<exists>d' \<in> set (onchain_deposits db'). dep_id d' = dep_id d \<and>
      (if dep_chain_id d = cl_chain_id client \<and>
          (dep_status d = DepConfirmed \<or> dep_status d = DepSeen \<and> dep_block_number d \<le> head - k)
       then credit_outcome client db' (set_status DepConfirmed d) d' else d' = d)) \<and>
    (\<forall>u a. bal db' (wallet_key u a) = bal db (wallet_key u a) +
       sum_rows (\<lambda>d. dep_chain_id d = cl_chain_id client \<and> canonical client d \<and>
          (dep_status d = DepConfirmed \<or> dep_status d = DepSeen \<and> dep_block_number d \<le> head - k))
         (share u a) (onchain_deposits db))"
proof -
  let ?c = "cl_chain_id client"
  let ?m = "mark_confirmed db ?c (head - k)"
  let ?g = "\<lambda>d. if dep_chain_id d = ?c \<and> dep_status d = DepSeen \<and> dep_block_number d \<le> head - k
    then set_status DepConfirmed d else d"
  note C = confirm_and_credit_ok [OF ok hd c]
  have rows: "onchain_deposits ?m = map ?g (onchain_deposits db)" by (simp add: mark_confirmed_def)
  have same: "set_status DepConfirmed d = d" if "dep_status d = DepConfirmed" for d
    using that by (simp add: set_status_def)
  have "\<exists>d' \<in> set (onchain_deposits db'). dep_id d' = dep_id d \<and>
      (if dep_chain_id d = ?c \<and>
          (dep_status d = DepConfirmed \<or> dep_status d = DepSeen \<and> dep_block_number d \<le> head - k)
       then credit_outcome client db' (set_status DepConfirmed d) d' else d' = d)"
    if d: "d \<in> set (onchain_deposits db)" for d
  proof -
    have "?g d \<in> set (onchain_deposits ?m)" using d by (simp add: rows)
    from C(3) [OF this] obtain d' where d': "d' \<in> set (onchain_deposits db')" "dep_id d' = dep_id (?g d)"
      "if dep_chain_id (?g d) = ?c \<and> dep_status (?g d) = DepConfirmed
       then credit_outcome client db' (?g d) d' else d' = ?g d" by blast
    show ?thesis
      using d' same [of d] by (intro bexI [OF _ d'(1)]) (auto split: if_splits)
  qed
  moreover have "sum_rows (canonical client) (share u a) (confirmed_rows ?m ?c) =
      sum_rows (\<lambda>d. dep_chain_id d = ?c \<and> canonical client d \<and>
          (dep_status d = DepConfirmed \<or> dep_status d = DepSeen \<and> dep_block_number d \<le> head - k))
         (share u a) (onchain_deposits db)" for u a
  proof -
    have "sum_rows P f (filter Q xs) = sum_rows (\<lambda>d. Q d \<and> P d) f xs" for P Q f
      and xs :: "onchain_deposit list"
      by (induction xs) auto
    then show ?thesis
      unfolding confirmed_rows_def rows sum_rows_map
      by (auto intro!: sum_rows_cong simp: sum_rows_map canonical_def share_def)
  qed
  ultimately show ?thesis using C(1,4) by auto
qed

text \<open>
  C15: On a chain longer than the window, the reorganisation phase takes back exactly what the
  chain took back: a deposit above the window floor whose block now has another hash becomes
  orphaned, and if it was credited a reversal is posted under the key of its revision; every
  other deposit is as before. Each user's wallet shrinks by exactly the sum of the user's
  reversed deposits. The reported lowest block is at or below every orphaned block.
\<close>

theorem reorgs_reverse_exactly:
  assumes ok: "deposits_ok db" and hd: "cl_block_number client = Inr head" and long: "depth \<le> head"
    and r: "handle_reorgs db client depth = Inr s"
  shows "deposits_ok (ro_db s) \<and>
    (\<forall>d \<in> set (onchain_deposits db). \<exists>d' \<in> set (onchain_deposits (ro_db s)). dep_id d' = dep_id d \<and>
       (if dep_chain_id d = cl_chain_id client \<and> dep_status d \<noteq> DepOrphaned \<and>
           head - depth < dep_block_number d \<and> reorged client d
        then d' = set_status DepOrphaned d \<and> (dep_status d = DepCredited \<longrightarrow>
          uncredit_key (dep_id d) (dep_credit_revision d) \<in> used_keys (ro_db s)) \<and>
          (\<exists>l. ro_lowest_block s = Some l \<and> l \<le> dep_block_number d)
        else d' = d)) \<and>
    (\<forall>u a. bal (ro_db s) (wallet_key u a) = bal db (wallet_key u a) -
       sum_rows (\<lambda>d. dep_chain_id d = cl_chain_id client \<and> dep_status d = DepCredited \<and>
          head - depth < dep_block_number d \<and> reorged client d) (share u a) (onchain_deposits db))"
proof -
  let ?c = "cl_chain_id client"
  note R = handle_reorgs_ok [OF ok hd long r]
  have cand: "d \<in> set (reorg_candidates db ?c (head - depth)) \<longleftrightarrow> dep_chain_id d = ?c \<and>
      dep_status d \<noteq> DepOrphaned \<and> head - depth < dep_block_number d"
    if "d \<in> set (onchain_deposits db)" for d
    using that by (cases "dep_status d") (auto simp: reorg_candidates_def)
  have "\<exists>d' \<in> set (onchain_deposits (ro_db s)). dep_id d' = dep_id d \<and>
       (if dep_chain_id d = ?c \<and> dep_status d \<noteq> DepOrphaned \<and>
           head - depth < dep_block_number d \<and> reorged client d
        then d' = set_status DepOrphaned d \<and> (dep_status d = DepCredited \<longrightarrow>
          uncredit_key (dep_id d) (dep_credit_revision d) \<in> used_keys (ro_db s)) \<and>
          (\<exists>l. ro_lowest_block s = Some l \<and> l \<le> dep_block_number d)
        else d' = d)" if d: "d \<in> set (onchain_deposits db)" for d
  proof -
    obtain d' where d': "d' \<in> set (onchain_deposits (ro_db s))" "dep_id d' = dep_id d"
      "if d \<in> set (reorg_candidates db ?c (head - depth))
       then reorg_outcome client (ro_db s) d d' else d' = d" using R(3) [OF d] by blast
    show ?thesis
      using d' R(5) [of d] cand [OF d]
      by (intro bexI [OF _ d'(1)]) (auto simp: reorg_outcome_def split: if_splits)
  qed
  moreover have "sum_rows (\<lambda>d. reorged client d \<and> dep_status d = DepCredited) (share u a)
        (reorg_candidates db ?c (head - depth)) =
      sum_rows (\<lambda>d. dep_chain_id d = ?c \<and> dep_status d = DepCredited \<and>
          head - depth < dep_block_number d \<and> reorged client d) (share u a) (onchain_deposits db)" for u a
  proof -
    have "sum_rows P f (filter Q xs) = sum_rows (\<lambda>d. Q d \<and> P d) f xs" for P Q f
      and xs :: "onchain_deposit list"
      by (induction xs) auto
    then show ?thesis unfolding reorg_candidates_def by (auto intro!: sum_rows_cong)
  qed
  ultimately show ?thesis using R(1,4) by auto
qed







section \<open>The properties on a concrete chain\<close>

definition demo_recorded :: db where
  "demo_recorded = snd (projr (record_deposits demo_db demo_client 0 100 False None))"

definition demo_credited :: db where
  "demo_credited = snd (projr (confirm_and_credit demo_recorded demo_client 12))"

text \<open>The same chain after a reorganisation of every block.\<close>

definition forked_client :: chain_client where
  "forked_client = demo_client\<lparr>cl_block_hash := (\<lambda>n. Inr (Some ''g''))\<rparr>"

definition demo_reorged :: reorg_state where
  "demo_reorged = projr (handle_reorgs demo_credited forked_client 76)"


lemma demo_recorded_runs: "record_deposits demo_db demo_client 0 100 False None = Inr (1, demo_recorded)"
  by code_simp

lemma demo_credited_runs: "confirm_and_credit demo_recorded demo_client 12 = Inr (1, demo_credited)"
  by code_simp

lemma demo_reorged_runs: "handle_reorgs demo_credited forked_client 76 = Inr demo_reorged"
  by code_simp


lemma demo_heads: "cl_block_number demo_client = Inr 100" "cl_block_number forked_client = Inr 100"
  by (simp_all add: demo_client_def forked_client_def)

lemma demo_deposits_ok: "deposits_ok demo_db"
proof -
  have "onchain_deposits demo_db = []" "used_keys demo_db = {''faucet:x''}"
    by (simp_all add: demo_db_def empty_db_def used_keys_def)
  moreover have "bal demo_db (in_transit_key a) = 0" for a
    by (auto simp: bal_def demo_db_def empty_db_def system_key_def account_key_def in_transit_key_def
        DEPOSITS_IN_TRANSIT_ACCOUNT_def FAUCET_SOURCE_ACCOUNT_def USER_WALLET_ACCOUNT_def)
  ultimately show ?thesis
    using demo_wf by (simp add: deposits_ok_def credited_total_def deposit_key_def startswith_def)
qed

lemma demo_recorded_ok: "deposits_ok demo_recorded"
  using record_deposits_ok(1) [OF demo_deposits_ok demo_recorded_runs] by (simp add: recording_def)

lemma demo_credited_ok: "deposits_ok demo_credited"
  by (rule confirm_and_credit_ok(1) [OF demo_recorded_ok demo_heads(1) demo_credited_runs])

theorem recording_is_idempotent_witness:
  "record_deposits demo_recorded demo_client 0 100 False None = Inr (0, demo_recorded) \<and>
   length (onchain_deposits demo_recorded) = 1"
proof -
  have "length (onchain_deposits demo_recorded) = 1" by code_simp
  then show ?thesis using recording_is_idempotent [OF demo_deposits_ok demo_recorded_runs] by simp
qed

theorem credits_exactly_the_canonical_witness:
  "deposits_ok demo_credited \<and> bal demo_credited (wallet_key 1 3) = 1025"
proof -
  have "bal demo_recorded (wallet_key 1 3) = 1000" by code_simp
  moreover have "sum_rows (\<lambda>d. dep_chain_id d = cl_chain_id demo_client \<and> canonical demo_client d \<and>
      (dep_status d = DepConfirmed \<or> dep_status d = DepSeen \<and> dep_block_number d \<le> 100 - 12))
      (share 1 3) (onchain_deposits demo_recorded) = 25" by code_simp
  ultimately show ?thesis
    using credits_exactly_the_canonical [OF demo_recorded_ok demo_heads(1) demo_credited_runs] by simp
qed

theorem reorgs_reverse_exactly_witness:
  "deposits_ok (ro_db demo_reorged) \<and> bal (ro_db demo_reorged) (wallet_key 1 3) = 1000"
proof -
  have "bal demo_credited (wallet_key 1 3) = 1025" by code_simp
  moreover have "sum_rows (\<lambda>d. dep_chain_id d = cl_chain_id forked_client \<and> dep_status d = DepCredited \<and>
      100 - 76 < dep_block_number d \<and> reorged forked_client d) (share 1 3) (onchain_deposits demo_credited) = 25"
    by code_simp
  ultimately show ?thesis
    using reorgs_reverse_exactly [OF demo_credited_ok demo_heads(2) _ demo_reorged_runs] by simp
qed


end
