(* ===== verification/Registry.thy ===== *)
theory Registry
  imports Config Chain_Types "HOL-Library.List_Lexorder" "HOL-Library.Char_ord"
begin

text \<open>
  The asset registry of the shared package (\<open>kasa_shared/registry.py\<close>, \<open>models.py\<close>), its
  projection into the API (\<open>services/registry_projection.py\<close>) and into the assets table
  (\<open>scripts/seed_assets.py\<close>). The parsed content of a chain file is a parameter
  (\<open>load_file\<close>), as are the EIP-55 checksum, \<open>uuid5\<close> and SHA-256.
\<close>

section \<open>Data\<close>

definition EVM_COIN_TYPE :: int where "EVM_COIN_TYPE = 60"

definition NATIVE_ASSET_SENTINEL :: string where
  "NATIVE_ASSET_SENTINEL = ''0xEeeeeEeeeEeEeeEeEeEeeEEEeeeeEeeeeeeeEEeE''"

datatype registry_asset =
    NativeAsset (ra_symbol: string) (ra_name: string) (ra_decimals: nat)
  | Erc20Asset (ra_symbol: string) (ra_name: string) (ra_decimals: nat)
      (ra_address: string) (ra_deployment_block: int)
  | Erc721Asset (ra_symbol: string) (ra_name: string) (ra_decimals: nat)
      (ra_address: string) (ra_deployment_block: int)

fun ra_type :: "registry_asset \<Rightarrow> asset_type" where
  "ra_type (NativeAsset _ _ _) = NATIVE"
| "ra_type (Erc20Asset _ _ _ _ _) = ERC20"
| "ra_type (Erc721Asset _ _ _ _ _) = ERC721"

record chain =
  ch_chain_id :: int
  ch_name :: string
  ch_display_name :: string
  ch_native_symbol :: string
  ch_coin_type :: int
  ch_rpc_env :: string
  ch_explorer_tx_url :: string
  ch_explorer_address_url :: string
  ch_assets :: "registry_asset list"

record registry =
  rg_chains :: "(int \<times> chain) list"
  rg_by_symbol :: "((int \<times> string) \<times> registry_asset) list"
  rg_by_address :: "((int \<times> string) \<times> registry_asset) list"

section \<open>Loading\<close>

fun checksum_asset :: "(string \<Rightarrow> error + string) \<Rightarrow> registry_asset \<Rightarrow> error + registry_asset" where
  "checksum_asset ck (NativeAsset s n d) = Inr (NativeAsset s n d)"
| "checksum_asset ck (Erc20Asset s n d a b) = bind_res (ck a) (\<lambda>a. Inr (Erc20Asset s n d a b))"
| "checksum_asset ck (Erc721Asset s n d a b) = bind_res (ck a) (\<lambda>a. Inr (Erc721Asset s n d a b))"

definition load_chain ::
  "(string \<Rightarrow> error + string) \<Rightarrow> (int \<Rightarrow> error + chain) \<Rightarrow> int \<Rightarrow> error + chain" where
  "load_chain ck load_file i =
     bind_res (load_file i) (\<lambda>chain.
     bind_res (map_res (checksum_asset ck) (ch_assets chain)) (\<lambda>checksummed_assets.
     Inr (chain\<lparr>ch_assets := checksummed_assets\<rparr>)))"

definition index_address :: "int \<Rightarrow> registry_asset \<Rightarrow> registry \<Rightarrow> error + registry" where
  "index_address chain_id asset reg =
     (let address_key = lower (ra_address asset) in
      if address_key = ZERO_ADDRESS then Inr reg
      else if (chain_id, address_key) \<in> fst ` set (rg_by_address reg) then
        Inl (ValueError (''duplicate address '' @ ra_address asset @ '' on chain '' @ int_str chain_id))
      else Inr (reg\<lparr>rg_by_address := dict_set (chain_id, address_key) asset (rg_by_address reg)\<rparr>))"

definition index_asset :: "int \<Rightarrow> registry_asset \<Rightarrow> registry \<Rightarrow> error + registry" where
  "index_asset chain_id asset reg =
     (let symbol_key = upper (ra_symbol asset) in
      if startswith symbol_key ''0X'' then
        Inl (ValueError (''asset symbol must not be 0x-prefixed: '' @ ra_symbol asset))
      else if (chain_id, symbol_key) \<in> fst ` set (rg_by_symbol reg) then
        Inl (ValueError (''duplicate symbol '' @ ra_symbol asset @ '' on chain '' @ int_str chain_id))
      else
        let reg = reg\<lparr>rg_by_symbol := dict_set (chain_id, symbol_key) asset (rg_by_symbol reg)\<rparr> in
        if ra_type asset \<noteq> NATIVE then index_address chain_id asset reg else Inr reg)"

text \<open>A manifest entry is \<open>None\<close> when it is not an integer, the manifest when it is not a list.\<close>

definition index_chain ::
  "(string \<Rightarrow> error + string) \<Rightarrow> (int \<Rightarrow> error + chain) \<Rightarrow> int option \<Rightarrow> registry \<Rightarrow> error + registry" where
  "index_chain ck load_file raw_chain_id reg =
     (case raw_chain_id of
        None \<Rightarrow> Inl (ValueError ''chainIds must be integers'')
      | Some raw \<Rightarrow>
          bind_res (load_chain ck load_file raw) (\<lambda>chain.
          if ch_chain_id chain \<noteq> raw then
            Inl (ValueError (''chain file '' @ int_str raw @ '' has mismatched chainId ''
              @ int_str (ch_chain_id chain)))
          else if ch_chain_id chain \<in> fst ` set (rg_chains reg) then
            Inl (ValueError (''duplicate chainId '' @ int_str (ch_chain_id chain)))
          else for_each (index_asset (ch_chain_id chain)) (ch_assets chain)
            (reg\<lparr>rg_chains := dict_set (ch_chain_id chain) chain (rg_chains reg)\<rparr>)))"

definition load_registry ::
  "(string \<Rightarrow> error + string) \<Rightarrow> (int \<Rightarrow> error + chain) \<Rightarrow> int option list option \<Rightarrow> error + registry" where
  "load_registry ck load_file manifest =
     (case manifest of
        None \<Rightarrow> Inl (ValueError ''registry manifest must contain chainIds'')
      | Some ids \<Rightarrow> for_each (index_chain ck load_file) ids
          \<lparr>rg_chains = [], rg_by_symbol = [], rg_by_address = []\<rparr>)"

section \<open>Lookups\<close>

definition get_chain :: "registry \<Rightarrow> int \<Rightarrow> error + chain" where
  "get_chain reg chain_id =
     (case map_of (rg_chains reg) chain_id of
        None \<Rightarrow> Inl (KeyError (''unsupported chain: '' @ int_str chain_id))
      | Some chain \<Rightarrow> Inr chain)"

definition list_chains :: "registry \<Rightarrow> chain list" where
  "list_chains reg = map snd (rg_chains reg)"

definition tokens_of_chain :: "registry \<Rightarrow> int \<Rightarrow> error + registry_asset list" where
  "tokens_of_chain reg chain_id = bind_res (get_chain reg chain_id) (\<lambda>c. Inr (ch_assets c))"

definition erc20s_of_chain :: "registry \<Rightarrow> int \<Rightarrow> error + registry_asset list" where
  "erc20s_of_chain reg chain_id =
     bind_res (get_chain reg chain_id) (\<lambda>c. Inr (filter (\<lambda>a. ra_type a = ERC20) (ch_assets c)))"

definition nfts_of_chain :: "registry \<Rightarrow> int \<Rightarrow> error + registry_asset list" where
  "nfts_of_chain reg chain_id =
     bind_res (get_chain reg chain_id) (\<lambda>c. Inr (filter (\<lambda>a. ra_type a = ERC721) (ch_assets c)))"

definition asset_by_symbol :: "registry \<Rightarrow> int \<Rightarrow> string \<Rightarrow> registry_asset option" where
  "asset_by_symbol reg chain_id symbol = map_of (rg_by_symbol reg) (chain_id, upper symbol)"

text \<open>\<open>_ADDRESS_RE.fullmatch\<close>: no trailing line feed here.\<close>

definition address_fullmatch :: "string \<Rightarrow> bool" where
  "address_fullmatch address \<longleftrightarrow>
     length address = 42 \<and> take 2 address = ''0x'' \<and> list_all is_hex (drop 2 address)"

definition asset_by_address :: "registry \<Rightarrow> int \<Rightarrow> string \<Rightarrow> registry_asset option" where
  "asset_by_address reg chain_id address =
     (if \<not> address_fullmatch address then None
      else map_of (rg_by_address reg) (chain_id, lower address))"

definition native_asset :: "registry \<Rightarrow> int \<Rightarrow> error + registry_asset" where
  "native_asset reg chain_id =
     bind_res (get_chain reg chain_id) (\<lambda>c.
     case first_row (filter (\<lambda>a. ra_type a = NATIVE) (ch_assets c)) of
       Some a \<Rightarrow> Inr a
     | None \<Rightarrow> Inl (KeyError (''chain '' @ int_str chain_id @ '' has no native asset'')))"

definition registry_get_asset :: "registry \<Rightarrow> int \<Rightarrow> string \<Rightarrow> error + registry_asset" where
  "registry_get_asset reg chain_id key =
     (let found = (\<lambda>asset. case asset of
            None \<Rightarrow> Inl (KeyError (''unknown asset '' @ key @ '' on chain '' @ int_str chain_id))
          | Some a \<Rightarrow> Inr a) in
      if address_fullmatch key then
        (if lower key = lower NATIVE_ASSET_SENTINEL then native_asset reg chain_id
         else found (asset_by_address reg chain_id key))
      else found (asset_by_symbol reg chain_id key))"

text \<open>\<open>s.replace(old, new)\<close> for a non-empty \<open>old\<close>.\<close>

function replace_all :: "string \<Rightarrow> string \<Rightarrow> string \<Rightarrow> string" where
  "replace_all old new [] = []"
| "replace_all old new (c # s) =
     (if old \<noteq> [] \<and> startswith (c # s) old
      then new @ replace_all old new (drop (length old) (c # s))
      else c # replace_all old new s)"
  by pat_completeness auto
termination
  apply (relation "measure (\<lambda>(_, _, s). length s)")
  subgoal by simp
  subgoal for old c s by (cases old) auto
  subgoal by simp
  done

definition explorer_tx_url :: "registry \<Rightarrow> int \<Rightarrow> string \<Rightarrow> error + string" where
  "explorer_tx_url reg chain_id tx_hash =
     bind_res (get_chain reg chain_id)
       (\<lambda>c. Inr (replace_all ''{hash}'' tx_hash (ch_explorer_tx_url c)))"

definition explorer_address_url ::
  "(string \<Rightarrow> error + string) \<Rightarrow> registry \<Rightarrow> int \<Rightarrow> string \<Rightarrow> error + string" where
  "explorer_address_url ck reg chain_id address =
     (if \<not> address_fullmatch address then Inl (ValueError (''invalid address: '' @ address))
      else bind_res (get_chain reg chain_id) (\<lambda>c.
           bind_res (ck address) (\<lambda>checksummed.
           Inr (replace_all ''{address}'' checksummed (ch_explorer_address_url c)))))"

definition derivation_path :: "registry \<Rightarrow> int \<Rightarrow> int \<Rightarrow> error + string" where
  "derivation_path reg chain_id hd_index =
     bind_res (get_chain reg chain_id) (\<lambda>c.
     if hd_index < 0 then Inl (ValueError ''hd_index must be non-negative'')
     else Inr (''m/44'' @ [CHR 39] @ ''/'' @ int_str (ch_coin_type c) @ [CHR 39] @ ''/0'' @ [CHR 39]
       @ ''/0/'' @ int_str hd_index))"

text \<open>The canonical rows, sorted as strings; \<open>sha256\<close> is the digest in hex.\<close>

definition asset_address :: "registry_asset \<Rightarrow> string option" where
  "asset_address asset = (if ra_type asset = NATIVE then None else Some (ra_address asset))"

definition canonical_row :: "int \<Rightarrow> registry_asset \<Rightarrow> string" where
  "canonical_row chain_id asset = join ''|'' [int_str chain_id, asset_type_str (ra_type asset),
     lower (case asset_address asset of None \<Rightarrow> [] | Some a \<Rightarrow> a), upper (ra_symbol asset),
     int_str (int (ra_decimals asset))]"

definition content_hash :: "(string \<Rightarrow> string) \<Rightarrow> registry \<Rightarrow> string" where
  "content_hash sha256 reg = sha256 (join [CHR 0x0A] (sort
     (concat (map (\<lambda>c. map (canonical_row (ch_chain_id c)) (ch_assets c)) (list_chains reg)))))"

section \<open>Projection into the API\<close>

text \<open>The namespace is kept as its text; \<open>uuid5\<close> takes it with the name.\<close>

definition ASSET_NAMESPACE :: string where
  "ASSET_NAMESPACE = ''c38a8b6f-7c61-4b83-9353-265a9e859c2f''"

definition asset_id_for :: "(string \<Rightarrow> string \<Rightarrow> uuid) \<Rightarrow> int \<Rightarrow> registry_asset \<Rightarrow> uuid" where
  "asset_id_for uuid5 chain_id asset = uuid5 ASSET_NAMESPACE
     (int_str chain_id @ '':'' @ asset_type_str (ra_type asset) @ '':'' @ upper (ra_symbol asset)
      @ '':'' @ lower (case asset_address asset of None \<Rightarrow> [] | Some a \<Rightarrow> a))"

record chain_response =
  chr_chain_id :: int
  chr_name :: string
  chr_symbol :: string
  chr_explorer_tx_url :: string

record asset_response =
  asr_id :: uuid
  asr_chain_id :: int
  asr_symbol :: string
  asr_type :: asset_type
  asr_contract_address :: "string option"
  asr_decimals :: nat
  asr_max_amount :: "int option"

definition enabled_chains :: "settings \<Rightarrow> registry \<Rightarrow> error + chain list" where
  "enabled_chains st reg = filter_res (\<lambda>c. is_chain_enabled st (ch_chain_id c)) (list_chains reg)"

definition active_chain_ids :: "settings \<Rightarrow> registry \<Rightarrow> error + int list" where
  "active_chain_ids st reg = bind_res (enabled_chains st reg) (\<lambda>cs. Inr (map ch_chain_id cs))"

definition chain_responses :: "settings \<Rightarrow> registry \<Rightarrow> error + chain_response list" where
  "chain_responses st reg = bind_res (enabled_chains st reg) (\<lambda>cs.
     Inr (map (\<lambda>c. \<lparr>chr_chain_id = ch_chain_id c, chr_name = ch_name c,
       chr_symbol = ch_native_symbol c, chr_explorer_tx_url = ch_explorer_tx_url c\<rparr>) cs))"

text \<open>The projection asset is only read for its chain, symbol, type and decimals.\<close>

definition asset_response_of ::
  "caps \<Rightarrow> (string \<Rightarrow> string \<Rightarrow> uuid) \<Rightarrow> int \<Rightarrow> registry_asset \<Rightarrow> asset_response" where
  "asset_response_of caps uuid5 chain_id asset =
     \<lparr>asr_id = asset_id_for uuid5 chain_id asset, asr_chain_id = chain_id,
      asr_symbol = upper (ra_symbol asset), asr_type = ra_type asset,
      asr_contract_address = asset_address asset, asr_decimals = ra_decimals asset,
      asr_max_amount = max_amount_base_units caps
        \<lparr>ast_id = 0, ast_chain_id = chain_id, ast_symbol = ra_symbol asset,
         ast_type = ra_type asset, ast_contract_address = None, ast_decimals = ra_decimals asset\<rparr>\<rparr>"

definition asset_responses ::
  "settings \<Rightarrow> caps \<Rightarrow> (string \<Rightarrow> string \<Rightarrow> uuid) \<Rightarrow> registry \<Rightarrow> int option \<Rightarrow> error + asset_response list"
where
  "asset_responses st caps uuid5 reg chain_id =
     bind_res (case chain_id of Some i \<Rightarrow> Inr [i] | None \<Rightarrow> active_chain_ids st reg) (\<lambda>chains.
     bind_res (filter_res (is_chain_enabled st) chains) (\<lambda>chains.
     bind_res (map_res (\<lambda>i. bind_res (tokens_of_chain reg i) (\<lambda>tokens.
         Inr (map (asset_response_of caps uuid5 i) tokens))) chains) (\<lambda>responses.
     Inr (concat responses))))"

section \<open>Seeding the assets table\<close>

definition asset_rows :: "(string \<Rightarrow> string \<Rightarrow> uuid) \<Rightarrow> registry \<Rightarrow> asset list" where
  "asset_rows uuid5 reg = concat (map (\<lambda>c. map (\<lambda>a.
     \<lparr>ast_id = asset_id_for uuid5 (ch_chain_id c) a, ast_chain_id = ch_chain_id c,
      ast_symbol = upper (ra_symbol a), ast_type = ra_type a,
      ast_contract_address = asset_address a, ast_decimals = ra_decimals a\<rparr>) (ch_assets c))
     (list_chains reg))"

definition asset_key :: "asset \<Rightarrow> int \<times> string" where
  "asset_key a = (ast_chain_id a, ast_symbol a)"

text \<open>The partial unique index on the chain and the contract, the zero address excepted.\<close>

definition same_contract :: "asset \<Rightarrow> asset \<Rightarrow> bool" where
  "same_contract a b \<longleftrightarrow> ast_chain_id a = ast_chain_id b \<and>
     (case (ast_contract_address a, ast_contract_address b) of
        (Some x, Some y) \<Rightarrow> lower x = lower y \<and> lower x \<noteq> ZERO_ADDRESS
      | _ \<Rightarrow> False)"

text \<open>
  One row of \<open>INSERT ... ON CONFLICT (chain_id, symbol) DO UPDATE\<close>, with the table's other
  unique constraints.
\<close>

definition upsert_asset :: "asset \<Rightarrow> db \<Rightarrow> error + db" where
  "upsert_asset row db =
     (if \<exists>r \<in> set (assets db). asset_key r \<noteq> asset_key row \<and> same_contract r row
      then Inl IntegrityError
      else if asset_key row \<in> asset_key ` set (assets db) then
        Inr (db\<lparr>assets := upd_row asset_key (asset_key row)
          (\<lambda>r. r\<lparr>ast_type := ast_type row, ast_contract_address := ast_contract_address row,
                 ast_decimals := ast_decimals row\<rparr>) (assets db)\<rparr>)
      else if \<exists>r \<in> set (assets db). ast_id r = ast_id row \<or>
          ast_chain_id r = ast_chain_id row \<and> upper (ast_symbol r) = upper (ast_symbol row)
      then Inl IntegrityError
      else Inr (db\<lparr>assets := assets db @ [row]\<rparr>))"

text \<open>A command that would touch one row twice is refused by the database.\<close>

definition seed_assets :: "(string \<Rightarrow> string \<Rightarrow> uuid) \<Rightarrow> registry \<Rightarrow> db \<Rightarrow> error + db" where
  "seed_assets uuid5 reg db =
     (let rows = asset_rows uuid5 reg in
      if \<not> distinct (map asset_key rows)
      then Inl (OtherError ''ON CONFLICT DO UPDATE command cannot affect row a second time'')
      else for_each upsert_asset rows db)"

end
