(* ===== verification/Registry_Facts.thy ===== *)
theory Registry_Facts
  imports Registry Samples
begin

text \<open>
  What a loaded registry promises: the two indexes contain exactly the assets of its chains,
  and seeding puts exactly those assets into the table, keeps the ids of the rows already
  there, and changes nothing when it is repeated.
\<close>

section \<open>The indexes\<close>

definition indexed :: "registry \<Rightarrow> (int \<times> registry_asset) set \<Rightarrow> bool" where
  "indexed reg D \<longleftrightarrow>
     (\<forall>i s a. map_of (rg_by_symbol reg) (i, s) = Some a \<longleftrightarrow> (i, a) \<in> D \<and> upper (ra_symbol a) = s) \<and>
     (\<forall>i x a. map_of (rg_by_address reg) (i, x) = Some a \<longleftrightarrow>
        (i, a) \<in> D \<and> ra_type a \<noteq> NATIVE \<and> lower (ra_address a) = x \<and> x \<noteq> ZERO_ADDRESS) \<and>
     (\<forall>(i, a) \<in> D. \<not> startswith (upper (ra_symbol a)) ''0X'')"

lemma index_asset_ok:
  assumes I: "indexed reg D" and x: "index_asset i a reg = Inr reg'"
  shows "indexed reg' (insert (i, a) D) \<and> rg_chains reg' = rg_chains reg"
proof -
  from x have s: "map_of (rg_by_symbol reg) (i, upper (ra_symbol a)) = None"
      "\<not> startswith (upper (ra_symbol a)) ''0X''"
    by (auto simp: index_asset_def Let_def map_of_eq_None_iff split: if_splits)
  have news: "rg_by_symbol reg' = dict_set (i, upper (ra_symbol a)) a (rg_by_symbol reg)"
    and chains: "rg_chains reg' = rg_chains reg"
    using x by (auto simp: index_asset_def index_address_def Let_def split: if_splits)
  have addr: "(if ra_type a \<noteq> NATIVE \<and> lower (ra_address a) \<noteq> ZERO_ADDRESS
     then map_of (rg_by_address reg) (i, lower (ra_address a)) = None \<and>
       rg_by_address reg' = dict_set (i, lower (ra_address a)) a (rg_by_address reg)
     else rg_by_address reg' = rg_by_address reg)"
    using x by (auto simp: index_asset_def index_address_def Let_def map_of_eq_None_iff split: if_splits)
  have sym: "\<And>j t b. map_of (rg_by_symbol reg) (j, t) = Some b \<longleftrightarrow> (j, b) \<in> D \<and> upper (ra_symbol b) = t"
    and adr: "\<And>j y b. map_of (rg_by_address reg) (j, y) = Some b \<longleftrightarrow>
        (j, b) \<in> D \<and> ra_type b \<noteq> NATIVE \<and> lower (ra_address b) = y \<and> y \<noteq> ZERO_ADDRESS"
    using I by (simp_all add: indexed_def)
  have s': "\<And>b. (i, b) \<in> D \<Longrightarrow> upper (ra_symbol b) \<noteq> upper (ra_symbol a)"
    using s(1) sym by (metis option.distinct(1))
  have a': "\<And>b. ra_type a \<noteq> NATIVE \<Longrightarrow> lower (ra_address a) \<noteq> ZERO_ADDRESS \<Longrightarrow> (i, b) \<in> D \<Longrightarrow>
      ra_type b \<noteq> NATIVE \<Longrightarrow> lower (ra_address b) \<noteq> lower (ra_address a)"
    using addr adr by (metis option.distinct(1))
  have 1: "map_of (rg_by_symbol reg') (j, t) = Some b \<longleftrightarrow>
      (j, b) \<in> insert (i, a) D \<and> upper (ra_symbol b) = t" for j t b
    using sym [of j t b] s' by (auto simp: news)
  have 2: "map_of (rg_by_address reg') (j, y) = Some b \<longleftrightarrow> (j, b) \<in> insert (i, a) D \<and>
      ra_type b \<noteq> NATIVE \<and> lower (ra_address b) = y \<and> y \<noteq> ZERO_ADDRESS" for j y b
    using addr adr [of j y b] a' by (auto split: if_splits)
  show ?thesis using 1 2 I s(2) chains by (auto simp: indexed_def)
qed

lemma index_assets_ok:
  assumes "for_each (index_asset i) xs reg = Inr reg'" "indexed reg D"
  shows "indexed reg' (D \<union> {i} \<times> set xs) \<and> rg_chains reg' = rg_chains reg"
  using assms
proof (induction xs arbitrary: reg D)
  case (Cons x xs)
  from Cons.prems(1) obtain r where r: "index_asset i x reg = Inr r"
      "for_each (index_asset i) xs r = Inr reg'" by auto
  note one = index_asset_ok [OF Cons.prems(2) r(1)]
  have "D \<union> {i} \<times> set (x # xs) = insert (i, x) D \<union> {i} \<times> set xs" by auto
  then show ?case using Cons.IH [OF r(2) conjunct1 [OF one]] one by simp
qed simp

definition registry_assets :: "registry \<Rightarrow> (int \<times> registry_asset) set" where
  "registry_assets reg = {(i, a). \<exists>c. map_of (rg_chains reg) i = Some c \<and> a \<in> set (ch_assets c)}"

definition registry_ok :: "registry \<Rightarrow> bool" where
  "registry_ok reg \<longleftrightarrow> indexed reg (registry_assets reg) \<and> distinct (map fst (rg_chains reg)) \<and>
     (\<forall>(i, c) \<in> set (rg_chains reg). ch_chain_id c = i)"

lemma dict_set_fresh: "k \<notin> fst ` set d \<Longrightarrow> dict_set k v d = d @ [(k, v)]"
  by (induction k v d rule: dict_set.induct) auto

lemma index_chain_ok:
  assumes ok: "registry_ok reg" and x: "index_chain ck load_file raw reg = Inr reg'"
  shows "registry_ok reg'"
proof -
  from x obtain c where new: "ch_chain_id c \<notin> fst ` set (rg_chains reg)"
      and l: "for_each (index_asset (ch_chain_id c)) (ch_assets c)
        (reg\<lparr>rg_chains := dict_set (ch_chain_id c) c (rg_chains reg)\<rparr>) = Inr reg'"
    by (auto simp: index_chain_def split: option.splits if_splits)
  let ?r = "reg\<lparr>rg_chains := dict_set (ch_chain_id c) c (rg_chains reg)\<rparr>"
  have "indexed ?r (registry_assets reg)" using ok by (simp add: registry_ok_def indexed_def)
  note L = index_assets_ok [OF l this]
  have none: "map_of (rg_chains reg) (ch_chain_id c) = None" using new by (simp add: map_of_eq_None_iff)
  have "registry_assets reg \<union> {ch_chain_id c} \<times> set (ch_assets c) = registry_assets reg'"
    using L none by (auto simp: registry_assets_def split: if_splits)
  then show ?thesis
    using L ok new by (auto simp: registry_ok_def dict_set_fresh)
qed

lemma load_registry_ok:
  assumes "load_registry ck load_file manifest = Inr reg" shows "registry_ok reg"
proof -
  from assms obtain ids where l: "for_each (index_chain ck load_file) ids
      \<lparr>rg_chains = [], rg_by_symbol = [], rg_by_address = []\<rparr> = Inr reg"
    by (auto simp: load_registry_def split: option.splits)
  show ?thesis
  proof (rule for_each_inv [OF l, where I = registry_ok])
    show "registry_ok \<lparr>rg_chains = [], rg_by_symbol = [], rg_by_address = []\<rparr>"
      by (simp add: registry_ok_def indexed_def registry_assets_def)
  qed (rule index_chain_ok)
qed

lemma upper_char_idem [simp]: "upper_char (upper_char c) = upper_char c"
proof -
  have "(of_char (char_of ((of_char c :: nat) - 32) :: char) :: nat) = of_char c - 32"
    if "97 \<le> (of_char c :: nat)" "(of_char c :: nat) \<le> 122"
    using that by simp
  then show ?thesis by (auto simp: upper_char_def)
qed

lemma upper_idem [simp]: "upper (upper s) = upper s"
  by (simp add: upper_def)



section \<open>Seeding\<close>

text \<open>The table's unique constraints: one row per chain and symbol, one per real contract.\<close>

definition assets_ok :: "asset list \<Rightarrow> bool" where
  "assets_ok rows \<longleftrightarrow> distinct (map asset_key rows) \<and>
     (\<forall>a \<in> set rows. \<forall>b \<in> set rows. asset_key a \<noteq> asset_key b \<longrightarrow> \<not> same_contract a b)"

definition same_values :: "asset \<Rightarrow> asset \<Rightarrow> bool" where
  "same_values row r \<longleftrightarrow> asset_key r = asset_key row \<and> ast_type r = ast_type row \<and>
     ast_contract_address r = ast_contract_address row \<and> ast_decimals r = ast_decimals row"

abbreviation (input) set_values :: "asset \<Rightarrow> asset \<Rightarrow> asset" where
  "set_values row r \<equiv> r\<lparr>ast_type := ast_type row, ast_contract_address := ast_contract_address row,
     ast_decimals := ast_decimals row\<rparr>"

lemma same_contract_commute: "same_contract a b \<longleftrightarrow> same_contract b a"
  by (auto simp: same_contract_def split: option.splits)

lemma same_contract_set_values:
  "ast_chain_id r = ast_chain_id row \<Longrightarrow> same_contract b (set_values row r) = same_contract b row"
  by (simp add: same_contract_def)

lemma asset_key_set_values [simp]: "asset_key (set_values row r) = asset_key r"
  by (simp add: asset_key_def)

lemma upsert_asset_cases:
  assumes "upsert_asset row db = Inr db'"
  obtains (update) "asset_key row \<in> asset_key ` set (assets db)"
      "db' = db\<lparr>assets := upd_row asset_key (asset_key row) (set_values row) (assets db)\<rparr>"
      "\<And>r. r \<in> set (assets db) \<Longrightarrow> asset_key r \<noteq> asset_key row \<Longrightarrow> \<not> same_contract r row"
    | (insert) "asset_key row \<notin> asset_key ` set (assets db)"
      "db' = db\<lparr>assets := assets db @ [row]\<rparr>"
      "\<And>r. r \<in> set (assets db) \<Longrightarrow> asset_key r \<noteq> asset_key row \<Longrightarrow> \<not> same_contract r row"
  using assms by (auto simp: upsert_asset_def split: if_splits)

lemma upsert_asset_ok:
  assumes ok: "assets_ok (assets db)" and u: "upsert_asset row db = Inr db'"
  shows "assets_ok (assets db')" "\<exists>r \<in> set (assets db'). same_values row r"
    "\<And>r. r \<in> set (assets db) \<Longrightarrow> asset_key r \<noteq> asset_key row \<Longrightarrow> r \<in> set (assets db')"
    "\<And>r. r \<in> set (assets db) \<Longrightarrow> \<exists>r' \<in> set (assets db'). ast_id r' = ast_id r \<and> asset_key r' = asset_key r"
    "\<And>r'. r' \<in> set (assets db') \<Longrightarrow> asset_key r' = asset_key row \<or> r' \<in> set (assets db)"
    "db' = db\<lparr>assets := assets db'\<rparr>"
proof -
  show "db' = db\<lparr>assets := assets db'\<rparr>" using u by (cases rule: upsert_asset_cases) simp_all
  have key: "ast_chain_id r = ast_chain_id row" if "asset_key r = asset_key row" for r
    using that by (simp add: asset_key_def)
  show "assets_ok (assets db')" using u
  proof (cases rule: upsert_asset_cases)
    case update
    have "\<not> same_contract a b"
      if "a \<in> set (assets db')" "b \<in> set (assets db')" and ne: "asset_key a \<noteq> asset_key b" for a b
    proof -
      from that obtain x y where x: "x \<in> set (assets db)"
          "a = (if asset_key x = asset_key row then set_values row x else x)"
        and y: "y \<in> set (assets db)"
          "b = (if asset_key y = asset_key row then set_values row y else y)"
        by (auto simp: update(2) in_upd_row_iff)
      have "\<not> same_contract x y" if "asset_key x \<noteq> asset_key row" "asset_key y \<noteq> asset_key row"
        using ok x y ne that by (simp add: assets_ok_def)
      then show ?thesis
        using x y ne update(3) [of x] update(3) [of y] key [of x] key [of y]
          same_contract_set_values [of y row x] same_contract_set_values [of x row y]
          same_contract_commute
        by (cases "asset_key x = asset_key row"; cases "asset_key y = asset_key row") simp_all
    qed
    moreover have "distinct (map asset_key (assets db'))"
      using ok by (simp add: update(2) assets_ok_def map_key_upd_row)
    ultimately show ?thesis by (auto simp: assets_ok_def)
  next
    case insert
    then show ?thesis using ok same_contract_commute by (auto simp: assets_ok_def)
  qed
  show "\<exists>r \<in> set (assets db'). same_values row r" using u
  proof (cases rule: upsert_asset_cases)
    case update
    then obtain r where "r \<in> set (assets db)" "asset_key r = asset_key row" by auto
    then show ?thesis using in_upd_row_same [of r "assets db" "set_values row" asset_key]
      by (intro bexI [of _ "set_values row r"]) (auto simp: same_values_def update(2) asset_key_def)
  next
    case insert
    then show ?thesis by (simp add: same_values_def)
  qed
  show "r \<in> set (assets db) \<Longrightarrow> asset_key r \<noteq> asset_key row \<Longrightarrow> r \<in> set (assets db')" for r
    using u by (cases rule: upsert_asset_cases) (auto simp: in_upd_row_iff)
  show "\<exists>r' \<in> set (assets db'). ast_id r' = ast_id r \<and> asset_key r' = asset_key r"
    if r: "r \<in> set (assets db)" for r
    using u
  proof (cases rule: upsert_asset_cases)
    case update
    show ?thesis
    proof (cases "asset_key r = asset_key row")
      case True
      then show ?thesis using in_upd_row_same [of r "assets db" "set_values row" asset_key] r
        by (intro bexI [of _ "set_values row r"]) (simp_all add: update(2))
    next
      case False
      then show ?thesis using r by (intro bexI [of _ r]) (simp_all add: update(2) in_upd_row_other)
    qed
  next
    case insert
    then show ?thesis using r by auto
  qed
  show "asset_key r' = asset_key row \<or> r' \<in> set (assets db)" if "r' \<in> set (assets db')" for r'
    using u that by (cases rule: upsert_asset_cases) (auto simp: in_upd_row_iff split: if_splits)
qed

lemma upsert_asset_again:
  assumes ok: "assets_ok (assets db)" and r: "r \<in> set (assets db)" "same_values row r"
  shows "upsert_asset row db = Inr db"
proof -
  have "same_contract b row = same_contract b r" for b
    using r(2) by (simp add: same_contract_def same_values_def asset_key_def)
  then have "\<not> (\<exists>b \<in> set (assets db). asset_key b \<noteq> asset_key row \<and> same_contract b row)"
    using ok r by (auto simp: assets_ok_def same_values_def)
  moreover have "asset_key row \<in> asset_key ` set (assets db)"
    using r by (metis image_eqI same_values_def)
  moreover have "upd_row asset_key (asset_key row) (set_values row) (assets db) = assets db"
  proof (rule upd_row_id)
    fix x assume "x \<in> set (assets db)" "asset_key x = asset_key row"
    moreover from this have "x = r"
      using ok r by (auto simp: assets_ok_def distinct_map same_values_def inj_on_def)
    ultimately show "set_values row x = x" using r(2) by (simp add: same_values_def)
  qed
  ultimately show ?thesis by (simp add: upsert_asset_def)
qed

lemma upserts_ok:
  assumes "for_each upsert_asset rows db = Inr db'" "assets_ok (assets db)" "distinct (map asset_key rows)"
  shows "assets_ok (assets db') \<and> (\<forall>row \<in> set rows. \<exists>r \<in> set (assets db'). same_values row r) \<and>
    (\<forall>r \<in> set (assets db). asset_key r \<notin> asset_key ` set rows \<longrightarrow> r \<in> set (assets db')) \<and>
    (\<forall>r \<in> set (assets db). \<exists>r' \<in> set (assets db'). ast_id r' = ast_id r \<and> asset_key r' = asset_key r) \<and>
    db' = db\<lparr>assets := assets db'\<rparr>"
  using assms
proof (induction rows arbitrary: db)
  case (Cons row rows)
  from Cons.prems(1) obtain t where u: "upsert_asset row db = Inr t" and l: "for_each upsert_asset rows t = Inr db'"
    by auto
  note U = upsert_asset_ok [OF Cons.prems(2) u]
  have IH: "assets_ok (assets db')" "\<And>x. x \<in> set rows \<Longrightarrow> \<exists>r \<in> set (assets db'). same_values x r"
    "\<And>r. r \<in> set (assets t) \<Longrightarrow> asset_key r \<notin> asset_key ` set rows \<Longrightarrow> r \<in> set (assets db')"
    "\<And>r. r \<in> set (assets t) \<Longrightarrow> \<exists>r' \<in> set (assets db'). ast_id r' = ast_id r \<and> asset_key r' = asset_key r"
    "db' = t\<lparr>assets := assets db'\<rparr>"
    using Cons.IH [OF l U(1)] Cons.prems(3) by auto
  obtain r where r: "r \<in> set (assets t)" "same_values row r" using U(2) by blast
  have "r \<in> set (assets db')"
    using IH(3) [OF r(1)] r(2) Cons.prems(3) by (auto simp: same_values_def)
  then have 1: "\<exists>r \<in> set (assets db'). same_values x r" if "x \<in> set (row # rows)" for x
    using that IH(2) r(2) by auto
  have 2: "\<exists>r' \<in> set (assets db'). ast_id r' = ast_id x \<and> asset_key r' = asset_key x"
    if "x \<in> set (assets db)" for x
    using U(4) [OF that] IH(4) by fastforce
  have 3: "r \<in> set (assets db')"
    if "r \<in> set (assets db)" "asset_key r \<notin> asset_key ` set (row # rows)" for r
    using that U(3) IH(3) by simp
  have 4: "db' = db\<lparr>assets := assets db'\<rparr>"
    by (subst IH(5), subst U(6)) simp
  show ?case using IH(1) 1 2 3 4 by blast
qed auto

lemma upserts_again:
  assumes "assets_ok (assets db)" "\<forall>row \<in> set rows. \<exists>r \<in> set (assets db). same_values row r"
  shows "for_each upsert_asset rows db = Inr db"
  using assms by (induction rows) (auto simp: upsert_asset_again)

lemma get_chain_iff:
  assumes "registry_ok reg"
  shows "get_chain reg i = Inr c \<longleftrightarrow> c \<in> set (list_chains reg) \<and> ch_chain_id c = i"
proof -
  have "get_chain reg i = Inr c \<longleftrightarrow> (i, c) \<in> set (rg_chains reg)"
    using assms map_of_eq_Some_iff [of "rg_chains reg" i]
    by (auto simp: get_chain_def registry_ok_def simp del: map_of_eq_Some_iff split: option.splits)
  also have "\<dots> \<longleftrightarrow> c \<in> set (list_chains reg) \<and> ch_chain_id c = i"
    using assms by (force simp: registry_ok_def list_chains_def)
  finally show ?thesis .
qed

lemma asset_rows_iff:
  assumes "registry_ok reg"
  shows "row \<in> set (asset_rows uuid5 reg) \<longleftrightarrow> (\<exists>i a c. get_chain reg i = Inr c \<and> a \<in> set (ch_assets c) \<and>
    row = \<lparr>ast_id = asset_id_for uuid5 i a, ast_chain_id = i, ast_symbol = upper (ra_symbol a),
      ast_type = ra_type a, ast_contract_address = asset_address a, ast_decimals = ra_decimals a\<rparr>)"
proof -
  show ?thesis by (auto simp: asset_rows_def get_chain_iff [OF assms])
qed

text \<open>
  C18: Seeding a table whose constraints hold keeps them and leaves, for every asset of every
  chain of the registry, exactly one row with that chain and symbol, carrying the registry's
  type, contract and decimals. The row of an asset that was there before keeps its id, so
  accounts and deposits that refer to it stay valid; rows the registry does not name are
  untouched, nothing but the assets table changes, and seeding again changes nothing.
\<close>

theorem seeding_matches_registry:
  assumes reg: "load_registry ck load_file manifest = Inr reg" and ok: "assets_ok (assets db)"
    and s: "seed_assets uuid5 reg db = Inr db'"
  shows "assets_ok (assets db') \<and>
    (\<forall>i c a. get_chain reg i = Inr c \<longrightarrow> a \<in> set (ch_assets c) \<longrightarrow>
       (\<exists>!r. r \<in> set (assets db') \<and> ast_chain_id r = i \<and> ast_symbol r = upper (ra_symbol a) \<and>
          ast_type r = ra_type a \<and> ast_contract_address r = asset_address a \<and>
          ast_decimals r = ra_decimals a)) \<and>
    (\<forall>r \<in> set (assets db). \<exists>r' \<in> set (assets db'). ast_id r' = ast_id r \<and> asset_key r' = asset_key r) \<and>
    (\<forall>r \<in> set (assets db). asset_by_symbol reg (ast_chain_id r) (ast_symbol r) = None \<longrightarrow>
       r \<in> set (assets db')) \<and>
    db' = db\<lparr>assets := assets db'\<rparr> \<and> seed_assets uuid5 reg db' = Inr db'"
proof -
  let ?rows = "asset_rows uuid5 reg"
  note rok = load_registry_ok [OF reg]
  from s have d: "distinct (map asset_key ?rows)" and l: "for_each upsert_asset ?rows db = Inr db'"
    by (auto simp: seed_assets_def Let_def split: if_splits)
  note U = upserts_ok [OF l ok d]
  have 1: "\<exists>!r. r \<in> set (assets db') \<and> ast_chain_id r = i \<and> ast_symbol r = upper (ra_symbol a) \<and>
      ast_type r = ra_type a \<and> ast_contract_address r = asset_address a \<and> ast_decimals r = ra_decimals a"
    if "get_chain reg i = Inr c" "a \<in> set (ch_assets c)" for i c a
  proof -
    have "\<lparr>ast_id = asset_id_for uuid5 i a, ast_chain_id = i, ast_symbol = upper (ra_symbol a),
        ast_type = ra_type a, ast_contract_address = asset_address a, ast_decimals = ra_decimals a\<rparr>
      \<in> set ?rows"
      using asset_rows_iff [OF rok] that by blast
    then obtain r where r: "r \<in> set (assets db')" "ast_chain_id r = i" "ast_symbol r = upper (ra_symbol a)"
        "ast_type r = ra_type a" "ast_contract_address r = asset_address a" "ast_decimals r = ra_decimals a"
      using U by (fastforce simp: same_values_def asset_key_def)
    moreover have "x = r" if "x \<in> set (assets db')" "ast_chain_id x = i"
        "ast_symbol x = upper (ra_symbol a)" for x
      using that r U by (auto simp: assets_ok_def distinct_map inj_on_def asset_key_def)
    ultimately show ?thesis by blast
  qed
  have 2: "r \<in> set (assets db')" if r: "r \<in> set (assets db)"
      "asset_by_symbol reg (ast_chain_id r) (ast_symbol r) = None" for r
  proof -
    have "asset_key r \<noteq> asset_key row" if row: "row \<in> set ?rows" for row
    proof
      assume k: "asset_key r = asset_key row"
      obtain i a c where "get_chain reg i = Inr c" "a \<in> set (ch_assets c)" "ast_chain_id row = i"
          "ast_symbol row = upper (ra_symbol a)"
        using row asset_rows_iff [OF rok, of row uuid5] by auto
      moreover from this have "upper (ast_symbol row) = upper (ra_symbol a)" by simp
      ultimately have "asset_by_symbol reg i (ast_symbol row) = Some a"
        using rok by (auto simp: asset_by_symbol_def registry_ok_def indexed_def registry_assets_def
            get_chain_def split: option.splits)
      then show False using r(2) k \<open>ast_chain_id row = i\<close> by (simp add: asset_key_def)
    qed
    then show ?thesis using U r(1) by (auto simp: image_iff)
  qed
  have "for_each upsert_asset ?rows db' = Inr db'" using U by (intro upserts_again) auto
  then have "seed_assets uuid5 reg db' = Inr db'" using d by (simp add: seed_assets_def Let_def)
  then show ?thesis using U 1 2 by blast
qed

section \<open>The API's asset list\<close>

text \<open>
  With no chain disabled, the assets the API lists are the rows seeding writes, one for
  one and in the same order: same id, chain, symbol, type, contract and decimals. A client's
  asset id is therefore the primary key of the asset's row.
\<close>

theorem api_lists_seeded_assets:
  assumes reg: "load_registry ck load_file manifest = Inr reg"
    and on: "\<forall>i. is_chain_enabled st i = Inr True"
  shows "\<exists>rs. asset_responses st caps uuid5 reg None = Inr rs \<and>
    map (\<lambda>r. (asr_id r, asr_chain_id r, asr_symbol r, asr_type r, asr_contract_address r, asr_decimals r)) rs =
    map (\<lambda>a. (ast_id a, ast_chain_id a, ast_symbol a, ast_type a, ast_contract_address a, ast_decimals a))
      (asset_rows uuid5 reg)"
proof -
  note rok = load_registry_ok [OF reg]
  have all: "filter_res (\<lambda>c. is_chain_enabled st (ch_chain_id c)) cs = Inr cs" for cs :: "chain list"
    using on by (induction cs) simp_all
  have all': "filter_res (is_chain_enabled st) is = Inr is" for "is"
    using on by (induction "is") simp_all
  have chains: "map_res (\<lambda>i. bind_res (tokens_of_chain reg i) (\<lambda>tokens.
        Inr (map (asset_response_of caps uuid5 i) tokens))) (map ch_chain_id cs) =
      Inr (map (\<lambda>c. map (asset_response_of caps uuid5 (ch_chain_id c)) (ch_assets c)) cs)"
    if "set cs \<subseteq> set (list_chains reg)" for cs
    using that
  proof (induction cs)
    case (Cons c cs)
    have "get_chain reg (ch_chain_id c) = Inr c"
      using Cons.prems by (simp add: get_chain_iff [OF rok])
    then show ?case using Cons by (simp add: tokens_of_chain_def)
  qed simp
  show ?thesis
    using chains [of "list_chains reg"]
    by (simp add: all all' asset_responses_def active_chain_ids_def enabled_chains_def asset_rows_def
        map_concat asset_response_of_def comp_def)
qed

section \<open>The properties on a concrete registry\<close>

definition demo_chain :: chain where
  "demo_chain = \<lparr>ch_chain_id = 7, ch_name = ''demo-local'', ch_display_name = ''Demo Local'',
     ch_native_symbol = ''ETH'', ch_coin_type = 60, ch_rpc_env = ''RPC_DEMO'',
     ch_explorer_tx_url = ''http://localhost:8545/tx/{hash}'',
     ch_explorer_address_url = ''http://localhost:8545/address/{address}'',
     ch_assets = [NativeAsset ''ETH'' ''Ether'' 18,
       Erc20Asset ''Demo'' ''Demo Token'' 18 (addr (CHR ''d'')) 0]\<rparr>"

definition demo_registry :: registry where
  "demo_registry = projr (load_registry Inr (\<lambda>_. Inr demo_chain) (Some [Some 7]))"

definition demo_uuid5 :: "string \<Rightarrow> string \<Rightarrow> uuid" where
  "demo_uuid5 ns key = 100 + length key"

definition demo_seeded :: db where
  "demo_seeded = projr (seed_assets demo_uuid5 demo_registry demo_db)"

lemma is_ok_projr: "is_ok r \<Longrightarrow> r = Inr (projr r)"
  by (cases r) simp_all

lemma demo_registry_loads:
  "load_registry Inr (\<lambda>_. Inr demo_chain) (Some [Some 7]) = Inr demo_registry"
proof -
  have "is_ok (load_registry Inr (\<lambda>_. Inr demo_chain) (Some [Some 7]))" by code_simp
  then show ?thesis unfolding demo_registry_def by (rule is_ok_projr)
qed

lemma demo_seeds: "seed_assets demo_uuid5 demo_registry demo_db = Inr demo_seeded"
proof -
  have "is_ok (seed_assets demo_uuid5 demo_registry demo_db)" by code_simp
  then show ?thesis unfolding demo_seeded_def by (rule is_ok_projr)
qed


theorem seeding_matches_registry_witness:
  "seed_assets demo_uuid5 demo_registry demo_seeded = Inr demo_seeded \<and> length (assets demo_seeded) = 3"
proof -
  have "assets_ok (assets demo_db)" "length (assets demo_seeded) = 3" by code_simp+
  then show ?thesis using seeding_matches_registry [OF demo_registry_loads _ demo_seeds] by blast
qed

theorem api_lists_seeded_assets_witness:
  "\<exists>rs. asset_responses default_settings [] demo_uuid5 demo_registry None = Inr rs \<and>
     map asr_id rs = map ast_id (asset_rows demo_uuid5 demo_registry)"
proof -
  have "strip [] = []" by code_simp
  then have "\<forall>i. is_chain_enabled default_settings i = Inr True"
    by (simp add: is_chain_enabled_def default_settings_def)
  from api_lists_seeded_assets [OF demo_registry_loads this]
  obtain rs where rs: "asset_responses default_settings [] demo_uuid5 demo_registry None = Inr rs"
    "map (\<lambda>r. (asr_id r, asr_chain_id r, asr_symbol r, asr_type r, asr_contract_address r, asr_decimals r)) rs =
      map (\<lambda>a. (ast_id a, ast_chain_id a, ast_symbol a, ast_type a, ast_contract_address a, ast_decimals a))
      (asset_rows demo_uuid5 demo_registry)" by blast
  from arg_cong [OF rs(2), of "map fst"] have "map asr_id rs = map ast_id (asset_rows demo_uuid5 demo_registry)"
    by (simp add: comp_def)
  with rs(1) show ?thesis by blast
qed

end
