(* ===== verification/Wallet.thy ===== *)
theory Wallet
  imports Registry Deposit_Phases Withdrawals "HOL-Library.Product_Lexorder"
begin

text \<open>
  The wallet service (\<open>app/services/wallet_service.py\<close>): deposit addresses, balances and the
  faucet, which either sends a real transaction for the watcher to find or credits the ledger
  at once. SHA-256, the address of a private key and the per-chain sender are parameters.
\<close>

section \<open>Reads\<close>

definition address_of_user :: "db \<Rightarrow> user \<Rightarrow> error + deposit_address" where
  "address_of_user db user =
     bind_res (scalar_one_or_none (filter (\<lambda>a. da_user_id a = usr_id user) (deposit_addresses db)))
       (\<lambda>address. case address of
          None \<Rightarrow> raise_not_found ''Deposit address not found''
        | Some a \<Rightarrow> Inr a)"

definition list_deposit_addresses ::
  "settings \<Rightarrow> registry \<Rightarrow> db \<Rightarrow> user \<Rightarrow> error + (int \<times> string) list" where
  "list_deposit_addresses st reg db user =
     bind_res (address_of_user db user) (\<lambda>address.
     bind_res (enabled_chains st reg) (\<lambda>chains.
     Inr (map (\<lambda>c. (ch_chain_id c, da_address address)) chains)))"

record balance_response =
  blr_asset_id :: uuid
  blr_chain_id :: int
  blr_symbol :: string
  blr_available :: int
  blr_pending :: int

definition balance_of_asset ::
  "settings \<Rightarrow> db \<Rightarrow> user \<Rightarrow> asset \<Rightarrow> error + balance_response option" where
  "balance_of_asset st db user asset =
     bind_res (is_chain_enabled st (ast_chain_id asset)) (\<lambda>enabled.
     if \<not> enabled then Inr None
     else bind_res (balance db user asset) (\<lambda>(available, pending).
       Inr (Some \<lparr>blr_asset_id = ast_id asset, blr_chain_id = ast_chain_id asset,
         blr_symbol = ast_symbol asset, blr_available = max 0 available,
         blr_pending = max 0 pending\<rparr>)))"

definition list_balances :: "settings \<Rightarrow> db \<Rightarrow> user \<Rightarrow> error + balance_response list" where
  "list_balances st db user =
     bind_res (map_res (balance_of_asset st db user)
         (sort_key (\<lambda>a. (ast_chain_id a, ast_symbol a)) (assets db)))
       (\<lambda>responses. Inr (List.map_filter (\<lambda>r. r) responses))"

section \<open>The faucet\<close>

definition FAUCET_SIM_REF :: string where "FAUCET_SIM_REF = ''faucet_sim''"
definition FAUCET_REAL_REF :: string where "FAUCET_REAL_REF = ''faucet_real''"
definition FAUCET_DISPATCHED_ACCOUNT :: string where
  "FAUCET_DISPATCHED_ACCOUNT = ''faucet_dispatched''"
definition TX_HASH_HEX_LEN :: nat where "TX_HASH_HEX_LEN = 66"

definition placeholder_tx_hash :: "(string \<Rightarrow> string) \<Rightarrow> string \<Rightarrow> string" where
  "placeholder_tx_hash sha256 idempotency_key = ''0x'' @ sha256 idempotency_key"

definition simulated_deposit :: "db \<Rightarrow> user \<Rightarrow> asset \<Rightarrow> string \<Rightarrow> int \<Rightarrow> string \<Rightarrow> onchain_deposit" where
  "simulated_deposit db user asset to_address amount tx_hash =
     \<lparr>dep_id = next_uuid db, dep_chain_id = ast_chain_id asset, dep_tx_hash = tx_hash,
      dep_log_index = Some NATIVE_LOG_INDEX, dep_block_number = 0,
      dep_block_hash = ''0x'' @ replicate 64 (CHR ''0''), dep_to_address = to_address,
      dep_asset_id = ast_id asset, dep_amount = amount, dep_status = DepCredited,
      dep_user_id = Some (usr_id user), dep_credit_revision = 0, dep_created_at = db_now db\<rparr>"

definition flush_deposit :: "db \<Rightarrow> onchain_deposit \<Rightarrow> error + db" where
  "flush_deposit db deposit =
     (if dep_key deposit \<in> dep_key ` set (onchain_deposits db) then Inl IntegrityError
      else Inr (db\<lparr>onchain_deposits := onchain_deposits db @ [deposit],
                  next_uuid := Suc (next_uuid db)\<rparr>))"

type_synonym faucet_response = "string \<times> deposit_status"

definition faucet_simulate ::
  "(string \<Rightarrow> string) \<Rightarrow> db \<Rightarrow> user \<Rightarrow> asset \<Rightarrow> string \<Rightarrow> int \<Rightarrow> string
    \<Rightarrow> error + (faucet_response \<times> db)" where
  "faucet_simulate sha256 db user asset to_address amount idempotency_key =
     (let tx_hash = placeholder_tx_hash sha256 idempotency_key in
      bind_res (flush_deposit db (simulated_deposit db user asset to_address amount tx_hash)) (\<lambda>db.
      bind_res (get_or_create_account db asset FAUCET_SOURCE_ACCOUNT OwSystem None) (\<lambda>(source, db).
      bind_res (get_user_wallet_account db user asset) (\<lambda>(wallet, db).
      bind_res (post db LeDeposit idempotency_key
          [LedgerLeg source asset (- amount), LedgerLeg wallet asset amount] FAUCET_SIM_REF tx_hash)
        (\<lambda>(_, db). Inr ((tx_hash, DepCredited), db))))))"

definition faucet_transaction ::
  "(string \<Rightarrow> error + string) \<Rightarrow> chain_client \<Rightarrow> asset \<Rightarrow> string \<Rightarrow> int \<Rightarrow> string \<Rightarrow> error + string" where
  "faucet_transaction account_address sender asset to_address amount private_key =
     bind_res (account_address private_key) (\<lambda>faucet_address.
     bind_res (cl_pending_nonce sender faucet_address) (\<lambda>nonce.
     bind_res (cl_suggested_gas_price sender) (\<lambda>gas_price.
     case (ast_type asset, ast_contract_address asset) of
       (NATIVE, _) \<Rightarrow> cl_send_native sender private_key to_address amount nonce gas_price
     | (ERC20, Some contract) \<Rightarrow>
         cl_send_erc20 sender private_key contract to_address amount nonce gas_price
     | _ \<Rightarrow> raise_api_error 422 VALIDATION_ERROR ''Asset is not faucet-claimable'')))"

definition faucet_send ::
  "(string \<Rightarrow> error + string) \<Rightarrow> db \<Rightarrow> chain_client \<Rightarrow> asset \<Rightarrow> string \<Rightarrow> int \<Rightarrow> string \<Rightarrow> string
    \<Rightarrow> error + (faucet_response \<times> db)" where
  "faucet_send account_address db sender asset to_address amount idempotency_key private_key =
     bind_res (faucet_transaction account_address sender asset to_address amount private_key)
       (\<lambda>tx_hash.
     bind_res (get_or_create_account db asset FAUCET_SOURCE_ACCOUNT OwSystem None) (\<lambda>(source, db).
     bind_res (get_or_create_account db asset FAUCET_DISPATCHED_ACCOUNT OwSystem None)
       (\<lambda>(dispatched, db).
     bind_res (post db LeDeposit idempotency_key
         [LedgerLeg source asset (- amount), LedgerLeg dispatched asset amount] FAUCET_REAL_REF tx_hash)
       (\<lambda>(_, db). Inr ((tx_hash, DepSeen), db)))))"

text \<open>What a faucet request depends on besides the database.\<close>

record faucet_env =
  fe_settings :: settings
  fe_caps :: caps
  fe_sha256 :: "string \<Rightarrow> string"
  fe_account_address :: "string \<Rightarrow> error + string"
  fe_private_key :: "string option"
  fe_sender_factory :: "(int \<Rightarrow> error + chain_client) option"

text \<open>After the checks: send when there is a non-empty key and a sender, else simulate.\<close>

definition faucet_dispatch ::
  "faucet_env \<Rightarrow> db \<Rightarrow> user \<Rightarrow> asset \<Rightarrow> int \<Rightarrow> string \<Rightarrow> error + (faucet_response \<times> db)" where
  "faucet_dispatch env db user asset amount scoped_key =
     bind_res (address_of_user db user) (\<lambda>address.
     case (fe_private_key env, fe_sender_factory env) of
       (Some (c # key), Some factory) \<Rightarrow>
         bind_res (factory (ast_chain_id asset)) (\<lambda>sender.
         faucet_send (fe_account_address env) db sender asset (da_address address) amount scoped_key
           (c # key))
     | _ \<Rightarrow> faucet_simulate (fe_sha256 env) db user asset (da_address address) amount scoped_key)"

definition request_faucet ::
  "faucet_env \<Rightarrow> db \<Rightarrow> user \<Rightarrow> uuid \<Rightarrow> int \<Rightarrow> string \<Rightarrow> error + (faucet_response \<times> db)" where
  "request_faucet env db user asset_id amount idempotency_key =
     (let scoped_key = scoped_idempotency_key ''faucet'' (usr_id user) idempotency_key in
      bind_res (find_transaction_by_idempotency_key db scoped_key) (\<lambda>existing_tx.
      case existing_tx of
        Some t \<Rightarrow>
          Inr ((txn_ref_id t, if txn_ref_type t = FAUCET_SIM_REF then DepCredited else DepSeen), db)
      | None \<Rightarrow>
          bind_res (enforce_rate_limit (fe_settings env) db ''faucet'' (usr_id user) None) (\<lambda>db.
          if amount \<le> 0 then raise_api_error 422 VALIDATION_ERROR ''Amount must be positive''
          else bind_res (get_asset db asset_id) (\<lambda>asset.
          case max_amount_base_units (fe_caps env) asset of
            Some max_amount \<Rightarrow>
              if max_amount < amount then limit_error asset max_amount
              else faucet_dispatch env db user asset amount scoped_key
          | None \<Rightarrow> faucet_dispatch env db user asset amount scoped_key))))"

section \<open>Deposit display\<close>

definition deposit_confirmations :: "onchain_deposit \<Rightarrow> int option \<Rightarrow> int" where
  "deposit_confirmations deposit last_scanned_block =
     (case last_scanned_block of
        None \<Rightarrow> 0
      | Some b \<Rightarrow> if dep_block_number deposit \<le> 0 then 0 else max 0 (b - dep_block_number deposit))"

definition deposit_explorer_url :: "registry \<Rightarrow> onchain_deposit \<Rightarrow> error + string" where
  "deposit_explorer_url reg deposit =
     (if startswith (dep_tx_hash deposit) ''0x'' \<and> length (dep_tx_hash deposit) = TX_HASH_HEX_LEN
      then explorer_tx_url reg (dep_chain_id deposit) (dep_tx_hash deposit)
      else Inr [])"

section \<open>What the faucet does\<close>

definition faucet_key :: "user \<Rightarrow> string \<Rightarrow> string" where
  "faucet_key user k = scoped_idempotency_key ''faucet'' (usr_id user) k"

lemma faucet_key_no_deposit [simp]: "\<not> deposit_key (faucet_key user k)"
  by (simp add: deposit_key_def faucet_key_def scoped_idempotency_key_def startswith_def)

lemma faucet_key_no_settlement [simp]: "\<not> settlement_key (faucet_key user k)"
  by (simp add: settlement_key_def faucet_key_def scoped_idempotency_key_def startswith_def)

definition faucet_source_key :: "uuid \<Rightarrow> account_key" where
  "faucet_source_key a = system_key FAUCET_SOURCE_ACCOUNT a"

definition faucet_dispatched_key :: "uuid \<Rightarrow> account_key" where
  "faucet_dispatched_key a = system_key FAUCET_DISPATCHED_ACCOUNT a"

lemmas account_key_defs = reserved_key_def settled_key_def in_transit_key_def faucet_source_key_def
  faucet_dispatched_key_def wallet_key_def system_key_def WITHDRAWALS_RESERVED_ACCOUNT_def
  WITHDRAWALS_SETTLED_ACCOUNT_def DEPOSITS_IN_TRANSIT_ACCOUNT_def FAUCET_SOURCE_ACCOUNT_def
  FAUCET_DISPATCHED_ACCOUNT_def

lemma find_transaction_cong:
  "ledger_transactions db' = ledger_transactions db \<Longrightarrow>
   find_transaction_by_idempotency_key db' = find_transaction_by_idempotency_key db"
  by (intro ext) (simp add: find_transaction_by_idempotency_key_def)

lemma accounts_grew_find:
  "accounts_grew db db' \<Longrightarrow>
   find_transaction_by_idempotency_key db' = find_transaction_by_idempotency_key db"
  by (rule find_transaction_cong) (simp add: accounts_grew_def)

text \<open>A fresh posting is found under its key; what other keys find stays.\<close>

lemma post_find:
  assumes "key \<notin> used_keys db" "post db ty key legs rt ri = Inr (t, db')"
  shows "find_transaction_by_idempotency_key db' key = Inr (Some t)"
    "txn_ref_type t = rt" "txn_ref_id t = ri"
    "\<And>k. k \<noteq> key \<Longrightarrow> find_transaction_by_idempotency_key db' k = find_transaction_by_idempotency_key db k"
proof -
  note f = post_fresh [OF assms]
  show "txn_ref_type t = rt" "txn_ref_id t = ri" by (simp_all add: f(3))
  have k: "txn_idempotency_key t = key" by (simp add: f(3))
  have "filter (\<lambda>t. txn_idempotency_key t = key) (ledger_transactions db) = []"
    using assms(1) by (auto simp: used_keys_def filter_empty_conv)
  then show "find_transaction_by_idempotency_key db' key = Inr (Some t)"
    by (simp add: find_transaction_by_idempotency_key_def f(4) k)
  show "find_transaction_by_idempotency_key db' x = find_transaction_by_idempotency_key db x"
    if "x \<noteq> key" for x
    using that k by (simp add: find_transaction_by_idempotency_key_def f(4))
qed

text \<open>A posting that answers a faucet request.\<close>

definition recorded_under :: "db \<Rightarrow> db \<Rightarrow> string \<Rightarrow> string \<Rightarrow> string \<Rightarrow> bool" where
  "recorded_under db db' key ref_type ref_id \<longleftrightarrow>
     (\<exists>t. find_transaction_by_idempotency_key db' key = Inr (Some t) \<and> txn_ref_type t = ref_type \<and>
        txn_ref_id t = ref_id) \<and>
     (\<forall>k. k \<noteq> key \<longrightarrow>
        find_transaction_by_idempotency_key db' k = find_transaction_by_idempotency_key db k)"

lemma fetch_fetch_post_recorded:
  assumes wf: "ledger_wf db" and new: "key \<notin> used_keys db"
    and g1: "ledger_wf db \<Longrightarrow>
      accounts_grew db db1 \<and> a \<in> set (ledger_accounts db1) \<and> account_key a = src"
    and g2: "ledger_wf db1 \<Longrightarrow>
      accounts_grew db1 db2 \<and> b \<in> set (ledger_accounts db2) \<and> account_key b = dst"
    and p: "post db2 ty key legs rt ri = Inr (t, db')"
  shows "recorded_under db db' key rt ri"
proof -
  note a1 = g1 [OF wf]
  note a2 = g2 [OF accounts_grew_wf [OF conjunct1 [OF a1]]]
  have "key \<notin> used_keys db2" using new a1 a2 accounts_grew_used by metis
  from post_find [OF this p] show ?thesis
    using a1 a2 accounts_grew_find by (auto simp: recorded_under_def)
qed

lemma faucet_simulate_ok:
  assumes wf: "ledger_wf db" and new: "key \<notin> used_keys db"
    and s: "faucet_simulate sha db user asset to n key = Inr (r, db')"
  shows "\<exists>db1. flush_deposit db (simulated_deposit db user asset to n (placeholder_tx_hash sha key)) = Inr db1 \<and>
      ledger_step db1 db' key (faucet_source_key (ast_id asset)) (wallet_key (usr_id user) (ast_id asset)) n \<and>
      recorded_under db db' key FAUCET_SIM_REF (placeholder_tx_hash sha key) \<and>
      r = (placeholder_tx_hash sha key, DepCredited)"
proof -
  let ?d = "simulated_deposit db user asset to n (placeholder_tx_hash sha key)"
  from s obtain db1 a db2 b db3 t where f: "flush_deposit db ?d = Inr db1"
    and a: "get_or_create_account db1 asset FAUCET_SOURCE_ACCOUNT OwSystem None = Inr (a, db2)"
    and b: "get_user_wallet_account db2 user asset = Inr (b, db3)"
    and p: "post db3 LeDeposit key [LedgerLeg a asset (- n), LedgerLeg b asset n] FAUCET_SIM_REF
      (placeholder_tx_hash sha key) = Inr (t, db')"
    and r: "r = (placeholder_tx_hash sha key, DepCredited)"
    by (auto simp: faucet_simulate_def Let_def split: prod.splits)
  have db1: "db1 = db\<lparr>onchain_deposits := onchain_deposits db @ [?d], next_uuid := Suc (next_uuid db)\<rparr>"
    using f by (auto simp: flush_deposit_def split: if_splits)
  note fr = ledger_frame [of db1 db]
  have wf1: "ledger_wf db1" using wf by (intro fr(3)) (simp_all add: db1)
  have used: "used_keys db1 = used_keys db" by (intro fr(2)) (simp_all add: db1)
  have "ledger_step db1 db' key (system_key FAUCET_SOURCE_ACCOUNT (ast_id asset))
      (wallet_key (usr_id user) (ast_id asset)) n"
    by (rule fetch_fetch_post [OF wf1 get_system_account_ok [OF _ a] get_user_wallet_account_ok [OF _ b] p])
  moreover have "recorded_under db1 db' key FAUCET_SIM_REF (placeholder_tx_hash sha key)"
    by (rule fetch_fetch_post_recorded [OF wf1 _ get_system_account_ok [OF _ a]
          get_user_wallet_account_ok [OF _ b] p]) (use new used in simp_all)
  moreover have "find_transaction_by_idempotency_key db1 = find_transaction_by_idempotency_key db"
    by (rule find_transaction_cong) (simp add: db1)
  ultimately show ?thesis using f r by (simp add: faucet_source_key_def recorded_under_def)
qed

lemma faucet_send_ok:
  assumes wf: "ledger_wf db" and new: "key \<notin> used_keys db"
    and s: "faucet_send aa db sender asset to n key pk = Inr (r, db')"
  shows "\<exists>h. faucet_transaction aa sender asset to n pk = Inr h \<and>
      ledger_step db db' key (faucet_source_key (ast_id asset)) (faucet_dispatched_key (ast_id asset)) n \<and>
      recorded_under db db' key FAUCET_REAL_REF h \<and> r = (h, DepSeen)"
proof -
  from s obtain h a db2 b db3 t where h: "faucet_transaction aa sender asset to n pk = Inr h"
    and a: "get_or_create_account db asset FAUCET_SOURCE_ACCOUNT OwSystem None = Inr (a, db2)"
    and b: "get_or_create_account db2 asset FAUCET_DISPATCHED_ACCOUNT OwSystem None = Inr (b, db3)"
    and p: "post db3 LeDeposit key [LedgerLeg a asset (- n), LedgerLeg b asset n] FAUCET_REAL_REF h
      = Inr (t, db')"
    and r: "r = (h, DepSeen)"
    by (auto simp: faucet_send_def split: prod.splits)
  have "ledger_step db db' key (system_key FAUCET_SOURCE_ACCOUNT (ast_id asset))
      (system_key FAUCET_DISPATCHED_ACCOUNT (ast_id asset)) n"
    by (rule fetch_fetch_post [OF wf get_system_account_ok [OF _ a] get_system_account_ok [OF _ b] p])
  moreover have "recorded_under db db' key FAUCET_REAL_REF h"
    by (rule fetch_fetch_post_recorded [OF wf new get_system_account_ok [OF _ a]
          get_system_account_ok [OF _ b] p])
  ultimately show ?thesis using h r by (simp add: faucet_source_key_def faucet_dispatched_key_def)
qed

definition faucet_real :: "faucet_env \<Rightarrow> bool" where
  "faucet_real env \<longleftrightarrow> fe_private_key env \<notin> {None, Some []} \<and> fe_sender_factory env \<noteq> None"

text \<open>Every way a faucet request can succeed.\<close>

lemma request_faucet_cases:
  assumes "request_faucet env db user asset_id n k = Inr (r, db')"
  obtains (replay) t where "db' = db" "find_transaction_by_idempotency_key db (faucet_key user k) = Inr (Some t)"
      "r = (txn_ref_id t, if txn_ref_type t = FAUCET_SIM_REF then DepCredited else DepSeen)"
    | (simulated) db1 asset address where "rate_only db db1" "faucet_key user k \<notin> used_keys db" "\<not> faucet_real env"
      "0 < n" "get_asset db asset_id = Inr asset" "\<forall>m. max_amount_base_units (fe_caps env) asset = Some m \<longrightarrow> n \<le> m"
      "address_of_user db user = Inr address"
      "faucet_simulate (fe_sha256 env) db1 user asset (da_address address) n (faucet_key user k) = Inr (r, db')"
    | (sent) db1 asset address factory sender pk where "rate_only db db1" "faucet_key user k \<notin> used_keys db"
      "faucet_real env" "fe_private_key env = Some pk" "fe_sender_factory env = Some factory"
      "0 < n" "get_asset db asset_id = Inr asset" "\<forall>m. max_amount_base_units (fe_caps env) asset = Some m \<longrightarrow> n \<le> m"
      "address_of_user db user = Inr address" "factory (ast_chain_id asset) = Inr sender"
      "faucet_send (fe_account_address env) db1 sender asset (da_address address) n (faucet_key user k) pk = Inr (r, db')"
proof -
  from assms obtain ex where ex: "find_transaction_by_idempotency_key db (faucet_key user k) = Inr ex"
    by (auto simp: request_faucet_def faucet_key_def Let_def)
  show thesis
  proof (cases ex)
    case (Some t)
    then show thesis using assms ex by (intro replay [of t]) (simp_all add: request_faucet_def faucet_key_def Let_def)
  next
    case None
    then have new: "faucet_key user k \<notin> used_keys db" using ex find_transaction_None by metis
    from assms ex None obtain db1 asset where
      rate: "enforce_rate_limit (fe_settings env) db ''faucet'' (usr_id user) None = Inr db1"
      and pos: "0 < n" and a: "get_asset db1 asset_id = Inr asset"
      and cap: "\<forall>m. max_amount_base_units (fe_caps env) asset = Some m \<longrightarrow> n \<le> m"
      and d: "faucet_dispatch env db1 user asset n (faucet_key user k) = Inr (r, db')"
      by (auto simp: request_faucet_def faucet_key_def Let_def limit_error_def split: option.splits if_splits)
    note fr = enforce_frame [OF rate]
    have a': "get_asset db asset_id = Inr asset" using a by (simp add: get_asset_def rate_only_ledger [OF fr])
    from d obtain address where ad: "address_of_user db1 user = Inr address" by (auto simp: faucet_dispatch_def)
    then have ad': "address_of_user db user = Inr address"
      by (simp add: address_of_user_def rate_only_ledger [OF fr])
    show thesis
    proof (cases "faucet_real env")
      case True
      then obtain c key factory where "fe_private_key env = Some (c # key)" "fe_sender_factory env = Some factory"
        by (auto simp: faucet_real_def neq_Nil_conv)
      then show thesis using d ad sent [OF fr new True _ _ pos a' cap ad'] by (auto simp: faucet_dispatch_def)
    next
      case False
      then show thesis using d ad simulated [OF fr new False pos a' cap ad']
        by (auto simp: faucet_dispatch_def faucet_real_def split: option.splits list.splits)
    qed
  qed
qed

text \<open>A flushed simulated deposit, then a step of the ledger, keep the invariants.\<close>

lemma simulated_deposit_simps [simp]:
  "dep_id (simulated_deposit db u a to n h) = next_uuid db" "dep_status (simulated_deposit db u a to n h) = DepCredited"
  "dep_block_number (simulated_deposit db u a to n h) = 0" "dep_amount (simulated_deposit db u a to n h) = n"
  "dep_user_id (simulated_deposit db u a to n h) = Some (usr_id u)" "dep_tx_hash (simulated_deposit db u a to n h) = h"
  "dep_to_address (simulated_deposit db u a to n h) = to" "dep_asset_id (simulated_deposit db u a to n h) = ast_id a"
  by (simp_all add: simulated_deposit_def)

lemma flush_deposit_ok:
  assumes f: "flush_deposit db d = Inr db1" and d: "dep_id d = next_uuid db" "dep_status d = DepCredited"
    "dep_block_number d = 0" "dep_user_id d \<noteq> None"
  shows "deposits_ok db \<Longrightarrow> deposits_ok db1" "withdrawals_ok db \<Longrightarrow> withdrawals_ok db1"
    "onchain_deposits db1 = onchain_deposits db @ [d]" "bal db1 = bal db" "used_keys db1 = used_keys db"
    "ledger_wf db \<Longrightarrow> ledger_wf db1"
proof -
  have db1: "db1 = db\<lparr>onchain_deposits := onchain_deposits db @ [d], next_uuid := Suc (next_uuid db)\<rparr>"
    and new: "dep_key d \<notin> dep_key ` set (onchain_deposits db)"
    using f by (auto simp: flush_deposit_def split: if_splits)
  note fr = ledger_frame [of db1 db]
  show b: "bal db1 = bal db" and u: "used_keys db1 = used_keys db" by (simp_all add: db1 bal_def used_keys_def fun_eq_iff)
  show wf: "ledger_wf db \<Longrightarrow> ledger_wf db1" by (intro fr(3)) (simp_all add: db1)
  show "onchain_deposits db1 = onchain_deposits db @ [d]" by (simp add: db1)
  show "deposits_ok db \<Longrightarrow> deposits_ok db1" unfolding db1 by (rule deposits_ok_insert) (use d new in simp_all)
  show "withdrawals_ok db1" if ok: "withdrawals_ok db"
    by (rule withdrawals_ok_frame [OF ok]) (use ok wf b u in \<open>simp_all add: withdrawals_ok_def db1\<close>)
qed

lemma rate_only_keeps:
  assumes "rate_only db db1"
  shows "deposits_ok db \<Longrightarrow> deposits_ok db1" "withdrawals_ok db \<Longrightarrow> withdrawals_ok db1"
    "ledger_wf db \<Longrightarrow> ledger_wf db1" "bal db1 = bal db" "used_keys db1 = used_keys db"
    "find_transaction_by_idempotency_key db1 = find_transaction_by_idempotency_key db"
proof -
  note R = rate_only_ledger [OF assms]
  have m: "next_uuid db \<le> next_uuid db1" using assms by (simp add: rate_only_def)
  note fr = ledger_frame [OF R(1-3)]
  show "bal db1 = bal db" "used_keys db1 = used_keys db" by (rule fr)+
  show "ledger_wf db \<Longrightarrow> ledger_wf db1" by (rule fr(3) [OF m])
  show "find_transaction_by_idempotency_key db1 = find_transaction_by_idempotency_key db"
    by (rule find_transaction_cong) (rule R)
  show "deposits_ok db1" if ok: "deposits_ok db"
    by (rule deposits_ok_frame [OF ok]) (use fr m R deposits_ok_D(1) [OF ok] in simp_all)
  show "withdrawals_ok db1" if ok: "withdrawals_ok db"
    by (rule withdrawals_ok_frame [OF ok]) (use fr m R ok in \<open>simp_all add: withdrawals_ok_def\<close>)
qed

end
