(* ===== verification/Wallet_Facts.thy ===== *)
theory Wallet_Facts
  imports Wallet Deposit_Facts Withdrawal_Facts
begin

text \<open>
  The properties of the wallet service: what a faucet request credits in each mode, that a
  retry returns the first answer, and that the listed balances are the ledger's.
\<close>

section \<open>Faucet requests as requests with a key\<close>

record faucet_request =
  fq_user :: user
  fq_asset_id :: uuid
  fq_amount :: int
  fq_key :: string

definition serve_faucet :: "faucet_env \<Rightarrow> faucet_request \<Rightarrow> db \<Rightarrow> error + (faucet_response \<times> db)" where
  "serve_faucet env x db = request_faucet env db (fq_user x) (fq_asset_id x) (fq_amount x) (fq_key x)"

definition faucet_seen :: "faucet_request \<Rightarrow> db \<Rightarrow> bool" where
  "faucet_seen x db \<longleftrightarrow>
     (\<exists>t. find_transaction_by_idempotency_key db (faucet_key (fq_user x) (fq_key x)) = Inr (Some t))"

definition faucet_answer :: "faucet_request \<Rightarrow> db \<Rightarrow> faucet_response" where
  "faucet_answer x db =
     (case find_transaction_by_idempotency_key db (faucet_key (fq_user x) (fq_key x)) of
        Inr (Some t) \<Rightarrow> (txn_ref_id t, if txn_ref_type t = FAUCET_SIM_REF then DepCredited else DepSeen)
      | _ \<Rightarrow> ([], DepSeen))"

lemma faucet_refs [simp]: "FAUCET_REAL_REF \<noteq> FAUCET_SIM_REF"
  by (simp add: FAUCET_REAL_REF_def FAUCET_SIM_REF_def)

lemma find_transaction_in_used:
  "find_transaction_by_idempotency_key db key = Inr (Some t) \<Longrightarrow> key \<in> used_keys db"
  unfolding used_keys_def by (drule find_transaction_Some) blast

text \<open>What any successful request does to the keys: nothing, or record its own answer.\<close>

lemma request_faucet_keys:
  assumes wf: "ledger_wf db" and q: "request_faucet env db user asset_id n k = Inr (r, db')"
  shows "ledger_wf db' \<and>
    (db' = db \<and> (\<exists>t. find_transaction_by_idempotency_key db (faucet_key user k) = Inr (Some t) \<and>
       r = (txn_ref_id t, if txn_ref_type t = FAUCET_SIM_REF then DepCredited else DepSeen)) \<or>
     faucet_key user k \<notin> used_keys db \<and>
     (\<exists>ref h. recorded_under db db' (faucet_key user k) ref h \<and>
       r = (h, if ref = FAUCET_SIM_REF then DepCredited else DepSeen)))"
  using q
proof (cases rule: request_faucet_cases)
  case (replay t)
  then show ?thesis using wf by blast
next
  case (simulated db1 asset address)
  note R = rate_only_keeps [OF simulated(1)]
  have "faucet_key user k \<notin> used_keys db1" using simulated(2) R(5) by simp
  from faucet_simulate_ok [OF R(3) [OF wf] this simulated(8)] show ?thesis
    using simulated(2) by (auto simp: ledger_step_def recorded_under_def R(6))
next
  case (sent db1 asset address factory sender pk)
  note R = rate_only_keeps [OF sent(1)]
  have "faucet_key user k \<notin> used_keys db1" using sent(2) R(5) by simp
  from faucet_send_ok [OF R(3) [OF wf] this sent(11)] obtain h where
    "ledger_wf db'" "recorded_under db db' (faucet_key user k) FAUCET_REAL_REF h" "r = (h, DepSeen)"
    by (auto simp: ledger_step_def recorded_under_def R(6))
  then show ?thesis using sent(2) by (auto intro!: exI [of _ FAUCET_REAL_REF])
qed

interpretation faucet: answered_request "serve_faucet env" faucet_seen ledger_wf faucet_answer
  for env
proof
  fix d x r d' y
  assume ok: "ledger_wf d" and run: "serve_faucet env x d = Inr (r, d')"
  note K = request_faucet_keys [OF ok run [unfolded serve_faucet_def]]
  show "ledger_wf d'" using K by simp
  show "faucet_seen x d'" using K by (auto simp: faucet_seen_def recorded_under_def)
  show "faucet_answer x d' = r" using K by (auto simp: faucet_answer_def recorded_under_def)
  show "d' = d" if "faucet_seen x d"
    using K that by (auto simp: faucet_seen_def dest: find_transaction_in_used)
  show "faucet_seen y d'" if "faucet_seen y d"
    using K that by (cases "faucet_key (fq_user y) (fq_key y) = faucet_key (fq_user x) (fq_key x)")
      (auto simp: faucet_seen_def recorded_under_def)
  show "faucet_answer y d' = faucet_answer y d" if "faucet_seen y d"
    using K that by (cases "faucet_key (fq_user y) (fq_key y) = faucet_key (fq_user x) (fq_key x)")
      (auto simp: faucet_seen_def faucet_answer_def recorded_under_def dest: find_transaction_in_used)
qed

section \<open>Properties\<close>

text \<open>
  C19: In simulation mode a faucet request that succeeds either replays an earlier one or
  credits the user at once: it records one credited deposit of exactly the requested amount
  at the user's own deposit address and moves that amount from the faucet source to the
  user's wallet, within the cap. The ledger keeps matching the deposits and the withdrawals.
\<close>

theorem faucet_simulation_credits:
  assumes ok: "deposits_ok db" "withdrawals_ok db" and sim: "\<not> faucet_real env"
    and q: "request_faucet env db user asset_id n k = Inr (r, db')"
  shows "deposits_ok db' \<and> withdrawals_ok db' \<and>
    (db' = db \<and> faucet_key user k \<in> used_keys db \<or>
     (\<exists>asset address d. get_asset db asset_id = Inr asset \<and> 0 < n \<and>
        (\<forall>m. max_amount_base_units (fe_caps env) asset = Some m \<longrightarrow> n \<le> m) \<and>
        address \<in> set (deposit_addresses db) \<and> da_user_id address = usr_id user \<and>
        onchain_deposits db' = onchain_deposits db @ [d] \<and> dep_status d = DepCredited \<and>
        dep_amount d = n \<and> dep_user_id d = Some (usr_id user) \<and> dep_to_address d = da_address address \<and>
        dep_asset_id d = asset_id \<and> r = (dep_tx_hash d, DepCredited) \<and>
        bal db' = moved (faucet_source_key asset_id) (wallet_key (usr_id user) asset_id) n (bal db)))"
  using q
proof (cases rule: request_faucet_cases)
  case (replay t)
  then show ?thesis using ok find_transaction_in_used [OF replay(2)] by simp
next
  case (simulated db1 asset address)
  note R = rate_only_keeps [OF simulated(1)]
  have new: "faucet_key user k \<notin> used_keys db1" using simulated(2) R(5) by simp
  let ?d = "simulated_deposit db1 user asset (da_address address) n
    (placeholder_tx_hash (fe_sha256 env) (faucet_key user k))"
  obtain db2 where f: "flush_deposit db1 ?d = Inr db2"
    and st: "ledger_step db2 db' (faucet_key user k) (faucet_source_key (ast_id asset))
      (wallet_key (usr_id user) (ast_id asset)) n"
    and r: "r = (placeholder_tx_hash (fe_sha256 env) (faucet_key user k), DepCredited)"
    using faucet_simulate_ok [OF R(3) new simulated(8)] deposits_ok_D(1) [OF ok(1)] by blast
  note F = flush_deposit_ok [OF f, simplified]
  have "deposits_ok db'"
    by (rule deposits_ok_step [OF F(1) [OF R(1) [OF ok(1)]] st]) (simp_all add: account_key_defs)
  moreover have "withdrawals_ok db'"
    by (rule withdrawals_ok_step [OF F(2) [OF R(2) [OF ok(2)]] st]) (simp_all add: account_key_defs)
  moreover have "onchain_deposits db' = onchain_deposits db @ [?d]"
    using ledger_only_frame(4) [OF ledger_step_D(2) [OF st]] F(3) rate_only_ledger(8) [OF simulated(1)] by simp
  moreover have "bal db' = moved (faucet_source_key asset_id) (wallet_key (usr_id user) asset_id) n (bal db)"
    using ledger_step_D(6) [OF st] new F(4,5) R(4) get_asset_Inr [OF simulated(5)] by simp
  moreover have "address \<in> set (deposit_addresses db) \<and> da_user_id address = usr_id user"
    using simulated(7) by (auto simp: address_of_user_def dest: filter_single_in split: option.splits)
  ultimately show ?thesis using simulated r get_asset_Inr [OF simulated(5)]
    by (intro conjI disjI2 exI [of _ asset] exI [of _ address] exI [of _ ?d]) simp_all
next
  case sent
  then show ?thesis using sim by simp
qed

text \<open>
  In real mode a faucet request credits nobody: it sends one transaction of the requested
  amount to the user's deposit address and only moves the amount between two system accounts
  under the request's key. No wallet balance and no deposit changes; the watcher credits
  the deposit when it sees the transaction.
\<close>

theorem faucet_send_credits_nothing:
  assumes ok: "deposits_ok db" "withdrawals_ok db" and real: "faucet_real env"
    and q: "request_faucet env db user asset_id n k = Inr (r, db')"
  shows "deposits_ok db' \<and> withdrawals_ok db' \<and> onchain_deposits db' = onchain_deposits db \<and>
    (\<forall>u a. bal db' (wallet_key u a) = bal db (wallet_key u a)) \<and>
    (db' = db \<and> faucet_key user k \<in> used_keys db \<or>
     (\<exists>asset address factory sender pk h. get_asset db asset_id = Inr asset \<and> 0 < n \<and>
        (\<forall>m. max_amount_base_units (fe_caps env) asset = Some m \<longrightarrow> n \<le> m) \<and>
        address_of_user db user = Inr address \<and> fe_private_key env = Some pk \<and>
        fe_sender_factory env = Some factory \<and> factory (ast_chain_id asset) = Inr sender \<and>
        faucet_transaction (fe_account_address env) sender asset (da_address address) n pk = Inr h \<and>
        r = (h, DepSeen)))"
  using q
proof (cases rule: request_faucet_cases)
  case (replay t)
  then show ?thesis using ok find_transaction_in_used [OF replay(2)] by simp
next
  case simulated
  then show ?thesis using real by simp
next
  case (sent db1 asset address factory sender pk)
  note R = rate_only_keeps [OF sent(1)]
  have new: "faucet_key user k \<notin> used_keys db1" using sent(2) R(5) by simp
  obtain h where h: "faucet_transaction (fe_account_address env) sender asset (da_address address) n pk = Inr h"
    and st: "ledger_step db1 db' (faucet_key user k) (faucet_source_key (ast_id asset))
      (faucet_dispatched_key (ast_id asset)) n" and r: "r = (h, DepSeen)"
    using faucet_send_ok [OF R(3) new sent(11)] deposits_ok_D(1) [OF ok(1)] by blast
  have 1: "deposits_ok db'"
    by (rule deposits_ok_step [OF R(1) [OF ok(1)] st]) (simp_all add: account_key_defs)
  have 2: "withdrawals_ok db'"
    by (rule withdrawals_ok_step [OF R(2) [OF ok(2)] st]) (simp_all add: account_key_defs)
  have 3: "onchain_deposits db' = onchain_deposits db"
    using ledger_only_frame(4) [OF ledger_step_D(2) [OF st]] rate_only_ledger(8) [OF sent(1)] by simp
  have 4: "bal db' (wallet_key u a) = bal db (wallet_key u a)" for u a
    using ledger_step_D(6) [OF st] new R(4) by (simp add: moved_def account_key_defs)
  show ?thesis
    by (intro conjI disjI2 exI [of _ asset] exI [of _ address] exI [of _ factory] exI [of _ sender]
        exI [of _ pk] exI [of _ h]) (use 1 2 3 4 sent h r in simp_all)
qed

lemma faucet_replays: "faucet_seen x d \<Longrightarrow> serve_faucet env x d = Inr (faucet_answer x d, d)"
  by (auto simp: faucet_seen_def faucet_answer_def serve_faucet_def request_faucet_def faucet_key_def Let_def)

text \<open>
  A client that repeats a faucet request, at once or after any other faucet requests, is
  given the first answer again (the same transaction hash and status) and changes nothing: the
  faucet never pays a key twice.
\<close>

theorem faucet_retry_repeats_answer:
  assumes "ledger_wf d" "serve_faucet env x d = Inr (r, d1)"
    and "for_each (\<lambda>y s. bind_res (serve_faucet env y s) (\<lambda>(_, s'). Inr s')) ys d1 = Inr d2"
  shows "serve_faucet env x d2 = Inr (r, d2)"
  using assms by (rule faucet.late_answer) (rule faucet_replays)

text \<open>
  The balances shown to a user are the ledger's: one entry per asset of an enabled chain,
  ordered by chain and symbol, whose available amount is the wallet's ledger balance and whose
  pending amount is the sum of the user's deposits that are seen or confirmed but not yet
  credited, neither ever shown below zero.
\<close>

theorem balances_match_ledger:
  assumes wf: "ledger_wf db" and l: "list_balances st db user = Inr rs"
  shows "map blr_asset_id rs = map ast_id (filter (\<lambda>a. is_chain_enabled st (ast_chain_id a) = Inr True)
      (sort_key (\<lambda>a. (ast_chain_id a, ast_symbol a)) (assets db))) \<and>
    (\<forall>b \<in> set rs. blr_available b = max 0 (bal db (wallet_key (usr_id user) (blr_asset_id b))) \<and>
      blr_pending b = max 0 (sum_rows (\<lambda>d. dep_user_id d = Some (usr_id user) \<and>
        dep_asset_id d = blr_asset_id b \<and> (dep_status d = DepSeen \<or> dep_status d = DepConfirmed)) dep_amount
        (onchain_deposits db)))"
proof -
  from l obtain os where os: "map_res (balance_of_asset st db user)
      (sort_key (\<lambda>a. (ast_chain_id a, ast_symbol a)) (assets db)) = Inr os"
    and rs: "rs = List.map_filter (\<lambda>r. r) os"
    by (auto simp: list_balances_def)
  have one: "(case o' of None \<Rightarrow> is_chain_enabled st (ast_chain_id a) = Inr False
    | Some b \<Rightarrow> is_chain_enabled st (ast_chain_id a) = Inr True \<and> blr_asset_id b = ast_id a \<and>
        blr_available b = max 0 (bal db (wallet_key (usr_id user) (ast_id a))) \<and>
        blr_pending b = max 0 (pending_balance db user a))"
    if "balance_of_asset st db user a = Inr o'" for a o'
    using that by (auto simp: balance_of_asset_def balance_def available_balance_bal [OF wf] split: if_splits)
  have "map blr_asset_id (List.map_filter (\<lambda>r. r) os) =
      map ast_id (filter (\<lambda>a. is_chain_enabled st (ast_chain_id a) = Inr True) xs) \<and>
    (\<forall>b \<in> set (List.map_filter (\<lambda>r. r) os). \<exists>a. blr_asset_id b = ast_id a \<and>
        blr_available b = max 0 (bal db (wallet_key (usr_id user) (ast_id a))) \<and>
        blr_pending b = max 0 (pending_balance db user a))"
    if "map_res (balance_of_asset st db user) xs = Inr os" for xs os
    using that
  proof (induction xs arbitrary: os)
    case (Cons a xs)
    from Cons.prems obtain o' os' where o': "balance_of_asset st db user a = Inr o'"
        "map_res (balance_of_asset st db user) xs = Inr os'" "os = o' # os'" by auto
    show ?case using one [OF o'(1)] Cons.IH [OF o'(2)] o'(3)
      by (cases o') (auto simp: map_filter_simps)
  qed (simp add: map_filter_simps)
  from this [OF os] show ?thesis by (auto simp: rs pending_balance_def insert_iff)
qed

section \<open>The properties on a concrete state\<close>

definition demo_faucet_env :: faucet_env where
  "demo_faucet_env = \<lparr>fe_settings = default_settings, fe_caps = [], fe_sha256 = (\<lambda>s. take 6 s),
     fe_account_address = Inr, fe_private_key = None, fe_sender_factory = None\<rparr>"

definition demo_faucet :: faucet_request where
  "demo_faucet = \<lparr>fq_user = alice, fq_asset_id = 3, fq_amount = 50, fq_key = ''f''\<rparr>"

definition demo_real_env :: faucet_env where
  "demo_real_env = demo_faucet_env\<lparr>fe_private_key := Some ''key'',
     fe_sender_factory := Some (\<lambda>_. Inr demo_client)\<rparr>"

definition demo_fauceted :: db where
  "demo_fauceted = snd (projr (serve_faucet demo_faucet_env demo_faucet demo_db))"

definition demo_sent :: db where
  "demo_sent = snd (projr (serve_faucet demo_real_env demo_faucet demo_db))"

lemma demo_faucet_runs: "serve_faucet demo_faucet_env demo_faucet demo_db =
    Inr ((''0xfaucet'', DepCredited), demo_fauceted)"
  by code_simp

lemma demo_real_runs: "serve_faucet demo_real_env demo_faucet demo_db =
    Inr ((''0xcafe'', DepSeen), demo_sent)"
  by code_simp

lemma demo_request_runs:
  "request_faucet demo_faucet_env demo_db alice 3 50 ''f'' = Inr ((''0xfaucet'', DepCredited), demo_fauceted)"
  "request_faucet demo_real_env demo_db alice 3 50 ''f'' = Inr ((''0xcafe'', DepSeen), demo_sent)"
  using demo_faucet_runs demo_real_runs by (simp_all add: serve_faucet_def demo_faucet_def)

theorem faucet_simulation_credits_witness:
  "deposits_ok demo_fauceted \<and> withdrawals_ok demo_fauceted \<and> bal demo_fauceted (wallet_key 1 3) = 1050"
proof -
  have "bal demo_fauceted (wallet_key 1 3) = 1050" by code_simp
  moreover have "\<not> faucet_real demo_faucet_env" by (simp add: faucet_real_def demo_faucet_env_def)
  ultimately show ?thesis
    using faucet_simulation_credits [OF demo_deposits_ok demo_withdrawals_ok _ demo_request_runs(1)] by simp
qed

theorem faucet_send_credits_nothing_witness:
  "deposits_ok demo_sent \<and> bal demo_sent (wallet_key 1 3) = bal demo_db (wallet_key 1 3)"
proof -
  have "faucet_real demo_real_env" by (simp add: faucet_real_def demo_real_env_def demo_faucet_env_def)
  then show ?thesis
    using faucet_send_credits_nothing [OF demo_deposits_ok demo_withdrawals_ok _ demo_request_runs(2)] by simp
qed

theorem faucet_retry_repeats_answer_witness:
  "serve_faucet demo_faucet_env demo_faucet demo_fauceted = Inr ((''0xfaucet'', DepCredited), demo_fauceted)"
  using faucet_retry_repeats_answer [OF demo_wf demo_faucet_runs, of "[]" demo_fauceted] by simp

theorem balances_match_ledger_witness:
  "\<exists>rs. list_balances default_settings demo_db alice = Inr rs \<and>
     (\<forall>b \<in> set rs. blr_available b = max 0 (bal demo_db (wallet_key 1 (blr_asset_id b))))"
proof -
  have "is_ok (list_balances default_settings demo_db alice)" by code_simp
  then obtain rs where rs: "list_balances default_settings demo_db alice = Inr rs" by (auto simp: is_ok_iff)
  then show ?thesis using balances_match_ledger [OF demo_wf rs] by (simp add: alice_def)
qed

end
