(* ===== verification/Bindings.thy ===== *)
theory Bindings
  imports Outbox
begin

text \<open>
  What an outbox table binds: each row id to the nonce and the raw transaction it was signed
  with. The facts about updates of a row serve the NFT outboxes, whose tables differ only in
  their records.
\<close>

definition binding ::
  "('r \<Rightarrow> uuid) \<Rightarrow> ('r \<Rightarrow> (int \<times> string) option) \<Rightarrow> 'r list \<Rightarrow> uuid \<Rightarrow> (int \<times> string) option" where
  "binding key bound rows i = (case get_row key i rows of None \<Rightarrow> None | Some w \<Rightarrow> bound w)"

definition bound_pair :: "int option \<Rightarrow> string option \<Rightarrow> (int \<times> string) option" where
  "bound_pair n r = (case (n, r) of (Some n, Some r) \<Rightarrow> Some (n, r) | _ \<Rightarrow> None)"

lemma bound_pair_simps [simp]:
  "bound_pair (Some n) (Some r) = Some (n, r)" "bound_pair None r' = None" "bound_pair n' None = None"
  by (simp_all add: bound_pair_def split: option.splits)

lemma binding_upd:
  "(\<And>w. key (f w) = key w) \<Longrightarrow> binding key bound (upd_row key i f rows) =
     (\<lambda>j. if j = i then (case get_row key i rows of None \<Rightarrow> None | Some w \<Rightarrow> bound (f w))
          else binding key bound rows j)"
  by (auto simp: fun_eq_iff binding_def get_row_upd_row_same get_row_upd_row_other split: option.splits)

lemma binding_upd_same:
  "(\<And>w. key (f w) = key w) \<Longrightarrow> (\<And>w. bound (f w) = bound w) \<Longrightarrow>
   binding key bound (upd_row key i f rows) = binding key bound rows"
  by (auto simp: binding_upd fun_eq_iff binding_def split: option.splits)

lemma binding_upd_bound:
  assumes "\<And>w. key (f w) = key w" "\<And>w. bound (f w) = Some b" "i \<in> key ` set rows"
  shows "binding key bound (upd_row key i f rows) = (binding key bound rows)(i \<mapsto> b)"
proof -
  have "get_row key i rows \<noteq> None" using assms(3) by (simp only: get_row_None_iff) simp
  then show ?thesis using assms(1,2) by (auto simp: binding_upd fun_eq_iff)
qed

lemma key_upd: "(\<And>w. key (f w) = key w) \<Longrightarrow> key ` set (upd_row key i f rows) = key ` set rows"
proof -
  assume "\<And>w. key (f w) = key w"
  then have "map key (upd_row key i f rows) = map key rows" by (simp add: map_key_upd_row)
  from arg_cong [OF this, of set] show ?thesis by simp
qed

text \<open>The rows after an update of one row of a table with distinct keys.\<close>

lemma in_upd_row_unique:
  assumes "distinct (map key rows)" "h \<in> set rows"
  shows "x \<in> set (upd_row key (key h) f rows) \<longleftrightarrow> x = f h \<or> x \<in> set rows \<and> key x \<noteq> key h"
proof -
  have "y = h" if "y \<in> set rows" "key y = key h" for y
    using that assms by (auto simp: distinct_map inj_on_def)
  then show ?thesis using assms(2) by (auto simp: upd_row_def image_iff)
qed

lemma binding_distinct:
  "distinct (map key rows) \<Longrightarrow> w \<in> set rows \<Longrightarrow> binding key bound rows (key w) = bound w"
  by (simp add: binding_def get_row_distinct)

text \<open>A claim is a prefix of the sorted rows that a filter selects: distinct rows of the table.\<close>

lemma claim_rows: "set (take n (sort_key k (filter P rows))) \<subseteq> {r \<in> set rows. P r}"
  by (auto dest!: in_set_takeD)

lemma claim_distinct:
  "distinct (map key rows) \<Longrightarrow> distinct (map key (take n (sort_key k (filter P rows))))"
proof -
  assume d: "distinct (map key rows)"
  have "distinct (map key (sort_key k (filter P rows)))"
    using distinct_map_filter [OF d, of P] by (auto simp: distinct_map)
  then show ?thesis by (simp add: take_map [symmetric] distinct_take)
qed

text \<open>
  The raw transactions stored for a list of rows, in order; a broadcast loop hands the network
  exactly these.
\<close>

definition raws_of :: "('r \<Rightarrow> string option) \<Rightarrow> 'r list \<Rightarrow> string list" where
  "raws_of raw rs = concat (map (\<lambda>r. case raw r of None \<Rightarrow> [] | Some x \<Rightarrow> [x]) rs)"

lemma raws_of_simps [simp]:
  "raws_of raw [] = []"
  "raws_of raw (r # rs) = (case raw r of None \<Rightarrow> [] | Some x \<Rightarrow> [x]) @ raws_of raw rs"
  by (simp_all add: raws_of_def)

lemma broadcast_all:
  assumes "for_each body rs s = Inr s'"
    and "\<And>r s s'. body r s = Inr s' \<Longrightarrow> bs_sent s' = bs_sent s @ (case raw r of None \<Rightarrow> [] | Some x \<Rightarrow> [x])"
  shows "bs_sent s' = bs_sent s @ raws_of raw rs"
  using assms(1)
proof (induction rs arbitrary: s)
  case (Cons r rs)
  from Cons.prems obtain t where t: "body r s = Inr t" "for_each body rs t = Inr s'" by auto
  show ?case using Cons.IH [OF t(2)] assms(2) [OF t(1)] by simp
qed simp

text \<open>
  The evidence a confirmation pass acts on: the transaction is executed, with the given
  success, under \<open>c\<close> blocks of the canonical chain; or it has no receipt and its nonce was
  already used up \<open>c\<close> blocks ago.
\<close>

definition executed :: "chain_client \<Rightarrow> int \<Rightarrow> int \<Rightarrow> string option \<Rightarrow> (int \<Rightarrow> bool) \<Rightarrow> bool" where
  "executed client head c tx_hash status \<longleftrightarrow>
     (case tx_hash of None \<Rightarrow> False | Some h \<Rightarrow>
      case cl_get_receipt client h of
        Inr (Some rc) \<Rightarrow> c \<le> head - rc_block_number rc \<and>
          cl_block_hash client (rc_block_number rc) = Inr (Some (rc_block_hash rc)) \<and>
          status (rc_status rc)
      | _ \<Rightarrow> False)"

definition replaced ::
  "chain_client \<Rightarrow> int \<Rightarrow> int \<Rightarrow> string option \<Rightarrow> string option \<Rightarrow> int option \<Rightarrow> int option \<Rightarrow> bool" where
  "replaced client head c hot tx_hash nonce since \<longleftrightarrow>
     (case (tx_hash, hot, nonce, since) of
        (Some h, Some a, Some n, Some b) \<Rightarrow>
          cl_get_receipt client h = Inr None \<and> c \<le> head - b \<and>
          (case cl_latest_nonce client a of Inr l \<Rightarrow> n < l | _ \<Rightarrow> False)
      | _ \<Rightarrow> False)"

lemma executedI:
  "tx_hash = Some h \<Longrightarrow> cl_get_receipt client h = Inr (Some rc) \<Longrightarrow>
   receipt_final client head c rc = Inr True \<Longrightarrow> status (rc_status rc) \<Longrightarrow>
   executed client head c tx_hash status"
  by (simp add: executed_def receipt_final_True)

lemma replacedI:
  "tx_hash = Some h \<Longrightarrow> cl_get_receipt client h = Inr None \<Longrightarrow>
   unmined_gate client hot nonce since head c = Inr GateDrop \<Longrightarrow>
   replaced client head c hot tx_hash nonce since"
  by (auto simp: replaced_def unmined_gate_Drop)

text \<open>
  A signing pass in one statement: from the state the nonce row leaves, consecutive nonces for
  the rows claimed, everything bound stays bound.
\<close>

context nonce_outbox
begin

lemma signing_pass:
  assumes l: "for_each body rs \<lparr>ss_db = d, ss_next = n0, ss_signed = 0\<rparr> = Inr s"
    and dist: "distinct (map rid rs)" and k: "rid ` set rs \<subseteq> known d"
    and u: "\<forall>r \<in> set rs. signed d (rid r) = None"
    and c: "next_nonce_of d chain = Some (a, n0)"
  shows "ss_next s = n0 + int (ss_signed s) \<and>
    next_nonce_of (ss_db s) chain = Some (a, n0 + int (ss_signed s)) \<and>
    (\<forall>m. n0 \<le> m \<and> m < n0 + int (ss_signed s) \<longrightarrow>
       (\<exists>!i. signed d i = None \<and> (\<exists>raw. signed (ss_db s) i = Some (m, raw)))) \<and>
    (\<forall>i b. signed d i = Some b \<longrightarrow> signed (ss_db s) i = Some b) \<and>
    (\<forall>i m raw. signed d i = None \<and> signed (ss_db s) i = Some (m, raw) \<longrightarrow>
       n0 \<le> m \<and> m < n0 + int (ss_signed s))"
proof -
  let ?s = "\<lparr>ss_db = d, ss_next = n0, ss_signed = 0\<rparr>"
  have k': "rid ` set rs \<subseteq> known (ss_db ?s)" and u': "\<forall>r \<in> set rs. signed (ss_db ?s) (rid r) = None"
    using k u by simp_all
  note P = pass_nonces [OF l dist k' u', simplified]
  have t: "ss_next s = n0 + int (ss_signed s)" using P(4) by simp
  have "next_nonce_of (ss_db s) chain = Some (a, ss_next s)"
    by (rule pass_counter [OF l]) (simp add: c)
  then show ?thesis using P(1-3) t by auto
qed

end

section \<open>Outbox tables\<close>

text \<open>
  A table whose rows an outbox updates by id, beside the nonce counter. A loop body that
  either only touches unbound columns or binds its row and moves the counter on satisfies the
  laws of \<open>nonce_outbox\<close>.
\<close>

locale outbox_table =
  fixes rows :: "db \<Rightarrow> 'r list"
    and upd :: "uuid \<Rightarrow> ('r \<Rightarrow> 'r) \<Rightarrow> db \<Rightarrow> db"
    and key :: "'r \<Rightarrow> uuid"
    and bound :: "'r \<Rightarrow> (int \<times> string) option"
  assumes upd_rows: "rows (upd i f db) = upd_row key i f (rows db)"
    and nonce_rows: "rows (set_next_nonce c n db) = rows db"
    and upd_nonce: "next_nonce_of (upd i f db) = next_nonce_of db"
begin

lemma sign_laws:
  assumes a: "\<And>w. key (a w) = key w" "\<And>w. bound (a w) = bound w"
    and f: "\<And>w. key (f w) = key w" "\<And>w. bound (f w) = Some (ss_next s, raw)"
    and s': "s' = s\<lparr>ss_db := upd (key r) a (ss_db s)\<rparr> \<or>
      s' = \<lparr>ss_db = set_next_nonce c (ss_next s + 1) (upd (key r) f (upd (key r) a (ss_db s))),
        ss_next = ss_next s + 1, ss_signed = Suc (ss_signed s)\<rparr>"
  shows "key ` set (rows (ss_db s')) = key ` set (rows (ss_db s))"
    and "key r \<in> key ` set (rows (ss_db s)) \<Longrightarrow>
      binding key bound (rows (ss_db s')) = binding key bound (rows (ss_db s)) \<and> ss_next s' = ss_next s \<and>
        ss_signed s' = ss_signed s \<or>
      (\<exists>raw. binding key bound (rows (ss_db s')) =
           (binding key bound (rows (ss_db s)))(key r \<mapsto> (ss_next s, raw)) \<and>
         ss_next s' = ss_next s + 1 \<and> ss_signed s' = Suc (ss_signed s))"
    and "next_nonce_of (ss_db s) c = Some (h, ss_next s) \<Longrightarrow> next_nonce_of (ss_db s') c = Some (h, ss_next s')"
proof -
  have ka: "key ` set (upd_row key i a xs) = key ` set xs" and kf: "key ` set (upd_row key i f xs) = key ` set xs"
    for i xs by (simp_all only: key_upd a(1) f(1))
  show "key ` set (rows (ss_db s')) = key ` set (rows (ss_db s))"
    using s' by (elim disjE) (simp_all add: upd_rows nonce_rows ka kf)
  show "next_nonce_of (ss_db s) c = Some (h, ss_next s) \<Longrightarrow> next_nonce_of (ss_db s') c = Some (h, ss_next s')"
    using s' by (auto simp: upd_nonce next_nonce_of_set)
  have "binding key bound (upd_row key (key r) f (upd_row key (key r) a (rows (ss_db s)))) =
      (binding key bound (rows (ss_db s)))(key r \<mapsto> (ss_next s, raw))"
    if "key r \<in> key ` set (rows (ss_db s))"
    using binding_upd_bound [where key = key and f = f and bound = bound and b = "(ss_next s, raw)", OF f]
      binding_upd_same [of key a bound] a that ka by metis
  then show "key r \<in> key ` set (rows (ss_db s)) \<Longrightarrow>
      binding key bound (rows (ss_db s')) = binding key bound (rows (ss_db s)) \<and> ss_next s' = ss_next s \<and>
        ss_signed s' = ss_signed s \<or>
      (\<exists>raw. binding key bound (rows (ss_db s')) =
           (binding key bound (rows (ss_db s)))(key r \<mapsto> (ss_next s, raw)) \<and>
         ss_next s' = ss_next s + 1 \<and> ss_signed s' = Suc (ss_signed s))"
    using s' by (auto simp: upd_rows nonce_rows binding_upd_same a)
qed

text \<open>An update that leaves the bound columns alone keeps what the table binds.\<close>

lemma upd_same:
  "(\<And>w. key (f w) = key w) \<Longrightarrow> (\<And>w. bound (f w) = bound w) \<Longrightarrow>
   binding key bound (rows (upd i f db)) = binding key bound (rows db)"
  by (simp add: upd_rows binding_upd_same)

text \<open>One row of a table with distinct keys is changed; the rest stays.\<close>

lemma in_upd:
  "distinct (map key (rows db)) \<Longrightarrow> w \<in> set (rows db) \<Longrightarrow>
   x \<in> set (rows (upd (key w) f db)) \<longleftrightarrow> x = f w \<or> x \<in> set (rows db) \<and> key x \<noteq> key w"
  by (simp add: upd_rows in_upd_row_unique)

end

end
