(* ===== verification/Nft_Service.thy ===== *)
theory Nft_Service
  imports Registry Withdrawals Requests Bindings "HOL-Library.Product_Lexorder"
begin

text \<open>
  The NFT service (\<open>app/services/nft_service.py\<close>): listing, internal transfers and withdrawal
  requests of single NFTs. A holding is the custody record of one token; an open withdrawal
  request locks it. The generated picture (\<open>nft_art.data_uri\<close>) is a parameter;
  theory Nft_Art models it.
\<close>

section \<open>Operations\<close>

record mint_response =
  mir_id :: uuid
  mir_chain_id :: int
  mir_contract :: string
  mir_token_id :: "string option"
  mir_status :: nft_mint_status
  mir_tx_hash :: "string option"
  mir_explorer_url :: "string option"
  mir_created_at :: int

definition mint_response_of :: "registry \<Rightarrow> nft_mint_request \<Rightarrow> error + mint_response" where
  "mint_response_of reg request =
     bind_res (case mi_tx_hash request of
         Some (c # h) \<Rightarrow> bind_res (explorer_tx_url reg (mi_chain_id request) (c # h)) (\<lambda>u. Inr (Some u))
       | _ \<Rightarrow> Inr None) (\<lambda>explorer_url.
     Inr \<lparr>mir_id = mi_id request, mir_chain_id = mi_chain_id request,
       mir_contract = mi_contract request, mir_token_id = mi_token_id request,
       mir_status = mi_status request, mir_tx_hash = mi_tx_hash request,
       mir_explorer_url = explorer_url, mir_created_at = mi_created_at request\<rparr>)"

text \<open>\<open>ORDER BY created_at DESC, id DESC\<close> over distinct ids.\<close>

definition list_mints :: "registry \<Rightarrow> db \<Rightarrow> user \<Rightarrow> error + mint_response list" where
  "list_mints reg db user =
     map_res (mint_response_of reg) (rev (sort_key (\<lambda>m. (mi_created_at m, mi_id m))
       (filter (\<lambda>m. mi_user_id m = usr_id user) (nft_mint_requests db))))"

record nft_response =
  nfr_id :: uuid
  nfr_chain_id :: int
  nfr_contract :: string
  nfr_token_id :: string
  nfr_image :: string
  nfr_explorer_url :: string

definition holding_response ::
  "(string \<Rightarrow> error + string) \<Rightarrow> registry \<Rightarrow> (int \<Rightarrow> string \<Rightarrow> string \<Rightarrow> string) \<Rightarrow> nft_holding
    \<Rightarrow> error + nft_response" where
  "holding_response ck reg data_uri holding =
     bind_res (explorer_address_url ck reg (ho_chain_id holding) (ho_contract holding)) (\<lambda>url.
     Inr \<lparr>nfr_id = ho_id holding, nfr_chain_id = ho_chain_id holding,
       nfr_contract = ho_contract holding, nfr_token_id = ho_token_id holding,
       nfr_image = data_uri (ho_chain_id holding) (ho_contract holding) (ho_token_id holding),
       nfr_explorer_url = url\<rparr>)"

definition list_holdings ::
  "(string \<Rightarrow> error + string) \<Rightarrow> registry \<Rightarrow> (int \<Rightarrow> string \<Rightarrow> string \<Rightarrow> string) \<Rightarrow> db \<Rightarrow> user
    \<Rightarrow> error + nft_response list" where
  "list_holdings ck reg data_uri db user =
     map_res (holding_response ck reg data_uri) (rev (sort_key (\<lambda>h. (ho_acquired_at h, ho_id h))
       (filter (\<lambda>h. ho_user_id h = usr_id user \<and> ho_status h = HoHeld) (nft_holdings db))))"

definition find_transfer_by_idempotency_key :: "db \<Rightarrow> string \<Rightarrow> error + nft_transfer option" where
  "find_transfer_by_idempotency_key db key =
     scalar_one_or_none (filter (\<lambda>t. nt_idempotency_key t = key) (nft_transfers db))"

definition find_withdrawal_by_idempotency_key ::
  "db \<Rightarrow> string \<Rightarrow> error + nft_withdrawal_request option" where
  "find_withdrawal_by_idempotency_key db key =
     scalar_one_or_none (filter (\<lambda>w. nw_idempotency_key w = Some key) (nft_withdrawal_requests db))"

definition select_held :: "db \<Rightarrow> uuid \<Rightarrow> user \<Rightarrow> error + nft_holding option" where
  "select_held db nft_id user =
     scalar_one_or_none (filter (\<lambda>h. ho_id h = nft_id \<and> ho_user_id h = usr_id user
       \<and> ho_status h = HoHeld) (nft_holdings db))"

definition update_holding :: "uuid \<Rightarrow> (nft_holding \<Rightarrow> nft_holding) \<Rightarrow> db \<Rightarrow> db" where
  "update_holding i f db = db\<lparr>nft_holdings := upd_row ho_id i f (nft_holdings db)\<rparr>"

definition new_nft_transfer :: "db \<Rightarrow> nft_holding \<Rightarrow> user \<Rightarrow> user \<Rightarrow> string \<Rightarrow> nft_transfer" where
  "new_nft_transfer db holding sender recipient key =
     \<lparr>nt_id = next_uuid db, nt_nft_holding_id = ho_id holding, nt_sender_user_id = usr_id sender,
      nt_recipient_user_id = usr_id recipient, nt_status = TrConfirmed, nt_idempotency_key = key,
      nt_created_at = db_now db\<rparr>"

definition flush_nft_transfer :: "db \<Rightarrow> nft_transfer \<Rightarrow> error + db" where
  "flush_nft_transfer db t =
     (if nt_idempotency_key t \<in> nt_idempotency_key ` set (nft_transfers db) then Inl IntegrityError
      else Inr (db\<lparr>nft_transfers := nft_transfers db @ [t], next_uuid := Suc (next_uuid db)\<rparr>))"

text \<open>The replayed answer of an existing transfer, or what \<open>otherwise\<close> says.\<close>

definition replay_transfer ::
  "db \<Rightarrow> string \<Rightarrow> (error + ((uuid \<times> transfer_status) \<times> db)) \<Rightarrow> error + ((uuid \<times> transfer_status) \<times> db)" where
  "replay_transfer db key otherwise =
     bind_res (find_transfer_by_idempotency_key db key) (\<lambda>existing.
     case existing of Some t \<Rightarrow> Inr ((nt_id t, nt_status t), db) | None \<Rightarrow> otherwise)"

definition transfer_nft ::
  "db \<Rightarrow> user \<Rightarrow> string \<Rightarrow> uuid \<Rightarrow> string \<Rightarrow> error + ((uuid \<times> transfer_status) \<times> db)" where
  "transfer_nft db sender to_email nft_id idempotency_key =
     (let scoped_key = scoped_idempotency_key ''nft-transfer'' (usr_id sender) idempotency_key in
      replay_transfer db scoped_key (
      bind_res (user_by_email db to_email) (\<lambda>recipient.
      case recipient of
        None \<Rightarrow> raise_api_error 404 NOT_FOUND ''Recipient not found''
      | Some recipient \<Rightarrow>
      if usr_id recipient = usr_id sender
      then raise_api_error 422 VALIDATION_ERROR ''Cannot transfer to yourself''
      else
      bind_res (select_held db nft_id sender) (\<lambda>holding.
      case holding of
        None \<Rightarrow> replay_transfer db scoped_key (raise_api_error 404 NOT_FOUND ''NFT not found'')
      | Some holding \<Rightarrow>
        let db1 = update_holding (ho_id holding) (\<lambda>h. h\<lparr>ho_user_id := usr_id recipient\<rparr>) db;
            transfer = new_nft_transfer db1 holding sender recipient scoped_key in
        case flush_nft_transfer db1 transfer of
          Inl IntegrityError \<Rightarrow> replay_transfer db scoped_key (Inl IntegrityError)
        | Inl e \<Rightarrow> Inl e
        | Inr db2 \<Rightarrow> Inr ((nt_id transfer, TrConfirmed), db2)))))"

definition new_nft_withdrawal ::
  "db \<Rightarrow> user \<Rightarrow> nft_holding \<Rightarrow> string \<Rightarrow> string \<Rightarrow> nft_withdrawal_request" where
  "new_nft_withdrawal db user holding to_address key =
     \<lparr>nw_id = next_uuid db, nw_user_id = usr_id user, nw_nft_holding_id = ho_id holding,
      nw_chain_id = ho_chain_id holding, nw_contract = ho_contract holding,
      nw_token_id = ho_token_id holding, nw_to_address = to_address, nw_status = NwRequested,
      nw_nonce = None, nw_unmined_since_block = None, nw_signed_tx = None, nw_tx_hash = None,
      nw_error = None, nw_attempts = 0, nw_idempotency_key = Some key, nw_created_at = db_now db\<rparr>"

definition flush_nft_withdrawal :: "db \<Rightarrow> nft_withdrawal_request \<Rightarrow> error + db" where
  "flush_nft_withdrawal db w =
     (if nw_idempotency_key w \<noteq> None \<and>
         nw_idempotency_key w \<in> nw_idempotency_key ` set (nft_withdrawal_requests db)
      then Inl IntegrityError
      else Inr (db\<lparr>nft_withdrawal_requests := nft_withdrawal_requests db @ [w],
                  next_uuid := Suc (next_uuid db)\<rparr>))"

definition replay_nft_withdrawal ::
  "db \<Rightarrow> string \<Rightarrow> (error + ((uuid \<times> nft_withdrawal_status) \<times> db))
    \<Rightarrow> error + ((uuid \<times> nft_withdrawal_status) \<times> db)" where
  "replay_nft_withdrawal db key otherwise =
     bind_res (find_withdrawal_by_idempotency_key db key) (\<lambda>existing.
     case existing of Some w \<Rightarrow> Inr ((nw_id w, nw_status w), db) | None \<Rightarrow> otherwise)"

text \<open>A rollback also takes back the rate limiter's event: it returns to the first state.\<close>

definition request_nft_withdrawal ::
  "(string \<Rightarrow> error + string) \<Rightarrow> settings \<Rightarrow> db \<Rightarrow> user \<Rightarrow> uuid \<Rightarrow> string \<Rightarrow> string
    \<Rightarrow> error + ((uuid \<times> nft_withdrawal_status) \<times> db)" where
  "request_nft_withdrawal to_checksum_address st db user nft_id to_address idempotency_key =
     (let scoped_key = scoped_idempotency_key ''nft-withdrawal'' (usr_id user) idempotency_key in
      replay_nft_withdrawal db scoped_key (
      bind_res (enforce_rate_limit st db ''nft_withdrawal'' (usr_id user) None) (\<lambda>db1.
      bind_res (checked_address to_checksum_address to_address) (\<lambda>to_address.
      bind_res (select_held db1 nft_id user) (\<lambda>holding.
      case holding of
        None \<Rightarrow> replay_nft_withdrawal db1 scoped_key (raise_api_error 404 NOT_FOUND ''NFT not found'')
      | Some holding \<Rightarrow>
        let db2 = update_holding (ho_id holding) (\<lambda>h. h\<lparr>ho_status := HoWithdrawing\<rparr>) db1;
            withdrawal = new_nft_withdrawal db2 user holding to_address scoped_key in
        case flush_nft_withdrawal db2 withdrawal of
          Inl IntegrityError \<Rightarrow> replay_nft_withdrawal db scoped_key (Inl IntegrityError)
        | Inl e \<Rightarrow> Inl e
        | Inr db3 \<Rightarrow> Inr ((nw_id withdrawal, NwRequested), db3))))))"

section \<open>The custody invariant\<close>

text \<open>The unique index of the holdings: chain, contract in any letter case, token.\<close>

definition ho_key :: "nft_holding \<Rightarrow> int \<times> string \<times> string" where
  "ho_key h = (ho_chain_id h, lower (ho_contract h), ho_token_id h)"

definition nw_key :: "nft_withdrawal_request \<Rightarrow> int \<times> string \<times> string" where
  "nw_key w = (nw_chain_id w, lower (nw_contract w), nw_token_id w)"

definition nw_open :: "nft_withdrawal_status \<Rightarrow> bool" where
  "nw_open s \<longleftrightarrow> s \<in> {NwRequested, NwApproved, NwSigning, NwBroadcast}"

lemma nw_open_simps [simp, status_simps]:
  "nw_open NwRequested" "nw_open NwApproved" "nw_open NwSigning" "nw_open NwBroadcast"
  "\<not> nw_open NwConfirmed" "\<not> nw_open NwFailed"
  by (simp_all add: nw_open_def)

text \<open>The holding an open request locks: withdrawing, the requester's, the requested token.\<close>

definition locks :: "nft_withdrawal_request \<Rightarrow> nft_holding \<Rightarrow> bool" where
  "locks w h \<longleftrightarrow> ho_id h = nw_nft_holding_id w \<and> ho_status h = HoWithdrawing \<and>
     ho_user_id h = nw_user_id w \<and> ho_key h = nw_key w"

definition nw_signed_ok :: "nft_withdrawal_request \<Rightarrow> bool" where
  "nw_signed_ok w \<longleftrightarrow>
     (nw_status w \<in> {NwRequested, NwApproved} \<longrightarrow> nw_nonce w = None \<and> nw_signed_tx w = None) \<and>
     (nw_status w \<in> {NwSigning, NwBroadcast, NwConfirmed} \<longrightarrow>
        nw_nonce w \<noteq> None \<and> nw_signed_tx w \<noteq> None)"

definition open_requests :: "db \<Rightarrow> nft_withdrawal_request list" where
  "open_requests db = filter (\<lambda>w. nw_open (nw_status w)) (nft_withdrawal_requests db)"

definition holdings_ok :: "db \<Rightarrow> bool" where
  "holdings_ok db \<longleftrightarrow> distinct (map ho_id (nft_holdings db)) \<and> distinct (map ho_key (nft_holdings db)) \<and>
     (\<forall>h \<in> set (nft_holdings db). ho_id h < next_uuid db)"

definition nfts_ok :: "db \<Rightarrow> bool" where
  "nfts_ok db \<longleftrightarrow> holdings_ok db \<and> distinct (map nw_id (nft_withdrawal_requests db)) \<and>
     (\<forall>w \<in> set (nft_withdrawal_requests db). nw_id w < next_uuid db \<and> nw_signed_ok w) \<and>
     distinct (map nw_nft_holding_id (open_requests db)) \<and>
     (\<forall>w \<in> set (open_requests db). \<exists>h \<in> set (nft_holdings db). locks w h) \<and>
     (\<forall>h \<in> set (nft_holdings db). ho_status h = HoWithdrawing \<longrightarrow>
        (\<exists>w \<in> set (open_requests db). nw_nft_holding_id w = ho_id h))"

lemma nfts_ok_D:
  assumes "nfts_ok db"
  shows "distinct (map ho_id (nft_holdings db))" "distinct (map ho_key (nft_holdings db))"
    "distinct (map nw_id (nft_withdrawal_requests db))"
    "w \<in> set (nft_withdrawal_requests db) \<Longrightarrow> nw_signed_ok w"
    "w \<in> set (nft_withdrawal_requests db) \<Longrightarrow> nw_id w < next_uuid db"
    "w \<in> set (nft_withdrawal_requests db) \<Longrightarrow> nw_open (nw_status w) \<Longrightarrow>
      \<exists>h \<in> set (nft_holdings db). locks w h"
    "h \<in> set (nft_holdings db) \<Longrightarrow> ho_id h < next_uuid db"
  using assms by (auto simp: nfts_ok_def holdings_ok_def open_requests_def)

text \<open>Operations that leave the holdings and the requests alone.\<close>

lemma nfts_ok_frame:
  assumes "nfts_ok db" "nft_holdings db' = nft_holdings db"
    and "nft_withdrawal_requests db' = nft_withdrawal_requests db" "next_uuid db \<le> next_uuid db'"
  shows "nfts_ok db'"
  using assms by (auto simp: nfts_ok_def holdings_ok_def open_requests_def intro: less_le_trans)

text \<open>A change of holdings that keeps ids, keys and which of them are locked, and by whom.\<close>

lemma nfts_ok_holding:
  assumes ok: "nfts_ok db" and h: "h \<in> set (nft_holdings db)" "ho_status h \<noteq> HoWithdrawing"
    and f: "ho_id (f h) = ho_id h" "ho_key (f h) = ho_key h" "ho_status (f h) \<noteq> HoWithdrawing"
  shows "nfts_ok (update_holding (ho_id h) f db)"
proof -
  note D = nfts_ok_D [OF ok]
  have only: "x = h" if "x \<in> set (nft_holdings db)" "ho_id x = ho_id h" for x
    using that h(1) D(1) by (auto simp: distinct_map inj_on_def)
  have keys: "map ho_id (upd_row ho_id (ho_id h) f (nft_holdings db)) = map ho_id (nft_holdings db)"
    "map ho_key (upd_row ho_id (ho_id h) f (nft_holdings db)) = map ho_key (nft_holdings db)"
    using only f by (auto simp: upd_row_def)
  have in_rows: "x \<in> set (upd_row ho_id (ho_id h) f (nft_holdings db)) \<longleftrightarrow>
      x = f h \<or> x \<in> set (nft_holdings db) \<and> ho_id x \<noteq> ho_id h" for x
    using in_upd_row_unique [OF D(1) h(1)] by simp
  have "\<exists>y \<in> set (upd_row ho_id (ho_id h) f (nft_holdings db)). locks w y"
    if "w \<in> set (nft_withdrawal_requests db)" "nw_open (nw_status w)" for w
    using D(6) [OF that] h(2) only by (force simp: in_rows locks_def)
  then show ?thesis
    using ok keys f(1,3) D(7) [OF h(1)]
    by (auto simp: nfts_ok_def holdings_ok_def open_requests_def update_holding_def in_rows)
qed

text \<open>A new open request locks a holding that was held.\<close>

lemma nfts_ok_lock:
  assumes ok: "nfts_ok db" and h: "h \<in> set (nft_holdings db)" "ho_status h = HoHeld"
    and w: "nw_nft_holding_id w = ho_id h" "nw_user_id w = ho_user_id h" "nw_key w = ho_key h"
    "nw_status w = NwRequested" "nw_signed_ok w" "nw_id w = next_uuid db"
  shows "nfts_ok (db\<lparr>nft_holdings := upd_row ho_id (ho_id h) (\<lambda>h. h\<lparr>ho_status := HoWithdrawing\<rparr>) (nft_holdings db),
    nft_withdrawal_requests := nft_withdrawal_requests db @ [w], next_uuid := Suc (next_uuid db)\<rparr>)"
    (is "nfts_ok ?d")
proof -
  note D = nfts_ok_D [OF ok]
  let ?f = "\<lambda>h. h\<lparr>ho_status := HoWithdrawing\<rparr>"
  let ?hs = "upd_row ho_id (ho_id h) ?f (nft_holdings db)"
  have only: "x = h" if "x \<in> set (nft_holdings db)" "ho_id x = ho_id h" for x
    using that h(1) D(1) by (auto simp: distinct_map inj_on_def)
  have keys: "map ho_id ?hs = map ho_id (nft_holdings db)" "map ho_key ?hs = map ho_key (nft_holdings db)"
    by (auto simp: upd_row_def ho_key_def)
  have in_rows: "x \<in> set ?hs \<longleftrightarrow> x = ?f h \<or> x \<in> set (nft_holdings db) \<and> ho_id x \<noteq> ho_id h" for x
    using in_upd_row_unique [OF D(1) h(1)] by simp
  have opens: "open_requests ?d = open_requests db @ [w]" by (simp add: open_requests_def w(4))
  have free: "nw_nft_holding_id x \<noteq> ho_id h" if x: "x \<in> set (open_requests db)" for x
  proof -
    have "\<exists>y \<in> set (nft_holdings db). locks x y" using D(6) [of x] x by (simp add: open_requests_def)
    then obtain y where y: "y \<in> set (nft_holdings db)" "ho_id y = nw_nft_holding_id x"
        "ho_status y = HoWithdrawing" by (auto simp: locks_def)
    show ?thesis
    proof
      assume "nw_nft_holding_id x = ho_id h"
      then have "y = h" using only [of y] y by simp
      then show False using y h(2) by simp
    qed
  qed
  have "\<exists>y \<in> set ?hs. locks x y" if x: "x \<in> set (open_requests ?d)" for x
  proof (cases "x = w")
    case True
    then have "locks x (?f h)" using w by (simp add: locks_def ho_key_def)
    then show ?thesis using in_rows by blast
  next
    case False
    then have x': "x \<in> set (open_requests db)" using x opens by simp
    then obtain y where "y \<in> set (nft_holdings db)" "locks x y"
      using D(6) [of x] by (auto simp: open_requests_def)
    then show ?thesis using free [OF x'] in_rows by (auto simp: locks_def)
  qed
  moreover have "\<exists>x \<in> set (open_requests ?d). nw_nft_holding_id x = ho_id y"
    if y: "y \<in> set ?hs" "ho_status y = HoWithdrawing" for y
    using y ok w(1) by (auto simp: in_rows opens nfts_ok_def)
  moreover have "distinct (map nw_nft_holding_id (open_requests ?d))"
  proof -
    have "ho_id h \<notin> nw_nft_holding_id ` set (open_requests db)" using free by (metis imageE)
    then show ?thesis using ok w(1) by (simp add: opens nfts_ok_def)
  qed
  moreover have "holdings_ok ?d"
    using ok keys D(7) [OF h(1)] by (auto simp: nfts_ok_def holdings_ok_def in_rows less_Suc_eq)
  ultimately show ?thesis
    using ok w(5,6) D(5) unfolding nfts_ok_def by (auto simp: less_Suc_eq dest: D(5))
qed

end
