(* ===== verification/Nft_Withdrawer.thy ===== *)
theory Nft_Withdrawer
  imports Nft_Service Bindings
begin

text \<open>
  The NFT withdrawal outbox (\<open>worker/nft_withdrawer.py\<close>): claimed requests are signed with
  consecutive nonces of the hot wallet, broadcast, and decided on the chain's evidence; the
  locked holding becomes withdrawn or is released.
\<close>

section \<open>Operations\<close>

definition NFT_DEFAULT_BATCH :: nat where "NFT_DEFAULT_BATCH = 20"

definition update_nw :: "uuid \<Rightarrow> (nft_withdrawal_request \<Rightarrow> nft_withdrawal_request) \<Rightarrow> db \<Rightarrow> db" where
  "update_nw i f db = db\<lparr>nft_withdrawal_requests := upd_row nw_id i f (nft_withdrawal_requests db)\<rparr>"

definition claim_pending_withdrawals :: "db \<Rightarrow> int \<Rightarrow> nat \<Rightarrow> nft_withdrawal_request list" where
  "claim_pending_withdrawals db chain_id batch =
     take batch (sort_key (\<lambda>w. (nw_created_at w, nw_id w))
       (filter (\<lambda>w. nw_chain_id w = chain_id \<and> nw_status w \<in> {NwRequested, NwApproved})
         (nft_withdrawal_requests db)))"

text \<open>One iteration of the signing loop: any exception leaves the request for a later pass.\<close>

definition sign_nft_withdrawal ::
  "chain_client \<Rightarrow> string \<Rightarrow> string \<Rightarrow> int \<Rightarrow> nft_withdrawal_request \<Rightarrow> sign_state \<Rightarrow> error + sign_state" where
  "sign_nft_withdrawal client hot_wallet_key hot_wallet_address gas_price request s =
     (let nonce = ss_next s;
          db = update_nw (nw_id request) (\<lambda>w. w\<lparr>nw_attempts := nw_attempts w + 1\<rparr>) (ss_db s) in
      case cl_sign_erc721_transfer client hot_wallet_key (nw_contract request) hot_wallet_address
          (nw_to_address request) (nw_token_id request) nonce gas_price of
        Inl exc \<Rightarrow> Inr (s\<lparr>ss_db := db\<rparr>)
      | Inr tx \<Rightarrow>
          Inr \<lparr>ss_db = set_next_nonce (cl_chain_id client) (nonce + 1)
                (update_nw (nw_id request)
                  (\<lambda>w. w\<lparr>nw_signed_tx := Some (stx_raw tx), nw_tx_hash := Some (stx_tx_hash tx),
                         nw_nonce := Some nonce, nw_status := NwSigning\<rparr>) db),
               ss_next = nonce + 1, ss_signed = Suc (ss_signed s)\<rparr>)"

definition sign_pending_withdrawals ::
  "db \<Rightarrow> chain_client \<Rightarrow> string \<Rightarrow> string \<Rightarrow> nat \<Rightarrow> error + (nat \<times> db)" where
  "sign_pending_withdrawals db client hot_wallet_key hot_wallet_address batch =
     (let requests = claim_pending_withdrawals db (cl_chain_id client) batch in
      if requests = [] then Inr (0, db)
      else
        bind_res (nonce_row db client hot_wallet_address) (\<lambda>(hot_nonce, db).
        bind_res (cl_suggested_gas_price client) (\<lambda>gas_price.
        bind_res (for_each (sign_nft_withdrawal client hot_wallet_key hot_wallet_address gas_price)
            requests \<lparr>ss_db = db, ss_next = hw_next_nonce hot_nonce, ss_signed = 0\<rparr>)
          (\<lambda>s. Inr (ss_signed s, ss_db s)))))"

definition signing_withdrawals :: "db \<Rightarrow> int \<Rightarrow> nft_withdrawal_request list" where
  "signing_withdrawals db chain_id = sort_key (\<lambda>w. nonce_order (nw_nonce w))
     (filter (\<lambda>w. nw_chain_id w = chain_id \<and> nw_status w = NwSigning) (nft_withdrawal_requests db))"

definition broadcast_nft_withdrawal ::
  "chain_client \<Rightarrow> nft_withdrawal_request \<Rightarrow> broadcast_state \<Rightarrow> error + broadcast_state" where
  "broadcast_nft_withdrawal client request s =
     (case nw_signed_tx request of
        None \<Rightarrow> Inr s
      | Some raw \<Rightarrow>
          (let sent = bs_sent s @ [raw] in
           case cl_broadcast_raw client raw of
             Inl exc \<Rightarrow> if is_chain_rpc_error exc then Inr (s\<lparr>bs_sent := sent\<rparr>) else Inl exc
           | Inr tx_hash \<Rightarrow>
               Inr \<lparr>bs_db = update_nw (nw_id request)
                      (\<lambda>w. w\<lparr>nw_tx_hash := Some tx_hash, nw_status := NwBroadcast\<rparr>) (bs_db s),
                    bs_count = Suc (bs_count s), bs_sent = sent\<rparr>))"

definition broadcast_signed_withdrawals :: "db \<Rightarrow> chain_client \<Rightarrow> error + broadcast_state" where
  "broadcast_signed_withdrawals db client =
     for_each (broadcast_nft_withdrawal client) (signing_withdrawals db (cl_chain_id client))
       \<lparr>bs_db = db, bs_count = 0, bs_sent = []\<rparr>"

definition broadcast_pending_withdrawals ::
  "db \<Rightarrow> chain_client \<Rightarrow> string \<Rightarrow> string \<Rightarrow> nat \<Rightarrow> error + broadcast_state" where
  "broadcast_pending_withdrawals db client hot_wallet_key hot_wallet_address batch =
     bind_res (sign_pending_withdrawals db client hot_wallet_key hot_wallet_address batch)
       (\<lambda>(_, db). broadcast_signed_withdrawals db client)"

text \<open>\<open>session.get\<close> finds a holding by its id; a missing one is left out.\<close>

definition set_holding_status :: "uuid \<Rightarrow> nft_holding_status \<Rightarrow> db \<Rightarrow> db" where
  "set_holding_status i status db = update_holding i (\<lambda>h. h\<lparr>ho_status := status\<rparr>) db"

definition mark_withdrawn :: "nft_withdrawal_request \<Rightarrow> db \<Rightarrow> db" where
  "mark_withdrawn request db = set_holding_status (nw_nft_holding_id request) HoWithdrawn db"

definition fail_and_release :: "nft_withdrawal_request \<Rightarrow> string \<Rightarrow> db \<Rightarrow> db" where
  "fail_and_release request err db =
     update_nw (nw_id request) (\<lambda>w. w\<lparr>nw_status := NwFailed, nw_error := Some err\<rparr>)
       (set_holding_status (nw_nft_holding_id request) HoHeld db)"

definition set_nw_unmined :: "int option \<Rightarrow> nft_withdrawal_request \<Rightarrow> db \<Rightarrow> db" where
  "set_nw_unmined m request db = update_nw (nw_id request) (\<lambda>w. w\<lparr>nw_unmined_since_block := m\<rparr>) db"

definition reconcile_unmined_withdrawal ::
  "db \<Rightarrow> chain_client \<Rightarrow> nft_withdrawal_request \<Rightarrow> string option \<Rightarrow> int \<Rightarrow> int \<Rightarrow> error + db" where
  "reconcile_unmined_withdrawal db client request hot_wallet_address head confirmations =
     bind_res (unmined_gate client hot_wallet_address (nw_nonce request)
         (nw_unmined_since_block request) head confirmations) (\<lambda>g.
     case g of
       GateKeep \<Rightarrow> Inr db
     | GateClear \<Rightarrow> Inr (set_nw_unmined None request db)
     | GateMark \<Rightarrow> Inr (set_nw_unmined (Some head) request db)
     | GateDrop \<Rightarrow> Inr (fail_and_release request ''transaction dropped (nonce superseded)'' db))"

definition confirm_nft_withdrawal ::
  "chain_client \<Rightarrow> int \<Rightarrow> int \<Rightarrow> string option \<Rightarrow> nft_withdrawal_request \<Rightarrow> db \<times> nat
    \<Rightarrow> error + (db \<times> nat)" where
  "confirm_nft_withdrawal client head confirmations hot_wallet_address request s =
     (case s of (db, confirmed) \<Rightarrow>
      case nw_tx_hash request of
        None \<Rightarrow> Inr s
      | Some tx_hash \<Rightarrow>
        bind_res (cl_get_receipt client tx_hash) (\<lambda>receipt.
        case receipt of
          None \<Rightarrow>
            bind_res (reconcile_unmined_withdrawal db client request hot_wallet_address head confirmations)
              (\<lambda>db. Inr (db, confirmed))
        | Some r \<Rightarrow>
            (let db = set_nw_unmined None request db in
             bind_res (receipt_final client head confirmations r) (\<lambda>final.
             if \<not> final then Inr (db, confirmed)
             else if rc_status r = 1 then
               Inr (update_nw (nw_id request) (\<lambda>w. w\<lparr>nw_status := NwConfirmed\<rparr>)
                      (mark_withdrawn request db), Suc confirmed)
             else Inr (fail_and_release request ''transaction reverted on-chain'' db, confirmed)))))"

definition broadcast_withdrawals :: "db \<Rightarrow> int \<Rightarrow> nft_withdrawal_request list" where
  "broadcast_withdrawals db chain_id =
     filter (\<lambda>w. nw_chain_id w = chain_id \<and> nw_status w = NwBroadcast) (nft_withdrawal_requests db)"

definition confirm_withdrawals ::
  "db \<Rightarrow> chain_client \<Rightarrow> int \<Rightarrow> string option \<Rightarrow> error + (nat \<times> db)" where
  "confirm_withdrawals db client confirmations hot_wallet_address =
     bind_res (cl_block_number client) (\<lambda>head.
     bind_res (for_each (confirm_nft_withdrawal client head confirmations hot_wallet_address)
         (broadcast_withdrawals db (cl_chain_id client)) (db, 0))
       (\<lambda>(db, confirmed). Inr (confirmed, db)))"

section \<open>Bindings\<close>

abbreviation nw_bound :: "nft_withdrawal_request \<Rightarrow> (int \<times> string) option" where
  "nw_bound w \<equiv> bound_pair (nw_nonce w) (nw_signed_tx w)"

definition nw_ids :: "db \<Rightarrow> uuid set" where
  "nw_ids db = nw_id ` set (nft_withdrawal_requests db)"

definition nw_binding :: "db \<Rightarrow> uuid \<Rightarrow> (int \<times> string) option" where
  "nw_binding db = binding nw_id nw_bound (nft_withdrawal_requests db)"

lemma nw_frames [simp]:
  "nw_binding (set_next_nonce c n db) = nw_binding db" "nw_ids (set_next_nonce c n db) = nw_ids db"
  "nw_binding (update_holding i f db) = nw_binding db" "nw_ids (update_holding i f db) = nw_ids db"
  "next_nonce_of (update_nw i g db) = next_nonce_of db"
  "nft_withdrawal_requests (set_next_nonce c n db) = nft_withdrawal_requests db"
  "nft_withdrawal_requests (update_holding i f db) = nft_withdrawal_requests db"
  "nft_holdings (update_nw i g db) = nft_holdings db"
  "nft_holdings (set_next_nonce c n db) = nft_holdings db"
  "next_uuid (update_nw i g db) = next_uuid db" "next_uuid (set_next_nonce c n db) = next_uuid db"
  "next_uuid (update_holding i f db) = next_uuid db" "next_uuid (set_holding_status i st db) = next_uuid db"
  by (simp_all add: nw_binding_def nw_ids_def set_next_nonce_def set_holding_status_def update_holding_def
      update_nw_def next_nonce_of_def fun_eq_iff)

lemma nw_ids_update: "(\<And>w. nw_id (f w) = nw_id w) \<Longrightarrow> nw_ids (update_nw i f db) = nw_ids db"
  by (simp add: nw_ids_def update_nw_def key_upd)

lemma nw_binding_update_same:
  "(\<And>w. nw_id (f w) = nw_id w) \<Longrightarrow> (\<And>w. nw_bound (f w) = nw_bound w) \<Longrightarrow>
   nw_binding (update_nw i f db) = nw_binding db"
  by (simp add: nw_binding_def update_nw_def binding_upd_same)

interpretation nw_table: outbox_table nft_withdrawal_requests update_nw nw_id nw_bound
  by unfold_locales (simp_all add: update_nw_def set_next_nonce_def next_nonce_of_def fun_eq_iff)

lemma sign_nft_withdrawal_effect:
  assumes "sign_nft_withdrawal client key hot gas r s = Inr s'"
  shows "nw_ids (ss_db s') = nw_ids (ss_db s)"
    and "nw_id r \<in> nw_ids (ss_db s) \<Longrightarrow>
      nw_binding (ss_db s') = nw_binding (ss_db s) \<and> ss_next s' = ss_next s \<and> ss_signed s' = ss_signed s \<or>
      (\<exists>raw. nw_binding (ss_db s') = (nw_binding (ss_db s))(nw_id r \<mapsto> (ss_next s, raw)) \<and>
         ss_next s' = ss_next s + 1 \<and> ss_signed s' = Suc (ss_signed s))"
    and "next_nonce_of (ss_db s) (cl_chain_id client) = Some (a, ss_next s) \<Longrightarrow>
      next_nonce_of (ss_db s') (cl_chain_id client) = Some (a, ss_next s')"
proof -
  let ?a = "\<lambda>w. w\<lparr>nw_attempts := nw_attempts w + 1\<rparr>"
  let ?f = "\<lambda>(tx :: signed_tx) w. w\<lparr>nw_signed_tx := Some (stx_raw tx), nw_tx_hash := Some (stx_tx_hash tx),
    nw_nonce := Some (ss_next s), nw_status := NwSigning\<rparr>"
  obtain tx where "s' = s\<lparr>ss_db := update_nw (nw_id r) ?a (ss_db s)\<rparr> \<or>
      s' = \<lparr>ss_db = set_next_nonce (cl_chain_id client) (ss_next s + 1)
        (update_nw (nw_id r) (?f tx) (update_nw (nw_id r) ?a (ss_db s))),
        ss_next = ss_next s + 1, ss_signed = Suc (ss_signed s)\<rparr>"
    using assms by (auto simp: sign_nft_withdrawal_def Let_def split: sum.splits)
  note L = nw_table.sign_laws [OF _ _ _ _ this, of "stx_raw tx", simplified, folded nw_ids_def nw_binding_def]
  show "nw_ids (ss_db s') = nw_ids (ss_db s)"
    "nw_id r \<in> nw_ids (ss_db s) \<Longrightarrow>
      nw_binding (ss_db s') = nw_binding (ss_db s) \<and> ss_next s' = ss_next s \<and> ss_signed s' = ss_signed s \<or>
      (\<exists>raw. nw_binding (ss_db s') = (nw_binding (ss_db s))(nw_id r \<mapsto> (ss_next s, raw)) \<and>
         ss_next s' = ss_next s + 1 \<and> ss_signed s' = Suc (ss_signed s))"
    "next_nonce_of (ss_db s) (cl_chain_id client) = Some (a, ss_next s) \<Longrightarrow>
      next_nonce_of (ss_db s') (cl_chain_id client) = Some (a, ss_next s')"
    using L by blast+
qed

interpretation nft_withdrawer: nonce_outbox "sign_nft_withdrawal client key hot gas" nw_id nw_ids nw_binding
    "cl_chain_id client" for client key hot gas
  by unfold_locales (fact sign_nft_withdrawal_effect)+

interpretation nft_withdrawer_send: raw_broadcaster "broadcast_nft_withdrawal client" nw_signed_tx nw_binding
    for client
proof
  fix r s s'
  assume b: "broadcast_nft_withdrawal client r s = Inr s'"
  show "bs_sent s' = bs_sent s \<or> (\<exists>x. nw_signed_tx r = Some x \<and> bs_sent s' = bs_sent s @ [x])"
    using b by (auto simp: broadcast_nft_withdrawal_def Let_def split: option.splits sum.splits if_splits)
  show "nw_binding (bs_db s') = nw_binding (bs_db s)"
    using b by (auto simp: broadcast_nft_withdrawal_def Let_def nw_binding_update_same
        split: option.splits sum.splits if_splits)
qed

end
