(* ===== verification/Nft_Facts.thy ===== *)
theory Nft_Facts
  imports Nft_Withdrawer
begin

text \<open>
  The properties of NFT custody: internal transfers and withdrawal requests, the lock an open
  request holds on its token, and the outbox that carries it out.
\<close>

section \<open>The API\<close>

definition nft_transfer_key :: "user \<Rightarrow> string \<Rightarrow> string" where
  "nft_transfer_key user k = scoped_idempotency_key ''nft-transfer'' (usr_id user) k"

definition nft_withdrawal_key :: "user \<Rightarrow> string \<Rightarrow> string" where
  "nft_withdrawal_key user k = scoped_idempotency_key ''nft-withdrawal'' (usr_id user) k"

definition owner_of :: "db \<Rightarrow> uuid \<Rightarrow> uuid option" where
  "owner_of db i = map_option ho_user_id (get_row ho_id i (nft_holdings db))"

definition status_of :: "db \<Rightarrow> uuid \<Rightarrow> nft_holding_status option" where
  "status_of db i = map_option ho_status (get_row ho_id i (nft_holdings db))"

lemma select_held_Some:
  "select_held db i u = Inr (Some h) \<Longrightarrow>
   h \<in> set (nft_holdings db) \<and> ho_id h = i \<and> ho_user_id h = usr_id u \<and> ho_status h = HoHeld"
  unfolding select_held_def by (auto dest: filter_single_in)

text \<open>Every way an internal NFT transfer can succeed.\<close>

lemma transfer_nft_cases:
  assumes "transfer_nft db sender to nft k = Inr (r, db')"
  obtains (replay) t where "db' = db" "find_transfer_by_idempotency_key db (nft_transfer_key sender k) = Inr (Some t)"
      "r = (nt_id t, nt_status t)"
    | (moved) recipient h where
      "find_transfer_by_idempotency_key db (nft_transfer_key sender k) = Inr None"
      "user_by_email db to = Inr (Some recipient)" "usr_id recipient \<noteq> usr_id sender"
      "h \<in> set (nft_holdings db)" "ho_id h = nft" "ho_user_id h = usr_id sender" "ho_status h = HoHeld"
      "r = (next_uuid db, TrConfirmed)"
      "db' = (update_holding nft (\<lambda>h. h\<lparr>ho_user_id := usr_id recipient\<rparr>) db)
         \<lparr>nft_transfers := nft_transfers db @ [new_nft_transfer db h sender recipient (nft_transfer_key sender k)],
          next_uuid := Suc (next_uuid db)\<rparr>"
proof -
  from assms obtain ex where ex: "find_transfer_by_idempotency_key db (nft_transfer_key sender k) = Inr ex"
    by (auto simp: transfer_nft_def replay_transfer_def nft_transfer_key_def Let_def)
  show thesis
  proof (cases ex)
    case (Some t)
    then show thesis using assms ex
      by (intro replay [of t]) (simp_all add: transfer_nft_def replay_transfer_def nft_transfer_key_def Let_def)
  next
    case None
    then obtain recipient h where rec: "user_by_email db to = Inr (Some recipient)" "usr_id recipient \<noteq> usr_id sender"
      and sel: "select_held db nft sender = Inr (Some h)"
      using assms ex by (auto simp: transfer_nft_def replay_transfer_def nft_transfer_key_def Let_def
          split: option.splits if_splits)
    note H = select_held_Some [OF sel]
    have fresh: "nft_transfer_key sender k \<notin> nt_idempotency_key ` set (nft_transfers db)"
      using ex None by (auto simp: find_transfer_by_idempotency_key_def filter_empty_conv)
    show thesis
      by (rule moved [of recipient h])
        (use assms ex None rec sel H fresh in \<open>auto simp: transfer_nft_def replay_transfer_def
          nft_transfer_key_def Let_def flush_nft_transfer_def new_nft_transfer_def update_holding_def\<close>)
  qed
qed

text \<open>Every way an NFT withdrawal request can succeed.\<close>

lemma request_nft_withdrawal_cases:
  assumes "request_nft_withdrawal ck st db user nft to k = Inr (r, db')"
  obtains (replay) w where "db' = db"
      "find_withdrawal_by_idempotency_key db (nft_withdrawal_key user k) = Inr (Some w)" "r = (nw_id w, nw_status w)"
    | (locked) db1 h a where
      "find_withdrawal_by_idempotency_key db (nft_withdrawal_key user k) = Inr None"
      "enforce_rate_limit st db ''nft_withdrawal'' (usr_id user) None = Inr db1" "rate_only db db1"
      "to_checksum_address_strict ck to = Inr a"
      "h \<in> set (nft_holdings db)" "ho_id h = nft" "ho_user_id h = usr_id user" "ho_status h = HoHeld"
      "r = (next_uuid db1, NwRequested)"
      "db' = db1\<lparr>nft_holdings := upd_row ho_id nft (\<lambda>h. h\<lparr>ho_status := HoWithdrawing\<rparr>) (nft_holdings db),
         nft_withdrawal_requests := nft_withdrawal_requests db @
           [new_nft_withdrawal db1 user h a (nft_withdrawal_key user k)],
         next_uuid := Suc (next_uuid db1)\<rparr>"
proof -
  from assms obtain ex where ex: "find_withdrawal_by_idempotency_key db (nft_withdrawal_key user k) = Inr ex"
    by (auto simp: request_nft_withdrawal_def replay_nft_withdrawal_def nft_withdrawal_key_def Let_def)
  show thesis
  proof (cases ex)
    case (Some t)
    then show thesis using assms ex
      by (intro replay [of t])
        (simp_all add: request_nft_withdrawal_def replay_nft_withdrawal_def nft_withdrawal_key_def Let_def)
  next
    case None
    have fresh: "Some (nft_withdrawal_key user k) \<notin> nw_idempotency_key ` set (nft_withdrawal_requests db)"
      using ex None by (auto simp: find_withdrawal_by_idempotency_key_def filter_empty_conv)
    from assms ex None obtain db1 a sel where
      rate: "enforce_rate_limit st db ''nft_withdrawal'' (usr_id user) None = Inr db1"
      and a: "checked_address ck to = Inr a" and sel: "select_held db1 nft user = Inr sel"
      by (auto simp: request_nft_withdrawal_def replay_nft_withdrawal_def nft_withdrawal_key_def Let_def)
    note fr = enforce_frame [OF rate]
    note fl = rate_only_ledger [OF fr]
    have find1: "find_withdrawal_by_idempotency_key db1 = find_withdrawal_by_idempotency_key db"
      by (intro ext) (simp add: find_withdrawal_by_idempotency_key_def fl)
    have a': "to_checksum_address_strict ck to = Inr a"
      using a by (auto simp: checked_address_def split: sum.splits error.splits)
    obtain h where h: "sel = Some h"
      using assms ex None rate a sel find1
      by (cases sel) (auto simp: request_nft_withdrawal_def replay_nft_withdrawal_def nft_withdrawal_key_def Let_def)
    note H = select_held_Some [OF sel [unfolded h], unfolded fl]
    show thesis
      by (rule locked [of db1 a h])
        (use assms ex None rate a sel h H fr fl fresh a' in \<open>auto simp: request_nft_withdrawal_def
          replay_nft_withdrawal_def nft_withdrawal_key_def Let_def flush_nft_withdrawal_def
          new_nft_withdrawal_def update_holding_def\<close>)
  qed
qed

lemma get_row_upd_map:
  "(\<And>r. key (f r) = key r) \<Longrightarrow>
   get_row key j (upd_row key i f rows) = map_option (\<lambda>r. if j = i then f r else r) (get_row key j rows)"
  by (cases "j = i") (simp_all add: get_row_upd_row_same get_row_upd_row_other option.map_ident)

text \<open>
  C20: A successful internal NFT transfer either replays an earlier one and changes nothing, or
  hands the token, which the sender owned and which was free (neither withdrawn nor locked by
  a withdrawal), to the other registered user whose email was given. No other token changes
  its owner, no token its status, one transfer is recorded under the sender's key, and the
  custody invariant is kept.
\<close>

theorem nft_transfer_moves_ownership:
  assumes ok: "nfts_ok db" and t: "transfer_nft db sender to nft k = Inr ((i, s), db')"
  shows "nfts_ok db' \<and> status_of db' = status_of db \<and>
    (db' = db \<and> (\<exists>t \<in> set (nft_transfers db). nt_id t = i \<and> nt_status t = s \<and>
         nt_idempotency_key t = nft_transfer_key sender k) \<or>
     (\<exists>recipient \<in> set (users db). usr_email recipient = normalize_email to \<and> usr_id recipient \<noteq> usr_id sender \<and>
        owner_of db nft = Some (usr_id sender) \<and> status_of db nft = Some HoHeld \<and>
        owner_of db' = (owner_of db)(nft \<mapsto> usr_id recipient) \<and> s = TrConfirmed \<and>
        (\<exists>t. nft_transfers db' = nft_transfers db @ [t] \<and> nt_id t = i \<and> nt_nft_holding_id t = nft \<and>
           nt_sender_user_id t = usr_id sender \<and> nt_recipient_user_id t = usr_id recipient \<and>
           nt_idempotency_key t = nft_transfer_key sender k)))"
  using t
proof (cases rule: transfer_nft_cases)
  case (replay t)
  have "t \<in> set (nft_transfers db) \<and> nt_idempotency_key t = nft_transfer_key sender k"
    using replay(2) unfolding find_transfer_by_idempotency_key_def by (auto dest: filter_single_in)
  then show ?thesis using ok replay by auto
next
  case (moved recipient h)
  let ?f = "\<lambda>h. h\<lparr>ho_user_id := usr_id recipient\<rparr>"
  have g: "get_row ho_id nft (nft_holdings db) = Some h"
    using get_row_distinct [OF nfts_ok_D(1) [OF ok] moved(4)] moved(5) by simp
  have "nfts_ok (update_holding (ho_id h) ?f db)"
    by (rule nfts_ok_holding [OF ok moved(4)]) (simp_all add: moved(7) ho_key_def)
  then have "nfts_ok db'" by (rule nfts_ok_frame) (simp_all add: moved(5,9) update_holding_def)
  moreover have "status_of db' = status_of db"
    by (auto simp: moved(9) status_of_def update_holding_def get_row_upd_map fun_eq_iff option.map_comp comp_def
        intro!: option.map_cong)
  moreover have "owner_of db' = (owner_of db)(nft \<mapsto> usr_id recipient)"
    by (auto simp: moved(9) owner_of_def update_holding_def get_row_upd_map fun_eq_iff option.map_comp comp_def g
        intro!: option.map_cong)
  moreover have "owner_of db nft = Some (usr_id sender)" "status_of db nft = Some HoHeld"
    using g moved(6,7) by (simp_all add: owner_of_def status_of_def)
  ultimately show ?thesis
    using moved(3,5,8) user_by_email_Inr [OF moved(2)] by (auto simp: moved(9) new_nft_transfer_def)
qed

text \<open>
  A successful NFT withdrawal request either replays an earlier one and changes nothing,
  or locks the token: it was the user's and free, it becomes WITHDRAWING, and one new request
  in status REQUESTED names it, addressed to the checksummed form of a valid, nonzero
  destination. No other token's status and no token's owner changes, and every open request
  still locks a token of its own.
\<close>

theorem nft_withdrawal_locks_token:
  assumes ok: "nfts_ok db" and t: "request_nft_withdrawal ck st db user nft to k = Inr ((i, s), db')"
  shows "nfts_ok db' \<and> owner_of db' = owner_of db \<and>
    (db' = db \<and> (\<exists>w \<in> set (nft_withdrawal_requests db). nw_id w = i \<and> nw_status w = s \<and>
         nw_idempotency_key w = Some (nft_withdrawal_key user k)) \<or>
     owner_of db nft = Some (usr_id user) \<and> status_of db nft = Some HoHeld \<and>
     status_of db' = (status_of db)(nft \<mapsto> HoWithdrawing) \<and> s = NwRequested \<and>
     (\<exists>w h. nft_withdrawal_requests db' = nft_withdrawal_requests db @ [w] \<and> nw_id w = i \<and>
        h \<in> set (nft_holdings db') \<and> ho_id h = nft \<and> locks w h \<and> nw_user_id w = usr_id user \<and>
        ck to = Inr (nw_to_address w) \<and> hex_address_match to \<and> lower to \<noteq> ZERO_ADDRESS))"
  using t
proof (cases rule: request_nft_withdrawal_cases)
  case (replay w)
  have "w \<in> set (nft_withdrawal_requests db) \<and> nw_idempotency_key w = Some (nft_withdrawal_key user k)"
    using replay(2) unfolding find_withdrawal_by_idempotency_key_def by (auto dest: filter_single_in)
  then show ?thesis using ok replay by auto
next
  case (locked db1 h a)
  let ?w = "new_nft_withdrawal db1 user h a (nft_withdrawal_key user k)"
  note fl = rate_only_ledger [OF locked(3)]
  have g: "get_row ho_id nft (nft_holdings db) = Some h"
    using get_row_distinct [OF nfts_ok_D(1) [OF ok] locked(5)] locked(6) by simp
  have mono: "next_uuid db \<le> next_uuid db1" using locked(3) by (simp add: rate_only_def)
  have ok1: "nfts_ok db1" by (rule nfts_ok_frame [OF ok]) (simp_all add: fl mono)
  have "nfts_ok db'"
    unfolding locked(10)
    using nfts_ok_lock [OF ok1, of h ?w] locked(5-8)
    by (simp add: fl new_nft_withdrawal_def nw_key_def ho_key_def nw_signed_ok_def)
  moreover have "owner_of db' = owner_of db"
    by (auto simp: locked(10) owner_of_def get_row_upd_map fun_eq_iff option.map_comp comp_def
        intro!: option.map_cong)
  moreover have "status_of db' = (status_of db)(nft \<mapsto> HoWithdrawing)"
    by (auto simp: locked(10) status_of_def get_row_upd_map fun_eq_iff option.map_comp comp_def g
        intro!: option.map_cong)
  moreover have "h\<lparr>ho_status := HoWithdrawing\<rparr> \<in> set (nft_holdings db')"
    using in_upd_row_same [OF locked(5), where key = ho_id and f = "\<lambda>h. h\<lparr>ho_status := HoWithdrawing\<rparr>"] locked(6)
    by (simp add: locked(10))
  moreover have "owner_of db nft = Some (usr_id user)" "status_of db nft = Some HoHeld"
    using g locked(7,8) by (simp_all add: owner_of_def status_of_def)
  moreover have "locks ?w (h\<lparr>ho_status := HoWithdrawing\<rparr>)"
    using locked(6,7) by (simp add: locks_def new_nft_withdrawal_def nw_key_def ho_key_def)
  moreover have "nft_withdrawal_requests db' = nft_withdrawal_requests db @ [?w]" by (simp add: locked(10))
  moreover have "nw_id ?w = next_uuid db1" "nw_to_address ?w = a" "nw_user_id ?w = usr_id user"
    by (simp_all add: new_nft_withdrawal_def)
  ultimately show ?thesis
    using locked(6,9) to_checksum_address_strict_Inr [OF locked(4)]
    by (intro conjI disjI2 exI [of _ ?w] exI [of _ "h\<lparr>ho_status := HoWithdrawing\<rparr>"]) simp_all
qed


section \<open>Retries\<close>

record nft_withdraw_request =
  nq_user :: user
  nq_nft_id :: uuid
  nq_to_address :: string
  nq_key :: string

definition serve_nft_withdrawal ::
  "(string \<Rightarrow> error + string) \<Rightarrow> settings \<Rightarrow> nft_withdraw_request \<Rightarrow> db
    \<Rightarrow> error + ((uuid \<times> nft_withdrawal_status) \<times> db)" where
  "serve_nft_withdrawal ck st x db =
     request_nft_withdrawal ck st db (nq_user x) (nq_nft_id x) (nq_to_address x) (nq_key x)"

definition nft_withdrawal_answer :: "nft_withdraw_request \<Rightarrow> db \<Rightarrow> uuid \<times> nft_withdrawal_status" where
  "nft_withdrawal_answer x db =
     (case find_withdrawal_by_idempotency_key db (nft_withdrawal_key (nq_user x) (nq_key x)) of
        Inr (Some w) \<Rightarrow> (nw_id w, nw_status w) | _ \<Rightarrow> (0, NwFailed))"

definition nft_withdrawal_seen :: "nft_withdraw_request \<Rightarrow> db \<Rightarrow> bool" where
  "nft_withdrawal_seen x db \<longleftrightarrow>
     (\<exists>w. find_withdrawal_by_idempotency_key db (nft_withdrawal_key (nq_user x) (nq_key x)) = Inr (Some w))"

lemma find_nw_append:
  "nft_withdrawal_requests db' = nft_withdrawal_requests db @ [w] \<Longrightarrow> nw_idempotency_key w = Some k \<Longrightarrow>
   find_withdrawal_by_idempotency_key db k = Inr None \<Longrightarrow>
   find_withdrawal_by_idempotency_key db' j =
     (if j = k then Inr (Some w) else find_withdrawal_by_idempotency_key db j)"
  by (auto simp: find_withdrawal_by_idempotency_key_def)

interpretation nft_withdrawal: answered_request "serve_nft_withdrawal ck st" nft_withdrawal_seen nfts_ok
    nft_withdrawal_answer for ck st
proof
  fix d x r d' y
  assume ok: "nfts_ok d" and run: "serve_nft_withdrawal ck st x d = Inr (r, d')"
  note run' = run [unfolded serve_nft_withdrawal_def]
  show "nfts_ok d'" using nft_withdrawal_locks_token [OF ok, of ck st "nq_user x" "nq_nft_id x"
        "nq_to_address x" "nq_key x" "fst r" "snd r" d'] run' by simp
  consider (same) "d' = d" "nft_withdrawal_seen x d" "nft_withdrawal_answer x d = r"
    | (new) w where "nft_withdrawal_requests d' = nft_withdrawal_requests d @ [w]" "r = (nw_id w, nw_status w)"
      "nw_idempotency_key w = Some (nft_withdrawal_key (nq_user x) (nq_key x))"
      "find_withdrawal_by_idempotency_key d (nft_withdrawal_key (nq_user x) (nq_key x)) = Inr None"
    using run'
  proof (cases rule: request_nft_withdrawal_cases)
    case (replay w)
    then show thesis by (intro same) (simp_all add: nft_withdrawal_seen_def nft_withdrawal_answer_def)
  next
    case (locked db1 h a)
    then show thesis by (intro new) (auto simp: new_nft_withdrawal_def)
  qed
  note cases = this
  show "nft_withdrawal_seen x d'" using cases
  proof cases
    case (new w)
    then show ?thesis using find_nw_append [OF new(1,3,4)] by (auto simp: nft_withdrawal_seen_def)
  qed simp
  show "nft_withdrawal_answer x d' = r" using cases
  proof cases
    case (new w)
    then show ?thesis using find_nw_append [OF new(1,3,4)] by (auto simp: nft_withdrawal_answer_def)
  qed simp
  show "d' = d" if "nft_withdrawal_seen x d"
    using cases that by cases (auto simp: nft_withdrawal_seen_def)
  show "nft_withdrawal_seen y d'" if "nft_withdrawal_seen y d" using cases
  proof cases
    case (new w)
    then show ?thesis using that find_nw_append [OF new(1,3,4)] by (auto simp: nft_withdrawal_seen_def)
  qed (use that in simp)
  show "nft_withdrawal_answer y d' = nft_withdrawal_answer y d" if "nft_withdrawal_seen y d" using cases
  proof cases
    case (new w)
    then show ?thesis using that find_nw_append [OF new(1,3,4)]
      by (auto simp: nft_withdrawal_seen_def nft_withdrawal_answer_def)
  qed simp
qed

text \<open>
  A client that repeats an NFT withdrawal request, at once or after other withdrawal
  requests were served, is answered with the same request id and status again, and the
  repeated request changes nothing.
\<close>

theorem nft_withdrawal_retry_repeats_answer:
  assumes "nfts_ok d" "serve_nft_withdrawal ck st x d = Inr (r, d1)"
    and "for_each (\<lambda>y s. bind_res (serve_nft_withdrawal ck st y s) (\<lambda>(_, s'). Inr s')) ys d1 = Inr d2"
  shows "serve_nft_withdrawal ck st x d2 = Inr (r, d2)"
  using assms by (rule nft_withdrawal.late_answer)
    (auto simp: nft_withdrawal_seen_def nft_withdrawal_answer_def serve_nft_withdrawal_def
      request_nft_withdrawal_def replay_nft_withdrawal_def nft_withdrawal_key_def)

section \<open>The outbox keeps the custody invariant\<close>

lemma in_update_nw:
  assumes "nfts_ok db" "w \<in> set (nft_withdrawal_requests db)"
  shows "x \<in> set (nft_withdrawal_requests (update_nw (nw_id w) f db)) \<longleftrightarrow>
    x = f w \<or> x \<in> set (nft_withdrawal_requests db) \<and> nw_id x \<noteq> nw_id w"
  using in_upd_row_unique [OF nfts_ok_D(3) [OF assms(1)] assms(2)] by (simp add: update_nw_def)

lemma nw_row_unique:
  assumes "nfts_ok db" "w \<in> set (nft_withdrawal_requests db)" "x \<in> set (nft_withdrawal_requests db)"
    and "nw_id x = nw_id w"
  shows "x = w"
  using assms nfts_ok_D(3) [OF assms(1)] by (auto simp: distinct_map inj_on_def)

lemma open_holding_unique:
  assumes "nfts_ok db" "w \<in> set (nft_withdrawal_requests db)" "x \<in> set (nft_withdrawal_requests db)"
    and "nw_open (nw_status w)" "nw_open (nw_status x)" "nw_nft_holding_id x = nw_nft_holding_id w"
  shows "x = w"
  using assms by (auto simp: nfts_ok_def open_requests_def distinct_map inj_on_def)

text \<open>A change of one request that keeps what it locks.\<close>

lemma nfts_ok_request:
  assumes ok: "nfts_ok db" and w: "w \<in> set (nft_withdrawal_requests db)"
    and f: "\<And>w. nw_id (f w) = nw_id w" "nw_nft_holding_id (f w) = nw_nft_holding_id w"
      "nw_user_id (f w) = nw_user_id w" "nw_key (f w) = nw_key w"
      "nw_open (nw_status (f w)) = nw_open (nw_status w)" "nw_signed_ok (f w)"
  shows "nfts_ok (update_nw (nw_id w) f db)" (is "nfts_ok ?d")
proof -
  note D = nfts_ok_D [OF ok] and I = in_update_nw [OF ok w, of _ f]
  have rows: "nft_withdrawal_requests ?d = upd_row nw_id (nw_id w) f (nft_withdrawal_requests db)"
    by (simp add: update_nw_def)
  have ids: "map nw_id (nft_withdrawal_requests ?d) = map nw_id (nft_withdrawal_requests db)"
    unfolding rows by (rule map_key_upd_row) (rule f(1))
  have opens: "map nw_nft_holding_id (open_requests ?d) = map nw_nft_holding_id (open_requests db)"
  proof -
    have gen: "map nw_nft_holding_id (filter (\<lambda>w. nw_open (nw_status w)) (map g xs)) =
        map nw_nft_holding_id (filter (\<lambda>w. nw_open (nw_status w)) xs)"
      if "\<forall>x \<in> set xs. nw_nft_holding_id (g x) = nw_nft_holding_id x \<and>
        nw_open (nw_status (g x)) = nw_open (nw_status x)" for g xs
      using that by (induction xs) auto
    show ?thesis unfolding open_requests_def rows upd_row_def
      by (rule gen) (use f nw_row_unique [OF ok w] in \<open>auto dest: nw_row_unique [OF ok w]\<close>)
  qed
  have "\<exists>h \<in> set (nft_holdings ?d). locks x h" if "x \<in> set (open_requests ?d)" for x
  proof -
    have x: "x = f w \<or> x \<in> set (nft_withdrawal_requests db)" "nw_open (nw_status x)"
      using that I by (auto simp: open_requests_def)
    show ?thesis
    proof (cases "x = f w")
      case True
      then show ?thesis using D(6) [OF w] x(2) f by (auto simp: locks_def)
    next
      case False
      then show ?thesis using D(6) [of x] x by simp
    qed
  qed
  moreover have "\<exists>x \<in> set (open_requests ?d). nw_nft_holding_id x = ho_id h"
    if "h \<in> set (nft_holdings db)" "ho_status h = HoWithdrawing" for h
  proof -
    have "ho_id h \<in> set (map nw_nft_holding_id (open_requests db))" using ok that by (force simp: nfts_ok_def)
    then show ?thesis unfolding opens [symmetric] by auto
  qed
  ultimately show ?thesis
    using ok ids opens I f D(5) [OF w] by (auto simp: nfts_ok_def holdings_ok_def)
qed

text \<open>Closing an open request and unlocking its holding.\<close>

lemma nfts_ok_close:
  assumes ok: "nfts_ok db" and w: "w \<in> set (nft_withdrawal_requests db)" "nw_open (nw_status w)"
    and f: "\<And>w. nw_id (f w) = nw_id w" "\<not> nw_open (nw_status (f w))" "nw_signed_ok (f w)"
    and s: "s \<noteq> HoWithdrawing"
  shows "nfts_ok (update_nw (nw_id w) f (set_holding_status (nw_nft_holding_id w) s db))" (is "nfts_ok ?d")
    and "\<exists>h \<in> set (nft_holdings (update_nw (nw_id w) f (set_holding_status (nw_nft_holding_id w) s db))).
      ho_id h = nw_nft_holding_id w \<and> ho_status h = s \<and> ho_user_id h = nw_user_id w"
proof -
  note D = nfts_ok_D [OF ok]
  obtain h where h: "h \<in> set (nft_holdings db)" "locks w h" using D(6) [OF w] by blast
  have hid: "ho_id h = nw_nft_holding_id w" using h(2) by (simp add: locks_def)
  let ?g = "\<lambda>h. h\<lparr>ho_status := s\<rparr>"
  have hs: "nft_holdings ?d = upd_row ho_id (ho_id h) ?g (nft_holdings db)"
    by (simp add: set_holding_status_def update_holding_def hid update_nw_def)
  have H: "x \<in> set (nft_holdings ?d) \<longleftrightarrow> x = ?g h \<or> x \<in> set (nft_holdings db) \<and> ho_id x \<noteq> ho_id h" for x
    unfolding hs by (rule in_upd_row_unique [OF D(1) h(1)])
  have rows: "nft_withdrawal_requests ?d = upd_row nw_id (nw_id w) f (nft_withdrawal_requests db)"
    by (simp add: update_nw_def set_holding_status_def update_holding_def)
  have R: "x \<in> set (nft_withdrawal_requests ?d) \<longleftrightarrow>
      x = f w \<or> x \<in> set (nft_withdrawal_requests db) \<and> nw_id x \<noteq> nw_id w" for x
    unfolding rows by (rule in_upd_row_unique [OF D(3) w(1)])
  show "\<exists>h \<in> set (nft_holdings ?d). ho_id h = nw_nft_holding_id w \<and> ho_status h = s \<and> ho_user_id h = nw_user_id w"
    using H [of "?g h"] h(2) by (intro bexI [of _ "?g h"]) (auto simp: locks_def)
  have ids: "map nw_id (nft_withdrawal_requests ?d) = map nw_id (nft_withdrawal_requests db)"
    unfolding rows by (rule map_key_upd_row) (rule f(1))
  have keys: "map ho_id (nft_holdings ?d) = map ho_id (nft_holdings db)"
    "map ho_key (nft_holdings ?d) = map ho_key (nft_holdings db)"
    unfolding hs by (auto simp: upd_row_def ho_key_def)
  have O: "x \<in> set (open_requests ?d) \<longleftrightarrow> x \<in> set (open_requests db) \<and> nw_id x \<noteq> nw_id w" for x
    using R f(2) by (auto simp: open_requests_def)
  have opens: "open_requests ?d = filter (\<lambda>x. nw_id x \<noteq> nw_id w) (open_requests db)"
  proof -
    have gen: "filter (\<lambda>w. nw_open (nw_status w)) (map g xs) = filter (\<lambda>x. nw_id x \<noteq> nw_id w)
        (filter (\<lambda>w. nw_open (nw_status w)) xs)"
      if "\<forall>x \<in> set xs. if nw_id x = nw_id w then \<not> nw_open (nw_status (g x)) else g x = x" for g xs
      using that by (induction xs) auto
    show ?thesis unfolding open_requests_def rows upd_row_def
      by (rule gen) (use f(2) in \<open>auto dest: nw_row_unique [OF ok w(1)]\<close>)
  qed
  have "\<exists>y \<in> set (nft_holdings ?d). locks x y" if x: "x \<in> set (open_requests ?d)" for x
  proof -
    have x': "x \<in> set (nft_withdrawal_requests db)" "nw_open (nw_status x)" "nw_id x \<noteq> nw_id w"
      using x O by (auto simp: open_requests_def)
    obtain y where y: "y \<in> set (nft_holdings db)" "locks x y" using D(6) [OF x'(1,2)] by blast
    have "nw_nft_holding_id x \<noteq> nw_nft_holding_id w"
      using open_holding_unique [OF ok w(1) x'(1) w(2) x'(2)] x'(3) by auto
    then have "ho_id y \<noteq> ho_id h" using y(2) hid by (simp add: locks_def)
    then show ?thesis using H y by auto
  qed
  moreover have "\<exists>x \<in> set (open_requests ?d). nw_nft_holding_id x = ho_id y"
    if y: "y \<in> set (nft_holdings ?d)" "ho_status y = HoWithdrawing" for y
  proof -
    have y': "y \<in> set (nft_holdings db)" "ho_id y \<noteq> ho_id h" using y s H by auto
    obtain x where x: "x \<in> set (open_requests db)" "nw_nft_holding_id x = ho_id y"
      using ok y'(1) y(2) by (auto simp: nfts_ok_def)
    have "nw_id x \<noteq> nw_id w"
      using nw_row_unique [OF ok w(1), of x] x y'(2) hid by (auto simp: open_requests_def)
    then show ?thesis using x O by blast
  qed
  moreover have "distinct (map nw_nft_holding_id (open_requests ?d))"
    unfolding opens using ok by (intro distinct_map_filter) (simp add: nfts_ok_def)
  moreover have "holdings_ok ?d"
  proof -
    have nx: "next_uuid ?d = next_uuid db" by (simp add: set_holding_status_def update_holding_def update_nw_def)
    have "ho_id y < next_uuid db" if "y \<in> set (nft_holdings ?d)" for y
      using that H ok D(7) [OF h(1)] by (auto simp: nfts_ok_def holdings_ok_def)
    then show ?thesis
      using D(1,2) by (simp only: holdings_ok_def keys nx) blast
  qed
  ultimately show "nfts_ok ?d"
    using ok ids R f(1,3) D(5) [OF w(1)] by (auto simp: nfts_ok_def)
qed

end
