(* ===== verification/Nft_Outbox_Facts.thy ===== *)
theory Nft_Outbox_Facts
  imports Nft_Facts Samples
begin

text \<open>
  The passes of the NFT withdrawal outbox: which nonces a signing pass binds, what a broadcast
  pass sends, on what evidence a confirmation pass decides a request, and that the custody
  invariant of the holdings and the open requests survives all of them.
\<close>

section \<open>Signing\<close>

lemma nfts_ok_nonce: "nfts_ok (set_next_nonce c n db) = nfts_ok db"
  by (simp add: nfts_ok_def holdings_ok_def open_requests_def)

lemma in_claim_pending_withdrawals:
  "w \<in> set (claim_pending_withdrawals db chain batch) \<Longrightarrow>
   w \<in> set (nft_withdrawal_requests db) \<and> nw_status w \<in> {NwRequested, NwApproved}"
  unfolding claim_pending_withdrawals_def using claim_rows by fastforce

lemma sign_pending_withdrawals_shape:
  assumes "sign_pending_withdrawals db client key hot batch = Inr (n, db')"
  obtains (none) "n = 0" "db' = db"
    | (pass) row db1 gas s where "nonce_row db client hot = Inr (row, db1)"
      "for_each (sign_nft_withdrawal client key hot gas)
         (claim_pending_withdrawals db (cl_chain_id client) batch)
         \<lparr>ss_db = db1, ss_next = hw_next_nonce row, ss_signed = 0\<rparr> = Inr s"
      "n = ss_signed s" "db' = ss_db s"
  using assms by (auto simp: sign_pending_withdrawals_def Let_def split: if_splits)

text \<open>
  A signing pass over the NFT withdrawal outbox hands out consecutive nonces of the hot
  wallet: starting no lower than the chain's own count, one per signed request, each bound to
  exactly one request that was not bound before, with the counter advanced by exactly the
  number signed; a request that was already bound keeps its nonce and its signed transaction.
\<close>

theorem sign_nft_withdrawals_nonces:
  assumes ok: "nfts_ok db"
    and s: "sign_pending_withdrawals db client key hot batch = Inr (n, db')" and pos: "0 < n"
  shows "\<exists>start p. cl_pending_nonce client hot = Inr p \<and> p \<le> start \<and>
    next_nonce_of db' (cl_chain_id client) = Some (hot, start + int n) \<and>
    (\<forall>m. start \<le> m \<and> m < start + int n \<longrightarrow>
       (\<exists>!i. nw_binding db i = None \<and> (\<exists>raw. nw_binding db' i = Some (m, raw)))) \<and>
    (\<forall>i b. nw_binding db i = Some b \<longrightarrow> nw_binding db' i = Some b) \<and>
    (\<forall>i m raw. nw_binding db i = None \<and> nw_binding db' i = Some (m, raw) \<longrightarrow>
       start \<le> m \<and> m < start + int n)"
  using s
proof (cases rule: sign_pending_withdrawals_shape)
  case none
  then show ?thesis using pos by simp
next
  case (pass row db1 gas s)
  let ?rs = "claim_pending_withdrawals db (cl_chain_id client) batch"
  note nr = nonce_row_ok [OF pass(1)]
  have rows: "nft_withdrawal_requests db1 = nft_withdrawal_requests db"
    using arg_cong [OF nr(5), of nft_withdrawal_requests] by simp
  then have same: "nw_binding db1 = nw_binding db" by (simp add: nw_binding_def fun_eq_iff binding_def)
  have dist: "distinct (map nw_id ?rs)"
    unfolding claim_pending_withdrawals_def by (rule claim_distinct [OF nfts_ok_D(3) [OF ok]])
  have known: "nw_id ` set ?rs \<subseteq> nw_ids db1"
    using in_claim_pending_withdrawals by (fastforce simp: nw_ids_def rows)
  have unbound: "\<forall>r \<in> set ?rs. nw_binding db1 (nw_id r) = None"
  proof
    fix r assume "r \<in> set ?rs"
    then have r: "r \<in> set (nft_withdrawal_requests db)" "nw_status r \<in> {NwRequested, NwApproved}"
      using in_claim_pending_withdrawals by blast+
    have "nw_bound r = None" using nfts_ok_D(4) [OF ok r(1)] r(2) by (auto simp: nw_signed_ok_def)
    then show "nw_binding db1 (nw_id r) = None"
      using binding_distinct [OF nfts_ok_D(3) [OF ok] r(1), of nw_bound] by (simp add: nw_binding_def rows)
  qed
  obtain p where p: "cl_pending_nonce client hot = Inr p" "p \<le> hw_next_nonce row"
    using nr(1,2) by blast
  have counter: "next_nonce_of db1 (cl_chain_id client) = Some (hot, hw_next_nonce row)"
    by (simp add: nr(4))
  show ?thesis
    using nft_withdrawer.signing_pass [OF pass(2) dist known unbound counter] pass(3,4) p same
    by (intro exI [of _ "hw_next_nonce row"] exI [of _ p]) simp
qed

text \<open>Signing keeps the custody invariant: a claimed request stays open and keeps its lock.\<close>

definition keeps_lock :: "(nft_withdrawal_request \<Rightarrow> nft_withdrawal_request) \<Rightarrow> bool" where
  "keeps_lock f \<longleftrightarrow> (\<forall>w. nw_id (f w) = nw_id w \<and> nw_nft_holding_id (f w) = nw_nft_holding_id w \<and>
     nw_user_id (f w) = nw_user_id w \<and> nw_key (f w) = nw_key w)"

lemma nw_pass_row:
  assumes ok: "nfts_ok db" and w: "w \<in> set (nft_withdrawal_requests db)" and f: "keeps_lock f"
    and st: "nw_open (nw_status (f w)) = nw_open (nw_status w)" "nw_signed_ok (f w)"
  shows "nfts_ok (update_nw (nw_id w) f db)"
    and "f w \<in> set (nft_withdrawal_requests (update_nw (nw_id w) f db))"
    and "\<And>x. x \<in> set (nft_withdrawal_requests db) \<Longrightarrow> nw_id x \<noteq> nw_id w \<Longrightarrow>
      x \<in> set (nft_withdrawal_requests (update_nw (nw_id w) f db))"
proof -
  have f': "nw_id (f v) = nw_id v" "nw_nft_holding_id (f v) = nw_nft_holding_id v"
    "nw_user_id (f v) = nw_user_id v" "nw_key (f v) = nw_key v" for v
    using f by (simp_all add: keeps_lock_def)
  show "nfts_ok (update_nw (nw_id w) f db)" by (rule nfts_ok_request [OF ok w f' st])
  show "f w \<in> set (nft_withdrawal_requests (update_nw (nw_id w) f db))"
    "\<And>x. x \<in> set (nft_withdrawal_requests db) \<Longrightarrow> nw_id x \<noteq> nw_id w \<Longrightarrow>
      x \<in> set (nft_withdrawal_requests (update_nw (nw_id w) f db))"
    using in_update_nw [OF ok w, of _ f] by simp_all
qed

lemma sign_nft_withdrawal_ok:
  assumes ok: "nfts_ok (ss_db s)" and r: "r \<in> set (nft_withdrawal_requests (ss_db s))"
    "nw_status r \<in> {NwRequested, NwApproved}" and b: "sign_nft_withdrawal client key hot gas r s = Inr s'"
  shows "nfts_ok (ss_db s')"
    and "\<And>x. x \<in> set (nft_withdrawal_requests (ss_db s)) \<Longrightarrow> nw_id x \<noteq> nw_id r \<Longrightarrow>
      x \<in> set (nft_withdrawal_requests (ss_db s'))"
    and "\<exists>r' \<in> set (nft_withdrawal_requests (ss_db s')). nw_id r' = nw_id r"
proof -
  let ?a = "\<lambda>w. w\<lparr>nw_attempts := nw_attempts w + 1\<rparr>"
  let ?f = "\<lambda>(tx :: signed_tx) w. w\<lparr>nw_signed_tx := Some (stx_raw tx), nw_tx_hash := Some (stx_tx_hash tx),
    nw_nonce := Some (ss_next s), nw_status := NwSigning\<rparr>"
  let ?att = "update_nw (nw_id r) ?a (ss_db s)"
  have so: "nw_signed_ok (?a r)" using nfts_ok_D(4) [OF ok r(1)] by (simp add: nw_signed_ok_def)
  have kl: "keeps_lock ?a" "keeps_lock (?f tx)" for tx by (simp_all add: keeps_lock_def nw_key_def)
  note A = nw_pass_row [OF ok r(1) kl(1) _ so, simplified]
  have st: "nw_open (nw_status (?f tx (?a r))) = nw_open (nw_status (?a r))" "nw_signed_ok (?f tx (?a r))" for tx
    using r(2) by (auto simp: nw_signed_ok_def)
  note S = nw_pass_row [OF A(1,2) kl(2) st, simplified]
  consider (skip) "s' = s\<lparr>ss_db := ?att\<rparr>"
    | (sign) tx where "s' = \<lparr>ss_db = set_next_nonce (cl_chain_id client) (ss_next s + 1)
        (update_nw (nw_id r) (?f tx) ?att), ss_next = ss_next s + 1, ss_signed = Suc (ss_signed s)\<rparr>"
    using b by (auto simp: sign_nft_withdrawal_def Let_def split: sum.splits)
  note cases = this
  show "nfts_ok (ss_db s')" using cases by cases (simp_all add: A S nfts_ok_nonce)
  show "x \<in> set (nft_withdrawal_requests (ss_db s'))"
    if "x \<in> set (nft_withdrawal_requests (ss_db s))" "nw_id x \<noteq> nw_id r" for x
    using cases A(3) [OF that] S(3) [of x] that by cases simp_all
  show "\<exists>r' \<in> set (nft_withdrawal_requests (ss_db s')). nw_id r' = nw_id r"
    using cases
  proof cases
    case skip
    then show ?thesis using A(2) by (intro bexI [of _ "?a r"]) simp_all
  next
    case (sign tx)
    then show ?thesis using S(2) [of tx] by (intro bexI [of _ "?f tx (?a r)"]) simp_all
  qed
qed

interpretation nft_sign_pass: row_worker "sign_nft_withdrawal client key hot gas"
    "\<lambda>s. nft_withdrawal_requests (ss_db s)" nw_id "\<lambda>w. nw_status w \<in> {NwRequested, NwApproved}"
    "\<lambda>s. nfts_ok (ss_db s)" "\<lambda>_ _ _. True" for client key hot gas
proof
  fix t t' r x
  assume p: "nfts_ok (ss_db t)" "r \<in> set (nft_withdrawal_requests (ss_db t))" "nw_status r \<in> {NwRequested, NwApproved}"
    "sign_nft_withdrawal client key hot gas r t = Inr t'"
  show "nfts_ok (ss_db t')" by (rule sign_nft_withdrawal_ok(1) [OF p])
  show "x \<in> set (nft_withdrawal_requests (ss_db t))
    \<Longrightarrow> nw_id x \<noteq> nw_id r \<Longrightarrow> x \<in> set (nft_withdrawal_requests (ss_db t'))"
    by (rule sign_nft_withdrawal_ok(2) [OF p])
  show "\<exists>r' \<in> set (nft_withdrawal_requests (ss_db t')). nw_id r' = nw_id r \<and> True"
    using sign_nft_withdrawal_ok(3) [OF p] by simp
qed simp

lemma sign_pending_withdrawals_ok:
  assumes ok: "nfts_ok db" and s: "sign_pending_withdrawals db client key hot batch = Inr (n, db')"
  shows "nfts_ok db'"
  using s
proof (cases rule: sign_pending_withdrawals_shape)
  case none
  then show ?thesis using ok by simp
next
  case (pass row db1 gas s)
  let ?rs = "claim_pending_withdrawals db (cl_chain_id client) batch"
  note nr = nonce_row_ok(5) [OF pass(1)]
  have rows: "nft_withdrawal_requests db1 = nft_withdrawal_requests db" "nft_holdings db1 = nft_holdings db"
    "next_uuid db1 = next_uuid db"
    using arg_cong [OF nr, of nft_withdrawal_requests] arg_cong [OF nr, of nft_holdings]
      arg_cong [OF nr, of next_uuid] by simp_all
  then have ok1: "nfts_ok db1" using ok by (simp add: nfts_ok_def holdings_ok_def open_requests_def)
  have dist: "distinct (map nw_id ?rs)"
    unfolding claim_pending_withdrawals_def by (rule claim_distinct [OF nfts_ok_D(3) [OF ok]])
  have "nfts_ok (ss_db s)"
    by (rule nft_sign_pass.pass(1) [OF pass(2)])
      (use ok1 nfts_ok_D(3) [OF ok1] dist in_claim_pending_withdrawals in \<open>auto simp: rows\<close>)
  then show ?thesis using pass(4) by simp
qed

section \<open>Broadcasting\<close>

lemma broadcast_nft_withdrawal_ok:
  assumes ok: "nfts_ok (bs_db s)" and r: "r \<in> set (nft_withdrawal_requests (bs_db s))"
    "nw_status r = NwSigning" and b: "broadcast_nft_withdrawal client r s = Inr s'"
  shows "nfts_ok (bs_db s')"
    and "\<And>x. x \<in> set (nft_withdrawal_requests (bs_db s)) \<Longrightarrow> nw_id x \<noteq> nw_id r \<Longrightarrow>
      x \<in> set (nft_withdrawal_requests (bs_db s'))"
    and "\<exists>r' \<in> set (nft_withdrawal_requests (bs_db s')). nw_id r' = nw_id r"
proof -
  let ?f = "\<lambda>h w. w\<lparr>nw_tx_hash := Some h, nw_status := NwBroadcast\<rparr>"
  have kl: "keeps_lock (?f h)" for h by (simp add: keeps_lock_def nw_key_def)
  have st: "nw_open (nw_status (?f h r)) = nw_open (nw_status r)" "nw_signed_ok (?f h r)" for h
    using nfts_ok_D(4) [OF ok r(1)] r(2) by (simp_all add: nw_signed_ok_def)
  note U = nw_pass_row [OF ok r(1) kl st, simplified]
  consider "bs_db s' = bs_db s" | h where "bs_db s' = update_nw (nw_id r) (?f h) (bs_db s)"
    using b by (auto simp: broadcast_nft_withdrawal_def Let_def split: option.splits sum.splits if_splits)
  note cases = this
  show "nfts_ok (bs_db s')" using cases by cases (simp_all add: ok U)
  show "x \<in> set (nft_withdrawal_requests (bs_db s'))"
    if "x \<in> set (nft_withdrawal_requests (bs_db s))" "nw_id x \<noteq> nw_id r" for x
    using cases U(3) [OF that] that by cases simp_all
  show "\<exists>r' \<in> set (nft_withdrawal_requests (bs_db s')). nw_id r' = nw_id r"
    using cases
  proof cases
    case 1
    then show ?thesis using r(1) by auto
  next
    case (2 h)
    then show ?thesis using U(2) [of h] by (intro bexI [of _ "?f h r"]) simp_all
  qed
qed

interpretation nft_send_pass: row_worker "broadcast_nft_withdrawal client"
    "\<lambda>s. nft_withdrawal_requests (bs_db s)" nw_id "\<lambda>w. nw_status w = NwSigning"
    "\<lambda>s. nfts_ok (bs_db s)" "\<lambda>_ _ _. True" for client
proof
  fix t t' r x
  assume p: "nfts_ok (bs_db t)" "r \<in> set (nft_withdrawal_requests (bs_db t))" "nw_status r = NwSigning"
    "broadcast_nft_withdrawal client r t = Inr t'"
  show "nfts_ok (bs_db t')" by (rule broadcast_nft_withdrawal_ok(1) [OF p])
  show "x \<in> set (nft_withdrawal_requests (bs_db t))
    \<Longrightarrow> nw_id x \<noteq> nw_id r \<Longrightarrow> x \<in> set (nft_withdrawal_requests (bs_db t'))"
    by (rule broadcast_nft_withdrawal_ok(2) [OF p])
  show "\<exists>r' \<in> set (nft_withdrawal_requests (bs_db t')). nw_id r' = nw_id r \<and> True"
    using broadcast_nft_withdrawal_ok(3) [OF p] by simp
qed simp

lemma signing_withdrawals_rows:
  "w \<in> set (signing_withdrawals db chain) \<longleftrightarrow>
     w \<in> set (nft_withdrawal_requests db) \<and> nw_chain_id w = chain \<and> nw_status w = NwSigning"
  by (auto simp: signing_withdrawals_def)

lemma signing_withdrawals_distinct:
  "nfts_ok db \<Longrightarrow> distinct (map nw_id (signing_withdrawals db chain))"
  using distinct_map_filter [OF nfts_ok_D(3)] by (auto simp: signing_withdrawals_def distinct_map)

lemma broadcast_nft_withdrawal_sends:
  "broadcast_nft_withdrawal client r s = Inr s' \<Longrightarrow>
   bs_sent s' = bs_sent s @ (case nw_signed_tx r of None \<Rightarrow> [] | Some x \<Rightarrow> [x])"
  by (auto simp: broadcast_nft_withdrawal_def Let_def split: option.splits sum.splits if_splits)

text \<open>
  A broadcast pass over the NFT withdrawal outbox hands the network exactly the raw
  transactions stored when the requests were signed, in the order of their nonces, and changes
  no request's nonce or stored transaction, so a pass after a crash sends the same bytes
  again; the lock of every open request stays in place.
\<close>

theorem nft_broadcast_resends_identical:
  assumes ok: "nfts_ok db" and b: "broadcast_signed_withdrawals db client = Inr s"
  shows "bs_sent s = raws_of nw_signed_tx (signing_withdrawals db (cl_chain_id client)) \<and>
    sorted (map (\<lambda>w. nonce_order (nw_nonce w)) (signing_withdrawals db (cl_chain_id client))) \<and>
    nw_binding (bs_db s) = nw_binding db \<and> nfts_ok (bs_db s)"
proof -
  let ?rs = "signing_withdrawals db (cl_chain_id client)"
  have l: "for_each (broadcast_nft_withdrawal client) ?rs \<lparr>bs_db = db, bs_count = 0, bs_sent = []\<rparr> = Inr s"
    using b by (simp add: broadcast_signed_withdrawals_def)
  have "nfts_ok (bs_db s)"
    by (rule nft_send_pass.pass(1) [OF l])
      (use ok nfts_ok_D(3) [OF ok] signing_withdrawals_distinct [OF ok] in
        \<open>auto simp: signing_withdrawals_rows\<close>)
  moreover have "bs_sent s = raws_of nw_signed_tx ?rs"
    using broadcast_all [OF l broadcast_nft_withdrawal_sends] by simp
  moreover have "nw_binding (bs_db s) = nw_binding db" using nft_withdrawer_send.pass_keeps [OF l] by simp
  moreover have "sorted (map (\<lambda>w. nonce_order (nw_nonce w)) ?rs)" by (simp add: signing_withdrawals_def)
  ultimately show ?thesis by blast
qed

section \<open>Confirmation\<close>

text \<open>The holding a request was about, with a status, in the requester's name.\<close>

definition holding_of :: "db \<Rightarrow> nft_withdrawal_request \<Rightarrow> nft_holding_status \<Rightarrow> bool" where
  "holding_of db w s \<longleftrightarrow> (\<exists>h \<in> set (nft_holdings db). ho_id h = nw_nft_holding_id w \<and>
     ho_status h = s \<and> ho_user_id h = nw_user_id w)"

definition nw_outcome ::
  "chain_client \<Rightarrow> int \<Rightarrow> int \<Rightarrow> string option \<Rightarrow> db \<Rightarrow> nft_withdrawal_request \<Rightarrow>
   nft_withdrawal_request \<Rightarrow> bool" where
  "nw_outcome client head c hot db w w' \<longleftrightarrow> nw_id w' = nw_id w \<and> nw_bound w' = nw_bound w \<and>
     nw_nft_holding_id w' = nw_nft_holding_id w \<and> nw_user_id w' = nw_user_id w \<and>
     (nw_status w' = NwBroadcast \<or>
      nw_status w' = NwConfirmed \<and> executed client head c (nw_tx_hash w) (\<lambda>s. s = 1) \<and>
        holding_of db w HoWithdrawn \<or>
      nw_status w' = NwFailed \<and> holding_of db w HoHeld \<and>
        (executed client head c (nw_tx_hash w) (\<lambda>s. s \<noteq> 1) \<or>
         replaced client head c hot (nw_tx_hash w) (nw_nonce w) (nw_unmined_since_block w)))"

lemma confirm_nft_withdrawal_cases:
  assumes "confirm_nft_withdrawal client head c hot r (db, n) = Inr (db', n')"
  obtains (keep) "db' = db"
    | (marker) m where "db' = set_nw_unmined m r db"
    | (settled) "executed client head c (nw_tx_hash r) (\<lambda>s. s = 1)"
        "db' = update_nw (nw_id r) (\<lambda>w. w\<lparr>nw_status := NwConfirmed\<rparr>)
          (mark_withdrawn r (set_nw_unmined None r db))"
    | (reverted) "executed client head c (nw_tx_hash r) (\<lambda>s. s \<noteq> 1)"
        "db' = fail_and_release r ''transaction reverted on-chain'' (set_nw_unmined None r db)"
    | (dropped) "replaced client head c hot (nw_tx_hash r) (nw_nonce r) (nw_unmined_since_block r)"
        "db' = fail_and_release r ''transaction dropped (nonce superseded)'' db"
proof (cases "nw_tx_hash r")
  case None
  then show ?thesis using assms keep by (simp add: confirm_nft_withdrawal_def)
next
  case (Some h)
  then obtain rc where rc: "cl_get_receipt client h = Inr rc"
    using assms by (auto simp: confirm_nft_withdrawal_def)
  show ?thesis
  proof (cases rc)
    case None
    then obtain g where g: "unmined_gate client hot (nw_nonce r) (nw_unmined_since_block r) head c = Inr g"
      using assms Some rc by (auto simp: confirm_nft_withdrawal_def reconcile_unmined_withdrawal_def)
    show ?thesis
      using assms Some rc None g keep marker dropped replacedI [OF Some, of client hot]
      by (cases g) (auto simp: confirm_nft_withdrawal_def reconcile_unmined_withdrawal_def)
  next
    case (Some t)
    then obtain fin where fin: "receipt_final client head c t = Inr fin"
      using assms \<open>nw_tx_hash r = Some h\<close> rc by (auto simp: confirm_nft_withdrawal_def Let_def)
    note E = executedI [OF \<open>nw_tx_hash r = Some h\<close> rc [unfolded Some], of head c]
    show ?thesis
      using assms Some \<open>nw_tx_hash r = Some h\<close> rc fin marker settled reverted E
      by (auto simp: confirm_nft_withdrawal_def Let_def split: if_splits)
  qed
qed

text \<open>
  What closing a request leaves behind, with the other requests and the holdings of other
  requests untouched.
\<close>

lemma close_request:
  assumes ok: "nfts_ok db" and w: "w \<in> set (nft_withdrawal_requests db)" "nw_open (nw_status w)"
    and f: "keeps_lock f" "\<not> nw_open (nw_status (f w))" "nw_signed_ok (f w)" and s: "s \<noteq> HoWithdrawing"
    and d: "db' = update_nw (nw_id w) f (set_holding_status (nw_nft_holding_id w) s db)"
  shows "nfts_ok db'" and "holding_of db' w s" and "f w \<in> set (nft_withdrawal_requests db')"
    and "\<And>x. x \<in> set (nft_withdrawal_requests db) \<Longrightarrow> nw_id x \<noteq> nw_id w \<Longrightarrow>
      x \<in> set (nft_withdrawal_requests db')"
    and "\<And>h. h \<in> set (nft_holdings db) \<Longrightarrow> ho_status h \<noteq> HoWithdrawing \<Longrightarrow> h \<in> set (nft_holdings db')"
proof -
  have f': "nw_id (f v) = nw_id v" for v using f(1) by (simp add: keeps_lock_def)
  note C = nfts_ok_close [OF ok w f' f(2,3) s]
  show "nfts_ok db'" "holding_of db' w s" using C by (simp_all add: d holding_of_def)
  have R: "x \<in> set (nft_withdrawal_requests db') \<longleftrightarrow>
      x = f w \<or> x \<in> set (nft_withdrawal_requests db) \<and> nw_id x \<noteq> nw_id w" for x
    using in_update_nw [OF ok w(1), of x f] by (simp add: d update_nw_def set_holding_status_def update_holding_def)
  show "f w \<in> set (nft_withdrawal_requests db')" "\<And>x. x \<in> set (nft_withdrawal_requests db) \<Longrightarrow>
      nw_id x \<noteq> nw_id w \<Longrightarrow> x \<in> set (nft_withdrawal_requests db')"
    by (simp_all add: R)
  obtain l where l: "l \<in> set (nft_holdings db)" "locks w l" using nfts_ok_D(6) [OF ok w] by blast
  show "h \<in> set (nft_holdings db')" if h: "h \<in> set (nft_holdings db)" "ho_status h \<noteq> HoWithdrawing" for h
  proof -
    have "ho_id h \<noteq> ho_id l"
      using h l nfts_ok_D(1) [OF ok] by (auto simp: distinct_map inj_on_def locks_def)
    then show ?thesis
      using h(1) l in_upd_row_unique [OF nfts_ok_D(1) [OF ok] l(1), of h "\<lambda>h. h\<lparr>ho_status := s\<rparr>"]
      by (simp add: d set_holding_status_def update_holding_def locks_def)
  qed
qed

lemma set_nw_unmined_ok:
  assumes ok: "nfts_ok db" and w: "w \<in> set (nft_withdrawal_requests db)"
  shows "nfts_ok (set_nw_unmined m w db)"
    and "w\<lparr>nw_unmined_since_block := m\<rparr> \<in> set (nft_withdrawal_requests (set_nw_unmined m w db))"
    and "\<And>x. x \<in> set (nft_withdrawal_requests db) \<Longrightarrow> nw_id x \<noteq> nw_id w \<Longrightarrow>
      x \<in> set (nft_withdrawal_requests (set_nw_unmined m w db))"
    and "nft_holdings (set_nw_unmined m w db) = nft_holdings db"
proof -
  have kl: "keeps_lock (\<lambda>w. w\<lparr>nw_unmined_since_block := m\<rparr>)" by (simp add: keeps_lock_def nw_key_def)
  have so: "nw_signed_ok (w\<lparr>nw_unmined_since_block := m\<rparr>)"
    using nfts_ok_D(4) [OF ok w] by (simp add: nw_signed_ok_def)
  note U = nw_pass_row [OF ok w kl _ so, simplified]
  show "nfts_ok (set_nw_unmined m w db)"
    "w\<lparr>nw_unmined_since_block := m\<rparr> \<in> set (nft_withdrawal_requests (set_nw_unmined m w db))"
    "\<And>x. x \<in> set (nft_withdrawal_requests db) \<Longrightarrow> nw_id x \<noteq> nw_id w \<Longrightarrow>
      x \<in> set (nft_withdrawal_requests (set_nw_unmined m w db))"
    "nft_holdings (set_nw_unmined m w db) = nft_holdings db"
    using U by (simp_all add: set_nw_unmined_def)
qed

lemma confirm_nft_withdrawal_outcome:
  assumes ok: "nfts_ok db" and r: "r \<in> set (nft_withdrawal_requests db)" "nw_status r = NwBroadcast"
    and b: "confirm_nft_withdrawal client head c hot r (db, n) = Inr (db', n')"
  shows "nfts_ok db'"
    and "\<And>x. x \<in> set (nft_withdrawal_requests db) \<Longrightarrow> nw_id x \<noteq> nw_id r \<Longrightarrow>
      x \<in> set (nft_withdrawal_requests db')"
    and "\<exists>r' \<in> set (nft_withdrawal_requests db'). nw_id r' = nw_id r \<and> nw_outcome client head c hot db' r r'"
    and "\<And>h. h \<in> set (nft_holdings db) \<Longrightarrow> ho_status h \<noteq> HoWithdrawing \<Longrightarrow> h \<in> set (nft_holdings db')"
proof -
  note so = nfts_ok_D(4) [OF ok r(1)]
  have close: "nfts_ok db' \<and> (\<forall>x \<in> set (nft_withdrawal_requests db). nw_id x \<noteq> nw_id r \<longrightarrow>
        x \<in> set (nft_withdrawal_requests db')) \<and>
      (\<exists>r' \<in> set (nft_withdrawal_requests db'). nw_id r' = nw_id r \<and> nw_outcome client head c hot db' r r') \<and>
      (\<forall>h \<in> set (nft_holdings db). ho_status h \<noteq> HoWithdrawing \<longrightarrow> h \<in> set (nft_holdings db'))"
    if d: "d = db \<and> w = r \<or> d = set_nw_unmined None r db \<and> w = r\<lparr>nw_unmined_since_block := None\<rparr>"
      and e: "db' = update_nw (nw_id w) f (set_holding_status (nw_nft_holding_id w) s d)"
      and f: "keeps_lock f" "\<not> nw_open (nw_status (f w))" "nw_signed_ok (f w)" "s \<noteq> HoWithdrawing"
      and out: "holding_of db' r s \<Longrightarrow> nw_outcome client head c hot db' r (f w)" for d w f s
  proof -
    have D: "nfts_ok d" "w \<in> set (nft_withdrawal_requests d)" "nw_open (nw_status w)" "nw_id w = nw_id r"
      "nw_nft_holding_id w = nw_nft_holding_id r" "nw_user_id w = nw_user_id r"
      "\<And>x. x \<in> set (nft_withdrawal_requests db) \<Longrightarrow> nw_id x \<noteq> nw_id r \<Longrightarrow> x \<in> set (nft_withdrawal_requests d)"
      "nft_holdings d = nft_holdings db"
      using d ok r set_nw_unmined_ok [OF ok r(1), where m = None] by auto
    note C = close_request [OF D(1-3) f e]
    have "holding_of db' r s" using C(2) D(5,6) by (simp add: holding_of_def)
    from out [OF this] show ?thesis
      using C(1,3-5) D(4,7,8) by (auto simp: nw_outcome_def)
  qed
  have "nfts_ok db' \<and> (\<forall>x \<in> set (nft_withdrawal_requests db). nw_id x \<noteq> nw_id r \<longrightarrow>
        x \<in> set (nft_withdrawal_requests db')) \<and>
      (\<exists>r' \<in> set (nft_withdrawal_requests db'). nw_id r' = nw_id r \<and> nw_outcome client head c hot db' r r') \<and>
      (\<forall>h \<in> set (nft_holdings db). ho_status h \<noteq> HoWithdrawing \<longrightarrow> h \<in> set (nft_holdings db'))"
    using b
  proof (cases rule: confirm_nft_withdrawal_cases)
    case keep
    then show ?thesis using ok r by (auto simp: nw_outcome_def)
  next
    case (marker m)
    note U = set_nw_unmined_ok [OF ok r(1), where m = m]
    have "nw_outcome client head c hot db' r (r\<lparr>nw_unmined_since_block := m\<rparr>)"
      by (simp add: nw_outcome_def r(2))
    then show ?thesis using U marker by (auto intro!: bexI [of _ "r\<lparr>nw_unmined_since_block := m\<rparr>"])
  next
    case settled
    show ?thesis
      by (rule close [OF disjI2, OF conjI, OF refl refl])
        (use settled so r(2) in \<open>auto simp: mark_withdrawn_def keeps_lock_def nw_key_def nw_signed_ok_def nw_outcome_def\<close>)
  next
    case reverted
    show ?thesis
      by (rule close [OF disjI2, OF conjI, OF refl refl])
        (use reverted so r(2) in \<open>auto simp: fail_and_release_def keeps_lock_def nw_key_def nw_signed_ok_def nw_outcome_def\<close>)
  next
    case dropped
    show ?thesis
      by (rule close [OF disjI1, OF conjI, OF refl refl])
        (use dropped so r(2) in \<open>auto simp: fail_and_release_def keeps_lock_def nw_key_def nw_signed_ok_def nw_outcome_def\<close>)
  qed
  then show "nfts_ok db'"
    and "\<And>x. x \<in> set (nft_withdrawal_requests db) \<Longrightarrow> nw_id x \<noteq> nw_id r \<Longrightarrow>
      x \<in> set (nft_withdrawal_requests db')"
    and "\<exists>r' \<in> set (nft_withdrawal_requests db'). nw_id r' = nw_id r \<and> nw_outcome client head c hot db' r r'"
    and "\<And>h. h \<in> set (nft_holdings db) \<Longrightarrow> ho_status h \<noteq> HoWithdrawing \<Longrightarrow> h \<in> set (nft_holdings db')"
    by blast+
qed

interpretation nft_confirm_pass: row_worker "confirm_nft_withdrawal client head c hot"
    "\<lambda>s. nft_withdrawal_requests (fst s)" nw_id "\<lambda>w. nw_status w = NwBroadcast"
    "\<lambda>s. nfts_ok (fst s)" "\<lambda>s. nw_outcome client head c hot (fst s)" for client head c hot
proof
  fix t t' :: "db \<times> nat" and r x x'
  assume ok: "nfts_ok (fst t)" and r: "r \<in> set (nft_withdrawal_requests (fst t))" "nw_status r = NwBroadcast"
    and b: "confirm_nft_withdrawal client head c hot r t = Inr t'"
  have b': "confirm_nft_withdrawal client head c hot r (fst t, snd t) = Inr (fst t', snd t')" using b by simp
  note C = confirm_nft_withdrawal_outcome [OF ok r b']
  show "nfts_ok (fst t')" by (rule C(1))
  show "x \<in> set (nft_withdrawal_requests (fst t))
    \<Longrightarrow> nw_id x \<noteq> nw_id r \<Longrightarrow> x \<in> set (nft_withdrawal_requests (fst t'))"
    by (rule C(2))
  show "\<exists>r' \<in> set (nft_withdrawal_requests (fst t')). nw_id r' = nw_id r \<and>
      nw_outcome client head c hot (fst t') r r'" by (rule C(3))
  have "holding_of (fst t) x s \<Longrightarrow> s \<noteq> HoWithdrawing \<Longrightarrow> holding_of (fst t') x s" for s
    using C(4) unfolding holding_of_def by metis
  then show "nw_outcome client head c hot (fst t) x x' \<Longrightarrow> nw_outcome client head c hot (fst t') x x'"
    by (auto simp: nw_outcome_def)
qed

text \<open>
  C22: A confirmation pass over the NFT withdrawal outbox decides each broadcast request on the
  chain's evidence only. A request becomes confirmed, and its token withdrawn, only when its
  transaction succeeded in a canonical block under the required confirmations; it becomes
  failed, and its token is the requester's to use again, only when such a final receipt is a
  revert, or when the transaction has no receipt and its nonce has been used up for at least
  that many blocks; otherwise it stays broadcast. All other requests stay as they are, and the
  open requests and the locked tokens still match one to one.
\<close>

theorem nft_confirm_decides_on_evidence:
  assumes ok: "nfts_ok db" and hd: "cl_block_number client = Inr head"
    and b: "confirm_withdrawals db client c hot = Inr (n, db')"
  shows "nfts_ok db' \<and>
    (\<forall>w \<in> set (nft_withdrawal_requests db). \<exists>w' \<in> set (nft_withdrawal_requests db').
       if nw_status w = NwBroadcast \<and> nw_chain_id w = cl_chain_id client
       then nw_outcome client head c hot db' w w' else w' = w)"
proof -
  let ?rs = "broadcast_withdrawals db (cl_chain_id client)"
  have l: "for_each (confirm_nft_withdrawal client head c hot) ?rs (db, 0) = Inr (db', n)"
    using b hd by (auto simp: confirm_withdrawals_def split: prod.splits)
  note dist = nfts_ok_D(3) [OF ok]
  have rs: "set ?rs \<subseteq> set (nft_withdrawal_requests (fst (db, 0 :: nat)))"
    "\<forall>r \<in> set ?rs. nw_status r = NwBroadcast" "distinct (map nw_id ?rs)"
    using distinct_map_filter [OF dist] by (auto simp: broadcast_withdrawals_def)
  note P = nft_confirm_pass.pass [OF l _ _ rs]
  have "\<exists>w' \<in> set (nft_withdrawal_requests db').
       if nw_status w = NwBroadcast \<and> nw_chain_id w = cl_chain_id client
       then nw_outcome client head c hot db' w w' else w' = w"
    if w: "w \<in> set (nft_withdrawal_requests db)" for w
  proof -
    have "w \<in> set ?rs \<longleftrightarrow> nw_status w = NwBroadcast \<and> nw_chain_id w = cl_chain_id client"
      using w by (auto simp: broadcast_withdrawals_def)
    then show ?thesis using P(2) [of w] ok dist w by (auto split: if_splits)
  qed
  then show ?thesis using P(1) ok dist by simp
qed

end
