(* ===== verification/Nft_Runs.thy ===== *)
theory Nft_Runs
  imports Nft_Outbox_Facts
begin

text \<open>
  The NFT properties on a concrete run: Alice holds a token, gives it to Bob or withdraws it;
  the withdrawal is signed, broadcast and confirmed.
\<close>

definition demo_nft_db :: db where
  "demo_nft_db = demo_db\<lparr>nft_holdings := [\<lparr>ho_id = 15, ho_user_id = 1, ho_chain_id = 31337,
     ho_contract = addr (CHR ''c''), ho_token_id = ''7'', ho_status = HoHeld, ho_acquired_at = 0\<rparr>]\<rparr>"

definition demo_nft_withdraw :: nft_withdraw_request where
  "demo_nft_withdraw = \<lparr>nq_user = alice, nq_nft_id = 15, nq_to_address = addr (CHR ''b''), nq_key = ''w''\<rparr>"

definition demo_given :: db where
  "demo_given = snd (projr (transfer_nft demo_nft_db alice ''bob@kasa.dev'' 15 ''t''))"

definition demo_locked :: db where
  "demo_locked = snd (projr (serve_nft_withdrawal Inr default_settings demo_nft_withdraw demo_nft_db))"

definition demo_nft_signed :: db where
  "demo_nft_signed =
     snd (projr (sign_pending_withdrawals demo_locked demo_client ''key'' ''hot'' NFT_DEFAULT_BATCH))"

definition demo_nft_sent :: broadcast_state where
  "demo_nft_sent = projr (broadcast_signed_withdrawals demo_nft_signed demo_client)"

definition demo_nft_gone :: db where
  "demo_nft_gone = snd (projr (confirm_withdrawals (bs_db demo_nft_sent) demo_client 12 (Some ''hot'')))"

lemma demo_given_runs:
  "transfer_nft demo_nft_db alice ''bob@kasa.dev'' 15 ''t'' = Inr ((20, TrConfirmed), demo_given)"
  by code_simp

lemma demo_locked_runs:
  "serve_nft_withdrawal Inr default_settings demo_nft_withdraw demo_nft_db = Inr ((21, NwRequested), demo_locked)"
  by code_simp

lemma demo_request_locked_runs:
  "request_nft_withdrawal Inr default_settings demo_nft_db alice 15 (addr (CHR ''b'')) ''w'' =
     Inr ((21, NwRequested), demo_locked)"
  using demo_locked_runs by (simp add: serve_nft_withdrawal_def demo_nft_withdraw_def)

lemma demo_nft_signed_runs:
  "sign_pending_withdrawals demo_locked demo_client ''key'' ''hot'' NFT_DEFAULT_BATCH = Inr (1, demo_nft_signed)"
  by code_simp

lemma demo_nft_sent_runs: "broadcast_signed_withdrawals demo_nft_signed demo_client = Inr demo_nft_sent"
  by code_simp

lemma demo_nft_gone_runs:
  "confirm_withdrawals (bs_db demo_nft_sent) demo_client 12 (Some ''hot'') = Inr (1, demo_nft_gone)"
  by code_simp

lemma demo_nfts_ok: "nfts_ok demo_nft_db"
  by code_simp

lemma demo_locked_ok: "nfts_ok demo_locked"
  by code_simp

lemma demo_nft_signed_ok: "nfts_ok demo_nft_signed"
  by (rule sign_pending_withdrawals_ok [OF demo_locked_ok demo_nft_signed_runs])

lemma demo_nft_sent_ok: "nfts_ok (bs_db demo_nft_sent)"
  by code_simp

theorem nft_transfer_moves_ownership_witness:
  "nfts_ok demo_given \<and> owner_of demo_nft_db 15 = Some 1 \<and> owner_of demo_given 15 = Some 2"
proof -
  have "owner_of demo_nft_db 15 = Some 1" "owner_of demo_given 15 = Some 2" by code_simp+
  then show ?thesis using nft_transfer_moves_ownership [OF demo_nfts_ok demo_given_runs] by blast
qed

theorem nft_withdrawal_locks_token_witness:
  "nfts_ok demo_locked \<and> owner_of demo_locked = owner_of demo_nft_db \<and>
     status_of demo_locked 15 = Some HoWithdrawing"
proof -
  have "status_of demo_locked 15 = Some HoWithdrawing" by code_simp
  then show ?thesis using nft_withdrawal_locks_token [OF demo_nfts_ok demo_request_locked_runs] by blast
qed


theorem nft_withdrawal_retry_repeats_answer_witness:
  "serve_nft_withdrawal Inr default_settings demo_nft_withdraw demo_locked = Inr ((21, NwRequested), demo_locked)"
  using nft_withdrawal_retry_repeats_answer [OF demo_nfts_ok demo_locked_runs, of "[]" demo_locked] by simp

theorem sign_nft_withdrawals_nonces_witness:
  "\<exists>start. 7 \<le> start \<and> next_nonce_of demo_nft_signed 31337 = Some (''hot'', start + 1)"
proof -
  have "cl_chain_id demo_client = 31337" "cl_pending_nonce demo_client ''hot'' = Inr 7"
    by (simp_all add: demo_client_def)
  then show ?thesis using sign_nft_withdrawals_nonces [OF demo_locked_ok demo_nft_signed_runs] by auto
qed

theorem nft_broadcast_resends_identical_witness:
  "bs_sent demo_nft_sent = [''raw7''] \<and> nw_binding (bs_db demo_nft_sent) = nw_binding demo_nft_signed"
proof -
  have "raws_of nw_signed_tx (signing_withdrawals demo_nft_signed (cl_chain_id demo_client)) = [''raw7'']"
    by code_simp
  then show ?thesis
    using nft_broadcast_resends_identical [OF demo_nft_signed_ok demo_nft_sent_runs] by simp
qed

theorem nft_confirm_decides_on_evidence_witness:
  "nfts_ok demo_nft_gone \<and> map nw_status (nft_withdrawal_requests demo_nft_gone) = [NwConfirmed] \<and>
     status_of demo_nft_gone 15 = Some HoWithdrawn"
proof -
  have hd: "cl_block_number demo_client = Inr 100" by (simp add: demo_client_def)
  have "map nw_status (nft_withdrawal_requests demo_nft_gone) = [NwConfirmed]"
    "status_of demo_nft_gone 15 = Some HoWithdrawn" by code_simp+
  then show ?thesis
    using nft_confirm_decides_on_evidence [OF demo_nft_sent_ok hd demo_nft_gone_runs] by simp
qed

end
