(* ===== verification/Nft_Holdings.thy ===== *)
theory Nft_Holdings
  imports Nft_Service
begin

text \<open>
  How the workers create, take over and remove holdings. The session does not flush before a
  query, so a holding added in a pass is not seen by the queries of the same pass: it waits in
  a list until the flush at the end, where the unique index and the foreign keys are checked.
\<close>

section \<open>Operations\<close>

text \<open>An added holding before its flush: owner, chain, contract and token.\<close>

type_synonym pending_holding = "uuid \<times> int \<times> string \<times> string"

fun pending_key :: "pending_holding \<Rightarrow> int \<times> string \<times> string" where
  "pending_key (u, c, k, t) = (c, lower k, t)"

fun pending_owner :: "pending_holding \<Rightarrow> uuid" where
  "pending_owner (u, c, k, t) = u"

definition find_holding :: "db \<Rightarrow> int \<Rightarrow> string \<Rightarrow> string \<Rightarrow> error + nft_holding option" where
  "find_holding db chain_id contract token_id =
     scalar_one_or_none (filter (\<lambda>h. ho_chain_id h = chain_id \<and> lower (ho_contract h) = lower contract
       \<and> ho_token_id h = token_id) (nft_holdings db))"

text \<open>\<open>_upsert_holding\<close> and \<open>_record_holding\<close>: an existing holding is taken over, else one is added.\<close>

definition put_holding ::
  "uuid \<Rightarrow> int \<Rightarrow> string \<Rightarrow> string \<Rightarrow> db \<times> pending_holding list \<Rightarrow> error + (db \<times> pending_holding list)" where
  "put_holding user_id chain_id contract token_id s =
     (case s of (db, added) \<Rightarrow>
      bind_res (find_holding db chain_id contract token_id) (\<lambda>existing.
      case existing of
        Some h \<Rightarrow> Inr (update_holding (ho_id h) (\<lambda>h. h\<lparr>ho_user_id := user_id, ho_status := HoHeld\<rparr>) db, added)
      | None \<Rightarrow> Inr (db, added @ [(user_id, chain_id, contract, token_id)])))"

fun flush_holding :: "pending_holding \<Rightarrow> db \<Rightarrow> error + db" where
  "flush_holding (user_id, chain_id, contract, token_id) db =
     (if (chain_id, lower contract, token_id) \<in> ho_key ` set (nft_holdings db) then Inl IntegrityError
      else Inr (db\<lparr>nft_holdings := nft_holdings db @ [\<lparr>ho_id = next_uuid db, ho_user_id = user_id,
                    ho_chain_id = chain_id, ho_contract = contract, ho_token_id = token_id,
                    ho_status = HoHeld, ho_acquired_at = db_now db\<rparr>],
                  next_uuid := Suc (next_uuid db)\<rparr>))"

definition flush_holdings :: "pending_holding list \<Rightarrow> db \<Rightarrow> error + db" where
  "flush_holdings added db = for_each flush_holding added db"

section \<open>What a token's holding is during a pass\<close>

text \<open>
  The owner and status by token: of the stored holding, else of the last one added. A flush
  that succeeds changes none of them.
\<close>

definition held_by :: "db \<times> pending_holding list \<Rightarrow> int \<times> string \<times> string \<Rightarrow> (uuid \<times> nft_holding_status) option" where
  "held_by s k = (case find (\<lambda>h. ho_key h = k) (nft_holdings (fst s)) of
      Some h \<Rightarrow> Some (ho_user_id h, ho_status h)
    | None \<Rightarrow> map_option (\<lambda>p. (pending_owner p, HoHeld)) (find (\<lambda>p. pending_key p = k) (rev (snd s))))"

definition holdings_only :: "db \<Rightarrow> db \<Rightarrow> bool" where
  "holdings_only db db' \<longleftrightarrow>
     db' = db\<lparr>nft_holdings := nft_holdings db', next_uuid := next_uuid db'\<rparr> \<and> next_uuid db \<le> next_uuid db'"

lemma holdings_only_refl [simp]: "holdings_only db db"
  by (simp add: holdings_only_def)

lemma holdings_only_trans: "holdings_only a b \<Longrightarrow> holdings_only b c \<Longrightarrow> holdings_only a c"
proof -
  assume "holdings_only a b" "holdings_only b c"
  then have "b = a\<lparr>nft_holdings := nft_holdings b, next_uuid := next_uuid b\<rparr>"
    "c = b\<lparr>nft_holdings := nft_holdings c, next_uuid := next_uuid c\<rparr>" "next_uuid a \<le> next_uuid c"
    by (simp_all add: holdings_only_def)
  then have "c = (a\<lparr>nft_holdings := nft_holdings b, next_uuid := next_uuid b\<rparr>)
      \<lparr>nft_holdings := nft_holdings c, next_uuid := next_uuid c\<rparr>" by metis
  then show ?thesis using \<open>next_uuid a \<le> next_uuid c\<close> by (simp add: holdings_only_def)
qed

lemma holdings_only_fields:
  assumes "holdings_only db db'"
  shows "nft_mint_requests db' = nft_mint_requests db" "nft_deposits db' = nft_deposits db"
    "nft_withdrawal_requests db' = nft_withdrawal_requests db" "next_nonce_of db' = next_nonce_of db"
    "chain_cursors db' = chain_cursors db" "nft_transfers db' = nft_transfers db"
    "nft_sweeps db' = nft_sweeps db" "users db' = users db"
proof -
  note eq = conjunct1 [OF assms [unfolded holdings_only_def]]
  show "nft_mint_requests db' = nft_mint_requests db" using arg_cong [OF eq, of nft_mint_requests] by simp
  show "nft_deposits db' = nft_deposits db" using arg_cong [OF eq, of nft_deposits] by simp
  show "nft_withdrawal_requests db' = nft_withdrawal_requests db"
    using arg_cong [OF eq, of nft_withdrawal_requests] by simp
  show "next_nonce_of db' = next_nonce_of db"
    using arg_cong [OF eq, of next_nonce_of] by (simp add: next_nonce_of_def fun_eq_iff)
  show "chain_cursors db' = chain_cursors db" using arg_cong [OF eq, of chain_cursors] by simp
  show "nft_transfers db' = nft_transfers db" using arg_cong [OF eq, of nft_transfers] by simp
  show "nft_sweeps db' = nft_sweeps db" using arg_cong [OF eq, of nft_sweeps] by simp
  show "users db' = users db" using arg_cong [OF eq, of users] by simp
qed

lemma find_update_key:
  "(\<And>h. ho_key (f h) = ho_key h) \<Longrightarrow>
   find (\<lambda>h. ho_key h = k) (upd_row ho_id i f hs) =
     map_option (\<lambda>h. if ho_id h = i then f h else h) (find (\<lambda>h. ho_key h = k) hs)"
  by (induction hs) (auto simp: upd_row_def)

lemma find_append:
  "find P (xs @ ys) = (case find P xs of Some x \<Rightarrow> Some x | None \<Rightarrow> find P ys)"
  by (induction xs) simp_all

lemma find_Some_in: "find P xs = Some x \<Longrightarrow> x \<in> set xs \<and> P x"
  by (auto simp: find_Some_iff)

lemma find_holding_iff:
  assumes "holdings_ok db"
  shows "find_holding db c k t = Inr (find (\<lambda>h. ho_key h = (c, lower k, t)) (nft_holdings db))"
proof -
  have eq: "(\<lambda>h. ho_chain_id h = c \<and> lower (ho_contract h) = lower k \<and> ho_token_id h = t) =
      (\<lambda>h. ho_key h = (c, lower k, t))"
    by (auto simp: ho_key_def)
  have "scalar_one_or_none (filter (\<lambda>h. ho_key h = K) hs) = Inr (find (\<lambda>h. ho_key h = K) hs)"
    if "distinct (map ho_key hs)" for K hs
    using that by (induction hs) (auto simp: filter_empty_conv image_iff)
  then show ?thesis using assms by (simp add: find_holding_def eq holdings_ok_def)
qed

lemma put_holding_only: "put_holding u c k t s = Inr s' \<Longrightarrow> holdings_only (fst s) (fst s')"
  by (auto simp: put_holding_def holdings_only_def update_holding_def split: prod.splits option.splits)

lemma put_holding_ok:
  assumes ok: "holdings_ok (fst s)" and p: "put_holding u c k t s = Inr s'"
  shows "holdings_ok (fst s')" and "holdings_only (fst s) (fst s')"
    and "held_by s' = (held_by s)((c, lower k, t) \<mapsto> (u, HoHeld))"
proof -
  obtain db added where s: "s = (db, added)" by (cases s)
  let ?K = "(c, lower k, t)" and ?f = "\<lambda>h. h\<lparr>ho_user_id := u, ho_status := HoHeld\<rparr>"
  note fh = find_holding_iff [OF ok, of c k t, unfolded s fst_conv]
  have keyed: "ho_key (?f h) = ho_key h" for h by (simp add: ho_key_def)
  consider (took) h where "find (\<lambda>h. ho_key h = ?K) (nft_holdings db) = Some h"
      "s' = (update_holding (ho_id h) ?f db, added)"
    | (adds) "find (\<lambda>h. ho_key h = ?K) (nft_holdings db) = None" "s' = (db, added @ [(u, c, k, t)])"
    using p fh by (auto simp: put_holding_def s split: option.splits)
  note cases = this
  show "holdings_ok (fst s')" using cases
  proof cases
    case (took h)
    have "\<forall>x \<in> set (upd_row ho_id (ho_id h) ?f (nft_holdings db)). ho_id x < next_uuid db"
      using ok s by (auto simp: holdings_ok_def upd_row_def)
    moreover have "map ho_key (upd_row ho_id i ?f hs) = map ho_key hs" for i hs
      by (simp add: upd_row_def keyed)
    ultimately show ?thesis
      using ok s by (simp add: took(2) holdings_ok_def update_holding_def map_key_upd_row)
  qed (use ok s in simp)
  show "holdings_only (fst s) (fst s')" using cases
    by cases (simp_all add: s holdings_only_def update_holding_def)
  show "held_by s' = (held_by s)(?K \<mapsto> (u, HoHeld))" using cases
  proof cases
    case (took h)
    have other: "ho_id g \<noteq> ho_id h" if "find (\<lambda>h. ho_key h = K) (nft_holdings db) = Some g" "K \<noteq> ?K" for g K
      using find_Some_in [OF that(1)] find_Some_in [OF took(1)] that(2) ok s
      by (auto simp: holdings_ok_def distinct_map inj_on_def)
    show ?thesis
      using took(1) other
      by (auto simp: fun_eq_iff held_by_def took(2) s update_holding_def find_update_key keyed split: option.splits)
  next
    case adds
    then show ?thesis by (auto simp: fun_eq_iff held_by_def s split: option.splits)
  qed
qed

lemma flush_holdings_fresh:
  "for_each flush_holding ps db = Inr db' \<Longrightarrow> pending_key ` set ps \<inter> ho_key ` set (nft_holdings db) = {}"
proof (induction ps arbitrary: db)
  case (Cons p ps)
  obtain u c k t where p: "p = (u, c, k, t)" by (cases p)
  obtain db1 where "flush_holding p db = Inr db1" and l: "for_each flush_holding ps db1 = Inr db'"
    using Cons.prems by auto
  then have "ho_key ` set (nft_holdings db) \<subseteq> ho_key ` set (nft_holdings db1)"
    "pending_key p \<notin> ho_key ` set (nft_holdings db)"
    by (auto simp: p split: if_splits)
  with Cons.IH [OF l] show ?case by (simp only: list.set image_insert) blast
qed simp

lemma flush_holding_ok:
  assumes "flush_holding p db = Inr db'" "holdings_ok db"
  shows "holdings_ok db'" "holdings_only db db'"
    "nft_holdings db' = nft_holdings db @ [last (nft_holdings db')]"
    "ho_key (last (nft_holdings db')) = pending_key p" "ho_user_id (last (nft_holdings db')) = pending_owner p"
    "ho_status (last (nft_holdings db')) = HoHeld" "pending_key p \<notin> ho_key ` set (nft_holdings db)"
proof -
  have lt: "ho_id h < next_uuid db" if "h \<in> set (nft_holdings db)" for h
    using that assms(2) by (simp add: holdings_ok_def)
  then have nu: "next_uuid db \<noteq> ho_id h" if "h \<in> set (nft_holdings db)" for h
    using that by (metis less_irrefl)
  obtain u c k t where p: "p = (u, c, k, t)" by (cases p)
  show "holdings_ok db'" "holdings_only db db'"
    "nft_holdings db' = nft_holdings db @ [last (nft_holdings db')]"
    "ho_key (last (nft_holdings db')) = pending_key p" "ho_user_id (last (nft_holdings db')) = pending_owner p"
    "ho_status (last (nft_holdings db')) = HoHeld" "pending_key p \<notin> ho_key ` set (nft_holdings db)"
    using assms by (auto simp: p holdings_ok_def holdings_only_def ho_key_def image_iff split: if_splits dest: nu intro: lt [THEN less_SucI])
qed

lemma flush_holdings_ok:
  assumes "flush_holdings added db = Inr db'" "holdings_ok db"
  shows "holdings_ok db' \<and> holdings_only db db' \<and> held_by (db', []) = held_by (db, added)"
  using assms unfolding flush_holdings_def
proof (induction added arbitrary: db)
  case (Cons p ps)
  then obtain db1 where b: "flush_holding p db = Inr db1" and l: "for_each flush_holding ps db1 = Inr db'"
    by auto
  note F = flush_holding_ok [OF b Cons.prems(2)]
  let ?h = "last (nft_holdings db1)"
  have fresh: "pending_key p \<notin> pending_key ` set ps"
    using flush_holdings_fresh [OF l] F(3,4) by (metis IntI UnCI empty_iff image_eqI list.set_intros(1) set_append)
  have "held_by (db1, ps) = held_by (db, p # ps)"
  proof
    fix K
    have "find (\<lambda>h. ho_key h = K) (nft_holdings db1) = (case find (\<lambda>h. ho_key h = K) (nft_holdings db) of
        Some h \<Rightarrow> Some h | None \<Rightarrow> if pending_key p = K then Some ?h else None)"
      by (subst F(3)) (auto simp: find_append F(4) split: option.splits)
    moreover have "find (\<lambda>q. pending_key q = K) (rev (p # ps)) = (if pending_key p = K then Some p
        else find (\<lambda>q. pending_key q = K) (rev ps))"
    proof (cases "pending_key p = K")
      case True
      then have "find (\<lambda>q. pending_key q = K) (rev ps) = None"
        using fresh unfolding find_None_iff by (metis image_eqI set_rev)
      then show ?thesis using True by (simp add: find_append)
    qed (simp add: find_append split: option.split)
    ultimately show "held_by (db1, ps) K = held_by (db, p # ps) K"
      using fresh by (auto simp: held_by_def F(5,6) split: option.splits)
  qed
  then show ?case using Cons.IH [OF l F(1)] F(2) holdings_only_trans by metis
qed simp

end
