(* ===== verification/Nft_Minter.thy ===== *)
theory Nft_Minter
  imports Nft_Holdings Bindings
begin

text \<open>
  The mint outbox (\<open>worker/nft_minter.py\<close>): requested mints are signed with nonces of the hot
  wallet, broadcast, and on a final receipt turned into a holding of the requester.
\<close>

section \<open>Operations\<close>

definition MINT_DEFAULT_BATCH :: nat where "MINT_DEFAULT_BATCH = 20"

definition update_mint :: "uuid \<Rightarrow> (nft_mint_request \<Rightarrow> nft_mint_request) \<Rightarrow> db \<Rightarrow> db" where
  "update_mint i f db = db\<lparr>nft_mint_requests := upd_row mi_id i f (nft_mint_requests db)\<rparr>"

definition claim_pending_mints :: "db \<Rightarrow> int \<Rightarrow> nat \<Rightarrow> nft_mint_request list" where
  "claim_pending_mints db chain_id batch =
     take batch (sort_key (\<lambda>w. (mi_created_at w, mi_id w))
       (filter (\<lambda>w. mi_chain_id w = chain_id \<and> mi_status w = MiRequested) (nft_mint_requests db)))"

definition mint_sign ::
  "chain_client \<Rightarrow> nft_mint_request \<Rightarrow> string \<Rightarrow> int \<Rightarrow> int \<Rightarrow> error + signed_tx" where
  "mint_sign client request private_key nonce gas_price =
     cl_sign_erc721_mint client private_key (mi_contract request) (mi_to_address request) nonce gas_price"

text \<open>One iteration of the signing loop: any exception leaves the request for a later pass.\<close>

definition sign_mint ::
  "chain_client \<Rightarrow> string \<Rightarrow> int \<Rightarrow> nft_mint_request \<Rightarrow> sign_state \<Rightarrow> error + sign_state" where
  "sign_mint client hot_wallet_key gas_price request s =
     (let nonce = ss_next s;
          db = update_mint (mi_id request) (\<lambda>w. w\<lparr>mi_attempts := mi_attempts w + 1\<rparr>) (ss_db s) in
      case mint_sign client request hot_wallet_key nonce gas_price of
        Inl exc \<Rightarrow> Inr (s\<lparr>ss_db := db\<rparr>)
      | Inr tx \<Rightarrow>
          Inr \<lparr>ss_db = set_next_nonce (cl_chain_id client) (nonce + 1)
                (update_mint (mi_id request)
                  (\<lambda>w. w\<lparr>mi_signed_tx := Some (stx_raw tx), mi_tx_hash := Some (stx_tx_hash tx),
                         mi_nonce := Some nonce, mi_status := MiSigning\<rparr>) db),
               ss_next = nonce + 1, ss_signed = Suc (ss_signed s)\<rparr>)"

definition sign_pending_mints ::
  "db \<Rightarrow> chain_client \<Rightarrow> string \<Rightarrow> string \<Rightarrow> nat \<Rightarrow> error + (nat \<times> db)" where
  "sign_pending_mints db client hot_wallet_key hot_wallet_address batch =
     (let requests = claim_pending_mints db (cl_chain_id client) batch in
      if requests = [] then Inr (0, db)
      else
        bind_res (nonce_row db client hot_wallet_address) (\<lambda>(hot_nonce, db).
        bind_res (cl_suggested_gas_price client) (\<lambda>gas_price.
        bind_res (for_each (sign_mint client hot_wallet_key gas_price)
            requests \<lparr>ss_db = db, ss_next = hw_next_nonce hot_nonce, ss_signed = 0\<rparr>)
          (\<lambda>s. Inr (ss_signed s, ss_db s)))))"

definition signing_mints :: "db \<Rightarrow> int \<Rightarrow> nft_mint_request list" where
  "signing_mints db chain_id = sort_key (\<lambda>w. nonce_order (mi_nonce w))
     (filter (\<lambda>w. mi_chain_id w = chain_id \<and> mi_status w = MiSigning) (nft_mint_requests db))"

definition broadcast_mint ::
  "chain_client \<Rightarrow> nft_mint_request \<Rightarrow> broadcast_state \<Rightarrow> error + broadcast_state" where
  "broadcast_mint client request s =
     (case mi_signed_tx request of
        None \<Rightarrow> Inr s
      | Some raw \<Rightarrow>
          (let sent = bs_sent s @ [raw] in
           case cl_broadcast_raw client raw of
             Inl exc \<Rightarrow> if is_chain_rpc_error exc then Inr (s\<lparr>bs_sent := sent\<rparr>) else Inl exc
           | Inr tx_hash \<Rightarrow>
               Inr \<lparr>bs_db = update_mint (mi_id request)
                      (\<lambda>w. w\<lparr>mi_tx_hash := Some tx_hash, mi_status := MiBroadcast\<rparr>) (bs_db s),
                    bs_count = Suc (bs_count s), bs_sent = sent\<rparr>))"

definition broadcast_signed_mints :: "db \<Rightarrow> chain_client \<Rightarrow> error + broadcast_state" where
  "broadcast_signed_mints db client =
     for_each (broadcast_mint client) (signing_mints db (cl_chain_id client))
       \<lparr>bs_db = db, bs_count = 0, bs_sent = []\<rparr>"

definition broadcast_pending_mints ::
  "db \<Rightarrow> chain_client \<Rightarrow> string \<Rightarrow> string \<Rightarrow> nat \<Rightarrow> error + broadcast_state" where
  "broadcast_pending_mints db client hot_wallet_key hot_wallet_address batch =
     bind_res (sign_pending_mints db client hot_wallet_key hot_wallet_address batch)
       (\<lambda>(_, db). broadcast_signed_mints db client)"

record mint_state =
  ms_db :: db
  ms_added :: "pending_holding list"
  ms_confirmed :: nat

definition fail_mint :: "nft_mint_request \<Rightarrow> string \<Rightarrow> db \<Rightarrow> db" where
  "fail_mint request err db =
     update_mint (mi_id request) (\<lambda>w. w\<lparr>mi_status := MiFailed, mi_error := Some err\<rparr>) db"

definition set_mint_unmined :: "int option \<Rightarrow> nft_mint_request \<Rightarrow> db \<Rightarrow> db" where
  "set_mint_unmined m request db = update_mint (mi_id request) (\<lambda>w. w\<lparr>mi_unmined_since_block := m\<rparr>) db"

definition reconcile_unmined_mint ::
  "db \<Rightarrow> chain_client \<Rightarrow> nft_mint_request \<Rightarrow> string option \<Rightarrow> int \<Rightarrow> int \<Rightarrow> error + db" where
  "reconcile_unmined_mint db client request hot_wallet_address head confirmations =
     bind_res (unmined_gate client hot_wallet_address (mi_nonce request)
         (mi_unmined_since_block request) head confirmations) (\<lambda>g.
     case g of
       GateKeep \<Rightarrow> Inr db
     | GateClear \<Rightarrow> Inr (set_mint_unmined None request db)
     | GateMark \<Rightarrow> Inr (set_mint_unmined (Some head) request db)
     | GateDrop \<Rightarrow> Inr (fail_mint request ''transaction dropped (nonce superseded)'' db))"

definition record_holding ::
  "nft_mint_request \<Rightarrow> string \<Rightarrow> db \<times> pending_holding list \<Rightarrow> error + (db \<times> pending_holding list)" where
  "record_holding request token_id s =
     put_holding (mi_user_id request) (mi_chain_id request) (mi_contract request) token_id s"

definition confirm_mint ::
  "chain_client \<Rightarrow> int \<Rightarrow> int \<Rightarrow> string option \<Rightarrow> nft_mint_request \<Rightarrow> mint_state \<Rightarrow> error + mint_state" where
  "confirm_mint client head confirmations hot_wallet_address request s =
     (case mi_tx_hash request of
        None \<Rightarrow> Inr s
      | Some tx_hash \<Rightarrow>
        bind_res (cl_get_receipt client tx_hash) (\<lambda>receipt.
        case receipt of
          None \<Rightarrow>
            bind_res (reconcile_unmined_mint (ms_db s) client request hot_wallet_address head confirmations)
              (\<lambda>db. Inr (s\<lparr>ms_db := db\<rparr>))
        | Some r \<Rightarrow>
            (let db = set_mint_unmined None request (ms_db s) in
             bind_res (receipt_final client head confirmations r) (\<lambda>final.
             if \<not> final then Inr (s\<lparr>ms_db := db\<rparr>)
             else if rc_status r = 0
             then Inr (s\<lparr>ms_db := fail_mint request ''transaction reverted on-chain'' db\<rparr>)
             else
               bind_res (cl_erc721_minted_token_id client tx_hash (mi_contract request)
                   (mi_to_address request)) (\<lambda>token_id.
               case token_id of
                 None \<Rightarrow> Inr (s\<lparr>ms_db := fail_mint request ''mint Transfer log missing'' db\<rparr>)
               | Some token \<Rightarrow>
                   (let db = update_mint (mi_id request) (\<lambda>w. w\<lparr>mi_token_id := Some token\<rparr>) db in
                    bind_res (record_holding request token (db, ms_added s)) (\<lambda>(db, added).
                    Inr \<lparr>ms_db = update_mint (mi_id request) (\<lambda>w. w\<lparr>mi_status := MiConfirmed\<rparr>) db,
                         ms_added = added, ms_confirmed = Suc (ms_confirmed s)\<rparr>)))))))"

definition broadcast_mints :: "db \<Rightarrow> int \<Rightarrow> nft_mint_request list" where
  "broadcast_mints db chain_id =
     filter (\<lambda>w. mi_chain_id w = chain_id \<and> mi_status w = MiBroadcast) (nft_mint_requests db)"

definition confirm_mints ::
  "db \<Rightarrow> chain_client \<Rightarrow> int \<Rightarrow> string option \<Rightarrow> error + (nat \<times> db)" where
  "confirm_mints db client confirmations hot_wallet_address =
     bind_res (cl_block_number client) (\<lambda>head.
     bind_res (for_each (confirm_mint client head confirmations hot_wallet_address)
         (broadcast_mints db (cl_chain_id client)) \<lparr>ms_db = db, ms_added = [], ms_confirmed = 0\<rparr>) (\<lambda>s.
     bind_res (flush_holdings (ms_added s) (ms_db s)) (\<lambda>db. Inr (ms_confirmed s, db))))"

section \<open>Bindings\<close>

abbreviation mi_bound :: "nft_mint_request \<Rightarrow> (int \<times> string) option" where
  "mi_bound w \<equiv> bound_pair (mi_nonce w) (mi_signed_tx w)"

definition mi_ids :: "db \<Rightarrow> uuid set" where
  "mi_ids db = mi_id ` set (nft_mint_requests db)"

definition mi_binding :: "db \<Rightarrow> uuid \<Rightarrow> (int \<times> string) option" where
  "mi_binding db = binding mi_id mi_bound (nft_mint_requests db)"

interpretation mint_table: outbox_table nft_mint_requests update_mint mi_id mi_bound
  by unfold_locales (simp_all add: update_mint_def set_next_nonce_def next_nonce_of_def fun_eq_iff)

lemma sign_mint_shape:
  assumes "sign_mint client key gas r s = Inr s'"
  obtains tx :: signed_tx where "s' = s\<lparr>ss_db := update_mint (mi_id r) (\<lambda>w. w\<lparr>mi_attempts := mi_attempts w + 1\<rparr>) (ss_db s)\<rparr> \<or>
      s' = \<lparr>ss_db = set_next_nonce (cl_chain_id client) (ss_next s + 1)
        (update_mint (mi_id r) (\<lambda>w. w\<lparr>mi_signed_tx := Some (stx_raw tx), mi_tx_hash := Some (stx_tx_hash tx),
           mi_nonce := Some (ss_next s), mi_status := MiSigning\<rparr>)
         (update_mint (mi_id r) (\<lambda>w. w\<lparr>mi_attempts := mi_attempts w + 1\<rparr>) (ss_db s))),
        ss_next = ss_next s + 1, ss_signed = Suc (ss_signed s)\<rparr>"
proof (cases "mint_sign client r key (ss_next s) gas")
  case (Inl e)
  then show thesis using assms
    by (intro that [of "\<lparr>stx_raw = [], stx_tx_hash = []\<rparr>"] disjI1) (simp add: sign_mint_def Let_def)
next
  case (Inr tx)
  then show thesis using assms by (intro that [of tx] disjI2) (simp add: sign_mint_def Let_def)
qed

lemma sign_mint_effect:
  assumes "sign_mint client key gas r s = Inr s'"
  shows "mi_ids (ss_db s') = mi_ids (ss_db s)"
    and "mi_id r \<in> mi_ids (ss_db s) \<Longrightarrow>
      mi_binding (ss_db s') = mi_binding (ss_db s) \<and> ss_next s' = ss_next s \<and> ss_signed s' = ss_signed s \<or>
      (\<exists>raw. mi_binding (ss_db s') = (mi_binding (ss_db s))(mi_id r \<mapsto> (ss_next s, raw)) \<and>
         ss_next s' = ss_next s + 1 \<and> ss_signed s' = Suc (ss_signed s))"
    and "next_nonce_of (ss_db s) (cl_chain_id client) = Some (a, ss_next s) \<Longrightarrow>
      next_nonce_of (ss_db s') (cl_chain_id client) = Some (a, ss_next s')"
proof -
  obtain tx :: signed_tx where "s' = s\<lparr>ss_db := update_mint (mi_id r) (\<lambda>w. w\<lparr>mi_attempts := mi_attempts w + 1\<rparr>) (ss_db s)\<rparr> \<or>
      s' = \<lparr>ss_db = set_next_nonce (cl_chain_id client) (ss_next s + 1)
        (update_mint (mi_id r) (\<lambda>w. w\<lparr>mi_signed_tx := Some (stx_raw tx), mi_tx_hash := Some (stx_tx_hash tx),
           mi_nonce := Some (ss_next s), mi_status := MiSigning\<rparr>)
         (update_mint (mi_id r) (\<lambda>w. w\<lparr>mi_attempts := mi_attempts w + 1\<rparr>) (ss_db s))),
        ss_next = ss_next s + 1, ss_signed = Suc (ss_signed s)\<rparr>"
    using assms by (rule sign_mint_shape)
  note L = mint_table.sign_laws [OF _ _ _ _ this, of "stx_raw tx", simplified, folded mi_ids_def mi_binding_def]
  show "mi_ids (ss_db s') = mi_ids (ss_db s)"
    "mi_id r \<in> mi_ids (ss_db s) \<Longrightarrow>
      mi_binding (ss_db s') = mi_binding (ss_db s) \<and> ss_next s' = ss_next s \<and> ss_signed s' = ss_signed s \<or>
      (\<exists>raw. mi_binding (ss_db s') = (mi_binding (ss_db s))(mi_id r \<mapsto> (ss_next s, raw)) \<and>
         ss_next s' = ss_next s + 1 \<and> ss_signed s' = Suc (ss_signed s))"
    "next_nonce_of (ss_db s) (cl_chain_id client) = Some (a, ss_next s) \<Longrightarrow>
      next_nonce_of (ss_db s') (cl_chain_id client) = Some (a, ss_next s')"
    using L by blast+
qed

interpretation nft_minter: nonce_outbox "sign_mint client key gas" mi_id mi_ids mi_binding
    "cl_chain_id client" for client key gas
  by unfold_locales (fact sign_mint_effect)+

interpretation nft_minter_send: raw_broadcaster "broadcast_mint client" mi_signed_tx mi_binding for client
proof
  fix r s s'
  assume b: "broadcast_mint client r s = Inr s'"
  show "bs_sent s' = bs_sent s \<or> (\<exists>x. mi_signed_tx r = Some x \<and> bs_sent s' = bs_sent s @ [x])"
    using b by (auto simp: broadcast_mint_def Let_def split: option.splits sum.splits if_splits)
  show "mi_binding (bs_db s') = mi_binding (bs_db s)"
    using b by (auto simp: broadcast_mint_def Let_def mi_binding_def mint_table.upd_same
        split: option.splits sum.splits if_splits)
qed

end
