(* ===== verification/Nft_Mint_Facts.thy ===== *)
theory Nft_Mint_Facts
  imports Nft_Minter Samples
begin

text \<open>
  The passes of the mint outbox: the nonces a signing pass binds, and the evidence on which a
  confirmation pass turns a mint into a holding or fails it.
\<close>

section \<open>The invariant of the mint requests\<close>

definition mi_signed_ok :: "nft_mint_request \<Rightarrow> bool" where
  "mi_signed_ok w \<longleftrightarrow> (mi_status w = MiRequested \<longrightarrow> mi_nonce w = None \<and> mi_signed_tx w = None) \<and>
     (mi_status w \<in> {MiSigning, MiBroadcast} \<longrightarrow> mi_nonce w \<noteq> None \<and> mi_signed_tx w \<noteq> None)"

definition mints_ok :: "db \<Rightarrow> bool" where
  "mints_ok db \<longleftrightarrow> distinct (map mi_id (nft_mint_requests db)) \<and>
     (\<forall>w \<in> set (nft_mint_requests db). mi_id w < next_uuid db \<and> mi_signed_ok w) \<and> holdings_ok db"

lemma mints_ok_D:
  assumes "mints_ok db"
  shows "distinct (map mi_id (nft_mint_requests db))" "holdings_ok db"
    "w \<in> set (nft_mint_requests db) \<Longrightarrow> mi_signed_ok w"
    "w \<in> set (nft_mint_requests db) \<Longrightarrow> mi_id w < next_uuid db"
  using assms by (auto simp: mints_ok_def)

lemma mint_frames [simp]:
  "nft_holdings (update_mint i f db) = nft_holdings db" "next_uuid (update_mint i f db) = next_uuid db"
  "next_nonce_of (update_mint i f db) = next_nonce_of db"
  "nft_mint_requests (set_next_nonce c n db) = nft_mint_requests db"
  "held_by (update_mint i f db, added) = held_by (db, added)"
  "holdings_ok (update_mint i f db) = holdings_ok db"
  by (simp_all add: update_mint_def set_next_nonce_def next_nonce_of_def held_by_def holdings_ok_def fun_eq_iff split: option.split)

lemma mint_update:
  assumes ok: "mints_ok db" and w: "w \<in> set (nft_mint_requests db)"
    and f: "\<And>w. mi_id (f w) = mi_id w" and so: "mi_signed_ok (f w)"
  shows "mints_ok (update_mint (mi_id w) f db)"
    and "f w \<in> set (nft_mint_requests (update_mint (mi_id w) f db))"
    and "\<And>x. x \<in> set (nft_mint_requests db) \<Longrightarrow> mi_id x \<noteq> mi_id w \<Longrightarrow>
      x \<in> set (nft_mint_requests (update_mint (mi_id w) f db))"
proof -
  have I: "x \<in> set (nft_mint_requests (update_mint (mi_id w) f db)) \<longleftrightarrow>
      x = f w \<or> x \<in> set (nft_mint_requests db) \<and> mi_id x \<noteq> mi_id w" for x
    by (rule mint_table.in_upd [OF mints_ok_D(1) [OF ok] w])
  then show "f w \<in> set (nft_mint_requests (update_mint (mi_id w) f db))"
    "\<And>x. x \<in> set (nft_mint_requests db) \<Longrightarrow> mi_id x \<noteq> mi_id w \<Longrightarrow>
      x \<in> set (nft_mint_requests (update_mint (mi_id w) f db))" by simp_all
  have "map mi_id (nft_mint_requests (update_mint (mi_id w) f db)) = map mi_id (nft_mint_requests db)"
    unfolding mint_table.upd_rows by (rule map_key_upd_row) (rule f)
  then show "mints_ok (update_mint (mi_id w) f db)"
    using ok I f so mints_ok_D(4) [OF ok w] by (auto simp: mints_ok_def)
qed

section \<open>Signing\<close>

lemma in_claim_pending_mints:
  "w \<in> set (claim_pending_mints db chain batch) \<Longrightarrow>
   w \<in> set (nft_mint_requests db) \<and> mi_status w = MiRequested"
  unfolding claim_pending_mints_def using claim_rows by fastforce

text \<open>
  A signing pass over the mint outbox hands out consecutive nonces of the hot wallet, the
  same counter the two withdrawal outboxes use: starting no lower than the chain's own count,
  one per signed mint, each bound to exactly one mint that was not bound before, with the
  counter advanced by exactly the number signed; a bound mint keeps its nonce and its signed
  transaction.
\<close>

theorem sign_mints_nonces:
  assumes ok: "mints_ok db"
    and s: "sign_pending_mints db client key hot batch = Inr (n, db')" and pos: "0 < n"
  shows "\<exists>start p. cl_pending_nonce client hot = Inr p \<and> p \<le> start \<and>
    next_nonce_of db' (cl_chain_id client) = Some (hot, start + int n) \<and>
    (\<forall>m. start \<le> m \<and> m < start + int n \<longrightarrow>
       (\<exists>!i. mi_binding db i = None \<and> (\<exists>raw. mi_binding db' i = Some (m, raw)))) \<and>
    (\<forall>i b. mi_binding db i = Some b \<longrightarrow> mi_binding db' i = Some b) \<and>
    (\<forall>i m raw. mi_binding db i = None \<and> mi_binding db' i = Some (m, raw) \<longrightarrow>
       start \<le> m \<and> m < start + int n)"
proof -
  let ?rs = "claim_pending_mints db (cl_chain_id client) batch"
  obtain row db1 gas s where pass: "nonce_row db client hot = Inr (row, db1)"
      "for_each (sign_mint client key gas) ?rs \<lparr>ss_db = db1, ss_next = hw_next_nonce row, ss_signed = 0\<rparr> = Inr s"
      "n = ss_signed s" "db' = ss_db s"
    using s pos by (auto simp: sign_pending_mints_def Let_def split: if_splits)
  note nr = nonce_row_ok [OF pass(1)]
  have rows: "nft_mint_requests db1 = nft_mint_requests db"
    using arg_cong [OF nr(5), of nft_mint_requests] by simp
  then have same: "mi_binding db1 = mi_binding db" by (simp add: mi_binding_def fun_eq_iff binding_def)
  have dist: "distinct (map mi_id ?rs)"
    unfolding claim_pending_mints_def by (rule claim_distinct [OF mints_ok_D(1) [OF ok]])
  have known: "mi_id ` set ?rs \<subseteq> mi_ids db1"
    using in_claim_pending_mints by (fastforce simp: mi_ids_def rows)
  have unbound: "\<forall>r \<in> set ?rs. mi_binding db1 (mi_id r) = None"
  proof
    fix r assume "r \<in> set ?rs"
    then have r: "r \<in> set (nft_mint_requests db)" "mi_status r = MiRequested"
      using in_claim_pending_mints by blast+
    have "mi_bound r = None" using mints_ok_D(3) [OF ok r(1)] r(2) by (auto simp: mi_signed_ok_def)
    then show "mi_binding db1 (mi_id r) = None"
      using binding_distinct [OF mints_ok_D(1) [OF ok] r(1), of mi_bound] by (simp add: mi_binding_def rows)
  qed
  obtain p where p: "cl_pending_nonce client hot = Inr p" "p \<le> hw_next_nonce row"
    using nr(1,2) by blast
  have counter: "next_nonce_of db1 (cl_chain_id client) = Some (hot, hw_next_nonce row)"
    by (simp add: nr(4))
  show ?thesis
    using nft_minter.signing_pass [OF pass(2) dist known unbound counter] pass(3,4) p same
    by (intro exI [of _ "hw_next_nonce row"] exI [of _ p]) simp
qed

section \<open>Confirmation\<close>

text \<open>The token a mint's transaction minted, as the key of its holding.\<close>

definition minted :: "chain_client \<Rightarrow> nft_mint_request \<Rightarrow> (int \<times> string \<times> string) option" where
  "minted client w = (case mi_tx_hash w of None \<Rightarrow> None | Some h \<Rightarrow>
     case cl_erc721_minted_token_id client h (mi_contract w) (mi_to_address w) of
       Inr (Some t) \<Rightarrow> Some (mi_chain_id w, lower (mi_contract w), t) | _ \<Rightarrow> None)"

definition mint_outcome ::
  "chain_client \<Rightarrow> int \<Rightarrow> int \<Rightarrow> string option \<Rightarrow> nft_mint_request set \<Rightarrow> mint_state \<Rightarrow>
   nft_mint_request \<Rightarrow> nft_mint_request \<Rightarrow> bool" where
  "mint_outcome client head c hot R s w w' \<longleftrightarrow> mi_id w' = mi_id w \<and> mi_bound w' = mi_bound w \<and>
     mi_user_id w' = mi_user_id w \<and>
     (mi_status w' = MiBroadcast \<or>
      mi_status w' = MiConfirmed \<and> executed client head c (mi_tx_hash w) (\<lambda>s. s \<noteq> 0) \<and>
        (\<exists>k. minted client w = Some k \<and> mi_token_id w' = Some (snd (snd k)) \<and>
           (\<exists>x \<in> R. minted client x = Some k \<and> held_by (ms_db s, ms_added s) k = Some (mi_user_id x, HoHeld))) \<or>
      mi_status w' = MiFailed \<and>
        (executed client head c (mi_tx_hash w) (\<lambda>s. s = 0) \<or>
         executed client head c (mi_tx_hash w) (\<lambda>s. s \<noteq> 0) \<and> minted client w = None \<or>
         replaced client head c hot (mi_tx_hash w) (mi_nonce w) (mi_unmined_since_block w)))"

lemma confirm_mint_cases:
  assumes b: "confirm_mint client head c hot r s = Inr s'"
  obtains (keep) "s' = s"
    | (marker) m where "s' = s\<lparr>ms_db := set_mint_unmined m r (ms_db s)\<rparr>"
    | (failed) err where "s' = s\<lparr>ms_db := fail_mint r err (set_mint_unmined None r (ms_db s))\<rparr>"
        "executed client head c (mi_tx_hash r) (\<lambda>s. s = 0) \<or>
         executed client head c (mi_tx_hash r) (\<lambda>s. s \<noteq> 0) \<and> minted client r = None"
    | (dropped) err where "s' = s\<lparr>ms_db := fail_mint r err (ms_db s)\<rparr>"
        "replaced client head c hot (mi_tx_hash r) (mi_nonce r) (mi_unmined_since_block r)"
    | (minted) t db1 added where "executed client head c (mi_tx_hash r) (\<lambda>s. s \<noteq> 0)"
        "minted client r = Some (mi_chain_id r, lower (mi_contract r), t)"
        "record_holding r t (update_mint (mi_id r) (\<lambda>w. w\<lparr>mi_token_id := Some t\<rparr>)
           (set_mint_unmined None r (ms_db s)), ms_added s) = Inr (db1, added)"
        "s' = \<lparr>ms_db = update_mint (mi_id r) (\<lambda>w. w\<lparr>mi_status := MiConfirmed\<rparr>) db1,
           ms_added = added, ms_confirmed = Suc (ms_confirmed s)\<rparr>"
proof (cases "mi_tx_hash r")
  case None
  then show ?thesis using b keep by (simp add: confirm_mint_def)
next
  case h: (Some h)
  then obtain rc where rc: "cl_get_receipt client h = Inr rc" using b by (auto simp: confirm_mint_def)
  show ?thesis
  proof (cases rc)
    case None
    then obtain g where g: "unmined_gate client hot (mi_nonce r) (mi_unmined_since_block r) head c = Inr g"
      using b h rc by (auto simp: confirm_mint_def reconcile_unmined_mint_def)
    show ?thesis
      using b h rc None g keep marker dropped replacedI [OF h, of client hot]
      by (cases g) (auto simp: confirm_mint_def reconcile_unmined_mint_def)
  next
    case (Some t)
    then obtain fin where fin: "receipt_final client head c t = Inr fin"
      using b h rc by (auto simp: confirm_mint_def Let_def)
    note E = executedI [OF h rc [unfolded Some], of head c]
    consider "\<not> fin" | "fin" "rc_status t = 0" | "fin" "rc_status t \<noteq> 0" by blast
    then show ?thesis
    proof cases
      case 1
      then show ?thesis using b h rc Some fin marker [of None] by (simp add: confirm_mint_def Let_def)
    next
      case 2
      then show ?thesis using b h rc Some fin E failed [of "''transaction reverted on-chain''"] by (simp add: confirm_mint_def Let_def)
    next
      case 3
      then obtain tok where tok: "cl_erc721_minted_token_id client h (mi_contract r) (mi_to_address r) = Inr tok"
        using b h rc Some fin by (auto simp: confirm_mint_def Let_def)
      show ?thesis
      proof (cases tok)
        case None
        then show ?thesis using 3 b h rc Some fin E failed [of "''mint Transfer log missing''"] tok by (simp add: confirm_mint_def Let_def minted_def)
      next
        case (Some t')
        let ?d = "update_mint (mi_id r) (\<lambda>w. w\<lparr>mi_token_id := Some t'\<rparr>) (set_mint_unmined None r (ms_db s))"
        obtain p where p: "record_holding r t' (?d, ms_added s) = Inr p"
          using 3 b h rc \<open>rc = Some t\<close> Some fin tok by (auto simp: confirm_mint_def Let_def)
        obtain db1 added where q: "p = (db1, added)" by (cases p)
        have m: "minted client r = Some (mi_chain_id r, lower (mi_contract r), t')"
          using h tok Some by (simp add: minted_def)
        have s': "s' = \<lparr>ms_db = update_mint (mi_id r) (\<lambda>w. w\<lparr>mi_status := MiConfirmed\<rparr>) db1,
            ms_added = added, ms_confirmed = Suc (ms_confirmed s)\<rparr>"
          using 3 b h rc \<open>rc = Some t\<close> Some fin tok p by (simp add: confirm_mint_def Let_def q)
        show ?thesis by (rule minted [OF _ m p [unfolded q] s']) (use 3 E fin in simp)
      qed
    qed
  qed
qed

lemma set_mint_unmined_ok:
  assumes ok: "mints_ok db" and w: "w \<in> set (nft_mint_requests db)"
  shows "mints_ok (set_mint_unmined m w db)"
    and "w\<lparr>mi_unmined_since_block := m\<rparr> \<in> set (nft_mint_requests (set_mint_unmined m w db))"
    and "\<And>x. x \<in> set (nft_mint_requests db) \<Longrightarrow> mi_id x \<noteq> mi_id w \<Longrightarrow>
      x \<in> set (nft_mint_requests (set_mint_unmined m w db))"
  using mint_update [OF ok w, of "\<lambda>w. w\<lparr>mi_unmined_since_block := m\<rparr>"] mints_ok_D(3) [OF ok w]
  by (simp_all add: set_mint_unmined_def mi_signed_ok_def)

lemma fail_mint_ok:
  assumes ok: "mints_ok db" and w: "w \<in> set (nft_mint_requests db)" and i: "mi_id w = mi_id r"
  shows "mints_ok (fail_mint r err db)"
    and "w\<lparr>mi_status := MiFailed, mi_error := Some err\<rparr> \<in> set (nft_mint_requests (fail_mint r err db))"
    and "\<And>x. x \<in> set (nft_mint_requests db) \<Longrightarrow> mi_id x \<noteq> mi_id w \<Longrightarrow>
      x \<in> set (nft_mint_requests (fail_mint r err db))"
  using mint_update [OF ok w, of "\<lambda>w. w\<lparr>mi_status := MiFailed, mi_error := Some err\<rparr>"]
  by (simp_all add: fail_mint_def mi_signed_ok_def i)

lemma mints_ok_holdings:
  "mints_ok db \<Longrightarrow> holdings_only db db' \<Longrightarrow> holdings_ok db' \<Longrightarrow> mints_ok db'"
  using holdings_only_fields(1) [of db db'] by (force simp: mints_ok_def holdings_only_def)

text \<open>
  What one request's turn does: its own row, the other rows, and who holds which token.
\<close>

lemma confirm_mint_turn:
  assumes ok: "mints_ok (ms_db s)" and r: "r \<in> set (nft_mint_requests (ms_db s))" "mi_status r = MiBroadcast"
    and R: "r \<in> R" and b: "confirm_mint client head c hot r s = Inr s'"
  shows "mints_ok (ms_db s')"
    and "\<And>x. x \<in> set (nft_mint_requests (ms_db s)) \<Longrightarrow> mi_id x \<noteq> mi_id r \<Longrightarrow>
      x \<in> set (nft_mint_requests (ms_db s'))"
    and "\<exists>r' \<in> set (nft_mint_requests (ms_db s')). mi_id r' = mi_id r \<and> mint_outcome client head c hot R s' r r'"
    and "held_by (ms_db s', ms_added s') = held_by (ms_db s, ms_added s) \<or>
      (\<exists>k. minted client r = Some k \<and>
        held_by (ms_db s', ms_added s') = (held_by (ms_db s, ms_added s))(k \<mapsto> (mi_user_id r, HoHeld)))"
proof -
  let ?r = "r\<lparr>mi_unmined_since_block := None\<rparr>"
  note so = mints_ok_D(3) [OF ok r(1)]
  note U = set_mint_unmined_ok [OF ok r(1)]
  let ?goal = "mints_ok (ms_db s') \<and> (\<forall>x \<in> set (nft_mint_requests (ms_db s)). mi_id x \<noteq> mi_id r \<longrightarrow>
      x \<in> set (nft_mint_requests (ms_db s'))) \<and>
    (\<exists>r' \<in> set (nft_mint_requests (ms_db s')). mi_id r' = mi_id r \<and> mint_outcome client head c hot R s' r r') \<and>
    (held_by (ms_db s', ms_added s') = held_by (ms_db s, ms_added s) \<or>
      (\<exists>k. minted client r = Some k \<and>
        held_by (ms_db s', ms_added s') = (held_by (ms_db s, ms_added s))(k \<mapsto> (mi_user_id r, HoHeld))))"
  have ?goal using b
  proof (cases rule: confirm_mint_cases)
    case keep
    then show ?thesis using ok r by (auto simp: mint_outcome_def)
  next
    case (marker m)
    have "mint_outcome client head c hot R s' r (r\<lparr>mi_unmined_since_block := m\<rparr>)"
      by (simp add: mint_outcome_def r(2))
    then show ?thesis using U [where m = m]
      by (auto simp: marker set_mint_unmined_def intro!: bexI [of _ "r\<lparr>mi_unmined_since_block := m\<rparr>"])
  next
    case (failed err)
    note F = fail_mint_ok [OF U(1,2) [where m = None], where r = r and err = err, simplified]
    have "mint_outcome client head c hot R s' r (?r\<lparr>mi_status := MiFailed, mi_error := Some err\<rparr>)"
      using failed(2) by (auto simp: mint_outcome_def)
    then show ?thesis using F U(3) [where m = None]
      by (auto simp: failed(1) fail_mint_def set_mint_unmined_def
          intro!: bexI [of _ "?r\<lparr>mi_status := MiFailed, mi_error := Some err\<rparr>"])
  next
    case (dropped err)
    note F = fail_mint_ok [OF ok r(1) refl, where err = err]
    have "mint_outcome client head c hot R s' r (r\<lparr>mi_status := MiFailed, mi_error := Some err\<rparr>)"
      using dropped(2) by (auto simp: mint_outcome_def)
    then show ?thesis using F
      by (auto simp: dropped(1) fail_mint_def
          intro!: bexI [of _ "r\<lparr>mi_status := MiFailed, mi_error := Some err\<rparr>"])
  next
    case (minted t db1 added)
    let ?t = "\<lambda>w. w\<lparr>mi_token_id := Some t\<rparr>" and ?c = "\<lambda>w. w\<lparr>mi_status := MiConfirmed\<rparr>"
    let ?d = "update_mint (mi_id r) ?t (set_mint_unmined None r (ms_db s))"
    let ?k = "(mi_chain_id r, lower (mi_contract r), t)"
    have T: "mints_ok ?d" "?t ?r \<in> set (nft_mint_requests ?d)"
      "\<And>x. x \<in> set (nft_mint_requests (ms_db s)) \<Longrightarrow> mi_id x \<noteq> mi_id r \<Longrightarrow> x \<in> set (nft_mint_requests ?d)"
      using mint_update [OF U(1,2) [where m = None], where f = ?t] U(3) [where m = None] so by (simp_all add: mi_signed_ok_def)
    note P = put_holding_ok [of "(?d, ms_added s)", unfolded fst_conv, OF mints_ok_D(2) [OF T(1)]
        minted(3) [unfolded record_holding_def]]
    have only: "holdings_only ?d db1" using P(2) by simp
    note rows = holdings_only_fields(1) [OF only]
    have m1: "mints_ok db1" by (rule mints_ok_holdings [OF T(1) only]) (use P(1) in simp)
    have C: "mints_ok (update_mint (mi_id r) ?c db1)" "?c (?t ?r) \<in> set (nft_mint_requests (update_mint (mi_id r) ?c db1))"
      "\<And>x. x \<in> set (nft_mint_requests (ms_db s)) \<Longrightarrow> mi_id x \<noteq> mi_id r \<Longrightarrow>
        x \<in> set (nft_mint_requests (update_mint (mi_id r) ?c db1))"
      using mint_update [OF m1, where w = "?t ?r" and f = ?c] T(2,3) by (simp_all add: rows mi_signed_ok_def)
    have h: "held_by (ms_db s', ms_added s') = (held_by (ms_db s, ms_added s))(?k \<mapsto> (mi_user_id r, HoHeld))"
      using P(3) by (simp add: minted(4) set_mint_unmined_def)
    then have "mint_outcome client head c hot R s' r (?c (?t ?r))"
      using minted(1,2) R by (auto simp: mint_outcome_def intro!: bexI [of _ r])
    then show ?thesis using C h minted(2) by (auto simp: minted(4) intro!: bexI [of _ "?c (?t ?r)"])
  qed
  then show "mints_ok (ms_db s')"
    and "\<And>x. x \<in> set (nft_mint_requests (ms_db s)) \<Longrightarrow> mi_id x \<noteq> mi_id r \<Longrightarrow>
      x \<in> set (nft_mint_requests (ms_db s'))"
    and "\<exists>r' \<in> set (nft_mint_requests (ms_db s')). mi_id r' = mi_id r \<and> mint_outcome client head c hot R s' r r'"
    and "held_by (ms_db s', ms_added s') = held_by (ms_db s, ms_added s) \<or>
      (\<exists>k. minted client r = Some k \<and>
        held_by (ms_db s', ms_added s') = (held_by (ms_db s, ms_added s))(k \<mapsto> (mi_user_id r, HoHeld)))"
    by blast+
qed

interpretation mint_pass: row_worker "confirm_mint client head c hot"
    "\<lambda>s. nft_mint_requests (ms_db s)" mi_id "\<lambda>w. mi_status w = MiBroadcast \<and> w \<in> R"
    "\<lambda>s. mints_ok (ms_db s)" "mint_outcome client head c hot R" for client head c hot R
proof
  fix t t' r x x'
  assume ok: "mints_ok (ms_db t)" and r: "r \<in> set (nft_mint_requests (ms_db t))" "mi_status r = MiBroadcast \<and> r \<in> R"
    and b: "confirm_mint client head c hot r t = Inr t'"
  note C = confirm_mint_turn [OF ok r(1) conjunct1 [OF r(2)] conjunct2 [OF r(2)] b]
  show "mints_ok (ms_db t')" by (rule C(1))
  show "x \<in> set (nft_mint_requests (ms_db t)) \<Longrightarrow> mi_id x \<noteq> mi_id r \<Longrightarrow> x \<in> set (nft_mint_requests (ms_db t'))"
    by (rule C(2))
  show "\<exists>r' \<in> set (nft_mint_requests (ms_db t')). mi_id r' = mi_id r \<and> mint_outcome client head c hot R t' r r'"
    by (rule C(3))
  have "\<exists>y \<in> R. minted client y = Some k \<and> held_by (ms_db t', ms_added t') k = Some (mi_user_id y, HoHeld)"
    if "\<exists>y \<in> R. minted client y = Some k \<and> held_by (ms_db t, ms_added t) k = Some (mi_user_id y, HoHeld)" for k
    using that C(4) r(2) by (auto simp: fun_upd_def)
  then show "mint_outcome client head c hot R t x x' \<Longrightarrow> mint_outcome client head c hot R t' x x'"
    unfolding mint_outcome_def by blast
qed

text \<open>
  C23: When no two broadcast mints of the pass minted the same token, a confirmation pass over
  the mint outbox turns a mint into a holding on the chain's evidence only. A mint becomes
  confirmed only when its transaction is final and not reverted and its receipt shows the
  minted token, which the requester then holds, free to use; it becomes failed only on a final
  revert, a final receipt without the mint's log, or a nonce used up for the required number of
  blocks without a receipt; otherwise it stays broadcast. Every other mint request stays as it
  is and every token the pass did not mint keeps its holder and status.
\<close>

theorem mint_confirm_decides_on_evidence:
  assumes ok: "mints_ok db" and hd: "cl_block_number client = Inr head"
    and once: "\<forall>x \<in> set (broadcast_mints db (cl_chain_id client)).
      \<forall>y \<in> set (broadcast_mints db (cl_chain_id client)).
        minted client x \<noteq> None \<and> minted client x = minted client y \<longrightarrow> x = y"
    and b: "confirm_mints db client c hot = Inr (n, db')"
  shows "mints_ok db' \<and>
    (\<forall>w \<in> set (nft_mint_requests db). \<exists>w' \<in> set (nft_mint_requests db').
       if w \<in> set (broadcast_mints db (cl_chain_id client))
       then mi_id w' = mi_id w \<and> mi_bound w' = mi_bound w \<and>
         (mi_status w' = MiBroadcast \<or>
          mi_status w' = MiConfirmed \<and> executed client head c (mi_tx_hash w) (\<lambda>s. s \<noteq> 0) \<and>
            (\<exists>k. minted client w = Some k \<and> mi_token_id w' = Some (snd (snd k)) \<and>
               held_by (db', []) k = Some (mi_user_id w, HoHeld)) \<or>
          mi_status w' = MiFailed \<and>
            (executed client head c (mi_tx_hash w) (\<lambda>s. s = 0) \<or>
             executed client head c (mi_tx_hash w) (\<lambda>s. s \<noteq> 0) \<and> minted client w = None \<or>
             replaced client head c hot (mi_tx_hash w) (mi_nonce w) (mi_unmined_since_block w)))
       else w' = w) \<and>
    (\<forall>k. (\<forall>w \<in> set (broadcast_mints db (cl_chain_id client)). minted client w \<noteq> Some k) \<longrightarrow>
       held_by (db', []) k = held_by (db, []) k)"
proof -
  let ?rs = "broadcast_mints db (cl_chain_id client)"
  let ?s = "\<lparr>ms_db = db, ms_added = [], ms_confirmed = 0\<rparr>"
  obtain s where l: "for_each (confirm_mint client head c hot) ?rs ?s = Inr s"
    and f: "flush_holdings (ms_added s) (ms_db s) = Inr db'"
    using b hd by (auto simp: confirm_mints_def)
  have rs: "set ?rs \<subseteq> set (nft_mint_requests (ms_db ?s))"
    "\<forall>r \<in> set ?rs. mi_status r = MiBroadcast \<and> r \<in> set ?rs" "distinct (map mi_id ?rs)"
    using distinct_map_filter [OF mints_ok_D(1) [OF ok]] by (auto simp: broadcast_mints_def)
  note P = mint_pass.pass [OF l _ _ rs]
  have oks: "mints_ok (ms_db s)" using P(1) ok mints_ok_D(1) [OF ok] by simp
  note F = flush_holdings_ok [OF f mints_ok_D(2) [OF oks]]
  have ok': "mints_ok db'" using mints_ok_holdings [OF oks] F by blast
  have rows: "nft_mint_requests db' = nft_mint_requests (ms_db s)" using holdings_only_fields(1) F by blast
  have held: "held_by (db', []) = held_by (ms_db s, ms_added s)" using F by blast
  have I: "held_by (ms_db s, ms_added s) k = held_by (db, []) k"
    if k: "\<forall>w \<in> set ?rs. minted client w \<noteq> Some k" for k
  proof -
    have "mints_ok (ms_db s) \<and> (\<forall>r \<in> set []. r \<in> set (nft_mint_requests (ms_db s)) \<and> r \<in> set ?rs) \<and>
        distinct (map mi_id ([] :: nft_mint_request list)) \<and> held_by (ms_db s, ms_added s) k = held_by (db, []) k"
    proof (rule for_each_rest_inv [OF l, where I = "\<lambda>rest t. mints_ok (ms_db t) \<and>
          (\<forall>r \<in> set rest. r \<in> set (nft_mint_requests (ms_db t)) \<and> r \<in> set ?rs) \<and> distinct (map mi_id rest) \<and>
          held_by (ms_db t, ms_added t) k = held_by (db, []) k"])
      show "mints_ok (ms_db ?s) \<and> (\<forall>r \<in> set ?rs. r \<in> set (nft_mint_requests (ms_db ?s)) \<and> r \<in> set ?rs) \<and>
          distinct (map mi_id ?rs) \<and> held_by (ms_db ?s, ms_added ?s) k = held_by (db, []) k"
        using ok rs by auto
    next
      fix r rest t t'
      assume A: "mints_ok (ms_db t) \<and> (\<forall>r \<in> set (r # rest). r \<in> set (nft_mint_requests (ms_db t)) \<and> r \<in> set ?rs) \<and>
          distinct (map mi_id (r # rest)) \<and> held_by (ms_db t, ms_added t) k = held_by (db, []) k"
        and t: "confirm_mint client head c hot r t = Inr t'"
      have r: "r \<in> set (nft_mint_requests (ms_db t))" "mi_status r = MiBroadcast" "r \<in> set ?rs"
        using A rs(2) by auto
      note C = confirm_mint_turn [OF _ r t]
      have "minted client r \<noteq> Some k" using k r(3) by blast
      then have "held_by (ms_db t', ms_added t') k = held_by (ms_db t, ms_added t) k"
        using C(4) A by auto
      moreover have "mi_id x \<noteq> mi_id r" if "x \<in> set rest" for x using A that by (auto simp: image_iff)
      ultimately show "mints_ok (ms_db t') \<and> (\<forall>r \<in> set rest. r \<in> set (nft_mint_requests (ms_db t')) \<and> r \<in> set ?rs) \<and>
          distinct (map mi_id rest) \<and> held_by (ms_db t', ms_added t') k = held_by (db, []) k"
        using C(1,2) A by simp
    qed
    then show ?thesis by blast
  qed
  have holder: "held_by (db', []) k = Some (mi_user_id w, HoHeld)"
    if "w \<in> set ?rs" "minted client w = Some k" "x \<in> set ?rs" "minted client x = Some k"
      "held_by (ms_db s, ms_added s) k = Some (mi_user_id x, HoHeld)" for w x k
  proof -
    have "x = w" using once that(1-4) by (metis option.distinct(1))
    then show ?thesis using that(5) by (simp add: held)
  qed
  have "\<exists>w' \<in> set (nft_mint_requests db').
       if w \<in> set ?rs
       then mi_id w' = mi_id w \<and> mi_bound w' = mi_bound w \<and>
         (mi_status w' = MiBroadcast \<or>
          mi_status w' = MiConfirmed \<and> executed client head c (mi_tx_hash w) (\<lambda>s. s \<noteq> 0) \<and>
            (\<exists>k. minted client w = Some k \<and> mi_token_id w' = Some (snd (snd k)) \<and>
               held_by (db', []) k = Some (mi_user_id w, HoHeld)) \<or>
          mi_status w' = MiFailed \<and>
            (executed client head c (mi_tx_hash w) (\<lambda>s. s = 0) \<or>
             executed client head c (mi_tx_hash w) (\<lambda>s. s \<noteq> 0) \<and> minted client w = None \<or>
             replaced client head c hot (mi_tx_hash w) (mi_nonce w) (mi_unmined_since_block w)))
       else w' = w" if w: "w \<in> set (nft_mint_requests db)" for w
  proof -
    obtain w' where w': "w' \<in> set (nft_mint_requests db')"
        "if w \<in> set ?rs then mint_outcome client head c hot (set ?rs) s w w' else w' = w"
      using P(2) [of w] ok mints_ok_D(1) [OF ok] w by (auto simp: rows)
    show ?thesis
    proof (cases "w \<in> set ?rs")
      case True
      then have "mint_outcome client head c hot (set ?rs) s w w'" using w'(2) by simp
      then show ?thesis using w'(1) True holder [OF True]
        by (intro bexI [of _ w']) (simp only: if_True mint_outcome_def, blast)
    next
      case False
      then show ?thesis using w' by (intro bexI [of _ w']) simp_all
    qed
  qed
  then show ?thesis using ok' I held by simp
qed

section \<open>The properties on a concrete run\<close>

definition demo_mint_db :: db where
  "demo_mint_db = demo_db\<lparr>nft_mint_requests := [\<lparr>mi_id = 15, mi_user_id = 1, mi_chain_id = 31337,
     mi_contract = addr (CHR ''c''), mi_to_address = ''hot'', mi_status = MiRequested, mi_nonce = None,
     mi_unmined_since_block = None, mi_signed_tx = None, mi_tx_hash = None, mi_token_id = None,
     mi_error = None, mi_attempts = 0, mi_created_at = 0\<rparr>]\<rparr>"

definition demo_mint_signed :: db where
  "demo_mint_signed = snd (projr (sign_pending_mints demo_mint_db demo_client ''key'' ''hot'' MINT_DEFAULT_BATCH))"

definition demo_mint_sent :: db where
  "demo_mint_sent = bs_db (projr (broadcast_signed_mints demo_mint_signed demo_client))"

definition demo_mint_held :: db where
  "demo_mint_held = snd (projr (confirm_mints demo_mint_sent demo_client 12 (Some ''hot'')))"

lemma demo_mint_signed_runs:
  "sign_pending_mints demo_mint_db demo_client ''key'' ''hot'' MINT_DEFAULT_BATCH = Inr (1, demo_mint_signed)"
  by code_simp

lemma demo_mint_held_runs:
  "confirm_mints demo_mint_sent demo_client 12 (Some ''hot'') = Inr (1, demo_mint_held)"
  by code_simp

lemma demo_mint_ok: "mints_ok demo_mint_db"
  by code_simp

lemma demo_mint_sent_ok: "mints_ok demo_mint_sent"
  by code_simp

theorem sign_mints_nonces_witness:
  "\<exists>start. 7 \<le> start \<and> next_nonce_of demo_mint_signed 31337 = Some (''hot'', start + 1)"
proof -
  have "cl_chain_id demo_client = 31337" "cl_pending_nonce demo_client ''hot'' = Inr 7"
    by (simp_all add: demo_client_def)
  then show ?thesis using sign_mints_nonces [OF demo_mint_ok demo_mint_signed_runs] by auto
qed

theorem mint_confirm_decides_on_evidence_witness:
  "mints_ok demo_mint_held \<and> map mi_status (nft_mint_requests demo_mint_held) = [MiConfirmed] \<and>
     held_by (demo_mint_held, []) (31337, addr (CHR ''c''), ''77'') = Some (1, HoHeld)"
proof -
  have hd: "cl_block_number demo_client = Inr 100" by (simp add: demo_client_def)
  have "length (broadcast_mints demo_mint_sent (cl_chain_id demo_client)) = 1" by code_simp
  then have once: "\<forall>x \<in> set (broadcast_mints demo_mint_sent (cl_chain_id demo_client)).
      \<forall>y \<in> set (broadcast_mints demo_mint_sent (cl_chain_id demo_client)).
        minted demo_client x \<noteq> None \<and> minted demo_client x = minted demo_client y \<longrightarrow> x = y"
    by (auto simp: length_Suc_conv)
  have "map mi_status (nft_mint_requests demo_mint_held) = [MiConfirmed]"
    "held_by (demo_mint_held, []) (31337, addr (CHR ''c''), ''77'') = Some (1, HoHeld)" by code_simp+
  then show ?thesis
    using mint_confirm_decides_on_evidence [OF demo_mint_sent_ok hd once demo_mint_held_runs] by simp
qed

end
