(* ===== verification/Nft_Watcher.thy ===== *)
theory Nft_Watcher
  imports Nft_Holdings Registry Watcher Bindings
begin

text \<open>
  The NFT deposit watcher (\<open>worker/nft_watcher.py\<close>): it records the ERC-721 transfers a chain
  shows to known deposit addresses, turns a confirmed one into a holding, and removes the
  holding when the crediting block is reorganised away. NFTs bypass the ledger.
\<close>

section \<open>Recording\<close>

definition nd_key :: "nft_deposit \<Rightarrow> int \<times> string \<times> int option" where
  "nd_key d = (nd_chain_id d, nd_tx_hash d, nd_log_index d)"

definition nd_token :: "nft_deposit \<Rightarrow> int \<times> string \<times> string" where
  "nd_token d = (nd_chain_id d, lower (nd_contract d), nd_token_id d)"

definition nd_set_status :: "nft_deposit_status \<Rightarrow> nft_deposit \<Rightarrow> nft_deposit" where
  "nd_set_status s d = d\<lparr>nd_status := s\<rparr>"

definition update_nd :: "uuid \<Rightarrow> (nft_deposit \<Rightarrow> nft_deposit) \<Rightarrow> db \<Rightarrow> db" where
  "update_nd i f db = db\<lparr>nft_deposits := upd_row nd_id i f (nft_deposits db)\<rparr>"

definition new_nft_deposit :: "db \<Rightarrow> int \<Rightarrow> erc721_transfer \<Rightarrow> uuid \<Rightarrow> nft_deposit" where
  "new_nft_deposit db chain_id transfer user_id =
     \<lparr>nd_id = next_uuid db, nd_user_id = Some user_id, nd_chain_id = chain_id,
      nd_contract = ft_contract_address transfer, nd_token_id = ft_token_id transfer,
      nd_from_address = ft_from_address transfer, nd_to_address = ft_to_address transfer,
      nd_tx_hash = ft_tx_hash transfer, nd_log_index = Some (ft_log_index transfer),
      nd_block_number = ft_block_number transfer, nd_block_hash = ft_block_hash transfer,
      nd_status = NdSeen, nd_credit_revision = 0, nd_created_at = db_now db\<rparr>"

definition resurrect_nft :: "nft_deposit \<Rightarrow> nft_deposit \<Rightarrow> nft_deposit" where
  "resurrect_nft deposit existing = existing\<lparr>nd_block_number := nd_block_number deposit,
     nd_block_hash := nd_block_hash deposit, nd_contract := nd_contract deposit,
     nd_token_id := nd_token_id deposit, nd_from_address := nd_from_address deposit,
     nd_to_address := nd_to_address deposit, nd_user_id := nd_user_id deposit,
     nd_status := NdSeen, nd_credit_revision := nd_credit_revision existing + 1\<rparr>"

definition insert_nft_if_new :: "db \<Rightarrow> nft_deposit \<Rightarrow> error + (bool \<times> db)" where
  "insert_nft_if_new db deposit =
     bind_res (scalar_one_or_none (filter (\<lambda>d. nd_key d = nd_key deposit) (nft_deposits db)))
       (\<lambda>existing. case existing of
          None \<Rightarrow> Inr (True, db\<lparr>nft_deposits := nft_deposits db @ [deposit], next_uuid := Suc (next_uuid db)\<rparr>)
        | Some e \<Rightarrow>
            if nd_status e = NdOrphaned
            then Inr (True, update_nd (nd_id e) (resurrect_nft deposit) db)
            else Inr (False, db))"

definition record_nft ::
  "int \<Rightarrow> (string \<times> uuid) list \<Rightarrow> erc721_transfer \<Rightarrow> db \<times> int \<Rightarrow> error + (db \<times> int)" where
  "record_nft chain_id owners transfer s =
     (case s of (db, recorded) \<Rightarrow>
      case map_of owners (lower (ft_to_address transfer)) of
        None \<Rightarrow> Inr s
      | Some user_id \<Rightarrow>
          bind_res (insert_nft_if_new db (new_nft_deposit db chain_id transfer user_id)) (\<lambda>(b, db).
          Inr (db, recorded + of_bool_int b)))"

definition record_nft_deposits ::
  "registry \<Rightarrow> db \<Rightarrow> chain_client \<Rightarrow> int \<Rightarrow> int \<Rightarrow> error + (int \<times> db)" where
  "record_nft_deposits reg db client from_block to_block =
     (if to_block < from_block then Inr (0, db)
      else
      let owners = deposit_address_owners db in
      if owners = [] then Inr (0, db)
      else bind_res (nfts_of_chain reg (cl_chain_id client)) (\<lambda>nfts.
      let contracts = map ra_address nfts in
      if contracts = [] then Inr (0, db)
      else bind_res (cl_fetch_erc721_transfers client contracts (map fst owners) from_block to_block)
        (\<lambda>transfers.
      bind_res (for_each (record_nft (cl_chain_id client) owners) transfers (db, 0))
        (\<lambda>(db, recorded). Inr (recorded, db)))))"

section \<open>Crediting\<close>

definition upsert_holding ::
  "nft_deposit \<Rightarrow> uuid \<Rightarrow> db \<times> pending_holding list \<Rightarrow> error + (db \<times> pending_holding list)" where
  "upsert_holding deposit user_id s =
     put_holding user_id (nd_chain_id deposit) (nd_contract deposit) (nd_token_id deposit) s"

record nft_credit_state =
  nc_db :: db
  nc_added :: "pending_holding list"
  nc_credited :: nat

definition mark_nfts_confirmed :: "db \<Rightarrow> int \<Rightarrow> int \<Rightarrow> db" where
  "mark_nfts_confirmed db chain_id threshold =
     db\<lparr>nft_deposits := map (\<lambda>d.
        if nd_chain_id d = chain_id \<and> nd_status d = NdSeen \<and> nd_block_number d \<le> threshold
        then nd_set_status NdConfirmed d else d) (nft_deposits db)\<rparr>"

definition credit_nft ::
  "chain_client \<Rightarrow> nft_deposit \<Rightarrow> nft_credit_state \<Rightarrow> error + nft_credit_state" where
  "credit_nft client deposit s =
     (case nd_user_id deposit of
        None \<Rightarrow> Inr s
      | Some user_id \<Rightarrow>
          bind_res (cl_block_hash client (nd_block_number deposit)) (\<lambda>canonical.
          case canonical of
            None \<Rightarrow> Inr s
          | Some h \<Rightarrow>
              if h \<noteq> nd_block_hash deposit
              then Inr (s\<lparr>nc_db := update_nd (nd_id deposit) (nd_set_status NdOrphaned) (nc_db s)\<rparr>)
              else bind_res (upsert_holding deposit user_id (nc_db s, nc_added s)) (\<lambda>(db, added).
                Inr \<lparr>nc_db = update_nd (nd_id deposit) (nd_set_status NdCredited) db,
                     nc_added = added, nc_credited = Suc (nc_credited s)\<rparr>)))"

definition confirmed_nfts :: "db \<Rightarrow> int \<Rightarrow> nft_deposit list" where
  "confirmed_nfts db chain_id =
     filter (\<lambda>d. nd_chain_id d = chain_id \<and> nd_status d = NdConfirmed) (nft_deposits db)"

definition confirm_and_credit_nfts :: "db \<Rightarrow> chain_client \<Rightarrow> int \<Rightarrow> error + (nat \<times> db)" where
  "confirm_and_credit_nfts db client confirmations =
     bind_res (cl_block_number client) (\<lambda>head.
     let threshold = head - confirmations;
         db = mark_nfts_confirmed db (cl_chain_id client) threshold in
     bind_res (for_each (credit_nft client) (confirmed_nfts db (cl_chain_id client))
         \<lparr>nc_db = db, nc_added = [], nc_credited = 0\<rparr>) (\<lambda>s.
     bind_res (flush_holdings (nc_added s) (nc_db s)) (\<lambda>db. Inr (nc_credited s, db))))"

section \<open>Reorganisations\<close>

text \<open>
  A deleted holding leaves the table at the flush, which fails when a transfer or a withdrawal
  request still references it: the foreign keys have no \<open>ON DELETE\<close> rule.
\<close>

definition referenced_holdings :: "db \<Rightarrow> uuid set" where
  "referenced_holdings db =
     nt_nft_holding_id ` set (nft_transfers db) \<union> nw_nft_holding_id ` set (nft_withdrawal_requests db)"

definition flush_deleted :: "uuid list \<Rightarrow> db \<Rightarrow> error + db" where
  "flush_deleted deleted db =
     (if set deleted \<inter> referenced_holdings db \<noteq> {} then Inl IntegrityError
      else Inr (db\<lparr>nft_holdings := filter (\<lambda>h. ho_id h \<notin> set deleted) (nft_holdings db)\<rparr>))"

definition remove_holding :: "db \<Rightarrow> nft_deposit \<Rightarrow> uuid list \<Rightarrow> error + uuid list" where
  "remove_holding db deposit deleted =
     bind_res (find_holding db (nd_chain_id deposit) (nd_contract deposit) (nd_token_id deposit))
       (\<lambda>existing. case existing of None \<Rightarrow> Inr deleted | Some h \<Rightarrow> Inr (deleted @ [ho_id h]))"

record nft_reorg_state =
  nr_db :: db
  nr_deleted :: "uuid list"
  nr_orphaned :: nat
  nr_lowest_block :: "int option"

definition reorg_nft ::
  "chain_client \<Rightarrow> nft_deposit \<Rightarrow> nft_reorg_state \<Rightarrow> error + nft_reorg_state" where
  "reorg_nft client deposit s =
     bind_res (cl_block_hash client (nd_block_number deposit)) (\<lambda>canonical.
     if canonical = None \<or> canonical = Some (nd_block_hash deposit) then Inr s
     else
       bind_res (if nd_status deposit = NdCredited
           then remove_holding (nr_db s) deposit (nr_deleted s) else Inr (nr_deleted s)) (\<lambda>deleted.
       let block = nd_block_number deposit in
       Inr \<lparr>nr_db = update_nd (nd_id deposit) (nd_set_status NdOrphaned) (nr_db s),
            nr_deleted = deleted, nr_orphaned = Suc (nr_orphaned s),
            nr_lowest_block = Some (case nr_lowest_block s of None \<Rightarrow> block | Some l \<Rightarrow> min l block)\<rparr>))"

definition nft_reorg_candidates :: "db \<Rightarrow> int \<Rightarrow> int \<Rightarrow> nft_deposit list" where
  "nft_reorg_candidates db chain_id window_floor =
     filter (\<lambda>d. nd_chain_id d = chain_id \<and> nd_status d \<in> {NdSeen, NdConfirmed, NdCredited}
       \<and> window_floor < nd_block_number d) (nft_deposits db)"

record nft_reorg_report =
  nrr_orphaned :: nat
  nrr_lowest_block :: "int option"

definition handle_nft_reorgs :: "db \<Rightarrow> chain_client \<Rightarrow> int \<Rightarrow> error + (nft_reorg_report \<times> db)" where
  "handle_nft_reorgs db client reorg_depth =
     bind_res (cl_block_number client) (\<lambda>head.
     bind_res (for_each (reorg_nft client)
         (nft_reorg_candidates db (cl_chain_id client) (head - reorg_depth))
         \<lparr>nr_db = db, nr_deleted = [], nr_orphaned = 0, nr_lowest_block = None\<rparr>) (\<lambda>s.
     bind_res (flush_deleted (nr_deleted s) (nr_db s)) (\<lambda>db.
     Inr (\<lparr>nrr_orphaned = nr_orphaned s, nrr_lowest_block = nr_lowest_block s\<rparr>, db))))"

section \<open>A scan pass\<close>

record nft_scan_report =
  nsr_recorded :: int
  nsr_credited :: nat
  nsr_orphaned :: nat

definition run_nft_scan ::
  "registry \<Rightarrow> db \<Rightarrow> chain_client \<Rightarrow> int \<Rightarrow> int \<Rightarrow> int \<Rightarrow> int \<Rightarrow> error + (nft_scan_report \<times> db)" where
  "run_nft_scan reg db client confirmations reorg_depth finality_depth start_block =
     bind_res (cl_block_number client) (\<lambda>head.
     let chain_id = cl_chain_id client; finalized = max 0 (head - confirmations) in
     bind_res (advance_cursor db chain_id head finalized start_block) (\<lambda>(from_block, db).
     bind_res (record_nft_deposits reg db client from_block head) (\<lambda>(recorded, db).
     bind_res (confirm_and_credit_nfts db client confirmations) (\<lambda>(credited, db).
     let margin = max reorg_depth finality_depth in
     bind_res (handle_nft_reorgs db client (confirmations + margin)) (\<lambda>(reorg, db).
     let db = rewind_cursor db chain_id (nrr_lowest_block reorg) in
     Inr (\<lparr>nsr_recorded = recorded, nsr_credited = credited, nsr_orphaned = nrr_orphaned reorg\<rparr>, db))))))"

end
