(* ===== verification/Nft_Sweeper.thy ===== *)
theory Nft_Sweeper
  imports Nft_Watcher
begin

text \<open>
  The NFT sweeper (\<open>worker/nft_sweeper.py\<close>): a credited NFT sits on the user's deposit address;
  the sweeper funds that address for gas, lets it sign the transfer into the hot wallet, and
  confirms the sweep on the chain's evidence. The key derivation is a parameter.
\<close>

section \<open>Discovery\<close>

definition GAS_BUDGET_WEI :: int where "GAS_BUDGET_WEI = 2000000000000000"
definition SWEEP_DEFAULT_BATCH :: nat where "SWEEP_DEFAULT_BATCH = 20"
definition MAX_SWEEP_ATTEMPTS :: int where "MAX_SWEEP_ATTEMPTS = 3"

text \<open>\<open>int(s)\<close> for text without digit separators.\<close>

definition py_int :: "string \<Rightarrow> error + int" where
  "py_int s =
     (let t = strip s;
          negative = startswith t ''-'';
          digits = (if startswith t ''-'' \<or> startswith t ''+'' then drop 1 t else t) in
      if isdigit digits then Inr (if negative then - int (digits_val digits) else int (digits_val digits))
      else Inl (ValueError ''invalid literal for int() with base 10''))"

definition hd_index_of :: "string \<Rightarrow> error + int" where
  "hd_index_of path =
     (if CHR ''/'' \<notin> set path then Inl (OtherError ''list index out of range'')
      else py_int (rev (takeWhile (\<lambda>c. c \<noteq> CHR ''/'') (rev path))))"

definition sw_key :: "nft_sweep \<Rightarrow> int \<times> string \<times> string" where
  "sw_key w = (sw_chain_id w, lower (sw_contract w), sw_token_id w)"

definition update_sweep :: "uuid \<Rightarrow> (nft_sweep \<Rightarrow> nft_sweep) \<Rightarrow> db \<Rightarrow> db" where
  "update_sweep i f db = db\<lparr>nft_sweeps := upd_row sw_id i f (nft_sweeps db)\<rparr>"

text \<open>
  The joined rows: a credited deposit, the deposit address it went to, and the token's sweep,
  by id, when there is one.
\<close>

definition join_sweep ::
  "db \<Rightarrow> nft_deposit \<Rightarrow> deposit_address \<Rightarrow> (nft_deposit \<times> deposit_address \<times> uuid option) list" where
  "join_sweep db deposit address =
     (case filter (\<lambda>w. sw_key w = nd_token deposit) (nft_sweeps db) of
        [] \<Rightarrow> [(deposit, address, None)]
      | sweeps \<Rightarrow> map (\<lambda>w. (deposit, address, Some (sw_id w))) sweeps)"

definition sweep_rows :: "db \<Rightarrow> int \<Rightarrow> (nft_deposit \<times> deposit_address \<times> uuid option) list" where
  "sweep_rows db chain_id =
     concat (map (\<lambda>d. concat (map (join_sweep db d)
       (filter (\<lambda>a. lower (da_address a) = lower (nd_to_address d)) (deposit_addresses db))))
     (sort_key (\<lambda>d. (nd_created_at d, nd_id d))
       (filter (\<lambda>d. nd_chain_id d = chain_id \<and> nd_status d = NdCredited) (nft_deposits db))))"

definition rearm :: "nft_sweep \<Rightarrow> nft_sweep" where
  "rearm sweep = sweep\<lparr>sw_status := SwPending, sw_gas_fund_tx_hash := None, sw_gas_fund_nonce := None,
     sw_sweep_signed_tx := None, sw_sweep_tx_hash := None, sw_sweep_nonce := None,
     sw_unmined_since_block := None, sw_error := None\<rparr>"

text \<open>An added sweep; its id and time are set at the flush.\<close>

definition new_sweep :: "nft_deposit \<Rightarrow> int \<Rightarrow> nft_sweep" where
  "new_sweep deposit hd_index =
     \<lparr>sw_id = 0, sw_chain_id = nd_chain_id deposit, sw_contract = nd_contract deposit,
      sw_token_id = nd_token_id deposit, sw_deposit_address = nd_to_address deposit,
      sw_hd_index = hd_index, sw_nft_deposit_id = nd_id deposit, sw_status = SwPending,
      sw_gas_fund_tx_hash = None, sw_gas_fund_nonce = None, sw_sweep_signed_tx = None,
      sw_sweep_tx_hash = None, sw_sweep_nonce = None, sw_unmined_since_block = None,
      sw_attempts = 0, sw_error = None, sw_created_at = 0\<rparr>"

record discover_state =
  ds_db :: db
  ds_added :: "nft_sweep list"
  ds_discovered :: nat

definition discover_one ::
  "nft_deposit \<times> deposit_address \<times> uuid option \<Rightarrow> discover_state \<Rightarrow> error + discover_state" where
  "discover_one row s =
     (case row of (deposit, address, sweep_id) \<Rightarrow>
      case sweep_id of
        Some i \<Rightarrow>
          (case get_row sw_id i (nft_sweeps (ds_db s)) of
             None \<Rightarrow> Inr s
           | Some sweep \<Rightarrow>
               if sw_status sweep = SwFailed \<and> sw_attempts sweep < MAX_SWEEP_ATTEMPTS
               then Inr (s\<lparr>ds_db := update_sweep i rearm (ds_db s), ds_discovered := Suc (ds_discovered s)\<rparr>)
               else Inr s)
      | None \<Rightarrow>
          bind_res (hd_index_of (da_derivation_path address)) (\<lambda>hd_index.
          Inr (s\<lparr>ds_added := ds_added s @ [new_sweep deposit hd_index],
                 ds_discovered := Suc (ds_discovered s)\<rparr>)))"

definition flush_sweep :: "nft_sweep \<Rightarrow> db \<Rightarrow> error + db" where
  "flush_sweep w db =
     (if sw_key w \<in> sw_key ` set (nft_sweeps db) then Inl IntegrityError
      else Inr (db\<lparr>nft_sweeps := nft_sweeps db @ [w\<lparr>sw_id := next_uuid db, sw_created_at := db_now db\<rparr>],
                  next_uuid := Suc (next_uuid db)\<rparr>))"

definition discover_sweeps :: "db \<Rightarrow> chain_client \<Rightarrow> error + (nat \<times> db)" where
  "discover_sweeps db client =
     bind_res (for_each discover_one (sweep_rows db (cl_chain_id client))
         \<lparr>ds_db = db, ds_added = [], ds_discovered = 0\<rparr>) (\<lambda>s.
     bind_res (for_each flush_sweep (ds_added s) (ds_db s)) (\<lambda>db. Inr (ds_discovered s, db)))"

section \<open>Gas funding\<close>

definition already_broadcast_error :: "error \<Rightarrow> bool" where
  "already_broadcast_error exc =
     (let text = lower (error_text exc) in contains ''nonce too low'' text \<or> contains ''already known'' text)"

definition claim_sweeps :: "db \<Rightarrow> int \<Rightarrow> nft_sweep_status set \<Rightarrow> nat \<Rightarrow> nft_sweep list" where
  "claim_sweeps db chain_id statuses batch =
     take batch (sort_key (\<lambda>w. (sw_created_at w, sw_id w))
       (filter (\<lambda>w. sw_chain_id w = chain_id \<and> sw_status w \<in> statuses) (nft_sweeps db)))"

text \<open>
  The nonce row is only read for the first new funding. A funding is signed and broadcast in
  the same pass; a broadcast that raises keeps the signed row's nonce.
\<close>

record fund_state =
  fs_db :: db
  fs_next :: "int option"
  fs_progressed :: nat
  fs_sent :: "string list"

definition fund_again ::
  "chain_client \<Rightarrow> string \<Rightarrow> int \<Rightarrow> nft_sweep \<Rightarrow> fund_state \<Rightarrow> error + fund_state" where
  "fund_again client hot_wallet_key gas_price sweep s =
     (case sw_gas_fund_nonce sweep of
        None \<Rightarrow> Inr s
      | Some nonce \<Rightarrow>
          bind_res (cl_sign_native client hot_wallet_key (sw_deposit_address sweep) GAS_BUDGET_WEI nonce gas_price)
            (\<lambda>tx. let s = s\<lparr>fs_sent := fs_sent s @ [stx_raw tx]\<rparr> in
             case cl_broadcast_raw client (stx_raw tx) of
               Inl exc \<Rightarrow>
                 if is_chain_rpc_error exc
                 then (if already_broadcast_error exc then Inr s else Inr s)
                 else Inl exc
             | Inr tx_hash \<Rightarrow>
                 Inr (s\<lparr>fs_db := update_sweep (sw_id sweep) (\<lambda>w. w\<lparr>sw_gas_fund_tx_hash := Some tx_hash\<rparr>) (fs_db s),
                        fs_progressed := Suc (fs_progressed s)\<rparr>)))"

definition fund_nonce ::
  "chain_client \<Rightarrow> string \<Rightarrow> fund_state \<Rightarrow> error + (int \<times> fund_state)" where
  "fund_nonce client hot_wallet_address s =
     (case fs_next s of
        Some n \<Rightarrow> Inr (n, s)
      | None \<Rightarrow>
          bind_res (nonce_row (fs_db s) client hot_wallet_address) (\<lambda>(row, db).
          Inr (hw_next_nonce row, s\<lparr>fs_db := db, fs_next := Some (hw_next_nonce row)\<rparr>)))"

definition fund_new ::
  "chain_client \<Rightarrow> string \<Rightarrow> int \<Rightarrow> nft_sweep \<Rightarrow> int \<Rightarrow> fund_state \<Rightarrow> fund_state" where
  "fund_new client hot_wallet_key gas_price sweep nonce s =
     (let db = update_sweep (sw_id sweep) (\<lambda>w. w\<lparr>sw_attempts := sw_attempts w + 1\<rparr>) (fs_db s) in
      case cl_sign_native client hot_wallet_key (sw_deposit_address sweep) GAS_BUDGET_WEI nonce gas_price of
        Inl exc \<Rightarrow> s\<lparr>fs_db := db\<rparr>
      | Inr tx \<Rightarrow>
          (let s = s\<lparr>fs_db := set_next_nonce (cl_chain_id client) (nonce + 1)
                 (update_sweep (sw_id sweep) (\<lambda>w. w\<lparr>sw_gas_fund_tx_hash := Some (stx_tx_hash tx),
                    sw_gas_fund_nonce := Some nonce, sw_status := SwFunding\<rparr>) db),
               fs_next := Some (nonce + 1), fs_sent := fs_sent s @ [stx_raw tx]\<rparr> in
           case cl_broadcast_raw client (stx_raw tx) of
             Inl exc \<Rightarrow> s
           | Inr tx_hash \<Rightarrow> s\<lparr>fs_progressed := Suc (fs_progressed s)\<rparr>))"

definition fund_sweep ::
  "chain_client \<Rightarrow> string \<Rightarrow> string \<Rightarrow> int \<Rightarrow> nft_sweep \<Rightarrow> fund_state \<Rightarrow> error + fund_state" where
  "fund_sweep client hot_wallet_key hot_wallet_address gas_price sweep s =
     bind_res (cl_native_balance client (sw_deposit_address sweep)) (\<lambda>balance.
     if GAS_BUDGET_WEI \<le> balance
     then Inr (s\<lparr>fs_db := update_sweep (sw_id sweep) (\<lambda>w. w\<lparr>sw_status := SwFunded\<rparr>) (fs_db s),
                 fs_progressed := Suc (fs_progressed s)\<rparr>)
     else if sw_status sweep = SwFunding then fund_again client hot_wallet_key gas_price sweep s
     else if sw_status sweep \<noteq> SwPending then Inr s
     else bind_res (fund_nonce client hot_wallet_address s) (\<lambda>(nonce, s).
       Inr (fund_new client hot_wallet_key gas_price sweep nonce s)))"

definition fund_pending ::
  "db \<Rightarrow> chain_client \<Rightarrow> string \<Rightarrow> string \<Rightarrow> nat \<Rightarrow> error + fund_state" where
  "fund_pending db client hot_wallet_key hot_wallet_address batch =
     (let sweeps = claim_sweeps db (cl_chain_id client) {SwPending, SwFunding} batch;
          s = \<lparr>fs_db = db, fs_next = None, fs_progressed = 0, fs_sent = []\<rparr> in
      if sweeps = [] then Inr s
      else bind_res (cl_suggested_gas_price client) (\<lambda>gas_price.
        for_each (fund_sweep client hot_wallet_key hot_wallet_address gas_price) sweeps s))"

section \<open>Sweeping\<close>

text \<open>
  The body of the \<open>try\<close>: the row as far as it got, and the transaction to broadcast or the
  exception.
\<close>

definition sign_sweep ::
  "chain_client \<Rightarrow> (int \<Rightarrow> int \<Rightarrow> error + string) \<Rightarrow> string \<Rightarrow> int \<Rightarrow> nft_sweep \<Rightarrow> error + (string \<times> (nft_sweep \<Rightarrow> nft_sweep))" where
  "sign_sweep client derive_account hot_wallet_address gas_price sweep =
     (case sw_sweep_signed_tx sweep of
        Some raw \<Rightarrow> Inr (raw, id)
      | None \<Rightarrow>
          bind_res (derive_account (cl_chain_id client) (sw_hd_index sweep)) (\<lambda>private_key.
          bind_res (cl_pending_nonce client (sw_deposit_address sweep)) (\<lambda>nonce.
          bind_res (cl_sign_erc721_transfer client private_key (sw_contract sweep) (sw_deposit_address sweep)
              hot_wallet_address (sw_token_id sweep) nonce gas_price) (\<lambda>tx.
          Inr (stx_raw tx, \<lambda>w. w\<lparr>sw_sweep_signed_tx := Some (stx_raw tx),
                 sw_sweep_tx_hash := Some (stx_tx_hash tx), sw_sweep_nonce := Some nonce\<rparr>)))))"

definition sweep_one ::
  "chain_client \<Rightarrow> (int \<Rightarrow> int \<Rightarrow> error + string) \<Rightarrow> string \<Rightarrow> int \<Rightarrow> nft_sweep \<Rightarrow> broadcast_state
    \<Rightarrow> error + broadcast_state" where
  "sweep_one client derive_account hot_wallet_address gas_price sweep s =
     (let db = update_sweep (sw_id sweep) (\<lambda>w. w\<lparr>sw_attempts := sw_attempts w + 1\<rparr>) (bs_db s) in
      case sign_sweep client derive_account hot_wallet_address gas_price sweep of
        Inl exc \<Rightarrow> Inr (s\<lparr>bs_db := db\<rparr>)
      | Inr (raw, signed) \<Rightarrow>
          (let db = update_sweep (sw_id sweep) signed db; sent = bs_sent s @ [raw] in
           case cl_broadcast_raw client raw of
             Inl exc \<Rightarrow> Inr (s\<lparr>bs_db := db, bs_sent := sent\<rparr>)
           | Inr tx_hash \<Rightarrow>
               Inr \<lparr>bs_db = update_sweep (sw_id sweep)
                      (\<lambda>w. w\<lparr>sw_sweep_tx_hash := Some tx_hash, sw_status := SwSweeping\<rparr>) db,
                    bs_count = Suc (bs_count s), bs_sent = sent\<rparr>))"

definition sweep_funded ::
  "db \<Rightarrow> chain_client \<Rightarrow> (int \<Rightarrow> int \<Rightarrow> error + string) \<Rightarrow> string \<Rightarrow> nat \<Rightarrow> error + broadcast_state" where
  "sweep_funded db client derive_account hot_wallet_address batch =
     (let sweeps = claim_sweeps db (cl_chain_id client) {SwFunded} batch;
          s = \<lparr>bs_db = db, bs_count = 0, bs_sent = []\<rparr> in
      if sweeps = [] then Inr s
      else bind_res (cl_suggested_gas_price client) (\<lambda>gas_price.
        for_each (sweep_one client derive_account hot_wallet_address gas_price) sweeps s))"

section \<open>Confirmation\<close>

definition fail_sweep :: "nft_sweep \<Rightarrow> string \<Rightarrow> db \<Rightarrow> db" where
  "fail_sweep sweep err db = update_sweep (sw_id sweep) (\<lambda>w. w\<lparr>sw_status := SwFailed, sw_error := Some err\<rparr>) db"

definition set_sweep_unmined :: "int option \<Rightarrow> nft_sweep \<Rightarrow> db \<Rightarrow> db" where
  "set_sweep_unmined m sweep db = update_sweep (sw_id sweep) (\<lambda>w. w\<lparr>sw_unmined_since_block := m\<rparr>) db"

definition reconcile_unmined_sweep :: "db \<Rightarrow> chain_client \<Rightarrow> nft_sweep \<Rightarrow> int \<Rightarrow> int \<Rightarrow> error + db" where
  "reconcile_unmined_sweep db client sweep head confirmations =
     bind_res (unmined_gate client (Some (sw_deposit_address sweep)) (sw_sweep_nonce sweep)
         (sw_unmined_since_block sweep) head confirmations) (\<lambda>g.
     case g of
       GateKeep \<Rightarrow> Inr db
     | GateClear \<Rightarrow> Inr (set_sweep_unmined None sweep db)
     | GateMark \<Rightarrow> Inr (set_sweep_unmined (Some head) sweep db)
     | GateDrop \<Rightarrow> Inr (fail_sweep sweep ''sweep tx dropped (nonce superseded)'' db))"

definition confirm_sweep ::
  "chain_client \<Rightarrow> int \<Rightarrow> int \<Rightarrow> string \<Rightarrow> nft_sweep \<Rightarrow> db \<times> nat \<Rightarrow> error + (db \<times> nat)" where
  "confirm_sweep client head confirmations hot_wallet_address sweep s =
     (case s of (db, swept) \<Rightarrow>
      case sw_sweep_tx_hash sweep of
        None \<Rightarrow> Inr s
      | Some tx_hash \<Rightarrow>
        bind_res (cl_get_receipt client tx_hash) (\<lambda>receipt.
        case receipt of
          None \<Rightarrow>
            bind_res (reconcile_unmined_sweep db client sweep head confirmations) (\<lambda>db. Inr (db, swept))
        | Some r \<Rightarrow>
            (let db = set_sweep_unmined None sweep db in
             bind_res (receipt_final client head confirmations r) (\<lambda>final.
             if \<not> final then Inr (db, swept)
             else if rc_status r = 0 then Inr (fail_sweep sweep ''sweep reverted'' db, swept)
             else
               bind_res (cl_erc721_owner_of client (sw_contract sweep) (sw_token_id sweep)) (\<lambda>owner.
               if owner = None \<or> map_option lower owner \<noteq> Some (lower hot_wallet_address) then Inr (db, swept)
               else Inr (update_sweep (sw_id sweep) (\<lambda>w. w\<lparr>sw_status := SwSwept\<rparr>) db, Suc swept))))))"

definition confirm_sweeps ::
  "db \<Rightarrow> chain_client \<Rightarrow> int \<Rightarrow> string \<Rightarrow> nat \<Rightarrow> error + (nat \<times> db)" where
  "confirm_sweeps db client confirmations hot_wallet_address batch =
     bind_res (cl_block_number client) (\<lambda>head.
     bind_res (for_each (confirm_sweep client head confirmations hot_wallet_address)
         (claim_sweeps db (cl_chain_id client) {SwSweeping} batch) (db, 0))
       (\<lambda>(db, swept). Inr (swept, db)))"

end
