(* ===== verification/Nft_Deposit_Facts.thy ===== *)
theory Nft_Deposit_Facts
  imports Nft_Watcher
begin

text \<open>
  What the phases of the NFT watcher do, as equations: crediting decides every deposit by the
  canonical block hash and gives each credited token to its depositor; reorganisation handling
  orphans exactly the deposits whose block is gone and removes exactly the holdings they
  credited, or fails as a whole when a removed holding is still referenced.
\<close>

section \<open>Loops that decide rows one by one\<close>

lemma for_each_upd_rows:
  assumes l: "for_each body rs s = Inr s'" and d: "distinct (map key rs)"
    and k: "\<And>r x. key (g r x) = key x"
    and step: "\<And>r t t'. r \<in> set rs \<Longrightarrow> body r t = Inr t' \<Longrightarrow> tab t' = upd_row key (key r) (g r) (tab t)"
  shows "tab s' = map (\<lambda>x. case find (\<lambda>r. key r = key x) rs of None \<Rightarrow> x | Some r \<Rightarrow> g r x) (tab s)"
  using l d step
proof (induction rs arbitrary: s)
  case (Cons r rs)
  obtain t where t: "body r s = Inr t" "for_each body rs t = Inr s'" using Cons.prems(1) by auto
  have "tab s' = map (\<lambda>x. case find (\<lambda>r. key r = key x) rs of None \<Rightarrow> x | Some r \<Rightarrow> g r x) (tab t)"
    by (rule Cons.IH [OF t(2)]) (use Cons.prems in auto)
  moreover have "tab t = upd_row key (key r) (g r) (tab s)" by (rule Cons.prems(3) [OF _ t(1)]) simp
  moreover have "find (\<lambda>q. key q = key r) rs = None"
    using Cons.prems(2) by (auto simp: find_None_iff image_iff)
  ultimately show ?case by (auto simp: upd_row_def k)
qed simp

text \<open>A loop over the rows of a table a filter selects changes each of them by its own rule.\<close>

lemma for_each_filtered:
  assumes l: "for_each body (filter P (tab s)) s = Inr s'" and d: "distinct (map key (tab s))"
    and k: "\<And>r x. key (g r x) = key x"
    and step: "\<And>r t t'. r \<in> set (tab s) \<Longrightarrow> P r \<Longrightarrow> body r t = Inr t' \<Longrightarrow>
      tab t' = upd_row key (key r) (g r) (tab t)"
  shows "tab s' = map (\<lambda>x. if P x then g x x else x) (tab s)"
proof -
  have "find (\<lambda>r. key r = key x) (filter P (tab s)) = (if P x then Some x else None)" if "x \<in> set (tab s)" for x
  proof (cases "P x")
    case True
    then show ?thesis
      using get_row_distinct [where key = key, unfolded get_row_def] that distinct_map_filter [OF d] by simp
  next
    case False
    then have "find (\<lambda>r. key r = key x) (filter P (tab s)) = None"
      using that d by (auto simp: find_None_iff distinct_map inj_on_def)
    then show ?thesis using False by simp
  qed
  moreover have "tab s' = map (\<lambda>x. case find (\<lambda>r. key r = key x) (filter P (tab s)) of None \<Rightarrow> x | Some r \<Rightarrow> g r x) (tab s)"
  proof (rule for_each_upd_rows [where body = body and tab = tab and key = key and g = g, OF l distinct_map_filter [OF d] k])
    fix r t t' assume "r \<in> set (filter P (tab s))" "body r t = Inr t'"
    then show "tab t' = upd_row key (key r) (g r) (tab t)" using step [of r t t'] by simp
  qed
  ultimately show ?thesis by simp
qed

section \<open>Crediting\<close>

definition nft_deposits_ok :: "db \<Rightarrow> bool" where
  "nft_deposits_ok db \<longleftrightarrow> distinct (map nd_id (nft_deposits db)) \<and> distinct (map nd_key (nft_deposits db)) \<and>
     (\<forall>d \<in> set (nft_deposits db). nd_id d < next_uuid db) \<and> holdings_ok db"

lemma nd_frames [simp]:
  "nft_holdings (update_nd i f db) = nft_holdings db" "next_uuid (update_nd i f db) = next_uuid db"
  "held_by (update_nd i f db, added) = held_by (db, added)" "holdings_ok (update_nd i f db) = holdings_ok db"
  "nft_transfers (update_nd i f db) = nft_transfers db"
  "nft_withdrawal_requests (update_nd i f db) = nft_withdrawal_requests db"
  "nft_deposits (update_nd i f db) = upd_row nd_id i f (nft_deposits db)"
  by (simp_all add: update_nd_def held_by_def holdings_ok_def fun_eq_iff split: option.split)

lemma nd_set_status_simps [simp]:
  "nd_id (nd_set_status s d) = nd_id d" "nd_key (nd_set_status s d) = nd_key d"
  "nd_token (nd_set_status s d) = nd_token d" "nd_status (nd_set_status s d) = s"
  "nd_chain_id (nd_set_status s d) = nd_chain_id d" "nd_user_id (nd_set_status s d) = nd_user_id d"
  "nd_block_number (nd_set_status s d) = nd_block_number d"
  "nd_block_hash (nd_set_status s d) = nd_block_hash d"
  "nd_set_status s (nd_set_status s' d) = nd_set_status s d"
  "nd_set_status (nd_status d) d = d"
  by (simp_all add: nd_set_status_def nd_key_def nd_token_def)

text \<open>The decision on a confirmed deposit: what the chain says about its block.\<close>

definition nft_decision :: "chain_client \<Rightarrow> nft_deposit \<Rightarrow> nft_deposit_status" where
  "nft_decision client d =
     (case (nd_user_id d, cl_block_hash client (nd_block_number d)) of
        (Some u, Inr (Some h)) \<Rightarrow> if h = nd_block_hash d then NdCredited else NdOrphaned
      | _ \<Rightarrow> NdConfirmed)"

lemma nft_decision_status [simp]: "nft_decision client (nd_set_status s d) = nft_decision client d"
  by (simp add: nft_decision_def cong: option.case_cong sum.case_cong)

text \<open>The status a crediting phase gives a deposit.\<close>

definition nft_verdict :: "chain_client \<Rightarrow> int \<Rightarrow> nft_deposit \<Rightarrow> nft_deposit_status" where
  "nft_verdict client threshold d =
     (if nd_chain_id d = cl_chain_id client \<and>
         (nd_status d = NdConfirmed \<or> nd_status d = NdSeen \<and> nd_block_number d \<le> threshold)
      then nft_decision client d else nd_status d)"

definition newly_credited :: "chain_client \<Rightarrow> int \<Rightarrow> nft_deposit \<Rightarrow> bool" where
  "newly_credited client threshold d \<longleftrightarrow>
     nd_status d \<noteq> NdCredited \<and> nft_verdict client threshold d = NdCredited"

text \<open>One turn of the loop.\<close>

lemma credit_nft_cases:
  assumes b: "credit_nft client r t = Inr t'"
  obtains (keep) "t' = t" "nft_decision client r = NdConfirmed"
    | (orphan) "nft_decision client r = NdOrphaned"
        "t' = t\<lparr>nc_db := update_nd (nd_id r) (nd_set_status NdOrphaned) (nc_db t)\<rparr>"
    | (credit) u db added where "nft_decision client r = NdCredited" "nd_user_id r = Some u"
        "upsert_holding r u (nc_db t, nc_added t) = Inr (db, added)"
        "t' = \<lparr>nc_db = update_nd (nd_id r) (nd_set_status NdCredited) db, nc_added = added,
          nc_credited = Suc (nc_credited t)\<rparr>"
  using b by (auto simp: credit_nft_def nft_decision_def split: option.splits if_splits prod.splits)

definition decide_nft :: "chain_client \<Rightarrow> nft_deposit \<Rightarrow> nft_deposit \<Rightarrow> nft_deposit" where
  "decide_nft client r x =
     (if nft_decision client r = NdConfirmed then x else nd_set_status (nft_decision client r) x)"

lemma decide_nft_decided:
  "nft_decision client r \<noteq> NdConfirmed \<Longrightarrow> decide_nft client r = nd_set_status (nft_decision client r)"
  by (simp add: decide_nft_def fun_eq_iff)

lemma credit_nft_rows:
  assumes "credit_nft client r t = Inr t'"
  shows "nft_deposits (nc_db t') = upd_row nd_id (nd_id r) (decide_nft client r) (nft_deposits (nc_db t))"
  using assms
proof (cases rule: credit_nft_cases)
  case (credit u db added)
  then show ?thesis
    using holdings_only_fields(2) [OF put_holding_only [OF credit(3) [unfolded upsert_holding_def]]]
    by (simp add: decide_nft_decided)
qed (simp_all add: decide_nft_def decide_nft_decided upd_row_id)

lemma credit_nft_holders:
  assumes ok: "holdings_ok (nc_db t)" and b: "credit_nft client r t = Inr t'"
  shows "holdings_ok (nc_db t') \<and> next_uuid (nc_db t) \<le> next_uuid (nc_db t') \<and>
    nc_credited t' = nc_credited t + (if nft_decision client r = NdCredited then 1 else 0) \<and>
    held_by (nc_db t', nc_added t') =
      (if nft_decision client r = NdCredited
       then (held_by (nc_db t, nc_added t))(nd_token r \<mapsto> (the (nd_user_id r), HoHeld))
       else held_by (nc_db t, nc_added t))"
  using b
proof (cases rule: credit_nft_cases)
  case (credit u db added)
  note P = put_holding_ok [OF _ credit(3) [unfolded upsert_holding_def]]
  have "next_uuid (nc_db t) \<le> next_uuid db" using P(2) ok by (simp add: holdings_only_def)
  then show ?thesis using credit P(1,3) ok by (simp add: nd_token_def)
qed (use ok in simp_all)

text \<open>The loop: the last credited deposit of a token names its holder.\<close>

lemma find_filter_map:
  "find Q (filter P (map f xs)) = map_option f (find (\<lambda>x. P (f x) \<and> Q (f x)) xs)"
  by (induction xs) auto

lemma credit_nft_loop:
  assumes "for_each (credit_nft client) rs t = Inr t'" "holdings_ok (nc_db t)"
  shows "holdings_ok (nc_db t') \<and> next_uuid (nc_db t) \<le> next_uuid (nc_db t') \<and>
    nc_credited t' = nc_credited t + length (filter (\<lambda>r. nft_decision client r = NdCredited) rs) \<and>
    held_by (nc_db t', nc_added t') k =
      (case find (\<lambda>r. nft_decision client r = NdCredited \<and> nd_token r = k) (rev rs) of
         Some r \<Rightarrow> Some (the (nd_user_id r), HoHeld) | None \<Rightarrow> held_by (nc_db t, nc_added t) k)"
  using assms
proof (induction rs arbitrary: t)
  case (Cons r rs)
  obtain t1 where b: "credit_nft client r t = Inr t1" and l: "for_each (credit_nft client) rs t1 = Inr t'"
    using Cons.prems(1) by auto
  note T = credit_nft_holders [OF Cons.prems(2) b]
  have u: "next_uuid (nc_db t) \<le> next_uuid (nc_db t1)" using T by simp
  show ?case using Cons.IH [OF l] T u by (auto simp: find_append split: option.split)
qed simp

text \<open>
  C24: The crediting phase decides every NFT deposit of the chain that is confirmed, or seen and
  buried deep enough, on the hash the chain reports for its block, and changes the status of no
  other deposit: the same hash credits it, a different hash orphans it, no answer leaves it
  confirmed. A token is held afterwards by the depositor of the last deposit of it that was
  credited, free to use, and every token that was not credited keeps its holder and status;
  the number returned is the number of deposits credited.
\<close>

theorem nft_credits_exactly_the_canonical:
  assumes ok: "nft_deposits_ok db" and hd: "cl_block_number client = Inr head"
    and b: "confirm_and_credit_nfts db client c = Inr (n, db')"
  shows "nft_deposits_ok db' \<and>
    nft_deposits db' = map (\<lambda>d. nd_set_status (nft_verdict client (head - c) d) d) (nft_deposits db) \<and>
    n = length (filter (newly_credited client (head - c)) (nft_deposits db)) \<and>
    held_by (db', []) k =
      (case find (\<lambda>d. newly_credited client (head - c) d \<and> nd_token d = k) (rev (nft_deposits db)) of
         Some d \<Rightarrow> Some (the (nd_user_id d), HoHeld) | None \<Rightarrow> held_by (db, []) k)"
proof -
  let ?chain = "cl_chain_id client"
  let ?mk = "\<lambda>d. if nd_chain_id d = ?chain \<and> nd_status d = NdSeen \<and> nd_block_number d \<le> head - c
    then nd_set_status NdConfirmed d else d"
  let ?P = "\<lambda>d. nd_chain_id d = ?chain \<and> nd_status d = NdConfirmed"
  let ?m = "mark_nfts_confirmed db ?chain (head - c)"
  let ?s = "\<lparr>nc_db = ?m, nc_added = [], nc_credited = 0\<rparr>"
  obtain s where l: "for_each (credit_nft client) (filter ?P (nft_deposits (nc_db ?s))) ?s = Inr s"
    and f: "flush_holdings (nc_added s) (nc_db s) = Inr db'" and n: "n = nc_credited s"
    using b hd by (auto simp: confirm_and_credit_nfts_def confirmed_nfts_def Let_def)
  have rows: "nft_deposits ?m = map ?mk (nft_deposits db)" by (simp add: mark_nfts_confirmed_def)
  have hok: "holdings_ok ?m" using ok by (simp add: nft_deposits_ok_def mark_nfts_confirmed_def holdings_ok_def)
  have dist: "distinct (map nd_id (nft_deposits (nc_db ?s)))"
    using ok by (simp add: rows nft_deposits_ok_def comp_def if_distrib [of nd_id] cong: if_cong)
  have dec: "nft_decision client (?mk d) = nft_decision client d" for d by simp
  have new: "?P (?mk d) \<and> nft_decision client (?mk d) = NdCredited \<longleftrightarrow> newly_credited client (head - c) d" for d
    unfolding dec by (auto simp: newly_credited_def nft_verdict_def)
  have tok: "nd_token (?mk d) = nd_token d" for d by simp
  have Q: "?P (?mk d) \<and> nft_decision client (?mk d) = NdCredited \<and> nd_token (?mk d) = k \<longleftrightarrow>
      newly_credited client (head - c) d \<and> nd_token d = k" for d
    using new [of d] tok [of d] by metis
  note L = credit_nft_loop [OF l, unfolded nft_credit_state.simps, OF hok]
  have deps: "nft_deposits (nc_db s) = map (\<lambda>x. if ?P x then decide_nft client x x else x) (nft_deposits ?m)"
    using for_each_filtered [where tab = "\<lambda>s. nft_deposits (nc_db s)" and P = ?P and g = "decide_nft client",
        OF l dist] credit_nft_rows by (simp add: decide_nft_def)
  have F: "holdings_ok db'" "holdings_only (nc_db s) db'" "held_by (db', []) = held_by (nc_db s, nc_added s)"
    using flush_holdings_ok [OF f] L by blast+
  have each: "(if ?P (?mk d) then decide_nft client (?mk d) (?mk d) else ?mk d) =
      nd_set_status (nft_verdict client (head - c) d) d" for d
    unfolding decide_nft_def dec by (auto simp: nft_verdict_def nd_set_status_def)
  have deps': "nft_deposits db' = map (\<lambda>d. nd_set_status (nft_verdict client (head - c) d) d) (nft_deposits db)"
    unfolding holdings_only_fields(2) [OF F(2)] deps rows map_map comp_def each ..
  have "next_uuid db \<le> next_uuid db'"
    using conjunct1 [OF conjunct2 [OF L [of k]]] conjunct2 [OF F(2) [unfolded holdings_only_def]]
    by (simp add: mark_nfts_confirmed_def)
  then have ok': "nft_deposits_ok db'"
    using ok F(1) deps' by (force simp: nft_deposits_ok_def comp_def)
  have "held_by (?m, []) = held_by (db, [])" by (simp add: held_by_def mark_nfts_confirmed_def fun_eq_iff split: option.split)
  moreover have "find (\<lambda>r. nft_decision client r = NdCredited \<and> nd_token r = k) (rev (filter ?P (nft_deposits ?m))) =
      map_option ?mk (find (\<lambda>d. newly_credited client (head - c) d \<and> nd_token d = k) (rev (nft_deposits db)))"
    unfolding rows rev_filter rev_map find_filter_map Q ..
  ultimately have "held_by (db', []) k =
      (case find (\<lambda>d. newly_credited client (head - c) d \<and> nd_token d = k) (rev (nft_deposits db)) of
         Some d \<Rightarrow> Some (the (nd_user_id d), HoHeld) | None \<Rightarrow> held_by (db, []) k)"
    using L [of k] F(3) by (simp split: option.split)
  moreover have "n = length (filter (newly_credited client (head - c)) (nft_deposits db))"
  proof -
    have "length (filter (\<lambda>r. nft_decision client r = NdCredited) (filter ?P (map ?mk ds))) =
        length (filter (newly_credited client (head - c)) ds)" for ds
      unfolding filter_filter filter_map length_map comp_def using new by (metis (no_types, lifting) filter_cong)
    then show ?thesis using L n by (simp add: rows)
  qed
  ultimately show ?thesis using ok' deps' by blast
qed

section \<open>Reorganisations\<close>

text \<open>A deposit whose block the chain no longer has, and a holding such a deposit had credited.\<close>

definition block_gone :: "chain_client \<Rightarrow> nft_deposit \<Rightarrow> bool" where
  "block_gone client d \<longleftrightarrow>
     (case cl_block_hash client (nd_block_number d) of Inr (Some h) \<Rightarrow> h \<noteq> nd_block_hash d | _ \<Rightarrow> False)"

definition in_window :: "chain_client \<Rightarrow> int \<Rightarrow> nft_deposit \<Rightarrow> bool" where
  "in_window client floor d \<longleftrightarrow> nd_chain_id d = cl_chain_id client \<and>
     nd_status d \<in> {NdSeen, NdConfirmed, NdCredited} \<and> floor < nd_block_number d"

definition nft_gone :: "chain_client \<Rightarrow> int \<Rightarrow> nft_deposit \<Rightarrow> bool" where
  "nft_gone client floor d \<longleftrightarrow> in_window client floor d \<and> block_gone client d"

definition lost_holding :: "chain_client \<Rightarrow> int \<Rightarrow> db \<Rightarrow> nft_holding \<Rightarrow> bool" where
  "lost_holding client floor db h \<longleftrightarrow>
     (\<exists>d \<in> set (nft_deposits db). nft_gone client floor d \<and> nd_status d = NdCredited \<and> nd_token d = ho_key h)"

definition lowest_of :: "int option \<Rightarrow> int list \<Rightarrow> int option" where
  "lowest_of l bs = fold (\<lambda>b l. Some (case l of None \<Rightarrow> b | Some m \<Rightarrow> min m b)) bs l"

lemma lowest_of_Min: "lowest_of None bs = (if bs = [] then None else Some (Min (set bs)))"
proof -
  have some: "lowest_of (Some m) bs = Some (Min (insert m (set bs)))" for m bs
  proof (induction bs arbitrary: m)
    case (Cons b bs)
    then show ?case
      by (cases "bs = []") (simp_all add: lowest_of_def min.assoc min.commute min.left_commute)
  qed (simp add: lowest_of_def)
  have "lowest_of None (b # bs) = lowest_of (Some b) bs" for b bs by (simp add: lowest_of_def)
  then show ?thesis by (cases bs) (simp_all add: some, simp add: lowest_of_def)
qed

definition deleted_for :: "nft_holding list \<Rightarrow> nft_deposit \<Rightarrow> uuid list" where
  "deleted_for hs d = (if nd_status d \<noteq> NdCredited then []
     else case find (\<lambda>h. ho_key h = nd_token d) hs of None \<Rightarrow> [] | Some h \<Rightarrow> [ho_id h])"

lemma reorg_nft_turn:
  assumes ok: "holdings_ok (nr_db s)" and a: "is_ok (cl_block_hash client (nd_block_number r))"
  shows "reorg_nft client r s = Inr (if block_gone client r
    then \<lparr>nr_db = update_nd (nd_id r) (nd_set_status NdOrphaned) (nr_db s),
      nr_deleted = nr_deleted s @ deleted_for (nft_holdings (nr_db s)) r, nr_orphaned = Suc (nr_orphaned s),
      nr_lowest_block = lowest_of (nr_lowest_block s) [nd_block_number r]\<rparr>
    else s)"
proof -
  obtain h where h: "cl_block_hash client (nd_block_number r) = Inr h" using a by (auto simp: is_ok_iff)
  note f = find_holding_iff [OF ok, of "nd_chain_id r" "nd_contract r" "nd_token_id r", folded nd_token_def]
  show ?thesis
    by (cases h) (auto simp: reorg_nft_def h block_gone_def remove_holding_def f deleted_for_def lowest_of_def
        split: option.split)
qed

lemma reorg_nft_loop:
  assumes "holdings_ok (nr_db s)" "\<forall>r \<in> set rs. is_ok (cl_block_hash client (nd_block_number r))"
  shows "\<exists>s'. for_each (reorg_nft client) rs s = Inr s' \<and>
    nr_db s' = (nr_db s)\<lparr>nft_deposits := nft_deposits (nr_db s')\<rparr> \<and>
    nr_deleted s' = nr_deleted s @ concat (map (deleted_for (nft_holdings (nr_db s))) (filter (block_gone client) rs)) \<and>
    nr_orphaned s' = nr_orphaned s + length (filter (block_gone client) rs) \<and>
    nr_lowest_block s' = lowest_of (nr_lowest_block s) (map nd_block_number (filter (block_gone client) rs))"
  using assms
proof (induction rs arbitrary: s)
  case Nil
  then show ?case by (simp add: lowest_of_def)
next
  case (Cons r rs)
  define t where "t = (if block_gone client r
    then \<lparr>nr_db = update_nd (nd_id r) (nd_set_status NdOrphaned) (nr_db s),
      nr_deleted = nr_deleted s @ deleted_for (nft_holdings (nr_db s)) r, nr_orphaned = Suc (nr_orphaned s),
      nr_lowest_block = lowest_of (nr_lowest_block s) [nd_block_number r]\<rparr>
    else s)"
  have T: "reorg_nft client r s = Inr t"
    using reorg_nft_turn [OF Cons.prems(1)] Cons.prems(2) by (simp add: t_def)
  have t: "holdings_ok (nr_db t)" "nft_holdings (nr_db t) = nft_holdings (nr_db s)"
    "nr_db t = (nr_db s)\<lparr>nft_deposits := nft_deposits (nr_db t)\<rparr>"
    using Cons.prems(1) by (simp_all add: t_def update_nd_def holdings_ok_def)
  obtain s' where s': "for_each (reorg_nft client) rs t = Inr s'"
    "nr_db s' = (nr_db t)\<lparr>nft_deposits := nft_deposits (nr_db s')\<rparr>"
    "nr_deleted s' = nr_deleted t @ concat (map (deleted_for (nft_holdings (nr_db t))) (filter (block_gone client) rs))"
    "nr_orphaned s' = nr_orphaned t + length (filter (block_gone client) rs)"
    "nr_lowest_block s' = lowest_of (nr_lowest_block t) (map nd_block_number (filter (block_gone client) rs))"
    using Cons.IH [OF t(1)] Cons.prems(2) by auto
  have "nr_db s' = (nr_db s)\<lparr>nft_deposits := nft_deposits (nr_db s')\<rparr>" using s'(2) t(3)
    by (metis db.update_convs(8) db.surjective)
  then show ?case using s'(1,3-5) T t(2) by (auto simp: t_def lowest_of_def)
qed

text \<open>
  C25: When the chain answers for every block in the window, reorganisation handling is exactly
  this: every deposit in the window whose block is gone is orphaned and no other deposit
  changes; the holdings those deposits had credited are removed and no other; the report counts
  the orphaned deposits and names the lowest of their blocks. If a holding that would be
  removed has ever been transferred or requested for withdrawal, the whole phase fails on the
  foreign key instead and nothing is orphaned.
\<close>

theorem nft_reorgs_remove_exactly:
  assumes ok: "nft_deposits_ok db" and hd: "cl_block_number client = Inr head"
    and answers: "\<forall>d \<in> set (nft_deposits db). is_ok (cl_block_hash client (nd_block_number d))"
  shows "handle_nft_reorgs db client depth =
    (if \<exists>h \<in> set (nft_holdings db). lost_holding client (head - depth) db h \<and> ho_id h \<in> referenced_holdings db
     then Inl IntegrityError
     else let gone = filter (nft_gone client (head - depth)) (nft_deposits db) in
       Inr (\<lparr>nrr_orphaned = length gone,
              nrr_lowest_block = (if gone = [] then None else Some (Min (set (map nd_block_number gone))))\<rparr>,
            db\<lparr>nft_deposits := map (\<lambda>d. if nft_gone client (head - depth) d then nd_set_status NdOrphaned d else d)
                (nft_deposits db),
              nft_holdings := filter (\<lambda>h. \<not> lost_holding client (head - depth) db h) (nft_holdings db)\<rparr>))"
proof -
  let ?fl = "head - depth"
  let ?W = "in_window client ?fl" and ?G = "nft_gone client ?fl"
  let ?s = "\<lparr>nr_db = db, nr_deleted = [], nr_orphaned = 0, nr_lowest_block = None\<rparr>"
  have hok: "holdings_ok db" using ok by (simp add: nft_deposits_ok_def)
  have cand: "nft_reorg_candidates db (cl_chain_id client) ?fl = filter ?W (nft_deposits db)"
    unfolding nft_reorg_candidates_def in_window_def ..
  have gone: "filter (block_gone client) (filter ?W ds) = filter ?G ds" for ds
    by (induction ds) (auto simp: nft_gone_def)
  obtain s where l: "for_each (reorg_nft client) (filter ?W (nft_deposits (nr_db ?s))) ?s = Inr s"
    and s: "nr_db s = db\<lparr>nft_deposits := nft_deposits (nr_db s)\<rparr>"
      "nr_deleted s = concat (map (deleted_for (nft_holdings db)) (filter ?G (nft_deposits db)))"
      "nr_orphaned s = length (filter ?G (nft_deposits db))"
      "nr_lowest_block s = lowest_of None (map nd_block_number (filter ?G (nft_deposits db)))"
    using reorg_nft_loop [of ?s "filter ?W (nft_deposits db)" client] hok answers
    unfolding gone by auto
  have step: "nft_deposits (nr_db t') = upd_row nd_id (nd_id r)
      (\<lambda>x. if block_gone client r then nd_set_status NdOrphaned x else x) (nft_deposits (nr_db t))"
    if "reorg_nft client r t = Inr t'" for r t t'
    using that by (auto simp: reorg_nft_def block_gone_def upd_row_id Let_def split: if_splits option.splits)
  have deps: "nft_deposits (nr_db s) = map (\<lambda>d. if ?G d then nd_set_status NdOrphaned d else d) (nft_deposits db)"
  proof -
    have "nft_deposits (nr_db s) = map (\<lambda>x. if ?W x then if block_gone client x then nd_set_status NdOrphaned x else x else x)
        (nft_deposits (nr_db ?s))"
      by (rule for_each_filtered [where body = "reorg_nft client" and tab = "\<lambda>s. nft_deposits (nr_db s)" and P = ?W and
            key = nd_id and g = "\<lambda>r x. if block_gone client r then nd_set_status NdOrphaned x else x", OF l])
        (use ok step in \<open>auto simp: nft_deposits_ok_def\<close>)
    then show ?thesis by (simp add: nft_gone_def)
  qed
  have lost: "ho_id h \<in> set (nr_deleted s) \<longleftrightarrow> lost_holding client ?fl db h" if h: "h \<in> set (nft_holdings db)" for h
  proof -
    have key: "find (\<lambda>g. ho_key g = ho_key h) (nft_holdings db) = Some h"
      using get_row_distinct [where key = ho_key, unfolded get_row_def] h hok by (simp add: holdings_ok_def)
    have "ho_id h \<in> set (deleted_for (nft_holdings db) d) \<longleftrightarrow> nd_status d = NdCredited \<and> nd_token d = ho_key h" for d
    proof
      assume "ho_id h \<in> set (deleted_for (nft_holdings db) d)"
      then obtain g where g: "nd_status d = NdCredited" "find (\<lambda>h. ho_key h = nd_token d) (nft_holdings db) = Some g"
          "ho_id g = ho_id h"
        by (cases "find (\<lambda>h. ho_key h = nd_token d) (nft_holdings db)")
          (auto simp: deleted_for_def split: if_splits)
      have "g = h" using find_Some_in [OF g(2)] g(3) h hok by (auto simp: holdings_ok_def distinct_map inj_on_def)
      then show "nd_status d = NdCredited \<and> nd_token d = ho_key h" using g(1) find_Some_in [OF g(2)] by simp
    qed (use key in \<open>auto simp: deleted_for_def\<close>)
    then show ?thesis by (auto simp: s(2) lost_holding_def)
  qed
  have del: "i \<in> set (nr_deleted s) \<Longrightarrow> \<exists>h \<in> set (nft_holdings db). ho_id h = i" for i
  proof -
    assume "i \<in> set (nr_deleted s)"
    then obtain d where "i \<in> set (deleted_for (nft_holdings db) d)" by (auto simp: s(2))
    then show "\<exists>h \<in> set (nft_holdings db). ho_id h = i"
      using find_Some_in by (cases "find (\<lambda>h. ho_key h = nd_token d) (nft_holdings db)")
        (fastforce simp: deleted_for_def split: if_splits)+
  qed
  have ref: "referenced_holdings (nr_db s) = referenced_holdings db"
    by (subst s(1)) (simp add: referenced_holdings_def)
  have "set (nr_deleted s) \<inter> referenced_holdings db \<noteq> {} \<longleftrightarrow>
      (\<exists>h \<in> set (nft_holdings db). lost_holding client ?fl db h \<and> ho_id h \<in> referenced_holdings db)"
    using lost del by blast
  moreover have "filter (\<lambda>h. ho_id h \<notin> set (nr_deleted s)) (nft_holdings db) =
      filter (\<lambda>h. \<not> lost_holding client ?fl db h) (nft_holdings db)"
    by (rule filter_cong [OF refl]) (simp add: lost)
  moreover have "nft_holdings (nr_db s) = nft_holdings db" by (subst s(1)) simp
  moreover have "(nr_db s)\<lparr>nft_holdings := hs\<rparr> = db\<lparr>nft_deposits := nft_deposits (nr_db s), nft_holdings := hs\<rparr>" for hs
    by (subst s(1)) simp
  ultimately show ?thesis
    using l by (auto simp: handle_nft_reorgs_def hd cand flush_deleted_def ref s(3,4) lowest_of_Min deps Let_def)
qed

section \<open>The properties on concrete states\<close>

text \<open>
  A token arrives at Alice's address in block 50; it is credited to her. Later it belongs to
  Bob, and the chain turns out to have another block 50.
\<close>

definition demo_nft_deposit :: nft_deposit where
  "demo_nft_deposit = \<lparr>nd_id = 16, nd_user_id = Some 1, nd_chain_id = 31337, nd_contract = addr (CHR ''c''),
     nd_token_id = ''7'', nd_from_address = addr (CHR ''f''), nd_to_address = addr (CHR ''a''),
     nd_tx_hash = ''0xbeef'', nd_log_index = Some 0, nd_block_number = 50, nd_block_hash = ''h'',
     nd_status = NdSeen, nd_credit_revision = 0, nd_created_at = 0\<rparr>"

definition demo_arrived :: db where
  "demo_arrived = demo_db\<lparr>nft_deposits := [demo_nft_deposit]\<rparr>"

definition demo_nft_credited :: db where
  "demo_nft_credited = snd (projr (confirm_and_credit_nfts demo_arrived demo_client 12))"

definition demo_moved :: db where
  "demo_moved = (snd (projr (transfer_nft demo_nft_credited alice ''bob@kasa.dev'' 20 ''t'')))"

definition demo_forked_client :: chain_client where
  "demo_forked_client = demo_client\<lparr>cl_block_hash := (\<lambda>n. Inr (Some ''other''))\<rparr>"

lemma demo_nft_credited_runs: "confirm_and_credit_nfts demo_arrived demo_client 12 = Inr (1, demo_nft_credited)"
  by code_simp

lemma demo_arrived_ok: "nft_deposits_ok demo_arrived"
  by code_simp

lemma demo_moved_ok: "nft_deposits_ok demo_moved"
  by code_simp

theorem nft_credits_exactly_the_canonical_witness:
  "map nd_status (nft_deposits demo_nft_credited) = [NdCredited] \<and>
   held_by (demo_nft_credited, []) (31337, addr (CHR ''c''), ''7'') = Some (1, HoHeld)"
proof -
  have hd: "cl_block_number demo_client = Inr 100" by (simp add: demo_client_def)
  have "map (\<lambda>d. nft_verdict demo_client (100 - 12) d) (nft_deposits demo_arrived) = [NdCredited]"
    "(case find (\<lambda>d. newly_credited demo_client (100 - 12) d \<and> nd_token d = (31337, addr (CHR ''c''), ''7''))
        (rev (nft_deposits demo_arrived)) of
      Some d \<Rightarrow> Some (the (nd_user_id d), HoHeld)
    | None \<Rightarrow> held_by (demo_arrived, []) (31337, addr (CHR ''c''), ''7'')) = Some (1, HoHeld)"
    by code_simp+
  then show ?thesis
    using nft_credits_exactly_the_canonical [OF demo_arrived_ok hd demo_nft_credited_runs,
        of "(31337, addr (CHR ''c''), ''7'')"]
    by (simp add: comp_def)
qed

theorem nft_reorgs_remove_exactly_witness:
  "handle_nft_reorgs demo_moved demo_forked_client 90 = Inl IntegrityError"
proof -
  have hd: "cl_block_number demo_forked_client = Inr 100"
    by (simp add: demo_forked_client_def demo_client_def)
  have answers: "\<forall>d \<in> set (nft_deposits demo_moved). is_ok (cl_block_hash demo_forked_client (nd_block_number d))"
    by (simp add: demo_forked_client_def)
  have "\<exists>h \<in> set (nft_holdings demo_moved). lost_holding demo_forked_client (100 - 90) demo_moved h \<and>
      ho_id h \<in> referenced_holdings demo_moved" by code_simp
  then show ?thesis
    using nft_reorgs_remove_exactly [OF demo_moved_ok hd answers, of 90] by simp
qed

end
