(* ===== verification/Nft_Sweep_Facts.thy ===== *)
theory Nft_Sweep_Facts
  imports Nft_Sweeper Nft_Deposit_Facts
begin

text \<open>
  What discovery leaves in the sweeps table, and the evidence on which a sweep is called swept
  or failed.
\<close>

definition sweeps_ok :: "db \<Rightarrow> bool" where
  "sweeps_ok db \<longleftrightarrow> distinct (map sw_id (nft_sweeps db)) \<and> distinct (map sw_key (nft_sweeps db)) \<and>
     (\<forall>w \<in> set (nft_sweeps db). sw_id w < next_uuid db)"

lemma sweeps_ok_D:
  assumes "sweeps_ok db"
  shows "distinct (map sw_id (nft_sweeps db))" "distinct (map sw_key (nft_sweeps db))"
    "w \<in> set (nft_sweeps db) \<Longrightarrow> sw_id w < next_uuid db"
  using assms by (auto simp: sweeps_ok_def)

lemma sweep_frames [simp]:
  "nft_sweeps (update_sweep i f db) = upd_row sw_id i f (nft_sweeps db)"
  "next_uuid (update_sweep i f db) = next_uuid db" "next_nonce_of (update_sweep i f db) = next_nonce_of db"
  by (simp_all add: update_sweep_def next_nonce_of_def fun_eq_iff)

section \<open>Discovery\<close>

definition retryable :: "nft_sweep \<Rightarrow> bool" where
  "retryable w \<longleftrightarrow> sw_status w = SwFailed \<and> sw_attempts w < MAX_SWEEP_ATTEMPTS"


definition rearmed :: "uuid set \<Rightarrow> nft_sweep \<Rightarrow> nft_sweep" where
  "rearmed ids w = (if sw_id w \<in> ids \<and> retryable w then rearm w else w)"

lemma rearm_simps [simp]:
  "sw_id (rearm w) = sw_id w" "sw_key (rearm w) = sw_key w" "\<not> retryable (rearm w)"
  "sw_attempts (rearm w) = sw_attempts w" "sw_status (rearm w) = SwPending"
  by (simp_all add: rearm_def sw_key_def retryable_def)

lemma rearmed_simps [simp]:
  "sw_id (rearmed I w) = sw_id w" "sw_key (rearmed I w) = sw_key w"
  by (simp_all add: rearmed_def)







section \<open>Confirmation\<close>

interpretation sweep_table: outbox_table nft_sweeps update_sweep sw_id
    "\<lambda>w. bound_pair (sw_sweep_nonce w) (sw_sweep_signed_tx w)"
  by unfold_locales (simp_all add: set_next_nonce_def)

definition sweep_outcome ::
  "chain_client \<Rightarrow> int \<Rightarrow> int \<Rightarrow> string \<Rightarrow> nft_sweep \<Rightarrow> nft_sweep \<Rightarrow> bool" where
  "sweep_outcome client head c hot w w' \<longleftrightarrow> sw_id w' = sw_id w \<and> sw_key w' = sw_key w \<and>
     sw_attempts w' = sw_attempts w \<and>
     (sw_status w' = SwSweeping \<or>
      sw_status w' = SwSwept \<and> executed client head c (sw_sweep_tx_hash w) (\<lambda>s. s \<noteq> 0) \<and>
        (\<exists>owner. cl_erc721_owner_of client (sw_contract w) (sw_token_id w) = Inr (Some owner) \<and>
           lower owner = lower hot) \<or>
      sw_status w' = SwFailed \<and>
        (executed client head c (sw_sweep_tx_hash w) (\<lambda>s. s = 0) \<or>
         replaced client head c (Some (sw_deposit_address w)) (sw_sweep_tx_hash w) (sw_sweep_nonce w)
           (sw_unmined_since_block w)))"

lemma sweep_update:
  assumes ok: "sweeps_ok db" and w: "w \<in> set (nft_sweeps db)"
    and f: "\<And>w. sw_id (f w) = sw_id w" "\<And>w. sw_key (f w) = sw_key w"
  shows "sweeps_ok (update_sweep (sw_id w) f db)"
    and "f w \<in> set (nft_sweeps (update_sweep (sw_id w) f db))"
    and "\<And>x. x \<in> set (nft_sweeps db) \<Longrightarrow> sw_id x \<noteq> sw_id w \<Longrightarrow> x \<in> set (nft_sweeps (update_sweep (sw_id w) f db))"
proof -
  note I = sweep_table.in_upd [OF sweeps_ok_D(1) [OF ok] w, of _ f]
  show "f w \<in> set (nft_sweeps (update_sweep (sw_id w) f db))"
    "\<And>x. x \<in> set (nft_sweeps db) \<Longrightarrow> sw_id x \<noteq> sw_id w \<Longrightarrow> x \<in> set (nft_sweeps (update_sweep (sw_id w) f db))"
    unfolding I by simp_all
  have "\<forall>x \<in> set (nft_sweeps (update_sweep (sw_id w) f db)). sw_id x < next_uuid db"
    using sweeps_ok_D(3) [OF ok] w f(1) by (auto simp: upd_row_def)
  then show "sweeps_ok (update_sweep (sw_id w) f db)"
    using ok by (simp add: sweeps_ok_def map_key_upd_row f)
qed

lemma confirm_sweep_turn:
  assumes ok: "sweeps_ok db" and r: "r \<in> set (nft_sweeps db)" "sw_status r = SwSweeping"
    and b: "confirm_sweep client head c hot r (db, n) = Inr (db', n')"
  shows "sweeps_ok db' \<and> (\<forall>x \<in> set (nft_sweeps db). sw_id x \<noteq> sw_id r \<longrightarrow> x \<in> set (nft_sweeps db')) \<and>
    (\<exists>r' \<in> set (nft_sweeps db'). sw_id r' = sw_id r \<and> sweep_outcome client head c hot r r')"
proof -
  have one: ?thesis
    if "db' = update_sweep (sw_id r) f db" "\<And>w. sw_id (f w) = sw_id w" "\<And>w. sw_key (f w) = sw_key w"
      "sweep_outcome client head c hot r (f r)" for f
    using sweep_update [OF ok r(1) that(2,3)] that(1,4) by (auto simp: sweep_outcome_def)
  have two: "update_sweep i f (update_sweep i g db) = update_sweep i (\<lambda>w. f (g w)) db"
    if "\<And>w. sw_id (g w) = sw_id w" for i f g
    using that by (simp add: update_sweep_def upd_row_def comp_def if_distrib cong: if_cong)
  show ?thesis
  proof (cases "sw_sweep_tx_hash r")
    case None
    then show ?thesis using b ok r by (auto simp: confirm_sweep_def sweep_outcome_def)
  next
    case h: (Some h)
    then obtain rc where rc: "cl_get_receipt client h = Inr rc" using b by (auto simp: confirm_sweep_def)
    show ?thesis
    proof (cases rc)
      case None
      obtain g where g: "unmined_gate client (Some (sw_deposit_address r)) (sw_sweep_nonce r)
          (sw_unmined_since_block r) head c = Inr g"
        using b h rc None by (auto simp: confirm_sweep_def reconcile_unmined_sweep_def)
      note R = replacedI [OF h rc [unfolded None], of "Some (sw_deposit_address r)"]
      show ?thesis
      proof (cases g)
        case GateKeep
        then show ?thesis using b h rc None g ok r
          by (auto simp: confirm_sweep_def reconcile_unmined_sweep_def sweep_outcome_def)
      next
        case GateClear
        show ?thesis by (rule one [of "\<lambda>w. w\<lparr>sw_unmined_since_block := None\<rparr>"])
          (use GateClear b h rc None g r in \<open>auto simp: confirm_sweep_def reconcile_unmined_sweep_def
            set_sweep_unmined_def sweep_outcome_def sw_key_def\<close>)
      next
        case GateMark
        show ?thesis by (rule one [of "\<lambda>w. w\<lparr>sw_unmined_since_block := Some head\<rparr>"])
          (use GateMark b h rc None g r in \<open>auto simp: confirm_sweep_def reconcile_unmined_sweep_def
            set_sweep_unmined_def sweep_outcome_def sw_key_def\<close>)
      next
        case GateDrop
        show ?thesis by (rule one [of "\<lambda>w. w\<lparr>sw_status := SwFailed, sw_error := Some ''sweep tx dropped (nonce superseded)''\<rparr>"])
          (use GateDrop b h rc None g r R in \<open>auto simp: confirm_sweep_def reconcile_unmined_sweep_def
            fail_sweep_def sweep_outcome_def sw_key_def\<close>)
      qed
    next
      case (Some t)
      then obtain fin where fin: "receipt_final client head c t = Inr fin"
        using b h rc by (auto simp: confirm_sweep_def Let_def)
      note E = executedI [OF h rc [unfolded Some], of head c]
      let ?u = "\<lambda>w. w\<lparr>sw_unmined_since_block := None\<rparr>"
      consider (wait) "db' = set_sweep_unmined None r db"
        | (fail) "fin" "rc_status t = 0" "db' = fail_sweep r ''sweep reverted'' (set_sweep_unmined None r db)"
        | (swept) owner where "fin" "rc_status t \<noteq> 0"
            "cl_erc721_owner_of client (sw_contract r) (sw_token_id r) = Inr (Some owner)" "lower owner = lower hot"
            "db' = update_sweep (sw_id r) (\<lambda>w. w\<lparr>sw_status := SwSwept\<rparr>) (set_sweep_unmined None r db)"
        using b h rc Some fin by (auto simp: confirm_sweep_def Let_def split: if_splits)
      then show ?thesis
      proof cases
        case wait
        show ?thesis by (rule one [of ?u]) (use wait r in \<open>simp_all add: set_sweep_unmined_def sweep_outcome_def sw_key_def\<close>)
      next
        case fail
        show ?thesis by (rule one [of "\<lambda>w. (?u w)\<lparr>sw_status := SwFailed, sw_error := Some ''sweep reverted''\<rparr>"])
          (use fail E fin in \<open>simp_all add: fail_sweep_def set_sweep_unmined_def two sweep_outcome_def sw_key_def\<close>)
      next
        case (swept owner)
        show ?thesis by (rule one [of "\<lambda>w. (?u w)\<lparr>sw_status := SwSwept\<rparr>"])
          (use swept E fin in \<open>simp_all add: set_sweep_unmined_def two sweep_outcome_def sw_key_def\<close>)
      qed
    qed
  qed
qed

interpretation sweep_pass: row_worker "confirm_sweep client head c hot" "\<lambda>s. nft_sweeps (fst s)" sw_id
    "\<lambda>w. sw_status w = SwSweeping" "\<lambda>s. sweeps_ok (fst s)" "\<lambda>_. sweep_outcome client head c hot"
  for client head c hot
proof
  fix t t' :: "db \<times> nat" and r x
  assume ok: "sweeps_ok (fst t)" and r: "r \<in> set (nft_sweeps (fst t))" "sw_status r = SwSweeping"
    and b: "confirm_sweep client head c hot r t = Inr t'"
  have b': "confirm_sweep client head c hot r (fst t, snd t) = Inr (fst t', snd t')" using b by simp
  note C = confirm_sweep_turn [OF ok r b']
  show "sweeps_ok (fst t')" using C by blast
  show "x \<in> set (nft_sweeps (fst t)) \<Longrightarrow> sw_id x \<noteq> sw_id r \<Longrightarrow> x \<in> set (nft_sweeps (fst t'))" using C by blast
  show "\<exists>r' \<in> set (nft_sweeps (fst t')). sw_id r' = sw_id r \<and> sweep_outcome client head c hot r r'" using C by blast
qed

text \<open>
  C27: A confirmation pass over the sweeps decides each claimed one on the chain's evidence
  only: it is swept only when its transaction is final and not reverted and the chain names the
  hot wallet as the token's owner; it has failed only on a final revert, or when its deposit
  address's nonce was used up by another transaction for the required number of blocks;
  otherwise it stays under way. No sweep's token or number of attempts changes, and the sweeps
  that were not claimed stay as they are.
\<close>

theorem sweep_confirm_decides_on_evidence:
  assumes ok: "sweeps_ok db" and hd: "cl_block_number client = Inr head"
    and b: "confirm_sweeps db client c hot batch = Inr (n, db')"
  shows "sweeps_ok db' \<and>
    (\<forall>w \<in> set (nft_sweeps db). \<exists>w' \<in> set (nft_sweeps db').
       if w \<in> set (claim_sweeps db (cl_chain_id client) {SwSweeping} batch)
       then sweep_outcome client head c hot w w' else w' = w)"
proof -
  let ?rs = "claim_sweeps db (cl_chain_id client) {SwSweeping} batch"
  have l: "for_each (confirm_sweep client head c hot) ?rs (db, 0) = Inr (db', n)"
    using b hd by (auto simp: confirm_sweeps_def split: prod.splits)
  note dist = sweeps_ok_D(1) [OF ok]
  have rs: "set ?rs \<subseteq> set (nft_sweeps (fst (db, 0 :: nat)))" "\<forall>r \<in> set ?rs. sw_status r = SwSweeping"
    "distinct (map sw_id ?rs)"
    using claim_rows claim_distinct [OF dist] unfolding claim_sweeps_def by fastforce+
  note P = sweep_pass.pass [OF l _ _ rs]
  have "\<exists>w' \<in> set (nft_sweeps db'). if w \<in> set ?rs then sweep_outcome client head c hot w w' else w' = w"
    if w: "w \<in> set (nft_sweeps db)" for w
    using P(2) [of w] ok dist w by (auto split: if_splits)
  then show ?thesis using P(1) ok dist by simp
qed

section \<open>The properties on a concrete run\<close>

text \<open>Alice's credited token is discovered, its address is funded already, and it is swept.\<close>

definition demo_rich_client :: chain_client where
  "demo_rich_client = demo_client\<lparr>cl_native_balance := (\<lambda>_. Inr GAS_BUDGET_WEI)\<rparr>"

definition demo_discovered :: db where
  "demo_discovered = snd (projr (discover_sweeps demo_nft_credited demo_client))"

definition demo_sweeping :: db where
  "demo_sweeping = bs_db (projr (sweep_funded
     (fs_db (projr (fund_pending demo_discovered demo_rich_client ''key'' ''hot'' SWEEP_DEFAULT_BATCH)))
     demo_client (\<lambda>_ _. Inr ''key1'') ''hot'' SWEEP_DEFAULT_BATCH))"

definition demo_swept :: db where
  "demo_swept = snd (projr (confirm_sweeps demo_sweeping demo_client 12 ''hot'' SWEEP_DEFAULT_BATCH))"


lemma demo_swept_runs:
  "confirm_sweeps demo_sweeping demo_client 12 ''hot'' SWEEP_DEFAULT_BATCH = Inr (1, demo_swept)"
  by code_simp


lemma demo_sweeping_ok: "sweeps_ok demo_sweeping"
  by code_simp


theorem sweep_confirm_decides_on_evidence_witness:
  "sweeps_ok demo_swept \<and> map sw_status (nft_sweeps demo_swept) = [SwSwept]"
proof -
  have hd: "cl_block_number demo_client = Inr 100" by (simp add: demo_client_def)
  have "map sw_status (nft_sweeps demo_swept) = [SwSwept]" by code_simp
  then show ?thesis
    using sweep_confirm_decides_on_evidence [OF demo_sweeping_ok hd demo_swept_runs] by blast
qed

end
