(* ===== verification/Chain_Logs.thy ===== *)
theory Chain_Logs
  imports Chain_Types Config "HOL-Library.Word"
begin

text \<open>
  The network-free part of \<open>app/chain/client.py\<close>: splitting a span of blocks, topics and
  hexadecimal text, the internal calls of a trace, and the decoding of logs into the transfers
  and the minted token the workers read. The EIP-55 checksum of the library is the parameter
  \<open>ck\<close>; values a node sends are of the kinds the encoders tell apart.
\<close>

section \<open>Constants\<close>

definition ERC20_TRANSFER_TOPIC :: string where
  "ERC20_TRANSFER_TOPIC = ''0xddf252ad1be2c89b69c2b068fc378daa952ba7f163c4a11628f55a4df523b3ef''"

definition ERC721_TRANSFER_TOPIC_COUNT :: nat where "ERC721_TRANSFER_TOPIC_COUNT = 4"
definition NATIVE_TRANSFER_GAS :: int where "NATIVE_TRANSFER_GAS = 21000"
definition ERC20_TRANSFER_GAS :: int where "ERC20_TRANSFER_GAS = 90000"
definition ERC721_MINT_GAS :: int where "ERC721_MINT_GAS = 180000"
definition ERC721_TRANSFER_GAS :: int where "ERC721_TRANSFER_GAS = 120000"
definition ZERO_TOPIC :: string where "ZERO_TOPIC = ''0x'' @ replicate 64 (CHR ''0'')"
definition ABI_WORD_HEX_LEN :: nat where "ABI_WORD_HEX_LEN = 64"

definition ALREADY_BROADCAST_MARKERS :: "string list" where
  "ALREADY_BROADCAST_MARKERS =
     [''already known'', ''known transaction'', ''alreadyknown'', ''nonce too low'',
      ''already imported'', ''replacement transaction underpriced'']"

definition is_already_broadcast :: "error \<Rightarrow> bool" where
  "is_already_broadcast exc =
     (let text = lower (error_text exc) in
      list_ex (\<lambda>marker. contains marker text) ALREADY_BROADCAST_MARKERS)"

section \<open>Spans of blocks\<close>

text \<open>The guard on the chunk size is the caller's; it is repeated where the loop needs it to end.\<close>

function range_loop :: "int \<Rightarrow> int \<Rightarrow> int \<Rightarrow> (int \<times> int) list" where
  "range_loop start to_block chunk_size =
     (if start \<le> to_block \<and> 0 < chunk_size then
        let last_block = min (start + chunk_size - 1) to_block in
        (start, last_block) # range_loop (last_block + 1) to_block chunk_size
      else [])"
  by pat_completeness auto
termination by (relation "measure (\<lambda>(start, to_block, _). nat (to_block + 1 - start))") auto

declare range_loop.simps [simp del]

definition block_ranges :: "int \<Rightarrow> int \<Rightarrow> int \<Rightarrow> error + (int \<times> int) list" where
  "block_ranges from_block to_block chunk_size =
     (if chunk_size \<le> 0 then Inl (ValueError ''chunk_size must be positive'')
      else if from_block > to_block then Inr []
      else Inr (range_loop from_block to_block chunk_size))"

section \<open>Hexadecimal text\<close>

text \<open>
  \<open>int(s, 16)\<close>: blanks around, a sign, an optional prefix, digits with single underscores
  between them (and one after the prefix).
\<close>

definition int16 :: "string \<Rightarrow> error + int" where
  "int16 s =
     (let t = strip s; neg = startswith t ''-'';
          u = (if neg \<or> startswith t ''+'' then drop 1 t else t);
          prefixed = (startswith (lower u) ''0x'');
          body = (if prefixed then drop 2 u else u);
          body' = (if prefixed \<and> startswith body ''_'' then drop 1 body else body);
          parts = split_on (CHR ''_'') body'
      in if list_all (\<lambda>p. p \<noteq> [] \<and> list_all is_hex p) parts
         then Inr (if neg then - int (hexs_val (concat parts)) else int (hexs_val (concat parts)))
         else Inl (ValueError ''invalid literal for int() with base 16''))"

definition int10 :: "string \<Rightarrow> error + int" where
  "int10 s = (case int_parse s of Some i \<Rightarrow> Inr i
     | None \<Rightarrow> Inl (ValueError ''invalid literal for int() with base 10''))"

text \<open>\<open>xs[i]\<close> of a list.\<close>

definition index_res :: "'a list \<Rightarrow> nat \<Rightarrow> error + 'a" where
  "index_res xs i = (if i < length xs then Inr (xs ! i) else Inl (OtherError ''list index out of range''))"

datatype rpc_value = RvNone | RvInt int | RvStr string | RvBytes "8 word list" | RvOther

definition byte_hex :: "8 word \<Rightarrow> string" where
  "byte_hex b = [hex_char (unat b div 16), hex_char (unat b mod 16)]"

definition bytes_hex :: "8 word list \<Rightarrow> string" where
  "bytes_hex bs = concat (map byte_hex bs)"

fun to_hex :: "rpc_value \<Rightarrow> error + string" where
  "to_hex (RvStr value) = Inr (if startswith value ''0x'' then value else ''0x'' @ value)"
| "to_hex (RvBytes value) = Inr (''0x'' @ bytes_hex value)"
| "to_hex _ = Inl (TypeError ''cannot hex-encode'')"

fun hex_to_int :: "rpc_value \<Rightarrow> error + int" where
  "hex_to_int RvNone = Inr 0"
| "hex_to_int (RvInt value) = Inr value"
| "hex_to_int (RvStr value) = (if startswith value ''0x'' then int16 value else int10 value)"
| "hex_to_int _ = Inl (TypeError ''cannot int-decode'')"

section \<open>Topics\<close>

definition address_to_topic :: "string \<Rightarrow> string" where
  "address_to_topic address = ''0x'' @ replicate 24 (CHR ''0'') @ lower (drop 2 address)"

text \<open>\<open>s[-40:]\<close>\<close>

definition last40 :: "string \<Rightarrow> string" where "last40 s = drop (length s - 40) s"

definition topic_to_address :: "(string \<Rightarrow> error + string) \<Rightarrow> string \<Rightarrow> error + string" where
  "topic_to_address ck topic = ck (''0x'' @ last40 topic)"

section \<open>Internal calls\<close>

text \<open>
  A frame of the call tracer: the fields \<open>from\<close>, \<open>to\<close> and \<open>value\<close> may be missing, an empty error
  is none, and \<open>calls\<close> is empty where it is missing.
\<close>

datatype call_frame =
  CallFrame (fr_from: "string option") (fr_to: "string option") (fr_value: rpc_value)
    (fr_error: string) (fr_calls: "call_frame list")

fun walk_calls :: "call_frame list \<Rightarrow> call_frame list" where
  "walk_calls [] = []"
| "walk_calls (CallFrame f t v e calls # rest) =
     (if e \<noteq> [] then walk_calls rest
      else CallFrame f t v e calls # walk_calls calls @ walk_calls rest)"

definition flatten_internal_calls :: "call_frame option \<Rightarrow> call_frame list" where
  "flatten_internal_calls frame =
     (case frame of None \<Rightarrow> [] | Some (CallFrame f t v e calls) \<Rightarrow> walk_calls calls)"

record trace_entry =
  te_tx_hash :: rpc_value
  te_result :: "call_frame option"

definition internal_transfer ::
  "(string \<Rightarrow> error + string) \<Rightarrow> string set \<Rightarrow> int \<Rightarrow> string \<Rightarrow> string \<Rightarrow> nat \<times> call_frame
   \<Rightarrow> error + native_transfer list" where
  "internal_transfer ck wanted_lower block_number block_hash tx_hash = (\<lambda>(position, call).
     bind_res (hex_to_int (fr_value call)) (\<lambda>value.
     case fr_to call of
       None \<Rightarrow> Inr []
     | Some to_address \<Rightarrow>
         if value \<le> 0 \<or> lower to_address \<notin> wanted_lower then Inr []
         else
           bind_res (case fr_from call of None \<Rightarrow> Inl (KeyError ''from'') | Some a \<Rightarrow> ck a)
             (\<lambda>from_address.
           bind_res (ck to_address) (\<lambda>to_checked.
           Inr [\<lparr>na_from_address = from_address, na_to_address = to_checked, na_value = value,
                 na_tx_hash = tx_hash, na_block_number = block_number,
                 na_block_hash = block_hash,
                 na_log_index = NATIVE_LOG_INDEX - 1 - int position\<rparr>]))))"

definition internal_transfers_from_trace ::
  "(string \<Rightarrow> error + string) \<Rightarrow> trace_entry list \<Rightarrow> string set \<Rightarrow> int \<Rightarrow> string
   \<Rightarrow> error + native_transfer list" where
  "internal_transfers_from_trace ck traced wanted_lower block_number block_hash =
     bind_res
       (map_res (\<lambda>entry.
          bind_res (to_hex (te_tx_hash entry)) (\<lambda>tx_hash.
          bind_res
            (map_res (internal_transfer ck wanted_lower block_number block_hash tx_hash)
              (enumerate 0 (flatten_internal_calls (te_result entry))))
            (\<lambda>found. Inr (concat found)))) traced)
       (\<lambda>transfers. Inr (concat transfers))"

section \<open>Decoding logs\<close>

definition decode_erc20_transfer ::
  "(string \<Rightarrow> error + string) \<Rightarrow> string \<Rightarrow> string list \<Rightarrow> string \<Rightarrow> string \<Rightarrow> int \<Rightarrow> int \<Rightarrow> string
   \<Rightarrow> error + erc20_transfer" where
  "decode_erc20_transfer ck token_address topics data tx_hash log_index block_number block_hash =
     (let raw = removeprefix data ''0x'' in
      bind_res (if raw = [] then Inr 0 else int16 raw) (\<lambda>value.
      bind_res (ck token_address) (\<lambda>token_address.
      bind_res (bind_res (index_res topics 1) (topic_to_address ck)) (\<lambda>from_address.
      bind_res (bind_res (index_res topics 2) (topic_to_address ck)) (\<lambda>to_address.
      Inr \<lparr>et_token_address = token_address, et_from_address = from_address,
           et_to_address = to_address, et_value = value, et_tx_hash = tx_hash,
           et_log_index = log_index, et_block_number = block_number,
           et_block_hash = block_hash\<rparr>)))))"

text \<open>The conditions of the loop's \<open>continue\<close> statements, in their order.\<close>

definition is_mint_log :: "string \<Rightarrow> string \<Rightarrow> tx_log \<Rightarrow> bool" where
  "is_mint_log wanted_contract wanted_to log =
     (let topics = map lower (lg_topics log) in
      lower (lg_address log) = wanted_contract
      \<and> length topics = ERC721_TRANSFER_TOPIC_COUNT
      \<and> topics ! 0 = ERC20_TRANSFER_TOPIC \<and> topics ! 1 = ZERO_TOPIC
      \<and> topics ! 2 = wanted_to
      \<and> lg_data log \<in> {'''', ''0x'', ''0x0''})"

definition erc721_minted_token_id_from_receipt ::
  "tx_receipt \<Rightarrow> string \<Rightarrow> string \<Rightarrow> error + string option" where
  "erc721_minted_token_id_from_receipt receipt contract_address to_address =
     (let wanted_contract = lower contract_address;
          wanted_to = lower (address_to_topic to_address) in
      case find (is_mint_log wanted_contract wanted_to) (rc_logs receipt) of
        None \<Rightarrow> Inr None
      | Some log \<Rightarrow>
          bind_res (int16 (lower (lg_topics log ! 3))) (\<lambda>token. Inr (Some (int_str token))))"

end
