(* ===== verification/Chain_Rpc.thy ===== *)
theory Chain_Rpc
  imports Chain_Logs
begin

text \<open>
  The web3 client (\<open>app/chain/client.py\<close>). Every RPC call may change the state of the network
  and answers or raises, so an operation maps the network's state to its result and the state
  after it; what a node does is a parameter (a record of the calls the client makes), as are
  the signing library and the passing of time between two attempts. The client itself keeps
  its configuration only: the providers are built once from its URLs.
\<close>

section \<open>Calls over the network's state\<close>

type_synonym ('n, 'a) rpc = "'n \<Rightarrow> (error + 'a) \<times> 'n"

definition bind_rpc :: "('n, 'a) rpc \<Rightarrow> ('a \<Rightarrow> ('n, 'b) rpc) \<Rightarrow> ('n, 'b) rpc" where
  "bind_rpc m f = (\<lambda>n. case m n of (Inl e, n') \<Rightarrow> (Inl e, n') | (Inr x, n') \<Rightarrow> f x n')"

definition lift_res :: "error + 'a \<Rightarrow> ('n, 'a) rpc" where "lift_res r = (\<lambda>n. (r, n))"

fun map_rpc :: "('a \<Rightarrow> ('n, 'b) rpc) \<Rightarrow> 'a list \<Rightarrow> ('n, 'b list) rpc" where
  "map_rpc f [] = lift_res (Inr [])"
| "map_rpc f (x # xs) =
     bind_rpc (f x) (\<lambda>y. bind_rpc (map_rpc f xs) (\<lambda>ys. lift_res (Inr (y # ys))))"

section \<open>What a node answers\<close>

datatype topic_filter = TopicIs string | AnyTopic | TopicIn "string list"

record log_filter =
  lf_address :: "string list"
  lf_from_block :: int
  lf_to_block :: int
  lf_topics :: "topic_filter list"

record rpc_log =
  rl_address :: rpc_value
  rl_topics :: "rpc_value list"
  rl_data :: rpc_value
  rl_transaction_hash :: rpc_value
  rl_log_index :: int
  rl_block_number :: int
  rl_block_hash :: rpc_value

record rpc_transaction =
  rt_from :: string
  rt_to :: "string option"
  rt_value :: int
  rt_hash :: rpc_value

record rpc_block =
  rb_hash :: rpc_value
  rb_transactions :: "rpc_transaction list"

record rpc_receipt =
  rr_transaction_hash :: rpc_value
  rr_status :: int
  rr_block_number :: int
  rr_block_hash :: rpc_value
  rr_logs :: "rpc_log list"

datatype block_tag = BtPending | BtLatest

record 'n web3 =
  eth_block_number :: "('n, int) rpc"
  eth_get_logs :: "log_filter \<Rightarrow> ('n, rpc_log list) rpc"
  eth_get_block :: "int \<Rightarrow> ('n, rpc_block) rpc"
  debug_trace_block :: "int \<Rightarrow> ('n, trace_entry list) rpc"
  eth_get_balance :: "string \<Rightarrow> ('n, int) rpc"
  eth_balance_of :: "string \<Rightarrow> string \<Rightarrow> ('n, int) rpc"
  eth_call :: "string \<Rightarrow> string \<Rightarrow> ('n, rpc_value) rpc"
  eth_get_transaction_count :: "string \<Rightarrow> block_tag \<Rightarrow> ('n, int) rpc"
  eth_gas_price :: "('n, int) rpc"
  eth_get_transaction :: "string \<Rightarrow> ('n, unit) rpc"
  eth_get_transaction_receipt :: "string \<Rightarrow> ('n, rpc_receipt) rpc"
  eth_send_raw_transaction :: "string \<Rightarrow> ('n, rpc_value) rpc"

text \<open>The nodes behind the URLs, and what passes on the network during a sleep (milliseconds).\<close>

record 'n network =
  web3_of :: "string \<Rightarrow> 'n web3"
  net_sleep :: "nat \<Rightarrow> 'n \<Rightarrow> 'n"

record eth_tx =
  tx_to :: string
  tx_data :: string
  tx_value :: int
  tx_nonce :: int
  tx_gas :: int
  tx_gas_price :: int
  tx_chain_id :: int

text \<open>
  The libraries: EIP-55, Keccak, the key's account, signing, and the transaction web3 builds for
  a \<open>transfer\<close> call from the sender, the nonce, the gas limit, the gas price and the chain.
\<close>

record eth_lib =
  el_to_checksum_address :: "string \<Rightarrow> error + string"
  el_keccak_text :: "string \<Rightarrow> 8 word list"
  el_keccak_hexstr :: "string \<Rightarrow> error + 8 word list"
  el_account_address :: "string \<Rightarrow> error + string"
  el_sign_transaction :: "string \<Rightarrow> eth_tx \<Rightarrow> error + (8 word list \<times> 8 word list)"
  el_build_transfer ::
    "string \<Rightarrow> string \<Rightarrow> int \<Rightarrow> string \<Rightarrow> int \<Rightarrow> int \<Rightarrow> int \<Rightarrow> int \<Rightarrow> error + eth_tx"

section \<open>The client\<close>

record web3_client =
  wc_chain_id :: int
  wc_rpc_urls :: "string list"
  wc_max_retries :: int
  wc_block_chunk_size :: int

definition new_chain_client :: "int \<Rightarrow> string list \<Rightarrow> int \<Rightarrow> int \<Rightarrow> error + web3_client" where
  "new_chain_client chain_id urls retries chunk_size =
     (if urls = [] then
        Inl (ValueError (''chain '' @ int_str chain_id @ '' has no RPC URLs configured''))
      else Inr \<lparr>wc_chain_id = chain_id, wc_rpc_urls = urls,
                wc_max_retries = max 1 retries,
                wc_block_chunk_size = max 1 chunk_size\<rparr>)"

definition client_from_settings :: "int \<Rightarrow> settings \<Rightarrow> error + web3_client" where
  "client_from_settings chain_id st =
     bind_res (rpc_urls st chain_id) (\<lambda>urls.
     new_chain_client chain_id urls (rpc_max_retries st) (block_chunk_size st))"

definition providers :: "'n network \<Rightarrow> web3_client \<Rightarrow> 'n web3 list" where
  "providers net c = map (web3_of net) (wc_rpc_urls c)"

section \<open>Retrying\<close>

text \<open>
  The attempts of a call: the body of one attempt ends the call with a value, or leaves the last
  exception; between two attempts the client sleeps, not after the last.
\<close>

definition backoff :: "nat \<Rightarrow> nat" where "backoff attempt = min (500 * 2 ^ attempt) 5000"

fun attempts ::
  "'n network \<Rightarrow> int \<Rightarrow> (error option \<Rightarrow> 'n \<Rightarrow> (error option + 'a) \<times> 'n) \<Rightarrow> nat list
   \<Rightarrow> error option \<Rightarrow> 'n \<Rightarrow> (error option + 'a) \<times> 'n" where
  "attempts net max_retries body [] last_exc n = (Inl last_exc, n)"
| "attempts net max_retries body (attempt # rest) last_exc n =
     (case body last_exc n of
        (Inr x, n') \<Rightarrow> (Inr x, n')
      | (Inl exc, n') \<Rightarrow>
          attempts net max_retries body rest exc
            (if int attempt + 1 < max_retries then net_sleep net (backoff attempt) n' else n'))"

definition rpc_failure :: "web3_client \<Rightarrow> string \<Rightarrow> error option \<Rightarrow> error" where
  "rpc_failure c label last_exc =
     ChainRpcError (''all RPC providers failed for '' @ label @ '' on chain ''
       @ int_str (wc_chain_id c) @ '': ''
       @ (case last_exc of None \<Rightarrow> ''None'' | Some e \<Rightarrow> error_text e))"

fun first_answer ::
  "('w \<Rightarrow> ('n, 'a) rpc) \<Rightarrow> 'w list \<Rightarrow> error option \<Rightarrow> 'n \<Rightarrow> (error option + 'a) \<times> 'n" where
  "first_answer fn [] last_exc n = (Inl last_exc, n)"
| "first_answer fn (web3 # rest) last_exc n =
     (case fn web3 n of
        (Inr x, n') \<Rightarrow> (Inr x, n')
      | (Inl exc, n') \<Rightarrow> first_answer fn rest (Some exc) n')"

definition with_failover ::
  "'n network \<Rightarrow> web3_client \<Rightarrow> string \<Rightarrow> ('n web3 \<Rightarrow> ('n, 'a) rpc) \<Rightarrow> ('n, 'a) rpc" where
  "with_failover net c label fn = (\<lambda>n.
     case attempts net (wc_max_retries c) (first_answer fn (providers net c))
            [0..<nat (wc_max_retries c)] None n of
       (Inr x, n') \<Rightarrow> (Inr x, n')
     | (Inl last_exc, n') \<Rightarrow> (Inl (rpc_failure c label last_exc), n'))"

text \<open>One round of a lookup: the first value found, or whether anyone was reachable.\<close>

fun ask_providers ::
  "('w \<Rightarrow> ('n, 'a option) rpc) \<Rightarrow> 'w list \<Rightarrow> bool \<Rightarrow> error option \<Rightarrow> 'n
   \<Rightarrow> (error option + 'a option) \<times> 'n" where
  "ask_providers fetch [] reachable last_exc n = ((if reachable then Inr None else Inl last_exc), n)"
| "ask_providers fetch (web3 # rest) reachable last_exc n =
     (case fetch web3 n of
        (Inl exc, n') \<Rightarrow> ask_providers fetch rest reachable (Some exc) n'
      | (Inr None, n') \<Rightarrow> ask_providers fetch rest True last_exc n'
      | (Inr (Some x), n') \<Rightarrow> (Inr (Some x), n'))"

definition find_across_providers ::
  "'n network \<Rightarrow> web3_client \<Rightarrow> string \<Rightarrow> ('n web3 \<Rightarrow> ('n, 'a option) rpc) \<Rightarrow> ('n, 'a option) rpc" where
  "find_across_providers net c label fetch = (\<lambda>n.
     case attempts net (wc_max_retries c) (ask_providers fetch (providers net c) False)
            [0..<nat (wc_max_retries c)] None n of
       (Inr x, n') \<Rightarrow> (Inr x, n')
     | (Inl last_exc, n') \<Rightarrow> (Inl (rpc_failure c label last_exc), n'))"

section \<open>Reads\<close>

definition get_logs :: "'n network \<Rightarrow> web3_client \<Rightarrow> log_filter \<Rightarrow> ('n, rpc_log list) rpc" where
  "get_logs net c log_filter = with_failover net c ''get_logs'' (\<lambda>w3. eth_get_logs w3 log_filter)"

definition get_block :: "'n network \<Rightarrow> web3_client \<Rightarrow> int \<Rightarrow> ('n, rpc_block) rpc" where
  "get_block net c block_number =
     with_failover net c ''get_block'' (\<lambda>w3. eth_get_block w3 block_number)"

definition client_block_number :: "'n network \<Rightarrow> web3_client \<Rightarrow> ('n, int) rpc" where
  "client_block_number net c = with_failover net c ''block_number'' eth_block_number"

text \<open>\<open>except BlockNotFound\<close> and \<open>except TransactionNotFound\<close>: the lookup answers nothing.\<close>

fun block_not_found :: "error \<Rightarrow> bool" where
  "block_not_found (BlockNotFound m) = True"
| "block_not_found _ = False"

fun transaction_not_found :: "error \<Rightarrow> bool" where
  "transaction_not_found (TransactionNotFound m) = True"
| "transaction_not_found _ = False"

definition catching :: "(error \<Rightarrow> bool) \<Rightarrow> ('n, 'a) rpc \<Rightarrow> ('n, 'a option) rpc" where
  "catching absent m = (\<lambda>n. case m n of
       (Inl e, n') \<Rightarrow> ((if absent e then Inr None else Inl e), n')
     | (Inr x, n') \<Rightarrow> (Inr (Some x), n'))"

definition client_block_hash :: "'n network \<Rightarrow> web3_client \<Rightarrow> int \<Rightarrow> ('n, string option) rpc" where
  "client_block_hash net c block_number =
     bind_rpc (find_across_providers net c ''block_hash''
       (\<lambda>w3. catching block_not_found (eth_get_block w3 block_number)))
     (\<lambda>block. case block of
        None \<Rightarrow> lift_res (Inr None)
      | Some b \<Rightarrow> lift_res (bind_res (to_hex (rb_hash b)) (\<lambda>h. Inr (Some h))))"

definition transfer_filter :: "string list \<Rightarrow> string list \<Rightarrow> int \<times> int \<Rightarrow> log_filter" where
  "transfer_filter addresses to_topics = (\<lambda>(low, high).
     \<lparr>lf_address = addresses, lf_from_block = low, lf_to_block = high,
      lf_topics = [TopicIs ERC20_TRANSFER_TOPIC, AnyTopic, TopicIn to_topics]\<rparr>)"

definition erc20_of_log :: "(string \<Rightarrow> error + string) \<Rightarrow> rpc_log \<Rightarrow> error + erc20_transfer" where
  "erc20_of_log ck log =
     bind_res (to_hex (rl_address log)) (\<lambda>token_address.
     bind_res (map_res to_hex (rl_topics log)) (\<lambda>topics.
     bind_res (to_hex (rl_data log)) (\<lambda>data.
     bind_res (to_hex (rl_transaction_hash log)) (\<lambda>tx_hash.
     bind_res (to_hex (rl_block_hash log)) (\<lambda>block_hash.
     decode_erc20_transfer ck token_address topics data tx_hash (rl_log_index log)
       (rl_block_number log) block_hash)))))"

text \<open>The loop over the chunks of a span: one request each, every log decoded before the next.\<close>

definition scan_logs ::
  "'n network \<Rightarrow> web3_client \<Rightarrow> string list \<Rightarrow> string list \<Rightarrow> (rpc_log \<Rightarrow> error + 'a list) \<Rightarrow> int
   \<Rightarrow> int \<Rightarrow> ('n, 'a list) rpc" where
  "scan_logs net c addresses to_topics decode from_block to_block =
     bind_rpc (lift_res (block_ranges from_block to_block (wc_block_chunk_size c))) (\<lambda>ranges.
     bind_rpc
       (map_rpc (\<lambda>span.
          bind_rpc (get_logs net c (transfer_filter addresses to_topics span)) (\<lambda>logs.
          lift_res (bind_res (map_res decode logs) (\<lambda>found. Inr (concat found))))) ranges)
       (\<lambda>transfers. lift_res (Inr (concat transfers))))"

definition fetch_erc20_transfers ::
  "'n network \<Rightarrow> eth_lib \<Rightarrow> web3_client \<Rightarrow> string list \<Rightarrow> string list \<Rightarrow> int \<Rightarrow> int
   \<Rightarrow> ('n, erc20_transfer list) rpc" where
  "fetch_erc20_transfers net lib c token_addresses to_addresses from_block to_block =
     (if token_addresses = [] \<or> to_addresses = [] \<or> from_block > to_block then lift_res (Inr [])
      else
        bind_rpc (lift_res (map_res (el_to_checksum_address lib) token_addresses)) (\<lambda>addresses.
        scan_logs net c addresses (map address_to_topic to_addresses)
          (\<lambda>log. bind_res (erc20_of_log (el_to_checksum_address lib) log) (\<lambda>t. Inr [t]))
          from_block to_block))"

definition erc721_of_log ::
  "(string \<Rightarrow> error + string) \<Rightarrow> rpc_log \<Rightarrow> error + erc721_transfer list" where
  "erc721_of_log ck log =
     bind_res (map_res to_hex (rl_topics log)) (\<lambda>topics.
     bind_res (to_hex (rl_data log)) (\<lambda>data.
     if length topics \<noteq> ERC721_TRANSFER_TOPIC_COUNT \<or> data \<notin> {'''', ''0x'', ''0x0''} then Inr []
     else
       bind_res (bind_res (to_hex (rl_address log)) ck) (\<lambda>contract_address.
       bind_res (topic_to_address ck (topics ! 1)) (\<lambda>from_address.
       bind_res (topic_to_address ck (topics ! 2)) (\<lambda>to_address.
       bind_res (int16 (topics ! 3)) (\<lambda>token.
       bind_res (to_hex (rl_block_hash log)) (\<lambda>block_hash.
       bind_res (to_hex (rl_transaction_hash log)) (\<lambda>tx_hash.
       Inr [\<lparr>ft_contract_address = contract_address, ft_from_address = from_address,
             ft_to_address = to_address, ft_token_id = int_str token,
             ft_block_number = rl_block_number log, ft_block_hash = block_hash,
             ft_tx_hash = tx_hash, ft_log_index = rl_log_index log\<rparr>])))))))) "

definition fetch_erc721_transfers ::
  "'n network \<Rightarrow> eth_lib \<Rightarrow> web3_client \<Rightarrow> string list \<Rightarrow> string list \<Rightarrow> int \<Rightarrow> int
   \<Rightarrow> ('n, erc721_transfer list) rpc" where
  "fetch_erc721_transfers net lib c contract_addresses to_addresses from_block to_block =
     (if contract_addresses = [] \<or> to_addresses = [] \<or> from_block > to_block
      then lift_res (Inr [])
      else
        bind_rpc (lift_res (map_res (el_to_checksum_address lib) contract_addresses)) (\<lambda>addresses.
        scan_logs net c addresses (map address_to_topic to_addresses)
          (erc721_of_log (el_to_checksum_address lib)) from_block to_block))"

definition native_of_transaction ::
  "(string \<Rightarrow> error + string) \<Rightarrow> string set \<Rightarrow> int \<Rightarrow> string \<Rightarrow> rpc_transaction
   \<Rightarrow> error + native_transfer list" where
  "native_of_transaction ck wanted block_no block_hash tx =
     (case rt_to tx of
        None \<Rightarrow> Inr []
      | Some to_address \<Rightarrow>
          if 0 < rt_value tx \<and> lower to_address \<in> wanted then
            bind_res (ck (rt_from tx)) (\<lambda>from_address.
            bind_res (ck to_address) (\<lambda>to_checked.
            bind_res (to_hex (rt_hash tx)) (\<lambda>tx_hash.
            Inr [\<lparr>na_from_address = from_address, na_to_address = to_checked,
                  na_value = rt_value tx, na_tx_hash = tx_hash, na_block_number = block_no,
                  na_block_hash = block_hash, na_log_index = NATIVE_LOG_INDEX\<rparr>])))
          else Inr [])"

definition fetch_native_transfers ::
  "'n network \<Rightarrow> eth_lib \<Rightarrow> web3_client \<Rightarrow> string list \<Rightarrow> int \<Rightarrow> int \<Rightarrow> ('n, native_transfer list) rpc" where
  "fetch_native_transfers net lib c to_addresses from_block to_block =
     (if to_addresses = [] \<or> from_block > to_block then lift_res (Inr [])
      else
        let wanted = set (map lower to_addresses) in
        bind_rpc
          (map_rpc (\<lambda>block_no.
             bind_rpc (get_block net c block_no) (\<lambda>block.
             lift_res (bind_res (to_hex (rb_hash block)) (\<lambda>block_hash.
               bind_res (map_res (native_of_transaction (el_to_checksum_address lib) wanted
                                    block_no block_hash) (rb_transactions block))
                 (\<lambda>found. Inr (concat found))))))
            [from_block..to_block])
          (\<lambda>transfers. lift_res (Inr (concat transfers))))"

definition trace_block :: "'n network \<Rightarrow> web3_client \<Rightarrow> int \<Rightarrow> ('n, trace_entry list) rpc" where
  "trace_block net c block_number =
     with_failover net c ''trace_block'' (\<lambda>w3. debug_trace_block w3 block_number)"

text \<open>The loop of the internal scan, with its early return of nothing and its \<open>continue\<close>.\<close>

fun trace_blocks ::
  "'n network \<Rightarrow> eth_lib \<Rightarrow> web3_client \<Rightarrow> string set \<Rightarrow> native_transfer list \<Rightarrow> int list
   \<Rightarrow> ('n, native_transfer list) rpc" where
  "trace_blocks net lib c wanted transfers [] n = (Inr transfers, n)"
| "trace_blocks net lib c wanted transfers (block_no # rest) n =
     (case trace_block net c block_no n of
        (Inl exc, n') \<Rightarrow> ((if is_chain_rpc_error exc then Inr [] else Inl exc), n')
      | (Inr traced, n') \<Rightarrow>
          bind_rpc (client_block_hash net c block_no) (\<lambda>block_hash.
          case block_hash of
            None \<Rightarrow> trace_blocks net lib c wanted transfers rest
          | Some h \<Rightarrow>
              bind_rpc (lift_res (internal_transfers_from_trace (el_to_checksum_address lib) traced
                                    wanted block_no h))
                (\<lambda>found. trace_blocks net lib c wanted (transfers @ found) rest)) n')"

definition fetch_internal_transfers ::
  "'n network \<Rightarrow> eth_lib \<Rightarrow> web3_client \<Rightarrow> string list \<Rightarrow> int \<Rightarrow> int \<Rightarrow> ('n, native_transfer list) rpc" where
  "fetch_internal_transfers net lib c to_addresses from_block to_block =
     (if to_addresses = [] \<or> from_block > to_block then lift_res (Inr [])
      else trace_blocks net lib c (set (map lower to_addresses)) [] [from_block..to_block])"

definition client_native_balance :: "'n network \<Rightarrow> eth_lib \<Rightarrow> web3_client \<Rightarrow> string \<Rightarrow> ('n, int) rpc" where
  "client_native_balance net lib c address =
     with_failover net c ''get_balance'' (\<lambda>w3.
       bind_rpc (lift_res (el_to_checksum_address lib address)) (eth_get_balance w3))"

definition client_erc20_balance ::
  "'n network \<Rightarrow> eth_lib \<Rightarrow> web3_client \<Rightarrow> string \<Rightarrow> string \<Rightarrow> ('n, int) rpc" where
  "client_erc20_balance net lib c token_address address =
     with_failover net c ''balanceOf'' (\<lambda>w3.
       bind_rpc (lift_res (el_to_checksum_address lib token_address)) (\<lambda>token.
       bind_rpc (lift_res (el_to_checksum_address lib address)) (eth_balance_of w3 token)))"

text \<open>\<open>f"{i:064x}"\<close>: the sign, then zeros up to the width of 64.\<close>

definition hex_064 :: "int \<Rightarrow> string" where
  "hex_064 i = (if i < 0 then CHR ''-'' # zfill 63 (hex_str (nat (- i))) else zfill 64 (hex_str (nat i)))"

text \<open>Any exception of the call, of the checksum before it too, is a node without the token.\<close>

definition owner_on_node ::
  "eth_lib \<Rightarrow> string \<Rightarrow> string \<Rightarrow> 'n web3 \<Rightarrow> ('n, string option) rpc" where
  "owner_on_node lib contract_address data w3 = (\<lambda>n.
     case bind_rpc (lift_res (el_to_checksum_address lib contract_address))
            (\<lambda>contract. eth_call w3 contract data) n of
       (Inl e, n') \<Rightarrow> (Inr None, n')
     | (Inr raw, n') \<Rightarrow>
         (bind_res (to_hex raw) (\<lambda>hex.
            let encoded = removeprefix hex ''0x'' in
            if length encoded < ABI_WORD_HEX_LEN then Inr None
            else
              let owner = ''0x'' @ last40 encoded in
              bind_res (int16 owner) (\<lambda>i.
              if i = 0 then Inr None
              else bind_res (el_to_checksum_address lib owner) (\<lambda>o'. Inr (Some o')))), n'))"

definition client_erc721_owner_of ::
  "'n network \<Rightarrow> eth_lib \<Rightarrow> web3_client \<Rightarrow> string \<Rightarrow> string \<Rightarrow> ('n, string option) rpc" where
  "client_erc721_owner_of net lib c contract_address token_id =
     bind_rpc (lift_res (int10 token_id)) (\<lambda>token.
     find_across_providers net c ''ownerOf''
       (owner_on_node lib contract_address (''0x6352211e'' @ hex_064 token)))"

definition transaction_count ::
  "'n network \<Rightarrow> eth_lib \<Rightarrow> web3_client \<Rightarrow> string \<Rightarrow> block_tag \<Rightarrow> string \<Rightarrow> ('n, int) rpc" where
  "transaction_count net lib c label tag address =
     with_failover net c label (\<lambda>w3.
       bind_rpc (lift_res (el_to_checksum_address lib address))
         (\<lambda>a. eth_get_transaction_count w3 a tag))"

definition client_pending_nonce :: "'n network \<Rightarrow> eth_lib \<Rightarrow> web3_client \<Rightarrow> string \<Rightarrow> ('n, int) rpc" where
  "client_pending_nonce net lib c = transaction_count net lib c ''nonce'' BtPending"

definition client_latest_nonce :: "'n network \<Rightarrow> eth_lib \<Rightarrow> web3_client \<Rightarrow> string \<Rightarrow> ('n, int) rpc" where
  "client_latest_nonce net lib c = transaction_count net lib c ''latest_nonce'' BtLatest"

definition client_suggested_gas_price :: "'n network \<Rightarrow> web3_client \<Rightarrow> ('n, int) rpc" where
  "client_suggested_gas_price net c = with_failover net c ''gas_price'' eth_gas_price"

definition tx_known :: "'n network \<Rightarrow> web3_client \<Rightarrow> string \<Rightarrow> 'n \<Rightarrow> bool \<times> 'n" where
  "tx_known net c tx_hash = (\<lambda>n.
     case find_across_providers net c ''get_transaction''
            (\<lambda>w3. catching transaction_not_found (eth_get_transaction w3 tx_hash)) n of
       (Inl e, n') \<Rightarrow> (False, n')
     | (Inr found, n') \<Rightarrow> (found \<noteq> None, n'))"

section \<open>Signing\<close>

definition signed_of :: "8 word list \<times> 8 word list \<Rightarrow> signed_tx" where
  "signed_of = (\<lambda>(raw, h). \<lparr>stx_raw = ''0x'' @ bytes_hex raw, stx_tx_hash = ''0x'' @ bytes_hex h\<rparr>)"

definition sign_with :: "eth_lib \<Rightarrow> string \<Rightarrow> error + eth_tx \<Rightarrow> error + signed_tx" where
  "sign_with lib private_key tx =
     bind_res (el_account_address lib private_key) (\<lambda>_.
     bind_res tx (\<lambda>tx.
     bind_res (el_sign_transaction lib private_key tx) (\<lambda>signed. Inr (signed_of signed))))"

definition client_sign_native ::
  "eth_lib \<Rightarrow> web3_client \<Rightarrow> string \<Rightarrow> string \<Rightarrow> int \<Rightarrow> int \<Rightarrow> int \<Rightarrow> error + signed_tx" where
  "client_sign_native lib c private_key to_address value nonce gas_price =
     sign_with lib private_key
       (bind_res (el_to_checksum_address lib to_address) (\<lambda>to_checked.
        Inr \<lparr>tx_to = to_checked, tx_data = [], tx_value = value, tx_nonce = nonce,
             tx_gas = NATIVE_TRANSFER_GAS, tx_gas_price = gas_price,
             tx_chain_id = wc_chain_id c\<rparr>))"

definition client_sign_erc20 ::
  "eth_lib \<Rightarrow> web3_client \<Rightarrow> string \<Rightarrow> string \<Rightarrow> string \<Rightarrow> int \<Rightarrow> int \<Rightarrow> int \<Rightarrow> error + signed_tx" where
  "client_sign_erc20 lib c private_key token_address to_address value nonce gas_price =
     sign_with lib private_key
       (bind_res (el_account_address lib private_key) (\<lambda>sender.
        bind_res (el_to_checksum_address lib token_address) (\<lambda>token.
        bind_res (el_to_checksum_address lib to_address) (\<lambda>to_checked.
        el_build_transfer lib token to_checked value sender nonce ERC20_TRANSFER_GAS gas_price
          (wc_chain_id c)))))"

text \<open>\<open>keccak(text=signature)[:4].hex()\<close> and an address as one ABI word without prefix.\<close>

definition selector_of :: "eth_lib \<Rightarrow> string \<Rightarrow> string" where
  "selector_of lib signature = bytes_hex (take 4 (el_keccak_text lib signature))"

definition address_word :: "eth_lib \<Rightarrow> string \<Rightarrow> error + string" where
  "address_word lib address =
     bind_res (el_to_checksum_address lib address)
       (\<lambda>a. Inr (removeprefix (address_to_topic a) ''0x''))"

definition client_sign_erc721_mint ::
  "eth_lib \<Rightarrow> web3_client \<Rightarrow> string \<Rightarrow> string \<Rightarrow> string \<Rightarrow> int \<Rightarrow> int \<Rightarrow> error + signed_tx" where
  "client_sign_erc721_mint lib c private_key contract_address to_address nonce gas_price =
     sign_with lib private_key
       (bind_res (address_word lib to_address) (\<lambda>encoded_to.
        bind_res (el_to_checksum_address lib contract_address) (\<lambda>contract.
        Inr \<lparr>tx_to = contract,
             tx_data = ''0x'' @ selector_of lib ''mint(address)'' @ encoded_to,
             tx_value = 0, tx_nonce = nonce, tx_gas = ERC721_MINT_GAS,
             tx_gas_price = gas_price, tx_chain_id = wc_chain_id c\<rparr>)))"

definition client_sign_erc721_transfer ::
  "eth_lib \<Rightarrow> web3_client \<Rightarrow> string \<Rightarrow> string \<Rightarrow> string \<Rightarrow> string \<Rightarrow> string \<Rightarrow> int \<Rightarrow> int
   \<Rightarrow> error + signed_tx" where
  "client_sign_erc721_transfer lib c private_key contract_address from_address to_address token_id
     nonce gas_price =
     sign_with lib private_key
       (bind_res (address_word lib from_address) (\<lambda>encoded_from.
        bind_res (address_word lib to_address) (\<lambda>encoded_to.
        bind_res (int10 token_id) (\<lambda>token.
        bind_res (el_to_checksum_address lib contract_address) (\<lambda>contract.
        Inr \<lparr>tx_to = contract,
             tx_data = ''0x'' @ selector_of lib ''safeTransferFrom(address,address,uint256)''
               @ encoded_from @ encoded_to @ hex_064 token,
             tx_value = 0, tx_nonce = nonce, tx_gas = ERC721_TRANSFER_GAS,
             tx_gas_price = gas_price, tx_chain_id = wc_chain_id c\<rparr>)))))"

section \<open>Broadcasting\<close>

text \<open>One attempt: every provider in turn, until one takes the transaction or already has it.\<close>

fun send_each ::
  "'n network \<Rightarrow> web3_client \<Rightarrow> string \<Rightarrow> string \<Rightarrow> 'n web3 list \<Rightarrow> error option \<Rightarrow> 'n
   \<Rightarrow> (error option + string) \<times> 'n" where
  "send_each net c raw expected [] last_exc n = (Inl last_exc, n)"
| "send_each net c raw expected (web3 # rest) last_exc n =
     (case bind_rpc (eth_send_raw_transaction web3 raw) (\<lambda>h. lift_res (to_hex h)) n of
        (Inr tx_hash, n') \<Rightarrow> (Inr tx_hash, n')
      | (Inl exc, n') \<Rightarrow>
          if is_already_broadcast exc then
            (case tx_known net c expected n' of
               (True, n'') \<Rightarrow> (Inr expected, n'')
             | (False, n'') \<Rightarrow> send_each net c raw expected rest (Some exc) n'')
          else send_each net c raw expected rest (Some exc) n')"

definition broadcast_failure :: "web3_client \<Rightarrow> string \<Rightarrow> error option \<Rightarrow> error" where
  "broadcast_failure c expected last_exc =
     ChainRpcError (''failed to broadcast tx '' @ expected @ '' on chain ''
       @ int_str (wc_chain_id c) @ '': ''
       @ (case last_exc of None \<Rightarrow> ''None'' | Some e \<Rightarrow> error_text e))"

definition client_broadcast_raw ::
  "'n network \<Rightarrow> eth_lib \<Rightarrow> web3_client \<Rightarrow> string \<Rightarrow> ('n, string) rpc" where
  "client_broadcast_raw net lib c raw =
     bind_rpc (lift_res (el_keccak_hexstr lib raw)) (\<lambda>hash_bytes n.
     let expected = ''0x'' @ bytes_hex hash_bytes in
     case attempts net (wc_max_retries c) (send_each net c raw expected (providers net c))
            [0..<nat (wc_max_retries c)] None n of
       (Inr tx_hash, n') \<Rightarrow> (Inr tx_hash, n')
     | (Inl last_exc, n') \<Rightarrow>
         (case tx_known net c expected n' of
            (True, n'') \<Rightarrow> (Inr expected, n'')
          | (False, n'') \<Rightarrow> (Inl (broadcast_failure c expected last_exc), n'')))"

definition client_send_native ::
  "'n network \<Rightarrow> eth_lib \<Rightarrow> web3_client \<Rightarrow> string \<Rightarrow> string \<Rightarrow> int \<Rightarrow> int \<Rightarrow> int \<Rightarrow> ('n, string) rpc" where
  "client_send_native net lib c private_key to_address value nonce gas_price =
     bind_rpc (lift_res (client_sign_native lib c private_key to_address value nonce gas_price))
       (\<lambda>signed. client_broadcast_raw net lib c (stx_raw signed))"

definition client_send_erc20 ::
  "'n network \<Rightarrow> eth_lib \<Rightarrow> web3_client \<Rightarrow> string \<Rightarrow> string \<Rightarrow> string \<Rightarrow> int \<Rightarrow> int \<Rightarrow> int
   \<Rightarrow> ('n, string) rpc" where
  "client_send_erc20 net lib c private_key token_address to_address value nonce gas_price =
     bind_rpc (lift_res (client_sign_erc20 lib c private_key token_address to_address value nonce
                           gas_price))
       (\<lambda>signed. client_broadcast_raw net lib c (stx_raw signed))"

section \<open>Receipts\<close>

definition tx_log_of :: "eth_lib \<Rightarrow> rpc_log \<Rightarrow> error + tx_log" where
  "tx_log_of lib log =
     bind_res (bind_res (to_hex (rl_address log)) (el_to_checksum_address lib)) (\<lambda>address.
     bind_res (map_res to_hex (rl_topics log)) (\<lambda>topics.
     bind_res (to_hex (rl_data log)) (\<lambda>data.
     Inr \<lparr>lg_address = address, lg_topics = topics, lg_data = data,
          lg_log_index = rl_log_index log\<rparr>)))"

definition tx_receipt_of :: "eth_lib \<Rightarrow> rpc_receipt \<Rightarrow> error + tx_receipt" where
  "tx_receipt_of lib receipt =
     bind_res (to_hex (rr_transaction_hash receipt)) (\<lambda>tx_hash.
     bind_res (to_hex (rr_block_hash receipt)) (\<lambda>block_hash.
     bind_res (map_res (tx_log_of lib) (rr_logs receipt)) (\<lambda>logs.
     Inr \<lparr>rc_tx_hash = tx_hash, rc_status = rr_status receipt,
          rc_block_number = rr_block_number receipt, rc_block_hash = block_hash,
          rc_logs = logs\<rparr>)))"

definition client_get_receipt ::
  "'n network \<Rightarrow> eth_lib \<Rightarrow> web3_client \<Rightarrow> string \<Rightarrow> ('n, tx_receipt option) rpc" where
  "client_get_receipt net lib c tx_hash =
     bind_rpc (find_across_providers net c ''receipt''
       (\<lambda>w3. catching transaction_not_found (eth_get_transaction_receipt w3 tx_hash)))
     (\<lambda>receipt. lift_res (case receipt of
        None \<Rightarrow> Inr None
      | Some r \<Rightarrow> bind_res (tx_receipt_of lib r) (\<lambda>t. Inr (Some t))))"

definition client_erc721_minted_token_id ::
  "'n network \<Rightarrow> eth_lib \<Rightarrow> web3_client \<Rightarrow> string \<Rightarrow> string \<Rightarrow> string \<Rightarrow> ('n, string option) rpc" where
  "client_erc721_minted_token_id net lib c tx_hash contract_address to_address =
     bind_rpc (client_get_receipt net lib c tx_hash) (\<lambda>receipt.
     lift_res (case receipt of
        None \<Rightarrow> Inr None
      | Some r \<Rightarrow> erc721_minted_token_id_from_receipt r contract_address to_address))"

section \<open>The client as the workers see it\<close>

text \<open>
  The class satisfies the protocols of \<open>app/chain/types.py\<close>: its operations, each run from the
  network's state, are the record the workers and the services take.
\<close>

definition chain_client_of :: "'n network \<Rightarrow> eth_lib \<Rightarrow> web3_client \<Rightarrow> 'n \<Rightarrow> chain_client" where
  "chain_client_of net lib c n =
     \<lparr>cl_chain_id = wc_chain_id c,
      cl_block_number = fst (client_block_number net c n),
      cl_block_hash = (\<lambda>b. fst (client_block_hash net c b n)),
      cl_fetch_erc20_transfers = (\<lambda>ts as lo hi. fst (fetch_erc20_transfers net lib c ts as lo hi n)),
      cl_fetch_erc721_transfers =
        (\<lambda>cs as lo hi. fst (fetch_erc721_transfers net lib c cs as lo hi n)),
      cl_fetch_native_transfers = (\<lambda>as lo hi. fst (fetch_native_transfers net lib c as lo hi n)),
      cl_fetch_internal_transfers =
        (\<lambda>as lo hi. fst (fetch_internal_transfers net lib c as lo hi n)),
      cl_pending_nonce = (\<lambda>a. fst (client_pending_nonce net lib c a n)),
      cl_latest_nonce = (\<lambda>a. fst (client_latest_nonce net lib c a n)),
      cl_suggested_gas_price = fst (client_suggested_gas_price net c n),
      cl_sign_native = client_sign_native lib c,
      cl_sign_erc20 = client_sign_erc20 lib c,
      cl_sign_erc721_mint = client_sign_erc721_mint lib c,
      cl_sign_erc721_transfer = client_sign_erc721_transfer lib c,
      cl_broadcast_raw = (\<lambda>raw. fst (client_broadcast_raw net lib c raw n)),
      cl_send_native = (\<lambda>k a v no g. fst (client_send_native net lib c k a v no g n)),
      cl_send_erc20 = (\<lambda>k t a v no g. fst (client_send_erc20 net lib c k t a v no g n)),
      cl_get_receipt = (\<lambda>h. fst (client_get_receipt net lib c h n)),
      cl_erc721_minted_token_id =
        (\<lambda>h k a. fst (client_erc721_minted_token_id net lib c h k a n)),
      cl_erc721_owner_of = (\<lambda>k t. fst (client_erc721_owner_of net lib c k t n)),
      cl_native_balance = (\<lambda>a. fst (client_native_balance net lib c a n)),
      cl_erc20_balance = (\<lambda>t a. fst (client_erc20_balance net lib c t a n))\<rparr>"

end
