(* ===== verification/Chain_Facts.thy ===== *)
theory Chain_Facts
  imports Chain_Rpc Samples
begin

text \<open>What the client's callers rely on.\<close>

section \<open>Spans\<close>

lemma range_loop_covers:
  "0 < c \<Longrightarrow> concat (map (\<lambda>(low, high). [low..high]) (range_loop s t c)) = [s..t]"
proof (induction s t c rule: range_loop.induct)
  case (1 s t c)
  show ?case
  proof (cases "s \<le> t")
    case True
    let ?e = "min (s + c - 1) t"
    have "s \<le> ?e + 1" "?e + 1 \<le> t + 1" using True 1 by auto
    then have "[s..?e] @ [?e + 1..t] = [s..t]"
      by (metis add_diff_cancel_right' upto_split1 upto_split2 zle_add1_eq_le add.commute upto_empty append_Nil2 linorder_not_less order_le_less)
    then show ?thesis
      using True 1 by (subst range_loop.simps) (simp add: Let_def)
  next
    case False
    then show ?thesis by (subst range_loop.simps) simp
  qed
qed

lemma range_loop_bounds:
  "(low, high) \<in> set (range_loop s t c) \<Longrightarrow> s \<le> low \<and> low \<le> high \<and> high \<le> t \<and> high - low < c"
proof (induction s t c rule: range_loop.induct)
  case (1 s t c)
  let ?e = "min (s + c - 1) t"
  from 1(2) have g: "s \<le> t" "0 < c"
    and m: "(low, high) = (s, ?e) \<or> (low, high) \<in> set (range_loop (?e + 1) t c)"
    by (subst (asm) range_loop.simps; auto simp: Let_def split: if_splits)+
  from m show ?case
  proof
    assume "(low, high) = (s, ?e)"
    then show ?thesis using g by auto
  next
    assume a: "(low, high) \<in> set (range_loop (?e + 1) t c)"
    have "?e + 1 \<le> low \<and> low \<le> high \<and> high \<le> t \<and> high - low < c"
      using 1(1) a g by simp
    then show ?thesis using g by auto
  qed
qed

section \<open>Calls\<close>

lemma bind_rpc_simps [simp]:
  "m n = (Inl e, n') \<Longrightarrow> bind_rpc m f n = (Inl e, n')"
  "m n = (Inr x, n') \<Longrightarrow> bind_rpc m f n = f x n'"
  by (simp_all add: bind_rpc_def)

lemma bind_lift_res [simp]:
  "bind_rpc (lift_res (Inl e)) f n = (Inl e, n)" "bind_rpc (lift_res (Inr x)) f n = f x n"
  by (simp_all add: bind_rpc_def lift_res_def)

lemma lift_res_app [simp]: "lift_res r n = (r, n)"
  by (simp add: lift_res_def)

text \<open>A loop of calls that leave the network as it is answers what the loop of results does.\<close>

lemma map_rpc_pure:
  "(\<And>x n. x \<in> set xs \<Longrightarrow> f x n = (g x, n)) \<Longrightarrow> map_rpc f xs n = (map_res g xs, n)"
proof (induction xs)
  case (Cons x xs)
  have IH: "map_rpc f xs n = (map_res g xs, n)" using Cons by simp
  have fx: "f x n = (g x, n)" using Cons by simp
  show ?case
  proof (cases "g x")
    case (Inl e)
    then show ?thesis using fx by simp
  next
    case (Inr y)
    then show ?thesis using fx IH by (cases "map_res g xs") simp_all
  qed
qed simp

lemma map_res_append:
  "map_res f (xs @ ys) = bind_res (map_res f xs) (\<lambda>us. bind_res (map_res f ys) (\<lambda>vs. Inr (us @ vs)))"
proof (induction xs)
  case Nil
  then show ?case by (cases "map_res f ys") simp_all
next
  case (Cons x xs)
  show ?case using Cons by (cases "f x"; cases "map_res f xs"; cases "map_res f ys") simp_all
qed

lemma map_res_map: "map_res f (map g xs) = map_res (\<lambda>x. f (g x)) xs"
  by (induction xs) simp_all

text \<open>Decoding group by group is decoding the whole.\<close>

lemma map_res_concat:
  "map_res (\<lambda>g. bind_res (map_res f g) (\<lambda>found. Inr (concat found))) gs =
     bind_res (map_res (\<lambda>g. map_res f g) gs) (\<lambda>all. Inr (map concat all))"
proof (induction gs)
  case (Cons g gs)
  then show ?case by (cases "map_res f g"; cases "map_res (map_res f) gs") simp_all
qed simp

lemma map_res_groups:
  "bind_res (map_res (map_res f) gs) (\<lambda>all. Inr (concat (map concat all))) =
     bind_res (map_res f (concat gs)) (\<lambda>found. Inr (concat found))"
proof (induction gs)
  case (Cons g gs)
  show ?case
    using Cons unfolding list.map concat.simps map_res_append
    by (cases "map_res f g"; cases "map_res (map_res f) gs"; cases "map_res f (concat gs)") simp_all
qed simp

lemma first_answer_pure:
  assumes "ws \<noteq> []" "\<And>w. w \<in> set ws \<Longrightarrow> fn w n = (Inr x, n)"
  shows "first_answer fn ws l n = (Inr x, n)"
  using assms by (cases ws) simp_all

lemma with_failover_pure:
  assumes "0 < wc_max_retries c" "providers net c \<noteq> []"
    and "\<And>w. w \<in> set (providers net c) \<Longrightarrow> fn w n = (Inr x, n)"
  shows "with_failover net c label fn n = (Inr x, n)"
proof -
  obtain k where "nat (wc_max_retries c) = Suc k" using assms(1) by (cases "nat (wc_max_retries c)") auto
  then have "[0..<nat (wc_max_retries c)] = 0 # [1..<nat (wc_max_retries c)]"
    by (simp add: upt_conv_Cons)
  then show ?thesis
    using first_answer_pure [of "providers net c" fn n x None] assms(2,3)
    by (simp add: with_failover_def)
qed

lemma bind_res_map_Inr:
  "bind_res (bind_res r (\<lambda>x. Inr (f x))) (\<lambda>y. Inr (g y)) = bind_res r (\<lambda>x. Inr (g (f x)))"
  by (cases r) simp_all

text \<open>The nodes answer a request for a span the client may make with the logs of its blocks.\<close>

definition answers_logs ::
  "(string list \<Rightarrow> topic_filter list \<Rightarrow> int \<Rightarrow> rpc_log list) \<Rightarrow> int \<Rightarrow> 'n web3 \<Rightarrow> bool" where
  "answers_logs logs_at limit w \<longleftrightarrow>
     (\<forall>f n. lf_from_block f \<le> lf_to_block f \<and> lf_to_block f - lf_from_block f < limit \<longrightarrow>
        eth_get_logs w f n =
          (Inr (concat (map (logs_at (lf_address f) (lf_topics f)) [lf_from_block f..lf_to_block f])), n))"

lemma scan_logs_pure:
  assumes "0 < wc_max_retries c" "0 < wc_block_chunk_size c" "providers net c \<noteq> []"
    and "\<And>w. w \<in> set (providers net c) \<Longrightarrow> answers_logs logs_at (wc_block_chunk_size c) w"
  shows "scan_logs net c addresses to_topics decode lo hi n =
    (bind_res (map_res decode
        (concat (map (logs_at addresses [TopicIs ERC20_TRANSFER_TOPIC, AnyTopic, TopicIn to_topics])
           [lo..hi])))
      (\<lambda>found. Inr (concat found)), n)"
proof -
  let ?L = "logs_at addresses [TopicIs ERC20_TRANSFER_TOPIC, AnyTopic, TopicIn to_topics]"
  let ?rs = "if lo > hi then [] else range_loop lo hi (wc_block_chunk_size c)"
  have rs: "block_ranges lo hi (wc_block_chunk_size c) = Inr ?rs"
    using assms(2) by (simp add: block_ranges_def)
  have cover: "concat (map (\<lambda>(l, h). [l..h]) ?rs) = [lo..hi]"
    using range_loop_covers [OF assms(2)] by simp
  let ?G = "\<lambda>(l, h). concat (map ?L [l..h])"
  have get: "get_logs net c (transfer_filter addresses to_topics (l, h)) n = (Inr (?G (l, h)), n)"
    if "(l, h) \<in> set ?rs" for l h n
    unfolding get_logs_def
    using that assms(4) range_loop_bounds [of l h lo hi "wc_block_chunk_size c"]
    by (intro with_failover_pure assms)
       (auto simp: answers_logs_def transfer_filter_def split: if_splits)
  have body: "bind_rpc (get_logs net c (transfer_filter addresses to_topics span)) (\<lambda>logs.
        lift_res (bind_res (map_res decode logs) (\<lambda>found. Inr (concat found)))) m =
      (bind_res (map_res decode (?G span)) (\<lambda>found. Inr (concat found)), m)"
    if "span \<in> set ?rs" for span m
    using get that by (cases span) simp
  have groups: "concat (map ?G ?rs) = concat (map ?L [lo..hi])"
  proof -
    have "concat (map ?G rs) = concat (map ?L (concat (map (\<lambda>(l, h). [l..h]) rs)))" for rs
      by (induction rs) auto
    then show ?thesis using cover by simp
  qed
  have "map_rpc (\<lambda>span. bind_rpc (get_logs net c (transfer_filter addresses to_topics span)) (\<lambda>logs.
        lift_res (bind_res (map_res decode logs) (\<lambda>found. Inr (concat found))))) ?rs n =
      (map_res (\<lambda>span. bind_res (map_res decode (?G span)) (\<lambda>found. Inr (concat found))) ?rs, n)"
    by (rule map_rpc_pure) (rule body)
  also have "map_res (\<lambda>span. bind_res (map_res decode (?G span)) (\<lambda>found. Inr (concat found))) ?rs =
      map_res (\<lambda>g. bind_res (map_res decode g) (\<lambda>found. Inr (concat found))) (map ?G ?rs)"
    by (simp add: map_res_map)
  finally have loop: "map_rpc (\<lambda>span. bind_rpc (get_logs net c (transfer_filter addresses to_topics span))
        (\<lambda>logs. lift_res (bind_res (map_res decode logs) (\<lambda>found. Inr (concat found))))) ?rs n =
      (bind_res (map_res (map_res decode) (map ?G ?rs)) (\<lambda>all. Inr (map concat all)), n)"
    unfolding map_res_concat .
  have "scan_logs net c addresses to_topics decode lo hi n =
      (bind_res (map_res (map_res decode) (map ?G ?rs)) (\<lambda>all. Inr (concat (map concat all))), n)"
    unfolding scan_logs_def rs bind_lift_res(2)
    by (cases "map_res (map_res decode) (map ?G ?rs)") (use loop in simp_all)
  then show ?thesis unfolding map_res_groups groups .
qed

lemma map_res_single: "bind_res (map_res (\<lambda>x. bind_res (f x) (\<lambda>y. Inr [y])) xs) (\<lambda>found. Inr (concat found))
    = map_res f xs"
proof (induction xs)
  case (Cons x xs)
  show ?case
  proof (cases "f x")
    case (Inr y)
    then show ?thesis
      using Cons by (cases "map_res (\<lambda>x. bind_res (f x) (\<lambda>y. Inr [y])) xs"; cases "map_res f xs") simp_all
  qed simp
qed simp

definition transfer_logs ::
  "(string list \<Rightarrow> topic_filter list \<Rightarrow> int \<Rightarrow> rpc_log list) \<Rightarrow> string list \<Rightarrow> string list \<Rightarrow> int \<Rightarrow> int
   \<Rightarrow> rpc_log list" where
  "transfer_logs logs_at addresses to_addresses lo hi =
     concat (map (logs_at addresses
       [TopicIs ERC20_TRANSFER_TOPIC, AnyTopic, TopicIn (map address_to_topic to_addresses)]) [lo..hi])"

text \<open>
  C28: Scanning for token transfers reads every block of the span once and in order, in requests
  no longer than the client's limit: when the nodes answer requests within that limit, the
  answer is the decoding of all matching logs of the span, so it does not depend on how the
  span is cut, on the provider that answered or on the number of retries; an empty filter or
  span is answered without a request.
\<close>

theorem scan_reads_each_block_once:
  assumes "0 < wc_max_retries c" "0 < wc_block_chunk_size c" "wc_rpc_urls c \<noteq> []"
    and "\<forall>w \<in> set (providers net c). answers_logs logs_at (wc_block_chunk_size c) w"
  shows "fetch_erc20_transfers net lib c tokens tos lo hi n =
      ((if tokens = [] \<or> tos = [] \<or> hi < lo then Inr []
        else bind_res (map_res (el_to_checksum_address lib) tokens) (\<lambda>addresses.
          map_res (erc20_of_log (el_to_checksum_address lib))
            (transfer_logs logs_at addresses tos lo hi))), n) \<and>
    fetch_erc721_transfers net lib c contracts tos lo hi n =
      ((if contracts = [] \<or> tos = [] \<or> hi < lo then Inr []
        else bind_res (map_res (el_to_checksum_address lib) contracts) (\<lambda>addresses.
          bind_res (map_res (erc721_of_log (el_to_checksum_address lib))
            (transfer_logs logs_at addresses tos lo hi)) (\<lambda>found. Inr (concat found)))), n)"
proof (rule conjI)
  have ne: "providers net c \<noteq> []" using assms(3) by (simp add: providers_def)
  have ans: "answers_logs logs_at (wc_block_chunk_size c) w" if "w \<in> set (providers net c)" for w
    using assms(4) that by blast
  note scan = scan_logs_pure [OF assms(1,2) ne ans]
  show "fetch_erc20_transfers net lib c tokens tos lo hi n =
      ((if tokens = [] \<or> tos = [] \<or> hi < lo then Inr []
        else bind_res (map_res (el_to_checksum_address lib) tokens) (\<lambda>addresses.
          map_res (erc20_of_log (el_to_checksum_address lib))
            (transfer_logs logs_at addresses tos lo hi))), n)"
    by (cases "map_res (el_to_checksum_address lib) tokens")
       (simp_all add: fetch_erc20_transfers_def scan map_res_single transfer_logs_def)
  show "fetch_erc721_transfers net lib c contracts tos lo hi n =
      ((if contracts = [] \<or> tos = [] \<or> hi < lo then Inr []
        else bind_res (map_res (el_to_checksum_address lib) contracts) (\<lambda>addresses.
          bind_res (map_res (erc721_of_log (el_to_checksum_address lib))
            (transfer_logs logs_at addresses tos lo hi)) (\<lambda>found. Inr (concat found)))), n)"
    by (cases "map_res (el_to_checksum_address lib) contracts")
       (simp_all add: fetch_erc721_transfers_def scan transfer_logs_def)
qed

section \<open>Lookups\<close>

text \<open>What the providers answer one after another when each of them is asked.\<close>

fun round_answers :: "('w \<Rightarrow> ('n, 'a) rpc) \<Rightarrow> 'w list \<Rightarrow> 'n \<Rightarrow> (error + 'a) list" where
  "round_answers fetch [] n = []"
| "round_answers fetch (w # ws) n =
     (case fetch w n of (r, n') \<Rightarrow> r # round_answers fetch ws n')"

lemma ask_providers_None:
  "ask_providers fetch ws reachable l n = (Inr None, n') \<Longrightarrow>
     (\<forall>r \<in> set (round_answers fetch ws n). \<forall>x. r \<noteq> Inr (Some x)) \<and>
     (reachable \<or> Inr None \<in> set (round_answers fetch ws n))"
proof (induction fetch ws reachable l n rule: ask_providers.induct)
  case (2 fetch w ws reachable l n)
  then show ?case by (cases "fetch w n") (auto split: sum.splits option.splits)
qed (simp split: if_splits)

lemma ask_providers_Inl:
  "ask_providers fetch ws reachable l n = (Inl e, n') \<Longrightarrow>
     \<not> reachable \<and> (\<forall>r \<in> set (round_answers fetch ws n). \<exists>e. r = Inl e)"
proof (induction fetch ws reachable l n rule: ask_providers.induct)
  case (2 fetch w ws reachable l n)
  then show ?case by (cases "fetch w n") (auto split: sum.splits option.splits)
qed (simp split: if_splits)

lemma attempts_Inr:
  "attempts net k body ts l n = (Inr x, n') \<Longrightarrow> \<exists>l0 m. body l0 m = (Inr x, n')"
proof (induction ts arbitrary: l n)
  case (Cons t ts)
  obtain r m where b: "body l n = (r, m)" by (cases "body l n")
  show ?case
  proof (cases r)
    case (Inl e)
    then show ?thesis using Cons.prems b by (auto intro: Cons.IH)
  next
    case (Inr y)
    then show ?thesis using Cons.prems b by auto
  qed
qed simp

lemma find_across_None:
  assumes "find_across_providers net c label fetch n = (Inr None, n')"
  shows "\<exists>m. (\<forall>r \<in> set (round_answers fetch (providers net c) m). \<forall>x. r \<noteq> Inr (Some x)) \<and>
    Inr None \<in> set (round_answers fetch (providers net c) m)"
proof -
  let ?body = "ask_providers fetch (providers net c) False"
  have "attempts net (wc_max_retries c) ?body [0..<nat (wc_max_retries c)] None n = (Inr None, n')"
    using assms by (simp add: find_across_providers_def split: prod.splits sum.splits)
  then obtain l m where "?body l m = (Inr None, n')" using attempts_Inr by metis
  then show ?thesis using ask_providers_None by metis
qed

lemma find_across_error:
  "find_across_providers net c label fetch n = (Inl e, n') \<Longrightarrow> is_chain_rpc_error e"
  by (auto simp: find_across_providers_def rpc_failure_def split: prod.splits sum.splits)

lemma round_answers_catching:
  "round_answers (\<lambda>w. catching absent (f w)) ws m =
     map (\<lambda>r. case r of Inl e \<Rightarrow> if absent e then Inr None else Inl e | Inr x \<Rightarrow> Inr (Some x))
       (round_answers f ws m)"
proof (induction ws arbitrary: m)
  case (Cons w ws)
  show ?case using Cons by (cases "f w m"; cases "fst (f w m)") (auto simp: catching_def)
qed simp

text \<open>A lookup that concludes absence had a round without a find and with a node that denied it.\<close>

lemma lookup_absent:
  assumes "find_across_providers net c label (\<lambda>w. catching absent (f w)) n = (Inr None, n')"
  shows "\<exists>m. (\<forall>r \<in> set (round_answers f (providers net c) m). \<exists>e. r = Inl e) \<and>
    (\<exists>e. Inl e \<in> set (round_answers f (providers net c) m) \<and> absent e)"
proof -
  obtain m where m: "\<forall>r \<in> set (round_answers (\<lambda>w. catching absent (f w)) (providers net c) m).
        \<forall>x. r \<noteq> Inr (Some x)"
      "Inr None \<in> set (round_answers (\<lambda>w. catching absent (f w)) (providers net c) m)"
    using find_across_None [OF assms] by blast
  show ?thesis
  proof (intro exI [of _ m] conjI ballI)
    fix r assume r: "r \<in> set (round_answers f (providers net c) m)"
    show "\<exists>e. r = Inl e"
    proof (cases r)
      case (Inr x)
      then have "Inr (Some x) \<in> set (round_answers (\<lambda>w. catching absent (f w)) (providers net c) m)"
        using r unfolding round_answers_catching by force
      then show ?thesis using m(1) by blast
    qed simp
  next
    show "\<exists>e. Inl e \<in> set (round_answers f (providers net c) m) \<and> absent e"
      using m(2) by (auto simp: round_answers_catching split: sum.splits if_splits)
  qed
qed

lemma attempts_Inl:
  "ts \<noteq> [] \<Longrightarrow> attempts net k body ts l n = (Inl e, n') \<Longrightarrow> \<exists>l0 m n0. body l0 m = (Inl e, n0)"
proof (induction ts arbitrary: l n)
  case (Cons t ts)
  obtain r m where b: "body l n = (r, m)" by (cases "body l n")
  then obtain e' where r: "r = Inl e'" using Cons.prems by (cases r) auto
  show ?case
  proof (cases "ts = []")
    case True
    then show ?thesis using Cons.prems b r by auto
  next
    case False
    then show ?thesis using Cons.prems(2) b r by (auto intro: Cons.IH)
  qed
qed simp

lemma ask_providers_Some:
  "ask_providers fetch ws reachable l n = (Inr (Some x), n') \<Longrightarrow>
     \<exists>w \<in> set ws. \<exists>m. fetch w m = (Inr (Some x), n')"
proof (induction ws arbitrary: reachable l n)
  case (Cons w ws)
  obtain r m where f: "fetch w n = (r, m)" by (cases "fetch w n")
  then show ?case
    using Cons by (auto split: sum.splits option.splits) 
qed (simp split: if_splits)

lemma find_across_Some:
  assumes "find_across_providers net c label (\<lambda>w. catching absent (f w)) n = (Inr (Some x), n')"
  shows "\<exists>w \<in> set (providers net c). \<exists>m. f w m = (Inr x, n')"
proof -
  let ?body = "ask_providers (\<lambda>w. catching absent (f w)) (providers net c) False"
  have "attempts net (wc_max_retries c) ?body [0..<nat (wc_max_retries c)] None n = (Inr (Some x), n')"
    using assms by (simp add: find_across_providers_def split: prod.splits sum.splits)
  then obtain l m where "?body l m = (Inr (Some x), n')" using attempts_Inr by metis
  then obtain w m where w: "w \<in> set (providers net c)" "catching absent (f w) m = (Inr (Some x), n')"
    using ask_providers_Some by metis
  then have "f w m = (Inr x, n')" by (auto simp: catching_def split: prod.splits sum.splits if_splits)
  with w(1) show ?thesis by blast
qed

lemma lookup_unreachable:
  assumes "0 < wc_max_retries c"
    and "find_across_providers net c label (\<lambda>w. catching absent (f w)) n = (Inl e, n')"
  shows "\<exists>m. \<forall>r \<in> set (round_answers f (providers net c) m). \<exists>e. r = Inl e"
proof -
  let ?body = "ask_providers (\<lambda>w. catching absent (f w)) (providers net c) False"
  have "[0..<nat (wc_max_retries c)] \<noteq> []" using assms(1) by simp
  moreover obtain l where
    "attempts net (wc_max_retries c) ?body [0..<nat (wc_max_retries c)] None n = (Inl l, n')"
    using assms(2) by (auto simp: find_across_providers_def split: prod.splits sum.splits)
  ultimately obtain l0 m n0 where "?body l0 m = (Inl l, n0)" using attempts_Inl by metis
  then have all: "\<forall>r \<in> set (round_answers (\<lambda>w. catching absent (f w)) (providers net c) m). \<exists>e. r = Inl e"
    using ask_providers_Inl by metis
  have "\<exists>e. r = Inl e" if r: "r \<in> set (round_answers f (providers net c) m)" for r
  proof (cases r)
    case (Inr x)
    then have "Inr (Some x) \<in> set (round_answers (\<lambda>w. catching absent (f w)) (providers net c) m)"
      using r unfolding round_answers_catching by force
    then show ?thesis using all by blast
  qed simp
  then show ?thesis by blast
qed

text \<open>
  C29: A receipt, a transaction or a block is only reported missing after a round in which not
  one of the configured providers had it and at least one of them said so (a transaction is also
  taken as unknown when no provider answered at all), and a receipt that is reported comes from a
  provider: a single node that lags or is down never makes a payout look absent.
\<close>

theorem absence_needs_every_provider:
  "(client_get_receipt net lib c h n = (Inr None, n') \<longrightarrow>
      (\<exists>m. (\<forall>r \<in> set (round_answers (\<lambda>w. eth_get_transaction_receipt w h) (providers net c) m).
             \<exists>e. r = Inl e) \<and>
          (\<exists>e. Inl (TransactionNotFound e) \<in>
             set (round_answers (\<lambda>w. eth_get_transaction_receipt w h) (providers net c) m)))) \<and>
   (client_get_receipt net lib c h n = (Inr (Some receipt), n') \<longrightarrow>
      (\<exists>w \<in> set (providers net c). \<exists>m answer.
        eth_get_transaction_receipt w h m = (Inr answer, n') \<and> tx_receipt_of lib answer = Inr receipt)) \<and>
   (client_block_hash net c b n = (Inr None, n') \<longrightarrow>
      (\<exists>m. (\<forall>r \<in> set (round_answers (\<lambda>w. eth_get_block w b) (providers net c) m). \<exists>e. r = Inl e) \<and>
          (\<exists>e. Inl (BlockNotFound e) \<in> set (round_answers (\<lambda>w. eth_get_block w b) (providers net c) m)))) \<and>
   (0 < wc_max_retries c \<longrightarrow> tx_known net c h n = (False, n') \<longrightarrow>
      (\<exists>m. \<forall>r \<in> set (round_answers (\<lambda>w. eth_get_transaction w h) (providers net c) m). \<exists>e. r = Inl e))"
proof (intro conjI impI)
  have tnf: "transaction_not_found e \<longleftrightarrow> (\<exists>t. e = TransactionNotFound t)" for e by (cases e) auto
  have blk: "block_not_found e \<longleftrightarrow> (\<exists>t. e = BlockNotFound t)" for e by (cases e) auto
  have unit_None: "x = None" if "x \<noteq> Some ()" for x using that by (cases x) auto
  let ?R = "\<lambda>w. eth_get_transaction_receipt w h"
  let ?find = "find_across_providers net c ''receipt'' (\<lambda>w. catching transaction_not_found (?R w)) n"
  { assume g: "client_get_receipt net lib c h n = (Inr None, n')"
    have "?find = (Inr None, n')"
      using g by (auto simp: client_get_receipt_def bind_rpc_def split: prod.splits sum.splits option.splits)
    from lookup_absent [OF this]
    show "\<exists>m. (\<forall>r \<in> set (round_answers ?R (providers net c) m). \<exists>e. r = Inl e) \<and>
        (\<exists>e. Inl (TransactionNotFound e) \<in> set (round_answers ?R (providers net c) m))"
      unfolding tnf by blast }
  { assume g: "client_get_receipt net lib c h n = (Inr (Some receipt), n')"
    obtain answer where "?find = (Inr (Some answer), n')" "tx_receipt_of lib answer = Inr receipt"
      using g by (auto simp: client_get_receipt_def bind_rpc_def split: prod.splits sum.splits option.splits)
    then show "\<exists>w \<in> set (providers net c). \<exists>m answer.
        ?R w m = (Inr answer, n') \<and> tx_receipt_of lib answer = Inr receipt"
      using find_across_Some [of net c "''receipt''" transaction_not_found ?R n answer n'] by blast }
  { assume g: "client_block_hash net c b n = (Inr None, n')"
    have "find_across_providers net c ''block_hash''
        (\<lambda>w. catching block_not_found (eth_get_block w b)) n = (Inr None, n')"
      using g by (auto simp: client_block_hash_def bind_rpc_def split: prod.splits sum.splits option.splits)
    from lookup_absent [OF this]
    show "\<exists>m. (\<forall>r \<in> set (round_answers (\<lambda>w. eth_get_block w b) (providers net c) m). \<exists>e. r = Inl e) \<and>
        (\<exists>e. Inl (BlockNotFound e) \<in> set (round_answers (\<lambda>w. eth_get_block w b) (providers net c) m))"
      unfolding blk by blast }
  { assume k: "0 < wc_max_retries c" and g: "tx_known net c h n = (False, n')"
    let ?T = "\<lambda>w. eth_get_transaction w h"
    consider "find_across_providers net c ''get_transaction''
        (\<lambda>w. catching transaction_not_found (?T w)) n = (Inr None, n')"
      | e where "find_across_providers net c ''get_transaction''
        (\<lambda>w. catching transaction_not_found (?T w)) n = (Inl e, n')"
      using g by (cases "find_across_providers net c ''get_transaction''
          (\<lambda>w. catching transaction_not_found (?T w)) n"; cases "fst (find_across_providers net c
          ''get_transaction'' (\<lambda>w. catching transaction_not_found (?T w)) n)")
        (auto simp: tx_known_def dest: unit_None)
    then show "\<exists>m. \<forall>r \<in> set (round_answers ?T (providers net c) m). \<exists>e. r = Inl e"
    proof cases
      case 1
      show ?thesis using lookup_absent [OF 1] by blast
    next
      case (2 e)
      show ?thesis by (rule lookup_unreachable [OF k 2])
    qed }
qed

section \<open>Broadcasting\<close>









section \<open>Round trips\<close>

lemma lower_char_hex: "n < 16 \<Longrightarrow> lower_char (hex_char n) = hex_char n"
  by (simp add: lower_char_def of_hex_char)

lemma lower_hex_str: "lower (hex_str n) = hex_str n"
proof (induction n rule: hex_str.induct)
  case (1 n)
  show ?case
    by (subst (1 2) hex_str.simps) (use 1 in \<open>simp add: lower_def lower_char_hex\<close>)
qed

lemma hex_064_nat: "0 \<le> i \<Longrightarrow> hex_064 i = zfill 64 (hex_str (nat i))"
  by (simp add: hex_064_def)

lemma split_on_absent: "c \<notin> set s \<Longrightarrow> split_on c s = [s]"
  by (induction s) auto

lemma int16_prefixed:
  assumes "s \<noteq> []" "list_all is_hex s"
  shows "int16 (''0x'' @ s) = Inr (int (hexs_val s))"
proof -
  have hex_char: "\<not> is_space c" "c \<noteq> CHR ''_''" if "is_hex c" for c
    using that by (auto simp: is_hex_def is_digit_def is_space_def)
  have last_hex: "is_hex (last s)" using assms by (simp add: list_all_iff)
  have "dropWhile is_space (''0x'' @ s) = ''0x'' @ s" by (simp add: is_space_def)
  moreover have "dropWhile is_space (rev (''0x'' @ s)) = rev (''0x'' @ s)"
    using assms(1) last_hex hex_char by (cases s rule: rev_cases) simp_all
  ultimately have strip: "strip (CHR ''0'' # CHR ''x'' # s) = CHR ''0'' # CHR ''x'' # s"
    by (simp add: strip_def)
  have us: "CHR ''_'' \<notin> set s" using assms(2) hex_char by (auto simp: list_all_iff)
  have low: "startswith (lower (CHR ''0'' # CHR ''x'' # s)) ''0x''"
    by (simp add: startswith_def lower_def lower_char_def)
  have no: "\<not> startswith s ''_''" using us by (cases s) (auto simp: startswith_def)
  show ?thesis
    using assms low no
    by (simp add: int16_def strip Let_def split_on_absent us) (simp add: startswith_def)
qed

lemma int16_token: "0 \<le> token \<Longrightarrow> int16 (''0x'' @ hex_064 token) = Inr token"
proof -
  assume t: "0 \<le> token"
  have "is_hex c" if "c \<in> set (hex_064 token)" for c
    using that t hex_str_hex by (auto simp: hex_064_nat zfill_def is_hex_def)
  moreover have "length (hex_064 token) \<ge> 64" using t by (simp add: hex_064_nat)
  then have "hex_064 token \<noteq> []" by auto
  ultimately show ?thesis using t int16_prefixed [of "hex_064 token"]
    by (simp add: list_all_iff hex_064_nat)
qed

lemma lower_append: "lower (a @ b) = lower a @ lower b"
  by (simp add: lower_def)

lemma lower_zeros: "lower (replicate k (CHR ''0'')) = replicate k (CHR ''0'')"
  by (simp add: lower_def lower_char_def)

lemma lower_0x: "lower ''0x'' = ''0x''"
  by code_simp

lemma lower_hex_064: "0 \<le> i \<Longrightarrow> lower (hex_064 i) = hex_064 i"
proof -
  have "digit_char 0 = CHR ''0''" by code_simp
  then show ?thesis if "0 \<le> i"
    using that by (simp add: hex_064_nat zfill_def lower_append lower_zeros lower_hex_str)
qed

lemma lower_address_to_topic: "lower (address_to_topic a) = address_to_topic a"
  unfolding address_to_topic_def lower_append lower_zeros lower_0x lower_idem ..

lemma lower_topics:
  "lower ERC20_TRANSFER_TOPIC = ERC20_TRANSFER_TOPIC" "lower ZERO_TOPIC = ZERO_TOPIC"
  by code_simp+

lemma last40_topic: "length a = 42 \<Longrightarrow> last40 (address_to_topic a) = lower (drop 2 a)"
  by (simp add: last40_def address_to_topic_def)

text \<open>The topics of a token transfer, as a contract emits them.\<close>

definition transfer_topics :: "string \<Rightarrow> string \<Rightarrow> int \<Rightarrow> string list" where
  "transfer_topics from_topic to_address token =
     [ERC20_TRANSFER_TOPIC, from_topic, address_to_topic to_address, ''0x'' @ hex_064 token]"

text \<open>
  C31: Addresses and token ids survive their encoding in a log: an address put in a topic is read
  back as the checksum of its digits, a transfer log is decoded to the sender, the receiver and
  the token it was made of, and the mint lookup answers exactly the token of the first mint log
  of the contract to that address: it finds it behind any other logs, and answers nothing
  otherwise.
\<close>

theorem logs_round_trip:
  "(length a = 42 \<longrightarrow> topic_to_address ck (address_to_topic a) = ck (''0x'' @ lower (drop 2 a))) \<and>
   (length a = 42 \<and> length b = 42 \<and> 0 \<le> token \<and>
      rl_topics log = map RvStr (transfer_topics (address_to_topic a) b token) \<and>
      to_hex (rl_data log) = Inr ''0x'' \<and> erc721_of_log ck log = Inr found \<longrightarrow>
      (\<exists>t. found = [t] \<and> ft_token_id t = int_str token \<and>
        ck (''0x'' @ lower (drop 2 a)) = Inr (ft_from_address t) \<and>
        ck (''0x'' @ lower (drop 2 b)) = Inr (ft_to_address t))) \<and>
   (0 \<le> token \<and> rc_logs receipt = before @ mint # after \<and>
      lower (lg_address mint) = lower contract \<and>
      lg_topics mint = transfer_topics ZERO_TOPIC b token \<and> lg_data mint = ''0x'' \<and>
      list_all (\<lambda>log. \<not> is_mint_log (lower contract) (address_to_topic b) log) before \<longrightarrow>
      erc721_minted_token_id_from_receipt receipt contract b = Inr (Some (int_str token))) \<and>
   (erc721_minted_token_id_from_receipt receipt contract b = Inr None \<longleftrightarrow>
      list_all (\<lambda>log. \<not> is_mint_log (lower contract) (address_to_topic b) log) (rc_logs receipt))"
proof -
  have topic: "topic_to_address ck (address_to_topic a) = ck (''0x'' @ lower (drop 2 a))"
    if "length a = 42" for a
    using that by (simp add: topic_to_address_def last40_topic)
  { assume len: "length a = 42" "length b = 42" and token: "0 \<le> token"
      and topics: "rl_topics log = map RvStr (transfer_topics (address_to_topic a) b token)"
      and data: "to_hex (rl_data log) = Inr ''0x''" and found: "erc721_of_log ck log = Inr found"
    have "startswith (address_to_topic x) ''0x''" for x
      by (simp add: startswith_def address_to_topic_def)
    moreover have "startswith ERC20_TRANSFER_TOPIC ''0x''" by code_simp
    moreover have "startswith (CHR ''0'' # CHR ''x'' # hex_064 token) ''0x''" by (simp add: startswith_def)
    ultimately have "map_res to_hex (rl_topics log) = Inr (transfer_topics (address_to_topic a) b token)"
      by (simp add: topics transfer_topics_def)
    then have "\<exists>t. found = [t] \<and> ft_token_id t = int_str token \<and>
        ck (''0x'' @ lower (drop 2 a)) = Inr (ft_from_address t) \<and>
        ck (''0x'' @ lower (drop 2 b)) = Inr (ft_to_address t)"
      using found data topic [OF len(1)] topic [OF len(2)] int16_token [OF token]
      by (auto simp: erc721_of_log_def transfer_topics_def ERC721_TRANSFER_TOPIC_COUNT_def) }
  note decoded = this
  { assume token: "0 \<le> token" and logs: "rc_logs receipt = before @ mint # after"
      and mint: "lower (lg_address mint) = lower contract"
        "lg_topics mint = transfer_topics ZERO_TOPIC b token" "lg_data mint = ''0x''"
      and before: "list_all (\<lambda>log. \<not> is_mint_log (lower contract) (address_to_topic b) log) before"
    have is_mint: "is_mint_log (lower contract) (address_to_topic b) mint"
      by (simp add: is_mint_log_def mint transfer_topics_def ERC721_TRANSFER_TOPIC_COUNT_def
          lower_topics lower_address_to_topic)
    have "find (is_mint_log (lower contract) (address_to_topic b)) (rc_logs receipt) = Some mint"
      unfolding logs using before is_mint by (induction before) auto
    moreover have "int16 (lower (''0x'' @ hex_064 token)) = Inr token"
      unfolding lower_append lower_0x lower_hex_064 [OF token] by (rule int16_token [OF token])
    then have "int16 (lower (lg_topics mint ! 3)) = Inr token"
      by (simp add: mint(2) transfer_topics_def)
    ultimately have "erc721_minted_token_id_from_receipt receipt contract b = Inr (Some (int_str token))"
      by (simp add: erc721_minted_token_id_from_receipt_def lower_address_to_topic) }
  note minted = this
  have "erc721_minted_token_id_from_receipt receipt contract b = Inr None \<longleftrightarrow>
      find (is_mint_log (lower contract) (address_to_topic b)) (rc_logs receipt) = None"
    by (auto simp: erc721_minted_token_id_from_receipt_def lower_address_to_topic split: option.splits)
  then have "erc721_minted_token_id_from_receipt receipt contract b = Inr None \<longleftrightarrow>
      list_all (\<lambda>log. \<not> is_mint_log (lower contract) (address_to_topic b) log) (rc_logs receipt)"
    unfolding find_None_iff list_all_iff by blast
  then show ?thesis using topic decoded minted by blast
qed

section \<open>Runs\<close>

text \<open>
  A network whose state is whether it has taken the transaction: one node is down, one lags
  behind and refuses what it already had, one works. The working node's blocks hold one log each.
\<close>

definition down_node :: "bool web3" where
  "down_node = 
     \<lparr>eth_block_number = \<lambda>n. (Inl (OtherError ''timeout''), n), eth_get_logs = \<lambda>_ n. (Inl (OtherError ''timeout''), n),
      eth_get_block = \<lambda>_ n. (Inl (OtherError ''timeout''), n),
      debug_trace_block = \<lambda>_ n. (Inl (OtherError ''timeout''), n), eth_get_balance = \<lambda>_ n. (Inl (OtherError ''timeout''), n),
      eth_balance_of = \<lambda>_ _ n. (Inl (OtherError ''timeout''), n), eth_call = \<lambda>_ _ n. (Inl (OtherError ''timeout''), n),
      eth_get_transaction_count = \<lambda>_ _ n. (Inl (OtherError ''timeout''), n),
      eth_gas_price = \<lambda>n. (Inl (OtherError ''timeout''), n),
      eth_get_transaction = \<lambda>_ n. (Inl (OtherError ''timeout''), n),
      eth_get_transaction_receipt = \<lambda>_ n. (Inl (OtherError ''timeout''), n),
      eth_send_raw_transaction = \<lambda>_ n. (Inl (OtherError ''timeout''), n)\<rparr>"

definition demo_log :: "int \<Rightarrow> rpc_log" where
  "demo_log block = \<lparr>rl_address = RvStr (addr (CHR ''c'')),
     rl_topics = map RvStr (transfer_topics (address_to_topic (addr (CHR ''f''))) (addr (CHR ''a'')) 7),
     rl_data = RvStr [], rl_transaction_hash = RvStr ''0xfeed'', rl_log_index = 0,
     rl_block_number = block, rl_block_hash = RvStr ''0xb''\<rparr>"

definition demo_logs_at :: "string list \<Rightarrow> topic_filter list \<Rightarrow> int \<Rightarrow> rpc_log list" where
  "demo_logs_at addresses topics block = [demo_log block]"

definition demo_receipt :: rpc_receipt where
  "demo_receipt = \<lparr>rr_transaction_hash = RvStr ''0xaa'', rr_status = 1, rr_block_number = 9,
     rr_block_hash = RvStr ''0xb'', rr_logs = []\<rparr>"

definition good_node :: "bool web3" where
  "good_node = down_node
     \<lparr>eth_get_logs := \<lambda>f n. (Inr (concat (map (demo_logs_at (lf_address f) (lf_topics f))
                              [lf_from_block f..lf_to_block f])), n),
      eth_get_transaction := \<lambda>_ n. (if n then Inr () else Inl (TransactionNotFound []), n),
      eth_get_transaction_receipt := \<lambda>_ n. (if n then Inr demo_receipt else Inl (TransactionNotFound []), n),
      eth_send_raw_transaction := \<lambda>_ n. (Inr (RvStr ''aa''), True)\<rparr>"

definition lagging_node :: "bool web3" where
  "lagging_node = down_node
     \<lparr>eth_get_block := \<lambda>_ n. (Inl (BlockNotFound []), n),
      eth_get_transaction := \<lambda>_ n. (Inl (TransactionNotFound []), n),
      eth_get_transaction_receipt := \<lambda>_ n. (Inl (TransactionNotFound []), n),
      eth_send_raw_transaction := \<lambda>_ n. (Inl (OtherError ''Nonce too low''), n)\<rparr>"

definition demo_network :: "bool network" where
  "demo_network = \<lparr>web3_of = (\<lambda>url. if url = ''good'' then good_node
       else if url = ''lagging'' then lagging_node else down_node), net_sleep = (\<lambda>_ n. n)\<rparr>"

definition demo_lib :: eth_lib where
  "demo_lib = \<lparr>el_to_checksum_address = Inr, el_keccak_text = (\<lambda>_. []),
     el_keccak_hexstr = (\<lambda>_. Inr [0xaa]), el_account_address = Inr,
     el_sign_transaction = (\<lambda>_ _. Inr ([1], [0xaa])),
     el_build_transfer = (\<lambda>_ _ _ _ _ _ _ _. Inl (OtherError ''none''))\<rparr>"

definition demo_web3 :: "string list \<Rightarrow> web3_client" where
  "demo_web3 urls = \<lparr>wc_chain_id = 31337, wc_rpc_urls = urls, wc_max_retries = 2,
     wc_block_chunk_size = 2\<rparr>"

definition demo_lookups :: web3_client where "demo_lookups = demo_web3 [''down'', ''lagging'']"
definition demo_sends :: web3_client where "demo_sends = demo_web3 [''down'', ''lagging'', ''good'']"
definition demo_scans :: web3_client where "demo_scans = demo_web3 [''good'']"

lemma demo_providers:
  "providers demo_network demo_lookups = [down_node, lagging_node]"
  "providers demo_network demo_sends = [down_node, lagging_node, good_node]"
  "providers demo_network demo_scans = [good_node]"
  by (simp_all add: providers_def demo_network_def demo_lookups_def demo_sends_def demo_scans_def
      demo_web3_def)

lemma scan_reads_each_block_once_witness:
  "fst (fetch_erc721_transfers demo_network demo_lib demo_scans [addr (CHR ''c'')]
     [addr (CHR ''a'')] 3 5 False) =
   (bind_res (map_res (erc721_of_log Inr) [demo_log 3, demo_log 4, demo_log 5])
     (\<lambda>found. Inr (concat found)))"
proof -
  have w: "answers_logs demo_logs_at 2 good_node"
    by (simp add: answers_logs_def good_node_def down_node_def)
  have r: "[3..5] = [3, 4, 5::int]" by code_simp
  have "\<forall>w \<in> set (providers demo_network demo_scans). answers_logs demo_logs_at (wc_block_chunk_size demo_scans) w"
    using w by (simp add: demo_providers) (simp add: demo_scans_def demo_web3_def)
  moreover have "0 < wc_max_retries demo_scans" "0 < wc_block_chunk_size demo_scans"
      "wc_rpc_urls demo_scans \<noteq> []"
    by (simp_all add: demo_scans_def demo_web3_def)
  ultimately show ?thesis
    using scan_reads_each_block_once [of demo_scans demo_network demo_logs_at demo_lib "[]"
        "[addr (CHR ''a'')]" 3 5 False "[addr (CHR ''c'')]"]
    by (simp add: transfer_logs_def demo_logs_at_def r demo_lib_def)
qed

lemma absence_needs_every_provider_witness:
  "\<exists>m e. Inl (TransactionNotFound e) \<in> set (round_answers
     (\<lambda>w. eth_get_transaction_receipt w ''0xaa'') [down_node, lagging_node] m)"
proof -
  have run: "client_get_receipt demo_network demo_lib demo_lookups ''0xaa'' True = (Inr None, True)"
    by code_simp
  show ?thesis
    using absence_needs_every_provider [of demo_network demo_lib demo_lookups "''0xaa''" True True] run
    unfolding demo_providers by blast
qed



definition demo_mint_log :: tx_log where
  "demo_mint_log = \<lparr>lg_address = ''0xC'', lg_topics = transfer_topics ZERO_TOPIC (addr (CHR ''A'')) 7,
     lg_data = ''0x'', lg_log_index = 0\<rparr>"

definition demo_mint_receipt :: tx_receipt where
  "demo_mint_receipt = \<lparr>rc_tx_hash = ''0xaa'', rc_status = 1, rc_block_number = 9,
     rc_block_hash = ''0xb'', rc_logs = [demo_mint_log]\<rparr>"

lemma logs_round_trip_witness:
  "erc721_minted_token_id_from_receipt demo_mint_receipt ''0xc'' (addr (CHR ''A'')) = Inr (Some ''7'')"
proof -
  have "int_str 7 = ''7''" "lower (lg_address demo_mint_log) = lower ''0xc''" by code_simp+
  then show ?thesis
    using logs_round_trip [where token = 7 and before = "[]" and after = "[]" and contract = "''0xc''"
        and b = "addr (CHR ''A'')" and mint = demo_mint_log and receipt = demo_mint_receipt]
    by (simp add: demo_mint_receipt_def) (simp add: demo_mint_log_def)
qed

end
