(* ===== verification/Worker_Main.thy ===== *)
theory Worker_Main
  imports Watcher Withdrawer Nft_Watcher Nft_Minter Nft_Withdrawer Nft_Sweeper Chain_Rpc
begin

text \<open>
  The worker process (\<open>worker/main.py\<close>): the deposit scan shared by the fungible and the NFT
  watcher, the five loops of a chain and the choice of the chains that get loops. A loop pass
  is a sequence of phases, each in its own session: a phase that returns is committed, a phase
  that raises leaves the database as it was, is logged and ends the pass. Scheduling, logging
  and signals are input/output: the loops of all chains interleave at their phases, which
  \<open>System\<close> models as steps in any order.
\<close>

record worker_context =
  wx_settings :: settings
  wx_hot_wallet_key :: string
  wx_hot_wallet_address :: string

definition start_block :: "chain \<Rightarrow> int" where
  "start_block chain =
     (let token_blocks = map ra_deployment_block (filter (\<lambda>a. ra_type a \<noteq> NATIVE) (ch_assets chain)) in
      if token_blocks = [] then 0 else Min (set token_blocks))"

section \<open>The deposit scans\<close>

record deposit_scan_report =
  dsr_recorded :: int
  dsr_credited :: nat
  dsr_orphaned :: nat
  dsr_nft_recorded :: int
  dsr_nft_credited :: nat
  dsr_nft_orphaned :: nat

text \<open>\<open>min\<close> of the lowest blocks that are there.\<close>

definition lowest_of_reports :: "int option \<Rightarrow> int option \<Rightarrow> int option" where
  "lowest_of_reports a b =
     (case (a, b) of
        (Some x, Some y) \<Rightarrow> Some (min x y)
      | (Some x, None) \<Rightarrow> Some x
      | (None, y) \<Rightarrow> y)"

definition run_deposit_scans ::
  "registry \<Rightarrow> db \<Rightarrow> chain_client \<Rightarrow> worker_context \<Rightarrow> int \<Rightarrow> error + (deposit_scan_report \<times> db)" where
  "run_deposit_scans reg db client ctx scan_from =
     (let chain_id = cl_chain_id client;
          confirmations = deposit_confirmations_setting (wx_settings ctx) in
      bind_res (cl_block_number client) (\<lambda>head.
      let finalized = max 0 (head - confirmations) in
      bind_res (advance_cursor db chain_id head finalized scan_from) (\<lambda>(from_block, db).
      bind_res (record_deposits db client from_block head
          (watch_internal_transfers (wx_settings ctx)) (Some (wx_hot_wallet_address ctx)))
        (\<lambda>(recorded, db).
      bind_res (record_nft_deposits reg db client from_block head) (\<lambda>(nft_recorded, db).
      bind_res (confirm_and_credit db client confirmations) (\<lambda>(credited, db).
      bind_res (confirm_and_credit_nfts db client confirmations) (\<lambda>(nft_credited, db).
      let margin = max (reorg_depth_setting (wx_settings ctx)) (reorg_finality_depth (wx_settings ctx));
          reorg_depth = confirmations + margin in
      bind_res (handle_reorgs db client reorg_depth) (\<lambda>reorg.
      bind_res (handle_nft_reorgs (ro_db reorg) client reorg_depth) (\<lambda>(nft_reorg, db).
      Inr (\<lparr>dsr_recorded = recorded, dsr_credited = credited, dsr_orphaned = ro_orphaned reorg,
            dsr_nft_recorded = nft_recorded, dsr_nft_credited = nft_credited,
            dsr_nft_orphaned = nrr_orphaned nft_reorg\<rparr>,
           rewind_cursor db chain_id
             (lowest_of_reports (ro_lowest_block reorg) (nrr_lowest_block nft_reorg))))))))))))"

section \<open>The loops\<close>

type_synonym phase = "db \<Rightarrow> error + db"

text \<open>One turn of a loop: the phases of the \<open>try\<close> block, each committed before the next.\<close>

fun run_phases :: "phase list \<Rightarrow> db \<Rightarrow> db" where
  "run_phases [] db = db"
| "run_phases (phase # rest) db = (case phase db of Inl exc \<Rightarrow> db | Inr db' \<Rightarrow> run_phases rest db')"

definition watcher_phases :: "registry \<Rightarrow> worker_context \<Rightarrow> chain_client \<Rightarrow> int \<Rightarrow> phase list" where
  "watcher_phases reg ctx client scan_from =
     [\<lambda>db. bind_res (run_deposit_scans reg db client ctx scan_from) (\<lambda>(report, db). Inr db)]"

definition withdrawer_phases :: "worker_context \<Rightarrow> chain_client \<Rightarrow> phase list" where
  "withdrawer_phases ctx client =
     [\<lambda>db. bind_res (sign_pending db client (wx_hot_wallet_key ctx) (wx_hot_wallet_address ctx)
              DEFAULT_BATCH) (\<lambda>(signed, db). Inr db),
      \<lambda>db. bind_res (broadcast_signed db client) (\<lambda>s. Inr (bs_db s)),
      \<lambda>db. bind_res (confirm_broadcast db client (deposit_confirmations_setting (wx_settings ctx))
              (Some (wx_hot_wallet_address ctx))) (\<lambda>(settled, db). Inr db)]"

definition nft_minter_phases :: "worker_context \<Rightarrow> chain_client \<Rightarrow> phase list" where
  "nft_minter_phases ctx client =
     [\<lambda>db. bind_res (sign_pending_mints db client (wx_hot_wallet_key ctx) (wx_hot_wallet_address ctx)
              MINT_DEFAULT_BATCH) (\<lambda>(signed, db). Inr db),
      \<lambda>db. bind_res (broadcast_signed_mints db client) (\<lambda>s. Inr (bs_db s)),
      \<lambda>db. bind_res (confirm_mints db client (deposit_confirmations_setting (wx_settings ctx))
              (Some (wx_hot_wallet_address ctx))) (\<lambda>(confirmed, db). Inr db)]"

definition nft_withdrawer_phases :: "worker_context \<Rightarrow> chain_client \<Rightarrow> phase list" where
  "nft_withdrawer_phases ctx client =
     [\<lambda>db. bind_res (sign_pending_withdrawals db client (wx_hot_wallet_key ctx)
              (wx_hot_wallet_address ctx) NFT_DEFAULT_BATCH) (\<lambda>(signed, db). Inr db),
      \<lambda>db. bind_res (broadcast_signed_withdrawals db client) (\<lambda>s. Inr (bs_db s)),
      \<lambda>db. bind_res (confirm_withdrawals db client (deposit_confirmations_setting (wx_settings ctx))
              (Some (wx_hot_wallet_address ctx))) (\<lambda>(confirmed, db). Inr db)]"

definition nft_sweeper_phases ::
  "worker_context \<Rightarrow> (int \<Rightarrow> int \<Rightarrow> error + string) \<Rightarrow> chain_client \<Rightarrow> phase list" where
  "nft_sweeper_phases ctx derive_account client =
     [\<lambda>db. bind_res (discover_sweeps db client) (\<lambda>(discovered, db). Inr db),
      \<lambda>db. bind_res (fund_pending db client (wx_hot_wallet_key ctx) (wx_hot_wallet_address ctx)
              SWEEP_DEFAULT_BATCH) (\<lambda>s. Inr (fs_db s)),
      \<lambda>db. bind_res (sweep_funded db client derive_account (wx_hot_wallet_address ctx)
              SWEEP_DEFAULT_BATCH) (\<lambda>s. Inr (bs_db s)),
      \<lambda>db. bind_res (confirm_sweeps db client (deposit_confirmations_setting (wx_settings ctx))
              (wx_hot_wallet_address ctx) SWEEP_DEFAULT_BATCH) (\<lambda>(swept, db). Inr db)]"

section \<open>Starting\<close>

text \<open>
  The chains that get loops, each with its client: a disabled chain is skipped, and so is one
  without a usable RPC configuration; any other exception stops the process.
\<close>

fun is_key_or_value_error :: "error \<Rightarrow> bool" where
  "is_key_or_value_error (KeyError m) = True"
| "is_key_or_value_error e = is_value_error e"

fun start_loops :: "settings \<Rightarrow> chain list \<Rightarrow> error + (chain \<times> web3_client) list" where
  "start_loops st [] = Inr []"
| "start_loops st (chain # rest) =
     bind_res (is_chain_enabled st (ch_chain_id chain)) (\<lambda>enabled.
     if \<not> enabled then start_loops st rest
     else
       case client_from_settings (ch_chain_id chain) st of
         Inl exc \<Rightarrow> if is_key_or_value_error exc then start_loops st rest else Inl exc
       | Inr client \<Rightarrow>
           bind_res (start_loops st rest) (\<lambda>started. Inr ((chain, client) # started)))"

text \<open>
  A chain gets loops exactly when it is enabled and has at least one RPC URL, and its client
  keeps at least one attempt and a positive chunk size.
\<close>

lemma start_loops_iff:
  assumes "start_loops st listed = Inr started"
  shows "(chain, client) \<in> set started \<longleftrightarrow> chain \<in> set listed \<and>
    is_chain_enabled st (ch_chain_id chain) = Inr True \<and>
    client_from_settings (ch_chain_id chain) st = Inr client"
  using assms
proof (induction listed arbitrary: started)
  case (Cons c rest)
  from Cons.prems obtain en where en: "is_chain_enabled st (ch_chain_id c) = Inr en" by auto
  show ?case
  proof (cases en)
    case False
    then show ?thesis using Cons en by auto
  next
    case True
    show ?thesis
    proof (cases "client_from_settings (ch_chain_id c) st")
      case (Inl e)
      then show ?thesis using Cons en True by (auto split: if_splits)
    next
      case (Inr w)
      then obtain more where "start_loops st rest = Inr more" "started = (c, w) # more"
        using Cons.prems en True by auto
      then show ?thesis using Cons.IH en True Inr by auto
    qed
  qed
qed simp

lemma client_from_settings_Inr:
  assumes "client_from_settings chain_id st = Inr c"
  shows "wc_chain_id c = chain_id" "wc_rpc_urls c \<noteq> []" "0 < wc_max_retries c" "0 < wc_block_chunk_size c"
  using assms by (auto simp: client_from_settings_def new_chain_client_def split: if_splits)

end
