(* ===== verification/Auth.thy ===== *)
theory Auth
  imports Registry Chain_Logs
begin

text \<open>
  Accounts and tokens: \<open>app/core/hd_wallet.py\<close>, \<open>app/core/security.py\<close>,
  \<open>app/services/auth_service.py\<close> and the dependencies of \<open>app/api/dependencies.py\<close>. Key
  derivation, password hashing and the signing of tokens are library functions and
  parameters; times are microseconds, and the tokens of one response are issued at the same
  reading of the clock.
\<close>

section \<open>Derived accounts\<close>

definition HOT_WALLET_INDEX :: int where "HOT_WALLET_INDEX = 0"

record derived_address =
  der_address :: string
  der_derivation_path :: string

record derived_account = derived_address +
  der_private_key :: string

text \<open>
  The library: the address and the raw private key (in hex) at an index of the mnemonic's
  account, and the EIP-55 checksum.
\<close>

record key_lib =
  kl_address :: "string \<Rightarrow> int \<Rightarrow> error + string"
  kl_private_hex :: "string \<Rightarrow> int \<Rightarrow> error + string"
  kl_to_checksum_address :: "string \<Rightarrow> error + string"

definition derive_evm_address ::
  "key_lib \<Rightarrow> registry \<Rightarrow> string \<Rightarrow> int \<Rightarrow> int \<Rightarrow> error + derived_address" where
  "derive_evm_address lib reg mnemonic chain_id hd_index =
     bind_res (kl_address lib mnemonic hd_index) (\<lambda>raw.
     bind_res (kl_to_checksum_address lib raw) (\<lambda>address.
     bind_res (derivation_path reg chain_id hd_index) (\<lambda>path.
     Inr \<lparr>der_address = address, der_derivation_path = path\<rparr>)))"

definition derive_account ::
  "key_lib \<Rightarrow> registry \<Rightarrow> string \<Rightarrow> int \<Rightarrow> int \<Rightarrow> error + derived_account" where
  "derive_account lib reg mnemonic chain_id hd_index =
     bind_res (kl_address lib mnemonic hd_index) (\<lambda>raw.
     bind_res (kl_to_checksum_address lib raw) (\<lambda>address.
     bind_res (kl_private_hex lib mnemonic hd_index) (\<lambda>key.
     bind_res (derivation_path reg chain_id hd_index) (\<lambda>path.
     Inr \<lparr>der_address = address, der_derivation_path = path, der_private_key = ''0x'' @ key\<rparr>))))"

definition derive_hot_wallet :: "key_lib \<Rightarrow> registry \<Rightarrow> string \<Rightarrow> int \<Rightarrow> error + derived_address" where
  "derive_hot_wallet lib reg mnemonic chain_id =
     derive_evm_address lib reg mnemonic chain_id HOT_WALLET_INDEX"

text \<open>The hot wallet of the main test chain unless another is named.\<close>

definition hot_wallet_account :: "key_lib \<Rightarrow> registry \<Rightarrow> string \<Rightarrow> int option \<Rightarrow> error + derived_account" where
  "hot_wallet_account lib reg mnemonic chain_id =
     derive_account lib reg mnemonic (case chain_id of None \<Rightarrow> 11155111 | Some c \<Rightarrow> c) HOT_WALLET_INDEX"

definition derive_deposit_address ::
  "key_lib \<Rightarrow> registry \<Rightarrow> string \<Rightarrow> int \<Rightarrow> int \<Rightarrow> error + derived_address" where
  "derive_deposit_address lib reg mnemonic chain_id hd_index =
     (if hd_index \<le> 0 then
        Inl (ValueError ''user deposit hd_index must be positive; index 0 is reserved for the hot wallet'')
      else derive_evm_address lib reg mnemonic chain_id hd_index)"

section \<open>Tokens\<close>

datatype token_type = AccessToken | RefreshToken

fun token_type_str :: "token_type \<Rightarrow> string" where
  "token_type_str AccessToken = ''access''"
| "token_type_str RefreshToken = ''refresh''"

record token_claims =
  tc_sub :: string
  tc_typ :: string
  tc_iat :: int
  tc_exp :: int

text \<open>The claims of a decoded token the code reads: the text of \<open>typ\<close> and \<open>sub\<close>, if they are texts.\<close>

record raw_claims =
  rw_typ :: "string option"
  rw_sub :: "string option"

text \<open>
  The libraries: \<open>encode\<close> signs claims with a secret; \<open>decode\<close> at a time answers the claims or
  raises; \<open>hash\<close> and \<open>verify\<close> of passwords.
\<close>

record auth_lib =
  al_encode :: "token_claims \<Rightarrow> string \<Rightarrow> string"
  al_decode :: "int \<Rightarrow> string \<Rightarrow> string \<Rightarrow> raw_claims option"
  al_hash :: "string \<Rightarrow> string"
  al_verify :: "string \<Rightarrow> string \<Rightarrow> error + bool"

definition token_ttl :: "settings \<Rightarrow> token_type \<Rightarrow> int" where
  "token_ttl st token_type =
     (if token_type = AccessToken then access_ttl_seconds st else refresh_ttl_seconds st)"

definition claims_for :: "int \<Rightarrow> uuid \<Rightarrow> token_type \<Rightarrow> int \<Rightarrow> token_claims" where
  "claims_for now subject token_type ttl_seconds =
     (let expires_at = now + ttl_seconds * 1000000 in
      \<lparr>tc_sub = uuid_str subject, tc_typ = token_type_str token_type,
       tc_iat = now div 1000000, tc_exp = expires_at div 1000000\<rparr>)"

definition create_token :: "auth_lib \<Rightarrow> settings \<Rightarrow> int \<Rightarrow> uuid \<Rightarrow> token_type \<Rightarrow> string" where
  "create_token lib st now subject token_type =
     al_encode lib (claims_for now subject token_type (token_ttl st token_type)) (jwt_secret st)"

text \<open>
  \<open>UUID(s)\<close>: the prefixes \<open>urn:\<close> and \<open>uuid:\<close> and the hyphens are dropped wherever they are, braces
  at the ends, and 32 characters that \<open>int\<close> takes as hexadecimal must remain.
\<close>

definition strip_braces :: "string \<Rightarrow> string" where
  "strip_braces s = (let b = (\<lambda>c. c = CHR ''{'' \<or> c = CHR ''}'') in
     rev (dropWhile b (rev (dropWhile b s))))"

definition uuid_of_text :: "string \<Rightarrow> uuid option" where
  "uuid_of_text s =
     (let h = filter (\<lambda>c. c \<noteq> CHR ''-'')
            (strip_braces (replace_all ''uuid:'' [] (replace_all ''urn:'' [] s))) in
      if length h \<noteq> 32 then None
      else case int16 h of Inl e \<Rightarrow> None | Inr i \<Rightarrow> Some (nat i))"

definition verify_token :: "auth_lib \<Rightarrow> settings \<Rightarrow> int \<Rightarrow> string \<Rightarrow> token_type \<Rightarrow> error + uuid" where
  "verify_token lib st now token expected_type =
     (case al_decode lib now token (jwt_secret st) of
        None \<Rightarrow> Inl (ValueError ''invalid token'')
      | Some claims \<Rightarrow>
          (case rw_sub claims of
             None \<Rightarrow> Inl (ValueError ''invalid token'')
           | Some subject \<Rightarrow>
               if rw_typ claims \<noteq> Some (token_type_str expected_type) then
                 Inl (ValueError ''invalid token'')
               else
                 (case uuid_of_text subject of
                    None \<Rightarrow> Inl (ValueError ''invalid token subject'')
                  | Some u \<Rightarrow> Inr u)))"

section \<open>Accounts\<close>

definition primary_chain_id :: "registry \<Rightarrow> error + int" where
  "primary_chain_id reg = bind_res (index_res (list_chains reg) 0) (\<lambda>c. Inr (ch_chain_id c))"

text \<open>\<open>coalesce(max(hd_index), 0)\<close>, then one more, at least one.\<close>

definition next_hd_index :: "db \<Rightarrow> int" where
  "next_hd_index db =
     (let current = (if users db = [] then 0 else Max (set (map usr_hd_index (users db)))) in
      max 1 (current + 1))"

text \<open>The flushes: the unique columns of the user, then of the address (unique up to case).\<close>

definition flush_user :: "db \<Rightarrow> string \<Rightarrow> string \<Rightarrow> user_role \<Rightarrow> int \<Rightarrow> error + (user \<times> db)" where
  "flush_user db email password_hash role hd_index =
     (if \<exists>u \<in> set (users db). lower (usr_email u) = lower email \<or> usr_hd_index u = hd_index
      then Inl IntegrityError
      else
        let user = \<lparr>usr_id = next_uuid db, usr_email = email, usr_password_hash = password_hash,
                    usr_role = role, usr_hd_index = hd_index, usr_created_at = db_now db\<rparr> in
        Inr (user, db\<lparr>users := users db @ [user], next_uuid := Suc (next_uuid db)\<rparr>))"

definition flush_deposit_address :: "db \<Rightarrow> uuid \<Rightarrow> derived_address \<Rightarrow> error + db" where
  "flush_deposit_address db user_id derived =
     (if \<exists>a \<in> set (deposit_addresses db). da_user_id a = user_id \<or> lower (da_address a) = lower (der_address derived)
      then Inl IntegrityError
      else Inr (db\<lparr>deposit_addresses := deposit_addresses db @
             [\<lparr>da_id = next_uuid db, da_user_id = user_id, da_address = der_address derived,
               da_derivation_path = der_derivation_path derived\<rparr>],
           next_uuid := Suc (next_uuid db)\<rparr>))"

definition register_user ::
  "key_lib \<Rightarrow> auth_lib \<Rightarrow> registry \<Rightarrow> settings \<Rightarrow> db \<Rightarrow> string \<Rightarrow> string \<Rightarrow> user_role
   \<Rightarrow> error + (user \<times> db)" where
  "register_user keys lib reg st db email password role =
     bind_res (user_by_email db email) (\<lambda>existing.
     if existing \<noteq> None then raise_api_error 409 VALIDATION_ERROR ''Email is already registered''
     else
       let hd_index = next_hd_index db in
       bind_res (primary_chain_id reg) (\<lambda>chain_id.
       bind_res (derive_deposit_address keys reg (master_mnemonic st) chain_id hd_index) (\<lambda>derived.
       bind_res (flush_user db (normalize_email email) (al_hash lib password) role hd_index)
         (\<lambda>(user, db).
       case flush_deposit_address db (usr_id user) derived of
         Inl exc \<Rightarrow>
           if exc = IntegrityError
           then raise_api_error 409 VALIDATION_ERROR ''Email or deposit address is already registered''
           else Inl exc
       | Inr db \<Rightarrow> Inr (user, db)))))"

definition ensure_demo_user ::
  "key_lib \<Rightarrow> auth_lib \<Rightarrow> registry \<Rightarrow> settings \<Rightarrow> db \<Rightarrow> error + (bool \<times> db)" where
  "ensure_demo_user keys lib reg st db =
     bind_res (user_by_email db (demo_email st)) (\<lambda>existing.
     if existing \<noteq> None then Inr (False, db)
     else bind_res (register_user keys lib reg st db (demo_email st) (demo_password st) USER)
       (\<lambda>(_, db). Inr (True, db)))"

definition DEMO_EXTRA_USERS :: "string list" where
  "DEMO_EXTRA_USERS = [''alice@kasa.app'', ''bob@kasa.app'']"

definition ensure_demo_one ::
  "key_lib \<Rightarrow> auth_lib \<Rightarrow> registry \<Rightarrow> settings \<Rightarrow> string \<times> user_role \<Rightarrow> nat \<times> db \<Rightarrow> error + (nat \<times> db)" where
  "ensure_demo_one keys lib reg st entry s =
     (case entry of (email, role) \<Rightarrow> case s of (created, db) \<Rightarrow>
      bind_res (user_by_email db email) (\<lambda>existing.
      case existing of
        Some u \<Rightarrow>
          Inr (created, if usr_role u \<noteq> role
            then db\<lparr>users := upd_row usr_id (usr_id u) (\<lambda>u. u\<lparr>usr_role := role\<rparr>) (users db)\<rparr>
            else db)
      | None \<Rightarrow>
          bind_res (register_user keys lib reg st db email (demo_password st) role)
            (\<lambda>(_, db). Inr (Suc created, db))))"

definition ensure_demo_users ::
  "key_lib \<Rightarrow> auth_lib \<Rightarrow> registry \<Rightarrow> settings \<Rightarrow> db \<Rightarrow> error + (nat \<times> db)" where
  "ensure_demo_users keys lib reg st db =
     for_each (ensure_demo_one keys lib reg st)
       ((demo_email st, ADMIN) # map (\<lambda>e. (e, USER)) DEMO_EXTRA_USERS) (0, db)"

definition authenticate_user :: "auth_lib \<Rightarrow> db \<Rightarrow> string \<Rightarrow> string \<Rightarrow> error + user" where
  "authenticate_user lib db email password =
     (let refused = raise_api_error 401 UNAUTHORIZED ''Invalid email or password'' in
      bind_res (user_by_email db email) (\<lambda>user.
      case user of
        None \<Rightarrow> refused
      | Some u \<Rightarrow> bind_res (al_verify lib password (usr_password_hash u))
          (\<lambda>valid. if valid then Inr u else refused)))"

definition get_user_by_id :: "db \<Rightarrow> uuid \<Rightarrow> error + user option" where
  "get_user_by_id db user_id = scalar_one_or_none (filter (\<lambda>u. usr_id u = user_id) (users db))"

definition issue_token_pair :: "auth_lib \<Rightarrow> settings \<Rightarrow> int \<Rightarrow> user \<Rightarrow> string \<times> string" where
  "issue_token_pair lib st now user =
     (create_token lib st now (usr_id user) AccessToken, create_token lib st now (usr_id user) RefreshToken)"

definition refresh_access_token ::
  "auth_lib \<Rightarrow> settings \<Rightarrow> int \<Rightarrow> db \<Rightarrow> string \<Rightarrow> error + string" where
  "refresh_access_token lib st now db refresh_token =
     (let refused = raise_api_error 401 UNAUTHORIZED ''Invalid refresh token'' in
      case verify_token lib st now refresh_token RefreshToken of
        Inl exc \<Rightarrow> if is_value_error exc then refused else Inl exc
      | Inr user_id \<Rightarrow>
          bind_res (get_user_by_id db user_id) (\<lambda>user.
          case user of
            None \<Rightarrow> refused
          | Some u \<Rightarrow> Inr (create_token lib st now (usr_id u) AccessToken)))"

section \<open>The request's user\<close>

text \<open>The authorization header: its scheme and credentials, if there is one.\<close>

definition get_current_user ::
  "auth_lib \<Rightarrow> settings \<Rightarrow> int \<Rightarrow> db \<Rightarrow> (string \<times> string) option \<Rightarrow> error + user" where
  "get_current_user lib st now db credentials =
     (let missing = raise_api_error 401 UNAUTHORIZED ''Missing bearer token'';
          invalid = raise_api_error 401 UNAUTHORIZED ''Invalid bearer token'' in
      case credentials of
        None \<Rightarrow> missing
      | Some (scheme, token) \<Rightarrow>
          if lower scheme \<noteq> ''bearer'' then missing
          else
            (case verify_token lib st now token AccessToken of
               Inl exc \<Rightarrow> if is_value_error exc then invalid else Inl exc
             | Inr user_id \<Rightarrow>
                 bind_res (get_user_by_id db user_id) (\<lambda>user.
                 case user of None \<Rightarrow> invalid | Some u \<Rightarrow> Inr u)))"

definition require_admin :: "user \<Rightarrow> error + user" where
  "require_admin user =
     (if usr_role user \<noteq> ADMIN then raise_api_error 403 UNAUTHORIZED ''Admin access required''
      else Inr user)"

section \<open>Routes\<close>

text \<open>What a response shows of a user.\<close>

record user_response =
  ur_id :: uuid
  ur_email :: string
  ur_role :: user_role

definition user_response_of :: "user \<Rightarrow> user_response" where
  "user_response_of user = \<lparr>ur_id = usr_id user, ur_email = usr_email user, ur_role = usr_role user\<rparr>"

record auth_response =
  ar_access_token :: string
  ar_refresh_token :: string
  ar_user :: user_response

definition auth_response_for :: "auth_lib \<Rightarrow> settings \<Rightarrow> int \<Rightarrow> user \<Rightarrow> auth_response" where
  "auth_response_for lib st now user =
     (case issue_token_pair lib st now user of (access, refresh) \<Rightarrow>
      \<lparr>ar_access_token = access, ar_refresh_token = refresh,
       ar_user = user_response_of user\<rparr>)"

definition register_route ::
  "key_lib \<Rightarrow> auth_lib \<Rightarrow> registry \<Rightarrow> settings \<Rightarrow> int \<Rightarrow> db \<Rightarrow> string \<Rightarrow> string
   \<Rightarrow> error + (auth_response \<times> db)" where
  "register_route keys lib reg st now db email password =
     bind_res (register_user keys lib reg st db email password USER) (\<lambda>(user, db).
     Inr (auth_response_for lib st now user, db))"

definition login_route ::
  "auth_lib \<Rightarrow> settings \<Rightarrow> int \<Rightarrow> db \<Rightarrow> string \<Rightarrow> string \<Rightarrow> error + auth_response" where
  "login_route lib st now db email password =
     bind_res (authenticate_user lib db email password) (\<lambda>user.
     Inr (auth_response_for lib st now user))"

end
