(* ===== verification/Auth_Facts.thy ===== *)
theory Auth_Facts
  imports Auth Chain_Facts Registry_Facts
begin

text \<open>What registration and tokens guarantee.\<close>

section \<open>Registration\<close>

definition accounts_ok :: "db \<Rightarrow> bool" where
  "accounts_ok db \<longleftrightarrow>
     distinct (map usr_id (users db)) \<and> (\<forall>u \<in> set (users db). usr_id u < next_uuid db) \<and>
     distinct (map (\<lambda>u. lower (usr_email u)) (users db)) \<and>
     distinct (map usr_hd_index (users db)) \<and>
     (\<forall>u \<in> set (users db). HOT_WALLET_INDEX < usr_hd_index u) \<and>
     distinct (map da_user_id (deposit_addresses db)) \<and>
     (\<forall>a \<in> set (deposit_addresses db). da_user_id a \<in> usr_id ` set (users db)) \<and>
     distinct (map (\<lambda>a. lower (da_address a)) (deposit_addresses db))"

lemma next_hd_index_fresh:
  "HOT_WALLET_INDEX < next_hd_index db" "u \<in> set (users db) \<Longrightarrow> usr_hd_index u < next_hd_index db"
proof -
  show "HOT_WALLET_INDEX < next_hd_index db" by (simp add: next_hd_index_def HOT_WALLET_INDEX_def Let_def)
  show "usr_hd_index u < next_hd_index db" if u: "u \<in> set (users db)"
  proof -
    have "usr_hd_index u \<le> Max (set (map usr_hd_index (users db)))" using u by simp
    moreover have "users db \<noteq> []" using u by auto
    ultimately show ?thesis by (simp add: next_hd_index_def Let_def)
  qed
qed

lemma register_user_cases:
  assumes "register_user keys lib reg st db email password role = Inr (u, db')"
  obtains chain_id derived db1 where
    "user_by_email db email = Inr None" "primary_chain_id reg = Inr chain_id"
    "derive_evm_address keys reg (master_mnemonic st) chain_id (next_hd_index db) = Inr derived"
    "flush_user db (normalize_email email) (al_hash lib password) role (next_hd_index db) = Inr (u, db1)"
    "flush_deposit_address db1 (usr_id u) derived = Inr db'"
proof -
  have pos: "\<not> next_hd_index db \<le> 0" using next_hd_index_fresh(1) [of db] by (simp add: HOT_WALLET_INDEX_def)
  show ?thesis
    using assms pos that
    by (auto simp: register_user_def Let_def derive_deposit_address_def split: if_splits sum.splits option.splits)
qed

text \<open>
  C32: A registration keeps the accounts apart. It adds exactly one user, under the normalised
  email no other user has, with a derivation index above every other user's and above the hot
  wallet's, and exactly one deposit address, the one derived at that index, which no other
  user has; nothing else changes.
\<close>

theorem registration_keeps_accounts_apart:
  assumes ok: "accounts_ok db"
    and r: "register_user keys lib reg st db email password role = Inr (u, db')"
  shows "accounts_ok db' \<and> users db' = users db @ [u] \<and> usr_email u = normalize_email email \<and>
    usr_role u = role \<and> HOT_WALLET_INDEX < usr_hd_index u \<and>
    (\<forall>v \<in> set (users db). usr_hd_index v < usr_hd_index u \<and> lower (usr_email v) \<noteq> lower (usr_email u)) \<and>
    (\<exists>chain_id derived i. primary_chain_id reg = Inr chain_id \<and>
       derive_evm_address keys reg (master_mnemonic st) chain_id (usr_hd_index u) = Inr derived \<and>
       deposit_addresses db' = deposit_addresses db @ [\<lparr>da_id = i, da_user_id = usr_id u,
         da_address = der_address derived, da_derivation_path = der_derivation_path derived\<rparr>] \<and>
       (\<forall>a \<in> set (deposit_addresses db). lower (da_address a) \<noteq> lower (der_address derived))) \<and>
    db' = db\<lparr>users := users db', deposit_addresses := deposit_addresses db', next_uuid := next_uuid db'\<rparr>"
proof -
  from r obtain chain_id derived db1 where
    c: "primary_chain_id reg = Inr chain_id" and
    d: "derive_evm_address keys reg (master_mnemonic st) chain_id (next_hd_index db) = Inr derived" and
    f: "flush_user db (normalize_email email) (al_hash lib password) role (next_hd_index db) = Inr (u, db1)" and
    a: "flush_deposit_address db1 (usr_id u) derived = Inr db'"
    by (rule register_user_cases)
  have u: "u = \<lparr>usr_id = next_uuid db, usr_email = normalize_email email,
        usr_password_hash = al_hash lib password, usr_role = role, usr_hd_index = next_hd_index db,
        usr_created_at = db_now db\<rparr>"
      "db1 = db\<lparr>users := users db @ [u], next_uuid := Suc (next_uuid db)\<rparr>"
    and fresh: "\<forall>v \<in> set (users db). lower (usr_email v) \<noteq> lower (usr_email u)"
    using f by (auto simp: flush_user_def Let_def split: if_splits)
  have db': "db' = db1\<lparr>deposit_addresses := deposit_addresses db @ [\<lparr>da_id = next_uuid db1,
        da_user_id = usr_id u, da_address = der_address derived,
        da_derivation_path = der_derivation_path derived\<rparr>], next_uuid := Suc (next_uuid db1)\<rparr>"
    and new: "\<forall>x \<in> set (deposit_addresses db). da_user_id x \<noteq> usr_id u \<and>
        lower (da_address x) \<noteq> lower (der_address derived)"
    using a u(2) by (auto simp: flush_deposit_address_def split: if_splits)
  have hd: "usr_hd_index u = next_hd_index db" using u(1) by simp
  have idx: "\<forall>v \<in> set (users db). usr_hd_index v < usr_hd_index u" "HOT_WALLET_INDEX < usr_hd_index u"
    using next_hd_index_fresh unfolding hd by blast+
  have "accounts_ok db'"
    using ok idx fresh new unfolding accounts_ok_def db' u(2)
    by (auto simp: u(1) less_Suc_eq)
  then show ?thesis
    using c d idx fresh new u(1) hd by (auto simp: db' u(2))
qed

section \<open>Tokens\<close>

text \<open>The signing library's documented behaviour: its own tokens decode until they expire.\<close>

definition signs_tokens :: "auth_lib \<Rightarrow> bool" where
  "signs_tokens lib \<longleftrightarrow> (\<forall>c s now. al_decode lib now (al_encode lib c s) s =
     (if now div 1000000 \<le> tc_exp c then Some \<lparr>rw_typ = Some (tc_typ c), rw_sub = Some (tc_sub c)\<rparr>
      else None))"

lemma replace_all_absent: "old \<noteq> [] \<Longrightarrow> hd old \<notin> set s \<Longrightarrow> replace_all old new s = s"
proof (induction s)
  case (Cons c s)
  have "\<not> startswith (c # s) old"
    using Cons.prems by (cases old) (auto simp: startswith_def)
  then show ?case using Cons by simp
qed simp

lemma not_hex_chars: "is_hex c \<Longrightarrow> c \<notin> {CHR ''u'', CHR ''x'', CHR ''X'', CHR ''_'', CHR ''-'', CHR ''+'', CHR ''{'', CHR ''}''}
    \<and> \<not> is_space c"
  by (auto simp: is_hex_def is_digit_def is_space_def)

lemma lower_char_x: "lower_char c = CHR ''x'' \<Longrightarrow> c = CHR ''x'' \<or> c = CHR ''X''"
proof -
  assume l: "lower_char c = CHR ''x''"
  show ?thesis
  proof (cases "65 \<le> (of_char c :: nat) \<and> (of_char c :: nat) \<le> 90")
    case True
    then have "(of_char (lower_char c) :: nat) = of_char c + 32" by (simp add: lower_char_def)
    then have "(of_char c :: nat) = of_char (CHR ''X'')" using l by simp
    then have "c = CHR ''X''" by (simp only: of_char_eq_iff)
    then show ?thesis ..
  qed (use l in \<open>auto simp: lower_char_def\<close>)
qed

lemma int16_hex:
  assumes "s \<noteq> []" "list_all is_hex s"
  shows "int16 s = Inr (int (hexs_val s))"
proof -
  have hx: "is_hex c" if "c \<in> set s" for c using assms(2) that by (simp add: list_all_iff)
  have ends: "is_hex (hd s)" "is_hex (last s)" using assms(1) hx by simp_all
  have "dropWhile is_space s = s" using assms(1) ends(1) not_hex_chars by (cases s) auto
  moreover have "dropWhile is_space (rev s) = rev s"
    using assms(1) ends(2) not_hex_chars by (cases s rule: rev_cases) auto
  ultimately have strip: "strip s = s" by (simp add: strip_def)
  have sign: "\<not> startswith s ''-''" "\<not> startswith s ''+''" "\<not> startswith (lower s) ''0x''"
  proof -
    show "\<not> startswith s ''-''" "\<not> startswith s ''+''"
      using assms(1) ends(1) not_hex_chars by (cases s; auto simp: startswith_def)+
    show "\<not> startswith (lower s) ''0x''"
    proof
      assume "startswith (lower s) ''0x''"
      then obtain a b t where s: "s = a # b # t" "lower_char b = CHR ''x''"
        by (cases s; cases "tl s") (auto simp: startswith_def lower_def)
      then show False using hx [of b] lower_char_x not_hex_chars [of b] by auto
    qed
  qed
  have us: "CHR ''_'' \<notin> set s" using hx not_hex_chars by blast
  show ?thesis
    using assms sign by (simp add: int16_def strip Let_def split_on_absent [OF us])
qed

lemma uuid_of_text_str: "u < 2 ^ 128 \<Longrightarrow> uuid_of_text (uuid_str u) = Some u"
proof -
  assume u: "u < 2 ^ 128"
  have ch: "is_hex c \<or> c = CHR ''-''" if "c \<in> set (uuid_str u)" for c using uuid_str_chars that .
  have "CHR ''u'' \<notin> set (uuid_str u)" using ch not_hex_chars by blast
  then have r: "replace_all ''uuid:'' [] (replace_all ''urn:'' [] (uuid_str u)) = uuid_str u"
    by (simp add: replace_all_absent)
  have nb: "\<not> (c = CHR ''{'' \<or> c = CHR ''}'')" if "c \<in> set (uuid_str u)" for c
    using ch [OF that] not_hex_chars by auto
  have dw: "dropWhile (\<lambda>c. c = CHR ''{'' \<or> c = CHR ''}'') xs = xs" if "set xs \<subseteq> set (uuid_str u)" for xs
    using nb that by (cases xs) auto
  have b: "strip_braces (uuid_str u) = uuid_str u"
    unfolding strip_braces_def Let_def using dw [of "uuid_str u"] dw [of "rev (uuid_str u)"] by simp
  have hex: "list_all is_hex (hex32 u)" using hex32_hex by (auto simp: list_all_iff)
  have len: "length (hex32 u) = 32"
    using uuid_parse_str [OF u] by (auto simp: uuid_parse_def uuid_str_no_hyphen Let_def split: if_splits)
  then have "hex32 u \<noteq> []" by auto
  then show ?thesis
    using len by (simp add: uuid_of_text_def r b uuid_str_no_hyphen int16_hex [OF _ hex] Let_def)
qed

lemma token_type_str_inj [simp]: "token_type_str a = token_type_str b \<longleftrightarrow> a = b"
  by (cases a; cases b) simp_all

lemma int_parse_int_str [simp]: "int_parse (int_str i) = Some i"
proof -
  have d: "is_digit c" if "c \<in> set (nat_str n)" for c n using nat_str_digits that .
  have out: "c \<notin> {CHR ''_'', CHR ''-'', CHR ''+''} \<and> \<not> is_space c" if "is_digit c" for c
    using that by (auto simp: is_digit_def is_space_def)
  have us: "CHR ''_'' \<notin> set (nat_str n)" for n using d out by blast
  have dg: "isdigit (nat_str n)" for n using d by (auto simp: isdigit_def list_all_iff)
  have ends: "\<not> is_space (hd (nat_str n))" "\<not> is_space (last (nat_str n))"
    "hd (nat_str n) \<notin> {CHR ''-'', CHR ''+''}" for n
    using out [OF d [OF hd_in_set [OF nat_str_nonempty]], of n]
      out [OF d [OF last_in_set [OF nat_str_nonempty]], of n] by simp_all
  have dw: "dropWhile is_space xs = xs" if "xs \<noteq> [] \<longrightarrow> \<not> is_space (hd xs)" for xs
    using that by (cases xs) simp_all
  have s: "strip (nat_str n) = nat_str n" "strip (CHR ''-'' # nat_str n) = CHR ''-'' # nat_str n" for n
    using ends by (simp_all add: strip_def dw hd_rev hd_append is_space_def)
  have sw: "\<not> startswith (nat_str n) ''-''" "\<not> startswith (nat_str n) ''+''" for n
    using ends(3) [of n] nat_str_nonempty [of n] by (cases "nat_str n"; auto simp: startswith_def)+
  show ?thesis
  proof (cases "i < 0")
    case True
    have "startswith (CHR ''-'' # nat_str n) ''-''" for n by (simp add: startswith_def)
    with True show ?thesis
      by (simp add: int_parse_def int_str_def s split_on_absent [OF us] dg Let_def)
  next
    case False
    then show ?thesis
      by (simp add: int_parse_def int_str_def s sw split_on_absent [OF us] dg Let_def)
  qed
qed

text \<open>
  C33: A token proves exactly what it was issued for: it is read back as the user it names when it
  is presented as the type it was issued as and has not outlived its type's lifetime; as the
  other type, or later, it is refused with a ValueError. So a refresh token never
  authenticates a request and an access token never obtains another one.
\<close>

theorem token_proves_its_claims:
  assumes "signs_tokens lib" and "u < 2 ^ 128"
  shows "verify_token lib st later (create_token lib st now u issued) expected =
      (if expected = issued \<and> later div 1000000 \<le> (now + token_ttl st issued * 1000000) div 1000000
       then Inr u else Inl (ValueError ''invalid token'')) \<and>
    (issued = RefreshToken \<longrightarrow>
      get_current_user lib st later db (Some (scheme, create_token lib st now u issued)) =
        raise_api_error 401 UNAUTHORIZED
          (if lower scheme = ''bearer'' then ''Invalid bearer token'' else ''Missing bearer token'')) \<and>
    (issued = AccessToken \<longrightarrow>
      refresh_access_token lib st later db (create_token lib st now u issued) =
        raise_api_error 401 UNAUTHORIZED ''Invalid refresh token'')"
proof -
  let ?t = "create_token lib st now u issued"
  have dec: "al_decode lib later ?t (jwt_secret st) =
      (if later div 1000000 \<le> (now + token_ttl st issued * 1000000) div 1000000
       then Some \<lparr>rw_typ = Some (token_type_str issued), rw_sub = Some (uuid_str u)\<rparr> else None)"
    using assms(1) by (simp add: signs_tokens_def create_token_def claims_for_def Let_def)
  have v: "verify_token lib st later ?t expected =
      (if expected = issued \<and> later div 1000000 \<le> (now + token_ttl st issued * 1000000) div 1000000
       then Inr u else Inl (ValueError ''invalid token''))" for expected
    by (auto simp: verify_token_def dec uuid_of_text_str [OF assms(2)])
  have other: "verify_token lib st later ?t expected = Inl (ValueError ''invalid token'')"
    if "expected \<noteq> issued" for expected using v that by simp
  have "get_current_user lib st later db (Some (scheme, ?t)) = raise_api_error 401 UNAUTHORIZED
      (if lower scheme = ''bearer'' then ''Invalid bearer token'' else ''Missing bearer token'')"
    if "issued = RefreshToken"
    using other [of AccessToken] that by (simp add: get_current_user_def Let_def)
  moreover have "refresh_access_token lib st later db ?t =
      raise_api_error 401 UNAUTHORIZED ''Invalid refresh token''" if "issued = AccessToken"
    using other [of RefreshToken] that by (simp add: refresh_access_token_def Let_def)
  ultimately show ?thesis using v by blast
qed

section \<open>Concrete libraries\<close>

text \<open>Text that can be read back from the front of a longer text.\<close>

definition boxed :: "string \<Rightarrow> string" where
  "boxed s = replicate (length s) (CHR ''1'') @ ''0'' @ s"

definition unboxed :: "string \<Rightarrow> string \<times> string" where
  "unboxed t = (let n = length (takeWhile (\<lambda>c. c = CHR ''1'') t); r = drop (Suc n) t in (take n r, drop n r))"

lemma unboxed_boxed [simp]: "unboxed (boxed s @ r) = (s, r)"
proof -
  have "takeWhile (\<lambda>c. c = CHR ''1'') (replicate n (CHR ''1'') @ CHR ''0'' # x) = replicate n (CHR ''1'')" for n x
    by (induction n) simp_all
  then show ?thesis by (simp add: boxed_def unboxed_def Let_def)
qed

definition demo_auth :: auth_lib where
  "demo_auth = \<lparr>
     al_encode = (\<lambda>c s. boxed (tc_sub c) @ boxed (tc_typ c) @ boxed s @ int_str (tc_exp c)),
     al_decode = (\<lambda>now t s.
       case unboxed t of (sub, t) \<Rightarrow> case unboxed t of (typ, t) \<Rightarrow> case unboxed t of (secret, t) \<Rightarrow>
       if secret \<noteq> s then None
       else case int_parse t of
         None \<Rightarrow> None
       | Some expiry \<Rightarrow> if now div 1000000 \<le> expiry then Some \<lparr>rw_typ = Some typ, rw_sub = Some sub\<rparr> else None),
     al_hash = (\<lambda>p. ''hash:'' @ p), al_verify = (\<lambda>p h. Inr (h = ''hash:'' @ p))\<rparr>"

definition demo_keys :: key_lib where
  "demo_keys = \<lparr>kl_address = (\<lambda>m i. Inr (''0x'' @ m @ int_str i)),
     kl_private_hex = (\<lambda>m i. Inr (''k'' @ int_str i)), kl_to_checksum_address = Inr\<rparr>"

theorem token_proves_its_claims_witness:
  "verify_token demo_auth default_settings 5 (create_token demo_auth default_settings 0 1 AccessToken) AccessToken
     = Inr 1 \<and>
   verify_token demo_auth default_settings 5 (create_token demo_auth default_settings 0 1 AccessToken) RefreshToken
     = Inl (ValueError ''invalid token'')"
proof -
  have lib: "signs_tokens demo_auth" by (simp add: signs_tokens_def demo_auth_def)
  have "(5::int) div 1000000 \<le> (0 + token_ttl default_settings AccessToken * 1000000) div 1000000"
    by (simp add: token_ttl_def default_settings_def)
  then show ?thesis
    using token_proves_its_claims [OF lib, where u = 1 and st = default_settings and later = 5 and now = 0
        and issued = AccessToken and expected = AccessToken]
      token_proves_its_claims [OF lib, where u = 1 and st = default_settings and later = 5 and now = 0
        and issued = AccessToken and expected = RefreshToken] by simp
qed

theorem registration_keeps_accounts_apart_witness:
  "\<exists>u db'. register_user demo_keys demo_auth demo_registry default_settings demo_db ''Carol@kasa.app''
      ''secret'' USER = Inr (u, db') \<and> accounts_ok db' \<and> users db' = [alice, bob, u] \<and>
    usr_email u = normalize_email ''Carol@kasa.app''"
proof -
  let ?r = "register_user demo_keys demo_auth demo_registry default_settings demo_db ''Carol@kasa.app'' ''secret'' USER"
  have "is_ok ?r" by code_simp
  then obtain u db' where r: "?r = Inr (u, db')" by (auto simp: is_ok_iff)
  have ok: "accounts_ok demo_db" "users demo_db = [alice, bob]" by code_simp+
  show ?thesis using registration_keeps_accounts_apart [OF ok(1) r] r ok(2) by simp
qed

end
