(* ===== verification/Admin.thy ===== *)
theory Admin
  imports Auth Amount Rate_Limit Nft_Holdings Worker_Main "HOL-Library.Product_Lexorder"
begin

text \<open>
  The admin service (\<open>app/services/admin_service.py\<close>) and its routes (\<open>app/api/v1/admin.py\<close>):
  proof of reserves, gas balances, minting and the state of a mint. SHA-256 is a parameter.
\<close>

section \<open>Reserves\<close>

definition checksum_contract_address :: "(string \<Rightarrow> error + string) \<Rightarrow> string \<Rightarrow> error + string" where
  "checksum_contract_address ck address =
     (case ck address of
        Inl exc \<Rightarrow>
          if is_value_error exc then raise_api_error 422 VALIDATION_ERROR (error_text exc) else Inl exc
      | Inr a \<Rightarrow> Inr a)"

text \<open>The entries of an asset on user wallets; their sums, one for each account that has any.\<close>

definition wallet_entry :: "db \<Rightarrow> asset \<Rightarrow> ledger_entry \<Rightarrow> bool" where
  "wallet_entry db asset e \<longleftrightarrow> ent_asset_id e = ast_id asset \<and>
     (\<exists>a \<in> set (ledger_accounts db). acc_id a = ent_account_id e \<and> acc_owner_type a = OwUser
        \<and> acc_name a = USER_WALLET_ACCOUNT)"

definition wallet_balances :: "db \<Rightarrow> asset \<Rightarrow> int list" where
  "wallet_balances db asset =
     (let entries = filter (wallet_entry db asset) (ledger_entries db) in
      map (\<lambda>i. sum_rows (\<lambda>e. ent_account_id e = i) ent_amount entries)
        (remdups (map ent_account_id entries)))"

definition liabilities_of :: "db \<Rightarrow> asset \<Rightarrow> int" where
  "liabilities_of db asset = sum_list (map (\<lambda>b. if 0 < b then b else 0) (wallet_balances db asset))"

definition sum_onchain :: "chain_client \<Rightarrow> asset \<Rightarrow> string list \<Rightarrow> int \<Rightarrow> error + int" where
  "sum_onchain client asset addresses fallback =
     (let total = (\<lambda>balance. bind_res (map_res balance addresses) (\<lambda>bs. Inr (sum_list bs)));
          read = (if ast_type asset = NATIVE then total (cl_native_balance client)
                  else case ast_contract_address asset of
                    Some token \<Rightarrow> total (cl_erc20_balance client token)
                  | None \<Rightarrow> Inr fallback) in
      case read of
        Inl exc \<Rightarrow> if is_chain_rpc_error exc then Inr fallback else Inl exc
      | Inr b \<Rightarrow> Inr b)"

record reserve_asset_response =
  rsv_asset_id :: uuid
  rsv_liabilities :: int
  rsv_reserves :: int
  rsv_delta :: int

text \<open>The response schema takes liabilities and reserves as unsigned base units.\<close>

definition reserve_row :: "asset \<Rightarrow> int \<Rightarrow> int \<Rightarrow> error + reserve_asset_response" where
  "reserve_row asset liabilities chain_reserves =
     bind_res (unsigned_base_unit_validate (PyInt liabilities)) (\<lambda>l.
     bind_res (unsigned_base_unit_validate (PyInt chain_reserves)) (\<lambda>r.
     Inr \<lparr>rsv_asset_id = ast_id asset, rsv_liabilities = l, rsv_reserves = r,
          rsv_delta = chain_reserves - liabilities\<rparr>))"

record reserve_state =
  rvs_clients :: "(int \<times> chain_client) list"
  rvs_rows :: "reserve_asset_response list"

definition reserve_client ::
  "(int \<Rightarrow> error + chain_client) \<Rightarrow> int \<Rightarrow> reserve_state \<Rightarrow> error + (chain_client \<times> reserve_state)" where
  "reserve_client balance_factory chain_id s =
     (case map_of (rvs_clients s) chain_id of
        Some client \<Rightarrow> Inr (client, s)
      | None \<Rightarrow> bind_res (balance_factory chain_id) (\<lambda>client.
          Inr (client, s\<lparr>rvs_clients := dict_set chain_id client (rvs_clients s)\<rparr>)))"

definition reserve_one ::
  "settings \<Rightarrow> db \<Rightarrow> string list \<Rightarrow> (int \<Rightarrow> error + chain_client) option \<Rightarrow> asset \<Rightarrow> reserve_state
   \<Rightarrow> error + reserve_state" where
  "reserve_one st db custody_addresses balance_factory asset s =
     bind_res (is_chain_enabled st (ast_chain_id asset)) (\<lambda>enabled.
     if \<not> enabled then Inr s
     else
       let liabilities = liabilities_of db asset in
       bind_res
         (case balance_factory of
            None \<Rightarrow> Inr (liabilities, s)
          | Some factory \<Rightarrow>
              if ast_type asset \<in> {NATIVE, ERC20} then
                bind_res (reserve_client factory (ast_chain_id asset) s) (\<lambda>(client, s).
                bind_res (sum_onchain client asset custody_addresses liabilities) (\<lambda>b. Inr (b, s)))
              else Inr (liabilities, s))
         (\<lambda>(chain_reserves, s).
       bind_res (reserve_row asset liabilities chain_reserves) (\<lambda>row.
       Inr (s\<lparr>rvs_rows := rvs_rows s @ [row]\<rparr>))))"

definition reserves ::
  "settings \<Rightarrow> db \<Rightarrow> string option \<Rightarrow> (int \<Rightarrow> error + chain_client) option
   \<Rightarrow> error + reserve_asset_response list" where
  "reserves st db hot_wallet_address balance_factory =
     (let deposit = map da_address (deposit_addresses db);
          custody = (case hot_wallet_address of None \<Rightarrow> deposit | Some a \<Rightarrow> deposit @ [a]) in
      bind_res (for_each (reserve_one st db custody balance_factory)
          (sort_key (\<lambda>a. (ast_chain_id a, ast_symbol a)) (assets db)) \<lparr>rvs_clients = [], rvs_rows = []\<rparr>)
        (\<lambda>s. Inr (rvs_rows s)))"

definition list_withdrawals :: "db \<Rightarrow> nat \<Rightarrow> nat \<Rightarrow> withdrawal_request list" where
  "list_withdrawals db offset limit =
     take limit (drop offset (rev (sort_key (\<lambda>w. (wd_created_at w, wd_id w)) (withdrawal_requests db))))"

section \<open>Minting\<close>

record admin_mint_response =
  amr_request_id :: "uuid option"
  amr_status :: nft_mint_status
  amr_tx_hash :: "string option"
  amr_token_id :: "string option"

definition append_mint :: "db \<Rightarrow> nft_mint_request \<Rightarrow> db" where
  "append_mint db row = db\<lparr>nft_mint_requests := nft_mint_requests db @ [row], next_uuid := Suc (next_uuid db)\<rparr>"

definition new_mint ::
  "db \<Rightarrow> uuid \<Rightarrow> int \<Rightarrow> string \<Rightarrow> string \<Rightarrow> nft_mint_status \<Rightarrow> string option \<Rightarrow> nft_mint_request" where
  "new_mint db user_id chain_id contract to_address status token_id =
     \<lparr>mi_id = next_uuid db, mi_user_id = user_id, mi_chain_id = chain_id, mi_contract = contract,
      mi_to_address = to_address, mi_status = status, mi_nonce = None, mi_unmined_since_block = None,
      mi_signed_tx = None, mi_tx_hash = None, mi_token_id = token_id, mi_error = None,
      mi_attempts = 0, mi_created_at = db_now db\<rparr>"

definition mint_user :: "db \<Rightarrow> string \<Rightarrow> error + user" where
  "mint_user db user_email =
     bind_res (user_by_email db user_email) (\<lambda>user.
     case user of None \<Rightarrow> raise_api_error 404 NOT_FOUND ''User not found'' | Some u \<Rightarrow> Inr u)"

definition mint_nft_stub ::
  "(string \<Rightarrow> error + string) \<Rightarrow> (string \<Rightarrow> string) \<Rightarrow> db \<Rightarrow> string \<Rightarrow> int
   \<Rightarrow> error + (admin_mint_response \<times> db)" where
  "mint_nft_stub ck sha256_hex db user_email chain_id =
     bind_res (mint_user db user_email) (\<lambda>user.
     case first_row (sort_key ast_symbol
         (filter (\<lambda>a. ast_chain_id a = chain_id \<and> ast_type a = ERC721) (assets db))) of
       None \<Rightarrow> raise_api_error 404 UNKNOWN_ASSET ''Unknown NFT asset''
     | Some asset \<Rightarrow>
         (case ast_contract_address asset of
            None \<Rightarrow> raise_api_error 404 UNKNOWN_ASSET ''Unknown NFT asset''
          | Some address \<Rightarrow>
              bind_res (checksum_contract_address ck address) (\<lambda>contract.
              let existing_count = length (filter (\<lambda>h. ho_chain_id h = chain_id
                    \<and> lower (ho_contract h) = lower contract) (nft_holdings db));
                  digest = sha256_hex (uuid_str (usr_id user) @ '':'' @ int_str chain_id @ '':''
                    @ nat_str existing_count) in
              bind_res (int16 (take 16 digest)) (\<lambda>token.
              let token_id = int_str token in
              bind_res (flush_holding (usr_id user, chain_id, contract, token_id) db) (\<lambda>db.
              Inr (\<lparr>amr_request_id = None, amr_status = MiConfirmed,
                    amr_tx_hash = Some (''0x'' @ digest), amr_token_id = Some token_id\<rparr>,
                   append_mint db (new_mint db (usr_id user) chain_id contract ZERO_ADDRESS
                     MiConfirmed (Some token_id))))))))"

fun is_key_error :: "error \<Rightarrow> bool" where
  "is_key_error (KeyError m) = True"
| "is_key_error e = False"

text \<open>The registry's KASA collection of the chain; an unknown chain has none.\<close>

definition registry_nft_contract :: "(string \<Rightarrow> error + string) \<Rightarrow> registry \<Rightarrow> int \<Rightarrow> error + string" where
  "registry_nft_contract ck reg chain_id =
     bind_res
       (case nfts_of_chain reg chain_id of
          Inl exc \<Rightarrow> if is_key_error exc then Inr None else Inl exc
        | Inr nfts \<Rightarrow> Inr (first_row (filter (\<lambda>a. upper (ra_symbol a) = ''KASA'') nfts)))
       (\<lambda>asset.
     case asset of
       None \<Rightarrow> raise_api_error 404 UNKNOWN_ASSET ''Unknown NFT asset''
     | Some a \<Rightarrow>
         if lower (ra_address a) = lower ZERO_ADDRESS
         then raise_api_error 404 UNKNOWN_ASSET ''Unknown NFT asset''
         else checksum_contract_address ck (ra_address a))"

definition mint_nft ::
  "(string \<Rightarrow> error + string) \<Rightarrow> (string \<Rightarrow> string) \<Rightarrow> registry \<Rightarrow> settings \<Rightarrow> db \<Rightarrow> uuid \<Rightarrow> string
   \<Rightarrow> int \<Rightarrow> bool \<Rightarrow> string option \<Rightarrow> error + (admin_mint_response \<times> db)" where
  "mint_nft ck sha256_hex reg st db admin_user_id user_email chain_id onchain hot_wallet_address =
     (if \<not> onchain then mint_nft_stub ck sha256_hex db user_email chain_id
      else
        bind_res (enforce_rate_limit st db ''nft_mint'' admin_user_id None) (\<lambda>db.
        bind_res (mint_user db user_email) (\<lambda>user.
        case hot_wallet_address of
          None \<Rightarrow> raise_api_error 500 VALIDATION_ERROR ''Hot wallet unavailable''
        | Some hot \<Rightarrow>
            bind_res (registry_nft_contract ck reg chain_id) (\<lambda>contract.
            bind_res (ck hot) (\<lambda>to_address.
            let request = new_mint db (usr_id user) chain_id contract to_address MiRequested None in
            Inr (\<lparr>amr_request_id = Some (mi_id request), amr_status = MiRequested,
                  amr_tx_hash = None, amr_token_id = None\<rparr>, append_mint db request))))))"

definition get_mint_status :: "db \<Rightarrow> uuid \<Rightarrow> error + admin_mint_response" where
  "get_mint_status db request_id =
     bind_res (scalar_one_or_none (filter (\<lambda>m. mi_id m = request_id) (nft_mint_requests db))) (\<lambda>request.
     case request of
       None \<Rightarrow> raise_api_error 404 NOT_FOUND ''Mint request not found''
     | Some m \<Rightarrow> Inr \<lparr>amr_request_id = Some (mi_id m), amr_status = mi_status m,
          amr_tx_hash = mi_tx_hash m, amr_token_id = mi_token_id m\<rparr>)"

section \<open>Routes\<close>

definition balance_factory ::
  "'n network \<Rightarrow> eth_lib \<Rightarrow> settings \<Rightarrow> 'n \<Rightarrow> int \<Rightarrow> error + chain_client" where
  "balance_factory net lib st n chain_id =
     bind_res (client_from_settings chain_id st) (\<lambda>c. Inr (chain_client_of net lib c n))"

definition gas_status_of :: "int \<Rightarrow> settings \<Rightarrow> gas_status" where
  "gas_status_of wei st =
     (if wei < gas_critical_wei st then GasCritical
      else if wei < gas_warn_wei st then GasLow else GasOk)"

definition reserve_report ::
  "key_lib \<Rightarrow> registry \<Rightarrow> settings \<Rightarrow> db \<Rightarrow> (int \<Rightarrow> error + chain_client) \<Rightarrow> error + reserve_asset_response list" where
  "reserve_report keys reg st db make_client =
     (if \<not> reserves_onchain st then reserves st db None None
      else bind_res (hot_wallet_account keys reg (master_mnemonic st) None) (\<lambda>hot.
        reserves st db (Some (der_address hot)) (Some make_client)))"

record gas_chain_balance =
  gcb_chain_id :: int
  gcb_symbol :: string
  gcb_decimals :: nat
  gcb_balance :: int
  gcb_status :: gas_status

definition gas_of_chain ::
  "registry \<Rightarrow> settings \<Rightarrow> (int \<Rightarrow> error + chain_client) \<Rightarrow> string \<Rightarrow> chain \<Rightarrow> error + gas_chain_balance list" where
  "gas_of_chain reg st make_client hot_wallet_address chain =
     bind_res (is_chain_enabled st (ch_chain_id chain)) (\<lambda>enabled.
     if \<not> enabled then Inr []
     else
       case make_client (ch_chain_id chain) of
         Inl exc \<Rightarrow> if is_key_or_value_error exc then Inr [] else Inl exc
       | Inr client \<Rightarrow>
           bind_res (native_asset reg (ch_chain_id chain)) (\<lambda>asset.
           bind_res
             (case cl_native_balance client hot_wallet_address of
                Inl exc \<Rightarrow> if is_chain_rpc_error exc then Inr (0, GasUnknown) else Inl exc
              | Inr wei \<Rightarrow> Inr (wei, gas_status_of wei st))
             (\<lambda>(wei, status).
           Inr [\<lparr>gcb_chain_id = ch_chain_id chain, gcb_symbol = ra_symbol asset,
                 gcb_decimals = ra_decimals asset, gcb_balance = wei, gcb_status = status\<rparr>])))"

definition gas_balances ::
  "key_lib \<Rightarrow> registry \<Rightarrow> settings \<Rightarrow> (int \<Rightarrow> error + chain_client) \<Rightarrow> error + gas_chain_balance list" where
  "gas_balances keys reg st make_client =
     bind_res (hot_wallet_account keys reg (master_mnemonic st) None) (\<lambda>hot.
     bind_res (map_res (gas_of_chain reg st make_client (der_address hot)) (list_chains reg))
       (\<lambda>chains. Inr (concat chains)))"

definition mint_nft_route ::
  "key_lib \<Rightarrow> (string \<Rightarrow> string) \<Rightarrow> registry \<Rightarrow> settings \<Rightarrow> db \<Rightarrow> user \<Rightarrow> string \<Rightarrow> int
   \<Rightarrow> error + (admin_mint_response \<times> db)" where
  "mint_nft_route keys sha256_hex reg st db admin user_email chain_id =
     (let onchain = (mint_onchain st \<and> master_mnemonic st \<noteq> []) in
      bind_res (if onchain
          then bind_res (hot_wallet_account keys reg (master_mnemonic st) None) (\<lambda>hot. Inr (Some (der_address hot)))
          else Inr None) (\<lambda>hot_wallet_address.
      mint_nft (kl_to_checksum_address keys) sha256_hex reg st db (usr_id admin) user_email chain_id onchain
        hot_wallet_address))"

end
