(* ===== verification/Api.thy ===== *)
theory Api
  imports Admin Wallet Withdrawals Nft_Service
begin

text \<open>
  The listing routes (\<open>app/api/v1\<close>) with their cursors, the responses of the withdrawal service,
  and the error responses of \<open>app/core/errors.py\<close>. A cursor is the decimal text of an offset.
\<close>

section \<open>Pages\<close>

definition cursor_offset :: "string option \<Rightarrow> int" where
  "cursor_offset cursor =
     (case cursor of
        None \<Rightarrow> 0
      | Some c \<Rightarrow> (case int_parse c of None \<Rightarrow> 0 | Some i \<Rightarrow> max 0 i))"

definition PAGE_LIMIT :: nat where "PAGE_LIMIT = 50"

text \<open>
  One page of the rows a query orders: \<open>offset\<close> and \<open>limit + 1\<close> rows of it, of which the last only
  tells that there is a next page.
\<close>

definition page_of :: "'r list \<Rightarrow> string option \<Rightarrow> 'r list \<times> string option" where
  "page_of ordered cursor =
     (let offset = cursor_offset cursor;
          rows = take (Suc PAGE_LIMIT) (drop (nat offset) ordered) in
      (take PAGE_LIMIT rows,
       if PAGE_LIMIT < length rows then Some (int_str (offset + int PAGE_LIMIT)) else None))"

section \<open>Withdrawals\<close>

record withdrawal_response =
  wdr_id :: uuid
  wdr_asset_id :: uuid
  wdr_chain_id :: int
  wdr_to_address :: string
  wdr_amount :: int
  wdr_status :: withdrawal_status
  wdr_tx_hash :: "string option"
  wdr_explorer_url :: "string option"
  wdr_created_at :: int

definition withdrawal_response_of :: "registry \<Rightarrow> withdrawal_request \<Rightarrow> error + withdrawal_response" where
  "withdrawal_response_of reg withdrawal =
     bind_res (case wd_tx_hash withdrawal of
         None \<Rightarrow> Inr None
       | Some h \<Rightarrow> bind_res (explorer_tx_url reg (wd_chain_id withdrawal) h) (\<lambda>u. Inr (Some u)))
       (\<lambda>explorer_url.
     bind_res (unsigned_base_unit_validate (PyInt (wd_amount withdrawal))) (\<lambda>amount.
     Inr \<lparr>wdr_id = wd_id withdrawal, wdr_asset_id = wd_asset_id withdrawal,
          wdr_chain_id = wd_chain_id withdrawal, wdr_to_address = wd_to_address withdrawal,
          wdr_amount = amount, wdr_status = wd_status withdrawal,
          wdr_tx_hash = wd_tx_hash withdrawal, wdr_explorer_url = explorer_url,
          wdr_created_at = wd_created_at withdrawal\<rparr>))"

definition get_withdrawal_route :: "registry \<Rightarrow> db \<Rightarrow> user \<Rightarrow> uuid \<Rightarrow> error + withdrawal_response" where
  "get_withdrawal_route reg db user withdrawal_id =
     bind_res (get_withdrawal_for_user db user withdrawal_id) (withdrawal_response_of reg)"

definition user_withdrawals :: "db \<Rightarrow> user \<Rightarrow> withdrawal_request list" where
  "user_withdrawals db user = rev (sort_key (\<lambda>w. (wd_created_at w, wd_id w))
     (filter (\<lambda>w. wd_user_id w = usr_id user) (withdrawal_requests db)))"

definition list_user_withdrawals ::
  "registry \<Rightarrow> db \<Rightarrow> user \<Rightarrow> string option \<Rightarrow> error + (withdrawal_response list \<times> string option)" where
  "list_user_withdrawals reg db user cursor =
     (case page_of (user_withdrawals db user) cursor of (rows, next_cursor) \<Rightarrow>
      bind_res (map_res (withdrawal_response_of reg) rows) (\<lambda>items. Inr (items, next_cursor)))"

text \<open>The admin listing asks the service for one row more than a page.\<close>

definition admin_withdrawals ::
  "registry \<Rightarrow> db \<Rightarrow> string option \<Rightarrow> error + (withdrawal_response list \<times> string option)" where
  "admin_withdrawals reg db cursor =
     (let offset = cursor_offset cursor;
          rows = list_withdrawals db (nat offset) (Suc PAGE_LIMIT);
          next_cursor = (if PAGE_LIMIT < length rows then Some (int_str (offset + int PAGE_LIMIT)) else None) in
      bind_res (map_res (withdrawal_response_of reg) (take PAGE_LIMIT rows)) (\<lambda>items. Inr (items, next_cursor)))"

section \<open>Deposits\<close>

record deposit_response =
  dpr_id :: uuid
  dpr_chain_id :: int
  dpr_asset_id :: uuid
  dpr_symbol :: string
  dpr_amount :: int
  dpr_status :: deposit_status
  dpr_confirmations :: int
  dpr_tx_hash :: string
  dpr_explorer_url :: string
  dpr_created_at :: int

text \<open>\<open>ORDER BY block_number DESC, id DESC\<close> of the user's deposits joined with their assets.\<close>

definition user_deposits :: "db \<Rightarrow> user \<Rightarrow> (onchain_deposit \<times> asset) list" where
  "user_deposits db user = rev (sort_key (\<lambda>(d, a). (dep_block_number d, dep_id d))
     (concat (map (\<lambda>d. map (\<lambda>a. (d, a)) (filter (\<lambda>a. ast_id a = dep_asset_id d) (assets db)))
       (filter (\<lambda>d. dep_user_id d = Some (usr_id user)) (onchain_deposits db)))))"

definition deposit_response_of ::
  "registry \<Rightarrow> (int \<rightharpoonup> int) \<Rightarrow> onchain_deposit \<times> asset \<Rightarrow> error + deposit_response" where
  "deposit_response_of reg scanned_by_chain = (\<lambda>(deposit, asset).
     bind_res (deposit_explorer_url reg deposit) (\<lambda>url.
     bind_res (unsigned_base_unit_validate (PyInt (dep_amount deposit))) (\<lambda>amount.
     Inr \<lparr>dpr_id = dep_id deposit, dpr_chain_id = dep_chain_id deposit,
          dpr_asset_id = dep_asset_id deposit, dpr_symbol = ast_symbol asset, dpr_amount = amount,
          dpr_status = dep_status deposit,
          dpr_confirmations = deposit_confirmations deposit (scanned_by_chain (dep_chain_id deposit)),
          dpr_tx_hash = dep_tx_hash deposit, dpr_explorer_url = url,
          dpr_created_at = dep_created_at deposit\<rparr>)))"

definition list_deposits ::
  "registry \<Rightarrow> db \<Rightarrow> user \<Rightarrow> string option \<Rightarrow> error + (deposit_response list \<times> string option)" where
  "list_deposits reg db user cursor =
     (case page_of (user_deposits db user) cursor of (rows, next_cursor) \<Rightarrow>
      let scanned_by_chain = map_of (rev (map (\<lambda>c. (cc_chain_id c, cc_last_scanned_block c)) (chain_cursors db))) in
      bind_res (map_res (deposit_response_of reg scanned_by_chain) rows) (\<lambda>items. Inr (items, next_cursor)))"

section \<open>Transactions\<close>

definition entry_type_of :: "ledger_entry_type \<Rightarrow> int \<Rightarrow> ledger_entry_type" where
  "entry_type_of transaction_type amount =
     (if transaction_type = LeTransferOut \<and> 0 < amount then LeTransferIn else transaction_type)"

record ledger_tx_response =
  ltr_id :: uuid
  ltr_type :: ledger_entry_type
  ltr_asset_id :: uuid
  ltr_symbol :: string
  ltr_amount :: int
  ltr_ref :: string
  ltr_created_at :: int

text \<open>The entries of the user's wallet accounts with their transactions and assets, newest first.\<close>

definition user_transactions ::
  "db \<Rightarrow> user \<Rightarrow> uuid option \<Rightarrow> (ledger_entry \<times> ledger_transaction \<times> asset) list" where
  "user_transactions db user asset_id =
     rev (sort_key (\<lambda>(e, t, a). (txn_created_at t, txn_id t))
       (concat (map (\<lambda>e.
          concat (map (\<lambda>acc.
          concat (map (\<lambda>t.
          map (\<lambda>a. (e, t, a))
            (filter (\<lambda>a. ast_id a = ent_asset_id e) (assets db)))
            (filter (\<lambda>t. txn_id t = ent_transaction_id e) (ledger_transactions db))))
            (filter (\<lambda>acc. acc_id acc = ent_account_id e \<and> acc_owner_type acc = OwUser
               \<and> acc_user_id acc = Some (usr_id user) \<and> acc_name acc = USER_WALLET_ACCOUNT)
              (ledger_accounts db))))
          (filter (\<lambda>e. case asset_id of None \<Rightarrow> True | Some i \<Rightarrow> ent_asset_id e = i) (ledger_entries db)))))"

definition ledger_tx_response_of :: "ledger_entry \<times> ledger_transaction \<times> asset \<Rightarrow> ledger_tx_response" where
  "ledger_tx_response_of = (\<lambda>(entry, transaction, asset).
     \<lparr>ltr_id = txn_id transaction, ltr_type = entry_type_of (txn_type transaction) (ent_amount entry),
      ltr_asset_id = ast_id asset, ltr_symbol = ast_symbol asset, ltr_amount = ent_amount entry,
      ltr_ref = txn_ref_type transaction @ '':'' @ txn_ref_id transaction,
      ltr_created_at = txn_created_at transaction\<rparr>)"

definition list_transactions ::
  "db \<Rightarrow> user \<Rightarrow> uuid option \<Rightarrow> string option \<Rightarrow> ledger_tx_response list \<times> string option" where
  "list_transactions db user asset_id cursor =
     (case page_of (user_transactions db user asset_id) cursor of (rows, next_cursor) \<Rightarrow>
      (map ledger_tx_response_of rows, next_cursor))"

section \<open>Users and assets\<close>

definition list_users :: "db \<Rightarrow> (uuid \<times> string) list" where
  "list_users db = map (\<lambda>u. (usr_id u, usr_email u)) (sort_key usr_email (users db))"

text \<open>An unknown chain in the assets listing is a client error.\<close>

definition assets_route :: "(int option \<Rightarrow> error + 'a) \<Rightarrow> int option \<Rightarrow> error + 'a" where
  "assets_route responses chain_id =
     (case responses chain_id of
        Inl exc \<Rightarrow>
          if is_key_error exc
          then raise_api_error 400 UNSUPPORTED_CHAIN ''Unsupported chain'' else Inl exc
      | Inr rs \<Rightarrow> Inr rs)"

section \<open>Errors\<close>

fun error_code_str :: "error_code \<Rightarrow> string" where
  "error_code_str VALIDATION_ERROR = ''VALIDATION_ERROR''"
| "error_code_str INSUFFICIENT_FUNDS = ''INSUFFICIENT_FUNDS''"
| "error_code_str UNKNOWN_ASSET = ''UNKNOWN_ASSET''"
| "error_code_str UNSUPPORTED_CHAIN = ''UNSUPPORTED_CHAIN''"
| "error_code_str WITHDRAWAL_REJECTED = ''WITHDRAWAL_REJECTED''"
| "error_code_str NOT_FOUND = ''NOT_FOUND''"
| "error_code_str UNAUTHORIZED = ''UNAUTHORIZED''"
| "error_code_str RATE_LIMITED = ''RATE_LIMITED''"
| "error_code_str INTERNAL_ERROR = ''INTERNAL_ERROR''"

definition all_error_codes :: "error_code list" where
  "all_error_codes = [VALIDATION_ERROR, INSUFFICIENT_FUNDS, UNKNOWN_ASSET, UNSUPPORTED_CHAIN,
     WITHDRAWAL_REJECTED, NOT_FOUND, UNAUTHORIZED, RATE_LIMITED, INTERNAL_ERROR]"

definition error_code_of :: "string \<Rightarrow> error_code option" where
  "error_code_of s = find (\<lambda>c. error_code_str c = s) all_error_codes"

record error_response =
  er_status_code :: int
  er_code :: error_code
  er_message :: string
  er_details :: "string list"
  er_request_id :: "string option"

definition http_error_code :: "int \<Rightarrow> error_code" where
  "http_error_code status_code =
     (case map_of [(400, VALIDATION_ERROR), (401, UNAUTHORIZED), (403, UNAUTHORIZED), (404, NOT_FOUND),
                   (409, VALIDATION_ERROR), (422, VALIDATION_ERROR), (429, RATE_LIMITED)] status_code of
        None \<Rightarrow> INTERNAL_ERROR | Some c \<Rightarrow> c)"

text \<open>The id a middleware put in the request's state, else a header that is not empty.\<close>

definition request_id_of :: "string option \<Rightarrow> string option \<Rightarrow> string option" where
  "request_id_of state_request_id header =
     (case state_request_id of
        Some i \<Rightarrow> Some i
      | None \<Rightarrow> (case header of Some (c # h) \<Rightarrow> Some (c # h) | _ \<Rightarrow> None))"

definition validation_response :: "string option \<Rightarrow> string option list \<Rightarrow> error_response" where
  "validation_response request_id msgs =
     \<lparr>er_status_code = 422, er_code = VALIDATION_ERROR, er_message = ''Request validation failed'',
      er_details = map (\<lambda>m. case m of None \<Rightarrow> ''validation error'' | Some t \<Rightarrow> t) msgs,
      er_request_id = request_id\<rparr>"

text \<open>
  The detail of an HTTP exception: a dict, whose fields count when they are texts (and the texts
  of a list), a text, or anything else; \<open>phrase\<close> is the standard library's table of statuses.
\<close>

datatype http_detail =
    DetailDict "string option" "string option" "string list option"
  | DetailText string
  | DetailOther

definition http_response ::
  "(int \<Rightarrow> string option) \<Rightarrow> string option \<Rightarrow> int \<Rightarrow> http_detail \<Rightarrow> error_response" where
  "http_response phrase request_id status_code detail =
     (let code = http_error_code status_code;
          message = (case phrase status_code of None \<Rightarrow> ''HTTP error'' | Some p \<Rightarrow> p);
          respond = (\<lambda>code message details. \<lparr>er_status_code = status_code, er_code = code,
            er_message = message, er_details = details, er_request_id = request_id\<rparr>) in
      case detail of
        DetailDict raw_code raw_message raw_details \<Rightarrow>
          respond
            (case raw_code of None \<Rightarrow> code
             | Some c \<Rightarrow> (case error_code_of c of None \<Rightarrow> http_error_code status_code | Some e \<Rightarrow> e))
            (case raw_message of None \<Rightarrow> message | Some m \<Rightarrow> m)
            (case raw_details of None \<Rightarrow> [] | Some ds \<Rightarrow> ds)
      | DetailText m \<Rightarrow> respond code m []
      | DetailOther \<Rightarrow> respond code message [])"

definition unhandled_response :: "string option \<Rightarrow> error_response" where
  "unhandled_response request_id =
     \<lparr>er_status_code = 500, er_code = INTERNAL_ERROR, er_message = ''Internal server error'',
      er_details = [], er_request_id = request_id\<rparr>"

text \<open>What a client gets for an exception of a handler: \<open>raise_api_error\<close> puts its code and message in the detail.\<close>

fun response_of_error :: "(int \<Rightarrow> string option) \<Rightarrow> string option \<Rightarrow> error \<Rightarrow> error_response" where
  "response_of_error phrase request_id (ApiError status_code code message) =
     http_response phrase request_id status_code
       (DetailDict (Some (error_code_str code)) (Some message) (Some []))"
| "response_of_error phrase request_id _ = unhandled_response request_id"

end
