(* ===== verification/Api_Facts.thy ===== *)
theory Api_Facts
  imports Api Auth_Facts
begin

text \<open>What the listings and the proof of reserves guarantee.\<close>

section \<open>Paging\<close>

text \<open>
  A client that follows \<open>next_cursor\<close> from page to page until there is none. Not ending is the
  value \<open>None\<close>; a page that fails ends the reading with its error.
\<close>

partial_function (option) read_pages ::
  "(string option \<Rightarrow> error + ('r list \<times> string option)) \<Rightarrow> string option \<Rightarrow> (error + 'r list) option" where
  "read_pages page cursor =
     (case page cursor of
        Inl exc \<Rightarrow> Some (Inl exc)
      | Inr (items, next_cursor) \<Rightarrow>
          (case next_cursor of
             None \<Rightarrow> Some (Inr items)
           | Some c \<Rightarrow>
               Option.bind (read_pages page (Some c)) (\<lambda>rest.
               Some (bind_res rest (\<lambda>more. Inr (items @ more))))))"

definition respond_page ::
  "('r \<Rightarrow> error + 's) \<Rightarrow> 'r list \<Rightarrow> string option \<Rightarrow> error + ('s list \<times> string option)" where
  "respond_page f ordered cursor =
     (case page_of ordered cursor of (rows, next_cursor) \<Rightarrow>
      bind_res (map_res f rows) (\<lambda>items. Inr (items, next_cursor)))"

lemma length_map_res: "map_res f xs = Inr ys \<Longrightarrow> length ys = length xs"
  using map_res_Inr list_all2_lengthD by metis

lemma cursor_offset_int_str: "0 \<le> i \<Longrightarrow> cursor_offset (Some (int_str i)) = i"
  by (simp add: cursor_offset_def)

lemma read_pages_from:
  assumes "cursor_offset cursor = int o1"
  shows "read_pages (respond_page f ordered) cursor = Some (map_res f (drop o1 ordered))"
  using assms
proof (induction "length ordered - o1" arbitrary: o1 cursor rule: less_induct)
  case less
  let ?rows = "take (Suc PAGE_LIMIT) (drop o1 ordered)"
  have page: "respond_page f ordered cursor = bind_res (map_res f (take PAGE_LIMIT ?rows)) (\<lambda>items.
      Inr (items, if PAGE_LIMIT < length ?rows then Some (int_str (int o1 + int PAGE_LIMIT)) else None))"
    by (simp add: respond_page_def page_of_def Let_def less.prems)
  have firsts: "take PAGE_LIMIT ?rows = take PAGE_LIMIT (drop o1 ordered)" by (simp add: min_def)
  have parts: "map_res f (drop o1 ordered) = bind_res (map_res f (take PAGE_LIMIT (drop o1 ordered)))
      (\<lambda>a. bind_res (map_res f (drop (o1 + PAGE_LIMIT) ordered)) (\<lambda>b. Inr (a @ b)))"
    using map_res_append [of f "take PAGE_LIMIT (drop o1 ordered)" "drop PAGE_LIMIT (drop o1 ordered)"]
    unfolding append_take_drop_id unfolding drop_drop by (simp only: add.commute)
  show ?case
  proof (cases "map_res f (take PAGE_LIMIT (drop o1 ordered))")
    case (Inl e)
    then have "map_res f (drop o1 ordered) = Inl e" using parts by simp
    then show ?thesis using page Inl firsts by (subst read_pages.simps) simp
  next
    case (Inr items)
    show ?thesis
    proof (cases "PAGE_LIMIT < length ?rows")
      case False
      then have "take PAGE_LIMIT (drop o1 ordered) = drop o1 ordered" by simp
      then show ?thesis using page Inr firsts False by (subst read_pages.simps) simp
    next
      case True
      then have "length ordered - (o1 + PAGE_LIMIT) < length ordered - o1" by (simp add: PAGE_LIMIT_def)
      moreover have "cursor_offset (Some (int_str (int o1 + int PAGE_LIMIT))) = int (o1 + PAGE_LIMIT)"
        by (simp add: cursor_offset_int_str)
      ultimately have rest: "read_pages (respond_page f ordered) (Some (int_str (int o1 + int PAGE_LIMIT))) =
          Some (map_res f (drop (o1 + PAGE_LIMIT) ordered))"
        by (rule less.hyps)
      have "map_res f (drop o1 ordered) =
          bind_res (map_res f (drop (o1 + PAGE_LIMIT) ordered)) (\<lambda>more. Inr (items @ more))"
        using parts Inr by simp
      then show ?thesis using page Inr firsts True rest by (subst read_pages.simps) simp
    qed
  qed
qed

lemma read_pages_all: "read_pages (respond_page f ordered) None = Some (map_res f ordered)"
  using read_pages_from [of None 0 f ordered] by (simp add: cursor_offset_def)

lemma map_res_Inr_fun: "map_res (\<lambda>x. Inr (f x)) xs = Inr (map f xs)"
  by (induction xs) simp_all

text \<open>The four listings are pages of their ordered rows.\<close>

lemma listings_respond_pages:
  "list_user_withdrawals reg db user = respond_page (withdrawal_response_of reg) (user_withdrawals db user)"
  "admin_withdrawals reg db =
     respond_page (withdrawal_response_of reg) (rev (sort_key (\<lambda>w. (wd_created_at w, wd_id w)) (withdrawal_requests db)))"
  "list_deposits reg db user = respond_page (deposit_response_of reg
     (map_of (rev (map (\<lambda>c. (cc_chain_id c, cc_last_scanned_block c)) (chain_cursors db))))) (user_deposits db user)"
  "(\<lambda>cursor. Inr (list_transactions db user asset_id cursor)) =
     respond_page (\<lambda>r. Inr (ledger_tx_response_of r)) (user_transactions db user asset_id)"
  by (auto simp: fun_eq_iff respond_page_def list_user_withdrawals_def admin_withdrawals_def list_deposits_def
      list_transactions_def list_withdrawals_def page_of_def Let_def map_res_Inr_fun split: prod.splits)

text \<open>
  C34: Reading a listing page by page ends and returns every row once, in the listing's order:
  following \<open>next_cursor\<close> from no cursor, a user's withdrawals, deposits and transactions and the
  admin's withdrawals are each read completely, or fail as the first row that cannot be
  rendered does; and no page is longer than the limit.
\<close>

theorem paging_reads_everything_once:
  "read_pages (list_user_withdrawals reg db user) None =
     Some (map_res (withdrawal_response_of reg) (user_withdrawals db user)) \<and>
   read_pages (admin_withdrawals reg db) None =
     Some (map_res (withdrawal_response_of reg)
       (rev (sort_key (\<lambda>w. (wd_created_at w, wd_id w)) (withdrawal_requests db)))) \<and>
   read_pages (list_deposits reg db user) None =
     Some (map_res (deposit_response_of reg
       (map_of (rev (map (\<lambda>c. (cc_chain_id c, cc_last_scanned_block c)) (chain_cursors db)))))
       (user_deposits db user)) \<and>
   read_pages (\<lambda>cursor. Inr (list_transactions db user asset_id cursor)) None =
     Some (Inr (map ledger_tx_response_of (user_transactions db user asset_id))) \<and>
   length (fst (list_transactions db user asset_id cursor)) \<le> PAGE_LIMIT"
proof -
  have "length (fst (list_transactions db user asset_id cursor)) \<le> PAGE_LIMIT"
    by (auto simp: list_transactions_def page_of_def Let_def split: prod.splits)
  then show ?thesis
    by (simp add: listings_respond_pages read_pages_all map_res_Inr_fun)
qed

section \<open>Reserves\<close>















end
