(* ===== verification/Routes.thy ===== *)
theory Routes
  imports Api
begin

text \<open>
  The application (\<open>app/main.py\<close>): every route of \<open>app/api/v1\<close>, what it demands of the caller
  and of its body (\<open>app/schemas\<close>), and the way a request is served. A dependency that raises
  ends the request before its body is validated; a route that returns has committed its
  session, one that raises has not, so its changes are gone; the exception becomes the
  response of \<open>app/core/errors.py\<close>. The bodies are the parsed fields; an amount is the value
  the JSON held.
\<close>

section \<open>Requests and answers\<close>

text \<open>An idempotency key is the header's value, a cursor the query's.\<close>

datatype api_request =
    GetHealth
  | PostRegister string string
  | PostLogin string string
  | PostRefresh string
  | GetMe
  | GetUsers
  | GetChains
  | GetAssets "int option"
  | GetDepositAddresses
  | GetBalances
  | GetDeposits "string option"
  | PostFaucet string uuid py_value
  | PostWithdrawal string uuid string py_value
  | GetWithdrawal uuid
  | GetWithdrawals "string option"
  | PostTransfer string string uuid py_value
  | GetTransactions "uuid option" "string option"
  | GetNfts
  | GetNftMints
  | PostNftTransfer string string uuid
  | PostNftWithdrawal string uuid string
  | GetReserves
  | GetGas
  | GetAdminWithdrawals "string option"
  | PostMintNft string int
  | GetMintStatus uuid

datatype api_answer =
    AnsHealth
  | AnsAuth auth_response
  | AnsAccessToken string
  | AnsUser user_response
  | AnsUsers "(uuid \<times> string) list"
  | AnsChains "chain_response list"
  | AnsAssets "asset_response list"
  | AnsDepositAddresses "(int \<times> string) list"
  | AnsBalances "balance_response list"
  | AnsDeposits "deposit_response list \<times> string option"
  | AnsFaucet faucet_response
  | AnsWithdrawalCreated "uuid \<times> withdrawal_status"
  | AnsWithdrawal withdrawal_response
  | AnsWithdrawals "withdrawal_response list \<times> string option"
  | AnsTransferCreated "uuid \<times> transfer_status"
  | AnsTransactions "ledger_tx_response list \<times> string option"
  | AnsNfts "nft_response list"
  | AnsNftMints "mint_response list"
  | AnsNftTransfer "uuid \<times> transfer_status"
  | AnsNftWithdrawal "uuid \<times> nft_withdrawal_status"
  | AnsReserves "reserve_asset_response list"
  | AnsGas "gas_chain_balance list"
  | AnsMint admin_mint_response

datatype access = Public | ForUsers | ForAdmins

fun access_of :: "api_request \<Rightarrow> access" where
  "access_of GetHealth = Public"
| "access_of (PostRegister email password) = Public"
| "access_of (PostLogin email password) = Public"
| "access_of (PostRefresh token) = Public"
| "access_of GetChains = Public"
| "access_of (GetAssets chain_id) = Public"
| "access_of GetReserves = ForAdmins"
| "access_of GetGas = ForAdmins"
| "access_of (GetAdminWithdrawals cursor) = ForAdmins"
| "access_of (PostMintNft user_email chain_id) = ForAdmins"
| "access_of (GetMintStatus request_id) = ForAdmins"
| "access_of _ = ForUsers"

section \<open>Validation\<close>

definition length_within :: "nat \<Rightarrow> nat \<Rightarrow> string \<Rightarrow> bool" where
  "length_within least most s \<longleftrightarrow> least \<le> length s \<and> length s \<le> most"

definition idempotency_key_ok :: "string \<Rightarrow> bool" where
  "idempotency_key_ok key = length_within 1 256 key"

definition unsigned_amount :: "py_value \<Rightarrow> bool" where
  "unsigned_amount amount = is_ok (unsigned_base_unit_validate amount)"

fun well_formed :: "api_request \<Rightarrow> bool" where
  "well_formed (PostRegister email password) \<longleftrightarrow> length_within 3 320 email \<and> length_within 8 1024 password"
| "well_formed (PostLogin email password) \<longleftrightarrow> length_within 3 320 email \<and> length_within 1 1024 password"
| "well_formed (PostRefresh refresh_token) \<longleftrightarrow> 1 \<le> length refresh_token"
| "well_formed (PostFaucet key asset_id amount) \<longleftrightarrow> idempotency_key_ok key \<and> unsigned_amount amount"
| "well_formed (PostWithdrawal key asset_id to_address amount) \<longleftrightarrow>
     idempotency_key_ok key \<and> length_within 1 128 to_address \<and> unsigned_amount amount"
| "well_formed (PostTransfer key to_email asset_id amount) \<longleftrightarrow>
     idempotency_key_ok key \<and> length_within 3 320 to_email \<and> unsigned_amount amount"
| "well_formed (PostNftTransfer key to_email nft_id) \<longleftrightarrow> idempotency_key_ok key"
| "well_formed (PostNftWithdrawal key nft_id to_address) \<longleftrightarrow> idempotency_key_ok key"
| "well_formed _ \<longleftrightarrow> True"

section \<open>Routes\<close>

text \<open>
  What the process has besides the database: settings, registry and caps; the key, token and
  hash libraries; the generated art; the clients of the chains at the time of the request;
  the clock; the validator's messages and the standard library's phrases.
\<close>

record api_env =
  ae_settings :: settings
  ae_registry :: registry
  ae_caps :: caps
  ae_keys :: key_lib
  ae_auth :: auth_lib
  ae_sha256 :: "string \<Rightarrow> string"
  ae_uuid5 :: "string \<Rightarrow> string \<Rightarrow> uuid"
  ae_data_uri :: "int \<Rightarrow> string \<Rightarrow> string \<Rightarrow> string"
  ae_account_address :: "string \<Rightarrow> error + string"
  ae_client :: "int \<Rightarrow> error + chain_client"
  ae_now :: int
  ae_validation_msgs :: "api_request \<Rightarrow> string option list"
  ae_phrase :: "int \<Rightarrow> string option"

definition ae_ck :: "api_env \<Rightarrow> string \<Rightarrow> error + string" where
  "ae_ck env = kl_to_checksum_address (ae_keys env)"

definition faucet_env_of :: "api_env \<Rightarrow> faucet_env" where
  "faucet_env_of env = (let key = faucet_private_key (ae_settings env) in
     \<lparr>fe_settings = ae_settings env, fe_caps = ae_caps env, fe_sha256 = ae_sha256 env,
      fe_account_address = ae_account_address env, fe_private_key = key,
      fe_sender_factory = (case key of Some (c # k) \<Rightarrow> Some (ae_client env) | _ \<Rightarrow> None)\<rparr>)"

text \<open>An answer that comes with the new state, and one that leaves the database alone.\<close>

definition answer :: "('a \<Rightarrow> api_answer) \<Rightarrow> error + ('a \<times> db) \<Rightarrow> error + (api_answer \<times> db)" where
  "answer f r = bind_res r (\<lambda>(x, db). Inr (f x, db))"

definition answer_read :: "db \<Rightarrow> ('a \<Rightarrow> api_answer) \<Rightarrow> error + 'a \<Rightarrow> error + (api_answer \<times> db)" where
  "answer_read db f r = bind_res r (\<lambda>x. Inr (f x, db))"

text \<open>The amount field of a body after validation.\<close>

definition with_amount :: "py_value \<Rightarrow> (int \<Rightarrow> error + 'a) \<Rightarrow> error + 'a" where
  "with_amount amount f = bind_res (unsigned_base_unit_validate amount) f"

definition transfer_route ::
  "api_env \<Rightarrow> db \<Rightarrow> user \<Rightarrow> string \<Rightarrow> string \<Rightarrow> uuid \<Rightarrow> py_value \<Rightarrow> error + (api_answer \<times> db)" where
  "transfer_route env db user key to_email asset_id amount =
     with_amount amount (\<lambda>amount. answer AnsTransferCreated
       (create_transfer (ae_caps env) db user to_email asset_id amount key))"

definition faucet_route ::
  "api_env \<Rightarrow> db \<Rightarrow> user \<Rightarrow> string \<Rightarrow> uuid \<Rightarrow> py_value \<Rightarrow> error + (api_answer \<times> db)" where
  "faucet_route env db user key asset_id amount =
     with_amount amount (\<lambda>amount. answer AnsFaucet
       (request_faucet (faucet_env_of env) db user asset_id amount key))"

definition withdrawal_route ::
  "api_env \<Rightarrow> db \<Rightarrow> user \<Rightarrow> string \<Rightarrow> uuid \<Rightarrow> string \<Rightarrow> py_value \<Rightarrow> error + (api_answer \<times> db)" where
  "withdrawal_route env db user key asset_id to_address amount =
     with_amount amount (\<lambda>amount. answer AnsWithdrawalCreated
       (create_withdrawal (ae_ck env) (ae_settings env) (ae_caps env) db user asset_id to_address amount key))"

definition nft_transfer_route ::
  "db \<Rightarrow> user \<Rightarrow> string \<Rightarrow> string \<Rightarrow> uuid \<Rightarrow> error + (api_answer \<times> db)" where
  "nft_transfer_route db user key to_email nft_id = answer AnsNftTransfer (transfer_nft db user to_email nft_id key)"

definition nft_withdrawal_route ::
  "api_env \<Rightarrow> db \<Rightarrow> user \<Rightarrow> string \<Rightarrow> uuid \<Rightarrow> string \<Rightarrow> error + (api_answer \<times> db)" where
  "nft_withdrawal_route env db user key nft_id to_address =
     answer AnsNftWithdrawal (request_nft_withdrawal (ae_ck env) (ae_settings env) db user nft_id to_address key)"

definition me_route :: "user \<Rightarrow> user_response" where "me_route user = user_response_of user"

fun public_route :: "api_env \<Rightarrow> db \<Rightarrow> api_request \<Rightarrow> error + (api_answer \<times> db)" where
  "public_route env db GetHealth = Inr (AnsHealth, db)"
| "public_route env db (PostRegister email password) =
     answer AnsAuth (register_route (ae_keys env) (ae_auth env) (ae_registry env) (ae_settings env)
       (ae_now env) db email password)"
| "public_route env db (PostLogin email password) =
     answer_read db AnsAuth (login_route (ae_auth env) (ae_settings env) (ae_now env) db email password)"
| "public_route env db (PostRefresh refresh_token) =
     answer_read db AnsAccessToken
       (refresh_access_token (ae_auth env) (ae_settings env) (ae_now env) db refresh_token)"
| "public_route env db GetChains =
     answer_read db AnsChains (chain_responses (ae_settings env) (ae_registry env))"
| "public_route env db (GetAssets chain_id) =
     answer_read db AnsAssets (assets_route
       (asset_responses (ae_settings env) (ae_caps env) (ae_uuid5 env) (ae_registry env)) chain_id)"
| "public_route env db _ = Inl (OtherError ''no such route'')"

fun user_route :: "api_env \<Rightarrow> db \<Rightarrow> user \<Rightarrow> api_request \<Rightarrow> error + (api_answer \<times> db)" where
  "user_route env db user GetMe = Inr (AnsUser (me_route user), db)"
| "user_route env db user GetUsers = Inr (AnsUsers (list_users db), db)"
| "user_route env db user GetDepositAddresses =
     answer_read db AnsDepositAddresses (list_deposit_addresses (ae_settings env) (ae_registry env) db user)"
| "user_route env db user GetBalances = answer_read db AnsBalances (list_balances (ae_settings env) db user)"
| "user_route env db user (GetDeposits cursor) =
     answer_read db AnsDeposits (list_deposits (ae_registry env) db user cursor)"
| "user_route env db user (PostFaucet key asset_id amount) =
     faucet_route env db user key asset_id amount"
| "user_route env db user (PostWithdrawal key asset_id to_address amount) =
     withdrawal_route env db user key asset_id to_address amount"
| "user_route env db user (GetWithdrawal withdrawal_id) =
     answer_read db AnsWithdrawal (get_withdrawal_route (ae_registry env) db user withdrawal_id)"
| "user_route env db user (GetWithdrawals cursor) =
     answer_read db AnsWithdrawals (list_user_withdrawals (ae_registry env) db user cursor)"
| "user_route env db user (PostTransfer key to_email asset_id amount) =
     transfer_route env db user key to_email asset_id amount"
| "user_route env db user (GetTransactions asset_id cursor) =
     Inr (AnsTransactions (list_transactions db user asset_id cursor), db)"
| "user_route env db user GetNfts =
     answer_read db AnsNfts (list_holdings (ae_ck env) (ae_registry env) (ae_data_uri env) db user)"
| "user_route env db user GetNftMints = answer_read db AnsNftMints (list_mints (ae_registry env) db user)"
| "user_route env db user (PostNftTransfer key to_email nft_id) =
     nft_transfer_route db user key to_email nft_id"
| "user_route env db user (PostNftWithdrawal key nft_id to_address) =
     nft_withdrawal_route env db user key nft_id to_address"
| "user_route env db user _ = Inl (OtherError ''no such route'')"

fun admin_route :: "api_env \<Rightarrow> db \<Rightarrow> user \<Rightarrow> api_request \<Rightarrow> error + (api_answer \<times> db)" where
  "admin_route env db admin GetReserves =
     answer_read db AnsReserves
       (reserve_report (ae_keys env) (ae_registry env) (ae_settings env) db (ae_client env))"
| "admin_route env db admin GetGas =
     answer_read db AnsGas (gas_balances (ae_keys env) (ae_registry env) (ae_settings env) (ae_client env))"
| "admin_route env db admin (GetAdminWithdrawals cursor) =
     answer_read db AnsWithdrawals (admin_withdrawals (ae_registry env) db cursor)"
| "admin_route env db admin (PostMintNft user_email chain_id) =
     answer AnsMint (mint_nft_route (ae_keys env) (ae_sha256 env) (ae_registry env) (ae_settings env) db admin
       user_email chain_id)"
| "admin_route env db admin (GetMintStatus request_id) =
     answer_read db AnsMint (get_mint_status db request_id)"
| "admin_route env db admin _ = Inl (OtherError ''no such route'')"

section \<open>Serving a request\<close>

datatype api_reply = Answer api_answer | Failure error_response

text \<open>The dependencies of the route, then the body, then the handler.\<close>

definition current_user :: "api_env \<Rightarrow> db \<Rightarrow> (string \<times> string) option \<Rightarrow> error + user" where
  "current_user env db credentials =
     get_current_user (ae_auth env) (ae_settings env) (ae_now env) db credentials"

definition authorised ::
  "api_env \<Rightarrow> db \<Rightarrow> (string \<times> string) option \<Rightarrow> access
   \<Rightarrow> error + (api_request \<Rightarrow> error + (api_answer \<times> db))" where
  "authorised env db credentials needed =
     (case needed of
        Public \<Rightarrow> Inr (public_route env db)
      | ForUsers \<Rightarrow> bind_res (current_user env db credentials) (\<lambda>user. Inr (user_route env db user))
      | ForAdmins \<Rightarrow> bind_res (current_user env db credentials) (\<lambda>user.
          bind_res (require_admin user) (\<lambda>admin. Inr (admin_route env db admin))))"

definition serve ::
  "api_env \<Rightarrow> (string \<times> string) option \<Rightarrow> string option \<Rightarrow> api_request \<Rightarrow> db \<Rightarrow> api_reply \<times> db" where
  "serve env credentials request_id request db =
     (case authorised env db credentials (access_of request) of
        Inl exc \<Rightarrow> (Failure (response_of_error (ae_phrase env) request_id exc), db)
      | Inr route \<Rightarrow>
          if \<not> well_formed request then
            (Failure (validation_response request_id (ae_validation_msgs env request)), db)
          else
            case route request of
              Inl exc \<Rightarrow> (Failure (response_of_error (ae_phrase env) request_id exc), db)
            | Inr (result, db') \<Rightarrow> (Answer result, db'))"

text \<open>Starting the application: seeding the demo users never blocks it.\<close>

definition lifespan :: "api_env \<Rightarrow> db \<Rightarrow> db" where
  "lifespan env db =
     (if \<not> seed_demo_user (ae_settings env) then db
      else case ensure_demo_users (ae_keys env) (ae_auth env) (ae_registry env) (ae_settings env) db of
        Inl exc \<Rightarrow> db
      | Inr (created, db') \<Rightarrow> db')"

end
