(* ===== verification/Routes_Facts.thy ===== *)
theory Routes_Facts
  imports Routes Api_Facts
begin

text \<open>What serving a request guarantees, whatever the route.\<close>

section \<open>Errors\<close>

lemma error_code_of_str [simp]: "error_code_of (error_code_str c) = Some c"
  by (cases c; simp add: error_code_of_def all_error_codes_def)

lemma response_of_api_error [simp]:
  "response_of_error phrase rid (ApiError status code message) =
     \<lparr>er_status_code = status, er_code = code, er_message = message, er_details = [], er_request_id = rid\<rparr>"
  by (simp add: http_response_def Let_def)

declare response_of_error.simps(1) [simp del]


section \<open>Authority\<close>










section \<open>A concrete application\<close>




end
