(* ===== verification/System.thy ===== *)
theory System
  imports Routes_Facts Worker_Main "HOL-Library.Multiset"
begin

text \<open>
  The whole system as a step relation: the API, the start of the application, the seeding of
  the assets, the phases of the worker's loops on every chain and the passing of time, in any
  order. A step is one transaction. Every chain has its own client, and what a client answers
  may differ from step to step: \<open>clients\<close> are the clients, with their answers, that the phases
  can meet. The worker's settings and its hot wallet are fixed. A phase or request that fails
  leaves the database as it was and needs no step.
\<close>

section \<open>Steps\<close>

definition chain_phases ::
  "registry \<Rightarrow> worker_context \<Rightarrow> (int \<Rightarrow> int \<Rightarrow> error + string) \<Rightarrow> chain_client \<Rightarrow> int \<Rightarrow> phase list" where
  "chain_phases reg ctx derive client scan_from =
     watcher_phases reg ctx client scan_from @ withdrawer_phases ctx client @ nft_minter_phases ctx client
     @ nft_withdrawer_phases ctx client @ nft_sweeper_phases ctx derive client"

inductive system_step :: "chain_client set \<Rightarrow> registry \<Rightarrow> worker_context \<Rightarrow> db \<Rightarrow> db \<Rightarrow> bool" for clients reg ctx where
  request: "serve env credentials request_id req db = (reply, db') \<Longrightarrow> system_step clients reg ctx db db'"
| startup: "system_step clients reg ctx db (lifespan env db)"
| seeding: "seed_assets uuid5 reg db = Inr db' \<Longrightarrow> system_step clients reg ctx db db'"
| work: "client \<in> clients \<Longrightarrow> phase \<in> set (chain_phases reg ctx derive client scan_from) \<Longrightarrow> phase db = Inr db' \<Longrightarrow>
    system_step clients reg ctx db db'"
| clock: "db_now db \<le> t \<Longrightarrow> system_step clients reg ctx db (db\<lparr>db_now := t\<rparr>)"

inductive_cases system_stepE [consumes 1, case_names request startup seeding work clock]:
  "system_step clients reg ctx db db'"

inductive reachable :: "chain_client set \<Rightarrow> registry \<Rightarrow> worker_context \<Rightarrow> db \<Rightarrow> db \<Rightarrow> bool" for clients reg ctx db where
  start: "reachable clients reg ctx db db"
| step: "reachable clients reg ctx db d \<Longrightarrow> system_step clients reg ctx d d' \<Longrightarrow> reachable clients reg ctx db d'"

inductive_simps system_step_from: "system_step clients reg ctx db db'"

text \<open>An invariant of the steps holds in every reachable state.\<close>

lemma reachable_inv:
  assumes "reachable clients reg ctx db d" "I db" "\<And>a b. I a \<Longrightarrow> system_step clients reg ctx a b \<Longrightarrow> I b"
  shows "I d"
  using assms by (induction rule: reachable.induct) blast+

section \<open>Nonces of the hot wallet\<close>

text \<open>
  The rows that spend the hot wallet's nonces: withdrawals, mints, NFT withdrawals and the
  gas fundings of sweeps. An entry is the row, its chain and the nonce it is bound to.
\<close>

datatype hot_row = HotWithdrawal uuid | HotMint uuid | HotNftWithdrawal uuid | HotSweep uuid

fun hot_id :: "hot_row \<Rightarrow> uuid" where
  "hot_id (HotWithdrawal i) = i"
| "hot_id (HotMint i) = i"
| "hot_id (HotNftWithdrawal i) = i"
| "hot_id (HotSweep i) = i"

type_synonym hot_entry = "hot_row \<times> int \<times> int option"

definition wd_entry :: "withdrawal_request \<Rightarrow> hot_entry" where
  "wd_entry w = (HotWithdrawal (wd_id w), wd_chain_id w, wd_nonce w)"

definition mi_entry :: "nft_mint_request \<Rightarrow> hot_entry" where
  "mi_entry w = (HotMint (mi_id w), mi_chain_id w, mi_nonce w)"

definition nw_entry :: "nft_withdrawal_request \<Rightarrow> hot_entry" where
  "nw_entry w = (HotNftWithdrawal (nw_id w), nw_chain_id w, nw_nonce w)"

definition sw_entry :: "nft_sweep \<Rightarrow> hot_entry" where
  "sw_entry w = (HotSweep (sw_id w), sw_chain_id w, sw_gas_fund_nonce w)"

definition hot_entries :: "db \<Rightarrow> hot_entry list" where
  "hot_entries db = map wd_entry (withdrawal_requests db) @ map mi_entry (nft_mint_requests db)
     @ map nw_entry (nft_withdrawal_requests db) @ map sw_entry (nft_sweeps db)"

text \<open>The chain and nonce of every row that is bound to one.\<close>

definition hot_nonces :: "db \<Rightarrow> (int \<times> int) list" where
  "hot_nonces db = List.map_filter (\<lambda>(row, chain, nonce). map_option (Pair chain) nonce) (hot_entries db)"

section \<open>Steps that bind nothing\<close>

definition keys_ok :: "db \<Rightarrow> bool" where
  "keys_ok db \<longleftrightarrow> distinct (map fst (hot_entries db)) \<and>
     (\<forall>o1 \<in> set (map fst (hot_entries db)). hot_id o1 < next_uuid db)"

lemma keys_ok_cong:
  "map fst (hot_entries db') = map fst (hot_entries db) \<Longrightarrow> next_uuid db \<le> next_uuid db' \<Longrightarrow>
   keys_ok db \<Longrightarrow> keys_ok db'"
  unfolding keys_ok_def by (simp only:) (auto intro: less_le_trans)

text \<open>
  No nonce is bound and no counter moves: rows stay, on their chain, with their nonce or
  without one, and new rows have new ids and no nonce.
\<close>

definition quiet :: "db \<Rightarrow> db \<Rightarrow> bool" where
  "quiet db db' \<longleftrightarrow> next_uuid db \<le> next_uuid db' \<and> next_nonce_of db' = next_nonce_of db \<and>
     (\<forall>o1 c n. (o1, c, n) \<in> set (hot_entries db') \<longrightarrow>
        (\<exists>m. (o1, c, m) \<in> set (hot_entries db) \<and> (n = m \<or> n = None)) \<or> n = None \<and> next_uuid db \<le> hot_id o1) \<and>
     (\<forall>o1 c n. (o1, c, n) \<in> set (hot_entries db) \<longrightarrow> (\<exists>m. (o1, c, m) \<in> set (hot_entries db'))) \<and>
     (keys_ok db \<longrightarrow> keys_ok db')"

lemma quiet_refl [simp, intro]: "quiet db db"
  by (auto simp: quiet_def)

lemma quiet_D:
  assumes "quiet db db'"
  shows "next_uuid db \<le> next_uuid db'" "next_nonce_of db' = next_nonce_of db" "keys_ok db \<Longrightarrow> keys_ok db'"
    "(o1, c, n) \<in> set (hot_entries db) \<Longrightarrow> \<exists>m. (o1, c, m) \<in> set (hot_entries db')"
    "(o1, c, Some k) \<in> set (hot_entries db') \<Longrightarrow> (o1, c, Some k) \<in> set (hot_entries db)"
  using assms unfolding quiet_def by blast+

lemma quiet_trans [trans]:
  assumes "quiet a b" "quiet b c" shows "quiet a c"
proof -
  have "(\<exists>m. (o1, ch, m) \<in> set (hot_entries a) \<and> (n = m \<or> n = None)) \<or> n = None \<and> next_uuid a \<le> hot_id o1"
    if i: "(o1, ch, n) \<in> set (hot_entries c)" for o1 ch n
  proof -
    consider m where "(o1, ch, m) \<in> set (hot_entries b)" "n = m \<or> n = None"
      | "n = None" "next_uuid b \<le> hot_id o1"
      using assms(2) i unfolding quiet_def by blast
    then show ?thesis
    proof cases
      case (1 m)
      then show ?thesis using assms(1) unfolding quiet_def by blast
    next
      case 2
      then show ?thesis using assms(1) unfolding quiet_def by linarith
    qed
  qed
  moreover have "\<exists>m. (o1, ch, m) \<in> set (hot_entries c)" if "(o1, ch, n) \<in> set (hot_entries a)" for o1 ch n
    using assms that unfolding quiet_def by blast
  ultimately show ?thesis using assms unfolding quiet_def by auto
qed

lemma quiet_loop:
  "for_each f xs s = Inr s' \<Longrightarrow> (\<And>x s s'. f x s = Inr s' \<Longrightarrow> quiet (g s) (g s')) \<Longrightarrow> quiet (g s) (g s')"
  by (rule for_each_rel [where R = "\<lambda>s t. quiet (g s) (g t)"]) (auto intro: quiet_trans)

text \<open>Operations on other tables, that take ids only from the supply.\<close>

definition same_outboxes :: "db \<Rightarrow> db \<Rightarrow> bool" where
  "same_outboxes db db' \<longleftrightarrow> withdrawal_requests db' = withdrawal_requests db \<and>
     nft_mint_requests db' = nft_mint_requests db \<and>
     nft_withdrawal_requests db' = nft_withdrawal_requests db \<and> nft_sweeps db' = nft_sweeps db \<and>
     hot_wallet_nonces db' = hot_wallet_nonces db \<and> next_uuid db \<le> next_uuid db'"

lemma same_outboxes_quiet:
  assumes "same_outboxes db db'" shows "quiet db db'"
proof -
  have e: "hot_entries db' = hot_entries db" "next_nonce_of db' = next_nonce_of db"
    "next_uuid db \<le> next_uuid db'"
    using assms by (simp_all add: same_outboxes_def hot_entries_def next_nonce_of_def fun_eq_iff)
  then have "keys_ok db \<longrightarrow> keys_ok db'" using keys_ok_cong [of db' db] by simp
  then show ?thesis using e unfolding quiet_def by auto
qed

lemma same_outboxes_refl [simp, intro]: "same_outboxes db db"
  by (simp add: same_outboxes_def)

lemma same_outboxes_trans [trans]: "same_outboxes a b \<Longrightarrow> same_outboxes b c \<Longrightarrow> same_outboxes a c"
  by (simp add: same_outboxes_def)

text \<open>New rows.\<close>

lemma keys_ok_mset:
  assumes "mset (hot_entries db') = mset (hot_entries db) + mset new"
    and "\<forall>e \<in> set new. next_uuid db \<le> hot_id (fst e) \<and> hot_id (fst e) < next_uuid db'"
    and "distinct (map fst new)" "next_uuid db \<le> next_uuid db'" "keys_ok db"
  shows "keys_ok db'"
proof -
  have m: "mset (map fst (hot_entries db')) = mset (map fst (hot_entries db @ new))" using assms(1) by simp
  have "fst ` set (hot_entries db) \<inter> fst ` set new = {}"
    using assms(2,5) unfolding keys_ok_def by force
  then have "distinct (map fst (hot_entries db @ new))" using assms(3,5) by (simp add: keys_ok_def)
  then have "distinct (map fst (hot_entries db'))" using mset_eq_imp_distinct_iff [OF m] by simp
  moreover have "set (hot_entries db') = set (hot_entries db) \<union> set new"
    using arg_cong [OF assms(1), of set_mset] by simp
  ultimately show ?thesis using assms(2,4,5) unfolding keys_ok_def by fastforce
qed

lemma quiet_new_rows:
  assumes "mset (hot_entries db') = mset (hot_entries db) + mset new"
    and "\<forall>e \<in> set new. next_uuid db \<le> hot_id (fst e) \<and> hot_id (fst e) < next_uuid db' \<and> snd (snd e) = None"
    and "distinct (map fst new)" "next_uuid db \<le> next_uuid db'" "next_nonce_of db' = next_nonce_of db"
  shows "quiet db db'"
proof -
  have s: "set (hot_entries db') = set (hot_entries db) \<union> set new"
    using arg_cong [OF assms(1), of set_mset] by simp
  have k: "keys_ok db \<longrightarrow> keys_ok db'" using keys_ok_mset [OF assms(1) _ assms(3,4)] assms(2) by blast
  show ?thesis using assms(2,4,5) k unfolding quiet_def s by force
qed

text \<open>Updates of the rows in place that keep or drop the nonce.\<close>

lemma quiet_update:
  assumes "hot_entries db' = map g (hot_entries db)"
    and "\<And>e. fst (g e) = fst e \<and> fst (snd (g e)) = fst (snd e) \<and> (snd (snd (g e)) = snd (snd e) \<or> snd (snd (g e)) = None)"
    and "next_uuid db' = next_uuid db" "next_nonce_of db' = next_nonce_of db"
  shows "quiet db db'"
proof -
  have "map fst (hot_entries db') = map fst (hot_entries db)" using assms(1,2) by simp
  from keys_ok_cong [OF this] have k: "keys_ok db \<longrightarrow> keys_ok db'" using assms(3) by simp
  have a: "\<exists>m. (o1, c, m) \<in> set (hot_entries db) \<and> (n = m \<or> n = None)"
    if i: "(o1, c, n) \<in> set (hot_entries db')" for o1 c n
  proof -
    obtain e where "e \<in> set (hot_entries db)" "(o1, c, n) = g e" using i assms(1) by auto
    then show ?thesis using assms(2) [of e] by (intro exI [of _ "snd (snd e)"]) (metis prod.collapse fst_conv snd_conv)
  qed
  have b: "\<exists>m. (o1, c, m) \<in> set (hot_entries db')" if i: "(o1, c, n) \<in> set (hot_entries db)" for o1 c n
  proof -
    have "g (o1, c, n) \<in> set (hot_entries db')" using i assms(1) by simp
    moreover obtain m where "g (o1, c, n) = (o1, c, m)" using assms(2) [of "(o1, c, n)"] by (auto simp: prod_eq_iff)
    ultimately show ?thesis by auto
  qed
  show ?thesis using a b k assms(3,4) unfolding quiet_def by auto
qed

section \<open>Binding a nonce\<close>

definition binds :: "hot_row \<Rightarrow> int \<Rightarrow> int \<Rightarrow> db \<Rightarrow> db \<Rightarrow> bool" where
  "binds o1 c n db db' \<longleftrightarrow>
     hot_entries db' = map (\<lambda>(o2, c2, m). (o2, c2, if o2 = o1 then Some n else m)) (hot_entries db) \<and>
     next_uuid db' = next_uuid db \<and>
     next_nonce_of db' = (next_nonce_of db)(c := map_option (\<lambda>(a, k). (a, n + 1)) (next_nonce_of db c))"

text \<open>
  The invariant: ids are unique, no two rows share a chain and nonce, every bound nonce is
  below its chain's counter and the counters are the hot wallet's.
\<close>

definition nonces_ok :: "string \<Rightarrow> db \<Rightarrow> bool" where
  "nonces_ok hot db \<longleftrightarrow> keys_ok db \<and>
     (\<forall>o1 o2 c n. (o1, c, Some n) \<in> set (hot_entries db) \<longrightarrow> (o2, c, Some n) \<in> set (hot_entries db) \<longrightarrow> o1 = o2) \<and>
     (\<forall>o1 c n. (o1, c, Some n) \<in> set (hot_entries db) \<longrightarrow>
        (\<exists>k. next_nonce_of db c = Some (hot, k) \<and> n < k)) \<and>
     (\<forall>c a k. next_nonce_of db c = Some (a, k) \<longrightarrow> a = hot)"

lemma nonces_ok_D:
  assumes "nonces_ok hot db"
  shows "keys_ok db"
    "(o1, c, Some n) \<in> set (hot_entries db) \<Longrightarrow> (o2, c, Some n) \<in> set (hot_entries db) \<Longrightarrow> o1 = o2"
    "(o1, c, Some n) \<in> set (hot_entries db) \<Longrightarrow> \<exists>k. next_nonce_of db c = Some (hot, k) \<and> n < k"
    "next_nonce_of db c = Some (a, k) \<Longrightarrow> a = hot"
  using assms unfolding nonces_ok_def by blast+

lemma nonces_ok_quiet:
  assumes ok: "nonces_ok hot db" and q: "quiet db db'" shows "nonces_ok hot db'"
proof -
  have old: "(o1, c, Some n) \<in> set (hot_entries db)" if "(o1, c, Some n) \<in> set (hot_entries db')" for o1 c n
    using q that unfolding quiet_def by blast
  have nn: "next_nonce_of db' = next_nonce_of db" "keys_ok db \<longrightarrow> keys_ok db'" using q by (simp_all add: quiet_def)
  show ?thesis unfolding nonces_ok_def nn(1)
  proof (intro conjI allI impI)
    show "keys_ok db'" using nn(2) ok by (simp add: nonces_ok_def)
    show "o1 = o2" if "(o1, c, Some n) \<in> set (hot_entries db')" "(o2, c, Some n) \<in> set (hot_entries db')" for o1 o2 c n
      using old [OF that(1)] old [OF that(2)] ok unfolding nonces_ok_def by blast
    show "\<exists>k. next_nonce_of db c = Some (hot, k) \<and> n < k" if "(o1, c, Some n) \<in> set (hot_entries db')" for o1 c n
      using old [OF that] ok unfolding nonces_ok_def by blast
    show "a = hot" if "next_nonce_of db c = Some (a, k)" for c a k
      using that ok unfolding nonces_ok_def by blast
  qed
qed

lemma binds_cases:
  assumes ok: "nonces_ok hot db" and b: "binds o1 c n db db'" and row: "(o1, c, m0) \<in> set (hot_entries db)"
    and i: "(o2, c2, Some k) \<in> set (hot_entries db')"
  shows "o2 = o1 \<and> c2 = c \<and> k = n \<or> o2 \<noteq> o1 \<and> (o2, c2, Some k) \<in> set (hot_entries db)"
proof -
  have "c2 = c" if "(o1, c2, m) \<in> set (hot_entries db)" for c2 m
    using ok row that eq_key_imp_eq_value [of "hot_entries db" o1 "(c2, m)" "(c, m0)"]
    by (simp add: nonces_ok_def keys_ok_def)
  then show ?thesis using i b unfolding binds_def by (auto split: if_splits)
qed

lemma nonces_ok_binds:
  assumes ok: "nonces_ok hot db" and b: "binds o1 c n db db'"
    and row: "(o1, c, m0) \<in> set (hot_entries db)" and nx: "next_nonce_of db c = Some (hot, n)"
  shows "nonces_ok hot db'" "next_nonce_of db' c = Some (hot, n + 1)"
proof -
  let ?g = "\<lambda>(o2, c2, m). (o2, c2 :: int, if o2 = o1 then Some n else m)"
  have E: "hot_entries db' = map ?g (hot_entries db)" using b by (simp add: binds_def)
  have nn: "next_nonce_of db' = (next_nonce_of db)(c \<mapsto> (hot, n + 1))" using b nx by (simp add: binds_def)
  then show "next_nonce_of db' c = Some (hot, n + 1)" by simp
  have "map fst (hot_entries db') = map fst (hot_entries db)" unfolding E by (simp add: case_prod_beta)
  from keys_ok_cong [OF this] have k: "keys_ok db'" using ok b by (simp add: nonces_ok_def binds_def)
  note cases = binds_cases [OF ok b row]
  have below: "\<exists>j. next_nonce_of db c2 = Some (hot, j) \<and> k < j" if "(o2, c2, Some k) \<in> set (hot_entries db)" for o2 c2 k
    using ok that unfolding nonces_ok_def by blast
  have fresh: "(o2, c, Some n) \<notin> set (hot_entries db)" for o2 using below [of o2 c n] nx by auto
  have old_unique: "o2 = o3" if "(o2, c2, Some k) \<in> set (hot_entries db)" "(o3, c2, Some k) \<in> set (hot_entries db)"
    for o2 o3 c2 k using ok that unfolding nonces_ok_def by blast
  have "o2 = o3" if "(o2, c2, Some k) \<in> set (hot_entries db')" "(o3, c2, Some k) \<in> set (hot_entries db')" for o2 o3 c2 k
    using cases [OF that(1)] cases [OF that(2)] old_unique fresh by blast
  moreover have "\<exists>j. next_nonce_of db' c2 = Some (hot, j) \<and> k < j" if "(o2, c2, Some k) \<in> set (hot_entries db')" for o2 c2 k
    using cases [OF that] below [of o2 c2 k] nx by (auto simp: nn)
  moreover have "a = hot" if "next_nonce_of db' c2 = Some (a, j)" for c2 a j
    using that nonces_ok_D(4) [OF ok, of c2 a j] by (auto simp: nn split: if_splits)
  ultimately show "nonces_ok hot db'" using k unfolding nonces_ok_def by blast
qed

lemma nonces_ok_distinct: "nonces_ok hot db \<Longrightarrow> distinct (hot_nonces db)"
proof -
  assume ok: "nonces_ok hot db"
  have d: "distinct (map fst (hot_entries db))" using ok by (simp add: nonces_ok_def keys_ok_def)
  have u: "o1 = o2" if "(o1, c, Some n) \<in> set (hot_entries db)" "(o2, c, Some n) \<in> set (hot_entries db)" for o1 o2 c n
    using ok that unfolding nonces_ok_def by blast
  have "distinct (List.map_filter (\<lambda>(row, chain, nonce). map_option (Pair chain) nonce) es)"
    if "distinct (map fst es)" "set es \<subseteq> set (hot_entries db)" for es :: "hot_entry list"
    using that
  proof (induction es)
    case (Cons e es)
    obtain o1 c n where e: "e = (o1, c, n)" by (cases e)
    have "(c, k) \<notin> set (List.map_filter (\<lambda>(row, chain, nonce). map_option (Pair chain) nonce) es)"
      if "n = Some k" for k
    proof
      assume "(c, k) \<in> set (List.map_filter (\<lambda>(row, chain, nonce). map_option (Pair chain) nonce) es)"
      then obtain o2 where "(o2, c, Some k) \<in> set es" by (auto simp: List.map_filter_def)
      then have o2: "(o2, c, Some k) \<in> set (hot_entries db)" "o2 \<in> fst ` set es" using Cons.prems(2) by force+
      have "(o1, c, Some k) \<in> set (hot_entries db)" using Cons.prems(2) e that by simp
      from u [OF this o2(1)] have "o1 = o2" .
      then show False using o2(2) Cons.prems(1) e by simp
    qed
    then show ?case using Cons e by (cases n) (auto simp: List.map_filter_simps)
  qed (simp add: List.map_filter_simps)
  from this [OF d] show ?thesis unfolding hot_nonces_def by simp
qed

text \<open>Reading the nonce row, which creates it or moves it up to the chain's count.\<close>

lemma nonces_ok_nonce_row:
  assumes ok: "nonces_ok hot db" and r: "nonce_row db client hot = Inr (row, db')"
  shows "nonces_ok hot db'" "next_nonce_of db' (cl_chain_id client) = Some (hot, hw_next_nonce row)"
    "hot_entries db' = hot_entries db"
proof -
  let ?c = "cl_chain_id client"
  note N = nonce_row_ok [OF r]
  show nn: "next_nonce_of db' ?c = Some (hot, hw_next_nonce row)" by (simp add: N(4))
  show E: "hot_entries db' = hot_entries db" by (subst N(5)) (simp add: hot_entries_def)
  have u: "next_uuid db' = next_uuid db" by (subst N(5)) simp
  have up: "k \<le> hw_next_nonce row" if "next_nonce_of db ?c = Some (hot, k)" for k
    using N(1) that by auto
  have "\<exists>k. next_nonce_of db' c = Some (hot, k) \<and> n < k" if i: "(o1, c, Some n) \<in> set (hot_entries db)" for o1 c n
  proof -
    obtain k where k: "next_nonce_of db c = Some (hot, k)" "n < k" using ok i unfolding nonces_ok_def by blast
    show ?thesis using k up [of k] nn by (cases "c = ?c") (auto simp: N(4))
  qed
  moreover have "a = hot" if "next_nonce_of db' c = Some (a, j)" for c a j
    using that nonces_ok_D(4) [OF ok, of c a j] by (auto simp: N(4) split: if_splits)
  ultimately show "nonces_ok hot db'" using ok E u unfolding nonces_ok_def keys_ok_def by simp
qed

section \<open>Nonces over time\<close>

text \<open>
  From one database to a later one the counters do not fall, and a nonce below the earlier
  counter is bound only where it was bound before.
\<close>

definition later :: "string \<Rightarrow> db \<Rightarrow> db \<Rightarrow> bool" where
  "later hot a b \<longleftrightarrow>
     (\<forall>c k. next_nonce_of a c = Some (hot, k) \<longrightarrow> (\<exists>j. next_nonce_of b c = Some (hot, j) \<and> k \<le> j)) \<and>
     (\<forall>o1 c n k. (o1, c, Some n) \<in> set (hot_entries b) \<longrightarrow> next_nonce_of a c = Some (hot, k) \<longrightarrow> n < k \<longrightarrow>
        (o1, c, Some n) \<in> set (hot_entries a))"

definition nonces_since :: "string \<Rightarrow> db \<Rightarrow> db \<Rightarrow> bool" where
  "nonces_since hot a db \<longleftrightarrow> nonces_ok hot db \<and> later hot a db"

lemma nonces_since_refl: "nonces_ok hot db \<Longrightarrow> nonces_since hot db db"
  by (simp add: nonces_since_def later_def)

lemma nonces_since_quiet:
  assumes "nonces_since hot a db" "quiet db db'" shows "nonces_since hot a db'"
  using assms nonces_ok_quiet [of hot db db'] quiet_D(2,5) [OF assms(2)]
  unfolding nonces_since_def later_def by metis

lemma nonces_since_binds:
  assumes s: "nonces_since hot a db" and b: "binds o1 c n db db'"
    and row: "(o1, c, m0) \<in> set (hot_entries db)" and nx: "next_nonce_of db c = Some (hot, n)"
  shows "nonces_since hot a db'" "next_nonce_of db' c = Some (hot, n + 1)"
proof -
  have ok: "nonces_ok hot db" and l: "later hot a db" using s by (simp_all add: nonces_since_def)
  note N = nonces_ok_binds [OF ok b row nx]
  have nn: "next_nonce_of db' = (next_nonce_of db)(c \<mapsto> (hot, n + 1))" using b nx by (simp add: binds_def)
  have up: "\<exists>j. next_nonce_of db' c2 = Some (hot, j) \<and> k \<le> j" if "next_nonce_of a c2 = Some (hot, k)" for c2 k
    using l that nx unfolding later_def nn by (cases "c2 = c") fastforce+
  have "(o2, c2, Some m) \<in> set (hot_entries a)"
    if i: "(o2, c2, Some m) \<in> set (hot_entries db')" and k: "next_nonce_of a c2 = Some (hot, k)" "m < k" for o2 c2 m k
    using binds_cases [OF ok b row i]
  proof
    assume "o2 = o1 \<and> c2 = c \<and> m = n"
    then show ?thesis using l k nx unfolding later_def by fastforce
  next
    assume "o2 \<noteq> o1 \<and> (o2, c2, Some m) \<in> set (hot_entries db)"
    then show ?thesis using l k unfolding later_def by blast
  qed
  then show "nonces_since hot a db'" using N(1) up unfolding nonces_since_def later_def by blast
  show "next_nonce_of db' c = Some (hot, n + 1)" by (rule N(2))
qed

lemma nonces_since_nonce_row:
  assumes s: "nonces_since hot a db" and r: "nonce_row db client hot = Inr (row, db')"
  shows "nonces_since hot a db'" "next_nonce_of db' (cl_chain_id client) = Some (hot, hw_next_nonce row)"
    "hot_entries db' = hot_entries db"
proof -
  have ok: "nonces_ok hot db" and l: "later hot a db" using s by (simp_all add: nonces_since_def)
  note N = nonces_ok_nonce_row [OF ok r] nonce_row_ok [OF r]
  have up: "\<exists>j. next_nonce_of db' c = Some (hot, j) \<and> k \<le> j" if k: "next_nonce_of a c = Some (hot, k)" for c k
  proof -
    obtain j where j: "next_nonce_of db c = Some (hot, j)" "k \<le> j" using l k unfolding later_def by blast
    then show ?thesis using N(4) by (cases "c = cl_chain_id client") (auto simp: N(7))
  qed
  show "nonces_since hot a db'" using N(1) l up unfolding nonces_since_def later_def N(3) by blast
qed (rule nonces_ok_nonce_row [OF _ r], use s in \<open>simp add: nonces_since_def\<close>)+

section \<open>Signing passes\<close>

text \<open>
  The contract of a signing loop's body: it binds nothing, or binds its row to the loop's
  counter, which it advances together with the stored one.
\<close>

locale hot_signer =
  fixes body :: "'r \<Rightarrow> 's \<Rightarrow> error + 's" and dbof :: "'s \<Rightarrow> db" and counter :: "'s \<Rightarrow> int"
    and owner :: "'r \<Rightarrow> hot_row" and chain :: int
  assumes signs: "body r s = Inr s' \<Longrightarrow>
    quiet (dbof s) (dbof s') \<and> counter s' = counter s \<or>
    (\<exists>d. quiet (dbof s) d \<and> binds (owner r) chain (counter s) d (dbof s') \<and> counter s' = counter s + 1)"
begin

lemma body_keeps:
  assumes b: "body r s = Inr s'" and ok: "nonces_since hot a (dbof s)"
    and nx: "next_nonce_of (dbof s) chain = Some (hot, counter s)"
    and row: "(owner r, chain, m) \<in> set (hot_entries (dbof s))"
  shows "nonces_since hot a (dbof s')" "next_nonce_of (dbof s') chain = Some (hot, counter s')"
    "(o1, c, n) \<in> set (hot_entries (dbof s)) \<Longrightarrow> \<exists>n'. (o1, c, n') \<in> set (hot_entries (dbof s'))"
proof -
  consider (none) "quiet (dbof s) (dbof s')" "counter s' = counter s"
    | (bound) d where "quiet (dbof s) d" "binds (owner r) chain (counter s) d (dbof s')" "counter s' = counter s + 1"
    using signs [OF b] by blast
  then have "nonces_since hot a (dbof s') \<and> next_nonce_of (dbof s') chain = Some (hot, counter s') \<and>
    ((o1, c, n) \<in> set (hot_entries (dbof s)) \<longrightarrow> (\<exists>n'. (o1, c, n') \<in> set (hot_entries (dbof s'))))"
  proof cases
    case none
    then show ?thesis using nonces_since_quiet [OF ok none(1)] nx quiet_D(2,4) [OF none(1)] by metis
  next
    case (bound d)
    have n: "next_nonce_of d chain = Some (hot, counter s)" using bound(1) nx by (simp add: quiet_def)
    obtain m' where "(owner r, chain, m') \<in> set (hot_entries d)" using quiet_D(4) [OF bound(1) row] by blast
    note B = nonces_since_binds [OF nonces_since_quiet [OF ok bound(1)] bound(2) this n]
    have "\<exists>n'. (o1, c, n') \<in> set (hot_entries (dbof s'))" if i: "(o1, c, n) \<in> set (hot_entries (dbof s))"
    proof -
      obtain n1 where "(o1, c, n1) \<in> set (hot_entries d)" using quiet_D(4) [OF bound(1) i] by blast
      then show ?thesis using bound(2) unfolding binds_def by force
    qed
    then show ?thesis using B bound(3) by simp
  qed
  then show "nonces_since hot a (dbof s')" "next_nonce_of (dbof s') chain = Some (hot, counter s')"
    "(o1, c, n) \<in> set (hot_entries (dbof s)) \<Longrightarrow> \<exists>n'. (o1, c, n') \<in> set (hot_entries (dbof s'))" by blast+
qed

lemma pass_keeps:
  assumes "for_each body rs s = Inr s'" "nonces_since hot a (dbof s)"
    and "next_nonce_of (dbof s) chain = Some (hot, counter s)"
    and "\<forall>r \<in> set rs. \<exists>m. (owner r, chain, m) \<in> set (hot_entries (dbof s))"
  shows "nonces_since hot a (dbof s')"
  using assms
proof (induction rs arbitrary: s)
  case (Cons r rs)
  from Cons.prems(1) obtain t where t: "body r s = Inr t" "for_each body rs t = Inr s'" by auto
  from Cons.prems(4) obtain m where "(owner r, chain, m) \<in> set (hot_entries (dbof s))" by auto
  note B = body_keeps [OF t(1) Cons.prems(2,3) this]
  have "\<forall>x \<in> set rs. \<exists>m. (owner x, chain, m) \<in> set (hot_entries (dbof t))"
    using Cons.prems(4) B(3) by (meson list.set_intros(2))
  then show ?case by (rule Cons.IH [OF t(2) B(1,2)])
qed simp

end

end
