(* ===== verification/System_Frames.thy ===== *)
theory System_Frames
  imports System Nft_Mint_Facts Nft_Sweep_Facts Nft_Outbox_Facts Wallet_Facts
begin

text \<open>
  Which operations leave the outboxes alone: the ledger, the transfers, the faucet, the
  holdings, the accounts, the deposit scans, and every pass over an outbox that signs nothing.
\<close>

section \<open>Operations on other tables\<close>

lemma loop_same:
  "for_each f xs s = Inr s' \<Longrightarrow> (\<And>x s s'. f x s = Inr s' \<Longrightarrow> same_outboxes (g s) (g s')) \<Longrightarrow>
   same_outboxes (g s) (g s')"
  by (rule for_each_rel [where R = "\<lambda>s t. same_outboxes (g s) (g t)"]) (auto intro: same_outboxes_trans)

lemma same_outboxes_updates [simp]:
  "same_outboxes a (update_deposit i f1 b) = same_outboxes a b"
  "same_outboxes a (mark_confirmed b c t) = same_outboxes a b"
  "same_outboxes a (update_nd i f2 b) = same_outboxes a b"
  "same_outboxes a (mark_nfts_confirmed b c t) = same_outboxes a b"
  "same_outboxes a (update_holding i f3 b) = same_outboxes a b"
  "same_outboxes a (rewind_cursor b c l) = same_outboxes a b"
  by (auto simp: same_outboxes_def update_deposit_def mark_confirmed_def update_nd_def mark_nfts_confirmed_def
      update_holding_def rewind_cursor_def update_cursor_def split: option.splits)

lemma ledger_only_same: "ledger_only db db' \<Longrightarrow> next_uuid db \<le> next_uuid db' \<Longrightarrow> same_outboxes db db'"
  by (simp add: same_outboxes_def ledger_only_frame)

lemma account_same: "get_or_create_account db asset name ow u = Inr (a, db') \<Longrightarrow> same_outboxes db db'"
  by (auto simp: get_or_create_account_def insert_account_def same_outboxes_def Let_def
      split: option.splits sum.splits if_splits)

lemma wallet_account_same: "get_user_wallet_account db u asset = Inr (a, db') \<Longrightarrow> same_outboxes db db'"
  unfolding get_user_wallet_account_def by (rule account_same)

lemma post_same: "post db ty key legs rt ri = Inr (t, db') \<Longrightarrow> same_outboxes db db'"
  using post_ledger_only by (blast intro: ledger_only_same)

lemma rate_same: "enforce_rate_limit st db action u now = Inr db' \<Longrightarrow> same_outboxes db db'"
proof -
  assume "enforce_rate_limit st db action u now = Inr db'"
  note f = enforce_frame [OF this]
  have "next_uuid db \<le> next_uuid db'" using f unfolding rate_only_def by blast
  then show ?thesis unfolding same_outboxes_def by (simp add: rate_only_ledger [OF f])
qed

lemmas ledger_same = account_same wallet_account_same post_same rate_same

lemma transfer_same: "create_transfer caps db sender to asset_id n k = Inr (r, db') \<Longrightarrow> same_outboxes db db'"
  by (auto simp: create_transfer_def transfer_funds_def lock_user_asset_def limit_error_def Let_def
      split: if_splits option.splits prod.splits dest!: ledger_same) (meson same_outboxes_trans)+

lemma flush_deposit_same: "flush_deposit db d = Inr db' \<Longrightarrow> same_outboxes db db'"
  by (auto simp: flush_deposit_def same_outboxes_def split: if_splits)

lemma faucet_same: "request_faucet env db user asset_id n k = Inr (r, db') \<Longrightarrow> same_outboxes db db'"
  by (auto simp: request_faucet_def faucet_dispatch_def faucet_simulate_def faucet_send_def limit_error_def Let_def
      split: if_splits option.splits prod.splits list.splits dest!: ledger_same flush_deposit_same)
    (meson same_outboxes_trans)+

lemma nft_transfer_same: "transfer_nft db sender to nft k = Inr (r, db') \<Longrightarrow> same_outboxes db db'"
  by (erule transfer_nft_cases) (simp_all add: same_outboxes_def update_holding_def)

lemma register_same:
  "register_user keys lib reg st db email password role = Inr (u, db') \<Longrightarrow> same_outboxes db db'"
  by (erule register_user_cases)
    (auto simp: flush_user_def flush_deposit_address_def same_outboxes_def Let_def split: if_splits)

lemma demo_users_same: "ensure_demo_users keys lib reg st db = Inr (n, db') \<Longrightarrow> same_outboxes db db'"
proof -
  assume e: "ensure_demo_users keys lib reg st db = Inr (n, db')"
  have step: "same_outboxes (snd s) (snd s')" if "ensure_demo_one keys lib reg st entry s = Inr s'" for entry s s'
    using that by (cases s) (auto simp: ensure_demo_one_def same_outboxes_def split: prod.splits option.splits
        dest!: register_same)
  have "same_outboxes (snd (0 :: nat, db)) (snd (n, db'))"
    by (rule loop_same [OF e [unfolded ensure_demo_users_def]]) (rule step)
  then show ?thesis by simp
qed

lemma lifespan_same: "same_outboxes db (lifespan env db)"
  by (auto simp: lifespan_def split: sum.splits dest: demo_users_same)

lemma seed_same: "seed_assets uuid5 reg db = Inr db' \<Longrightarrow> same_outboxes db db'"
proof -
  assume "seed_assets uuid5 reg db = Inr db'"
  then have l: "for_each upsert_asset (asset_rows uuid5 reg) db = Inr db'"
    by (auto simp: seed_assets_def Let_def split: if_splits)
  have step: "same_outboxes s s'" if "upsert_asset row s = Inr s'" for row s s'
    using that by (cases rule: upsert_asset_cases) (simp_all add: same_outboxes_def)
  show ?thesis using loop_same [OF l, where g = id] step by simp
qed

section \<open>Holdings\<close>

lemma put_holding_same: "put_holding u c k t s = Inr s' \<Longrightarrow> same_outboxes (fst s) (fst s')"
  by (cases s) (auto simp: put_holding_def same_outboxes_def update_holding_def split: option.splits)

lemma flush_holding_same: "flush_holding p db = Inr db' \<Longrightarrow> same_outboxes db db'"
  by (cases p) (auto simp: same_outboxes_def split: if_splits)

lemma flush_holdings_same: "flush_holdings ps db = Inr db' \<Longrightarrow> same_outboxes db db'"
proof -
  assume "flush_holdings ps db = Inr db'"
  then obtain qs where "for_each flush_holding qs db = Inr db'" unfolding flush_holdings_def by blast
  from loop_same [OF this, where g = id] flush_holding_same show ?thesis by simp
qed

section \<open>Deposit scans\<close>

lemma insert_deposit_same: "insert_if_new db d = Inr (b, db') \<Longrightarrow> same_outboxes db db'"
  by (auto simp: insert_if_new_def same_outboxes_def update_deposit_def split: option.splits if_splits)

lemma record_one_same: "record_one d s = Inr s' \<Longrightarrow> same_outboxes (fst s) (fst s')"
  by (cases s) (auto simp: record_one_def dest: insert_deposit_same)

lemma scan_erc20_same: "scan_erc20 client m owners a b s = Inr s' \<Longrightarrow> same_outboxes (fst s) (fst s')"
  unfolding scan_erc20_def
  by (auto split: if_splits elim!: loop_same [where g = fst])
    (auto simp: record_erc20_def split: option.splits dest: record_one_same)

lemma scan_native_same: "scan_native client m owners w h a b s = Inr s' \<Longrightarrow> same_outboxes (fst s) (fst s')"
  unfolding scan_native_def
  by (auto split: option.splits elim!: loop_same [where g = fst])
    (auto simp: record_native_def split: option.splits if_splits dest: record_one_same)

lemma record_deposits_same: "record_deposits db client a b w h = Inr (n, db') \<Longrightarrow> same_outboxes db db'"
  unfolding record_deposits_def Let_def
  by (auto split: if_splits prod.splits dest!: scan_erc20_same scan_native_same intro: same_outboxes_trans)

lemma credit_same: "credit_deposit du db = Inr db' \<Longrightarrow> same_outboxes db db'"
  "reverse_credit du db = Inr db' \<Longrightarrow> same_outboxes db db'"
  by (auto simp: credit_deposit_def reverse_credit_def Let_def split: prod.splits dest!: ledger_same)
    (meson same_outboxes_trans)+

lemma credit_one_same: "credit_one client d s = Inr s' \<Longrightarrow> same_outboxes (fst s) (fst s')"
  by (cases s) (auto simp: credit_one_def split: option.splits if_splits dest!: credit_same(1))

lemma confirm_and_credit_same: "confirm_and_credit db client k = Inr (n, db') \<Longrightarrow> same_outboxes db db'"
proof -
  assume "confirm_and_credit db client k = Inr (n, db')"
  then obtain head where l: "for_each (credit_one client)
      (confirmed_rows (mark_confirmed db (cl_chain_id client) (head - k)) (cl_chain_id client))
      (mark_confirmed db (cl_chain_id client) (head - k), 0) = Inr (db', n)"
    by (auto simp: confirm_and_credit_def Let_def split: prod.splits)
  have "same_outboxes db (mark_confirmed db (cl_chain_id client) (head - k))" by simp
  also have "same_outboxes \<dots> db'" using loop_same [OF l, where g = fst] credit_one_same by simp
  finally show ?thesis .
qed

lemma handle_reorgs_same: "handle_reorgs db client depth = Inr s \<Longrightarrow> same_outboxes db (ro_db s)"
proof -
  assume h: "handle_reorgs db client depth = Inr s"
  have step: "same_outboxes (ro_db s) (ro_db s')" if "reorg_one client d s = Inr s'" for d s s'
    using that by (auto simp: reorg_one_def Let_def split: if_splits option.splits dest!: credit_same(2))
  from h obtain rs where "for_each (reorg_one client) rs \<lparr>ro_db = db, ro_orphaned = 0, ro_lowest_block = None\<rparr> = Inr s"
    by (auto simp: handle_reorgs_def)
  from loop_same [OF this, where g = ro_db] step show ?thesis by simp
qed

lemma cursor_same:
  "advance_cursor db c head fin start = Inr (fb, db') \<Longrightarrow> same_outboxes db db'"
  by (auto simp: advance_cursor_def update_cursor_def same_outboxes_def split: option.splits)

lemma record_nfts_same: "record_nft_deposits reg db client a b = Inr (n, db') \<Longrightarrow> same_outboxes db db'"
proof -
  assume r: "record_nft_deposits reg db client a b = Inr (n, db')"
  have step: "same_outboxes (fst s) (fst s')" if "record_nft c owners t s = Inr s'" for c owners t s s'
    using that by (cases s) (auto simp: record_nft_def insert_nft_if_new_def same_outboxes_def update_nd_def
        split: option.splits if_splits)
  show ?thesis using r loop_same [where g = fst, OF _ step]
    by (fastforce simp: record_nft_deposits_def Let_def split: if_splits prod.splits)
qed

lemma credit_nfts_same: "confirm_and_credit_nfts db client k = Inr (n, db') \<Longrightarrow> same_outboxes db db'"
proof -
  assume "confirm_and_credit_nfts db client k = Inr (n, db')"
  then obtain head s where l: "for_each (credit_nft client)
      (confirmed_nfts (mark_nfts_confirmed db (cl_chain_id client) (head - k)) (cl_chain_id client))
      \<lparr>nc_db = mark_nfts_confirmed db (cl_chain_id client) (head - k), nc_added = [], nc_credited = 0\<rparr> = Inr s"
    and f: "flush_holdings (nc_added s) (nc_db s) = Inr db'"
    by (auto simp: confirm_and_credit_nfts_def Let_def)
  have step: "same_outboxes (nc_db s) (nc_db s')" if "credit_nft client d s = Inr s'" for d s s'
    using that by (auto simp: credit_nft_def upsert_holding_def split: option.splits if_splits prod.splits
        dest!: put_holding_same)
  have "same_outboxes db (mark_nfts_confirmed db (cl_chain_id client) (head - k))"
    by simp
  also have "same_outboxes \<dots> (nc_db s)" using loop_same [OF l, where g = nc_db] step by simp
  also have "same_outboxes \<dots> db'" by (rule flush_holdings_same [OF f])
  finally show ?thesis .
qed

lemma nft_reorgs_same: "handle_nft_reorgs db client depth = Inr (r, db') \<Longrightarrow> same_outboxes db db'"
proof -
  assume "handle_nft_reorgs db client depth = Inr (r, db')"
  then obtain rs s where l: "for_each (reorg_nft client) rs
      \<lparr>nr_db = db, nr_deleted = [], nr_orphaned = 0, nr_lowest_block = None\<rparr> = Inr s"
    and f: "flush_deleted (nr_deleted s) (nr_db s) = Inr db'"
    by (auto simp: handle_nft_reorgs_def)
  have step: "same_outboxes (nr_db s) (nr_db s')" if "reorg_nft client d s = Inr s'" for d s s'
    using that by (auto simp: reorg_nft_def Let_def split: if_splits)
  have "same_outboxes db (nr_db s)" using loop_same [OF l, where g = nr_db] step by simp
  also have "same_outboxes \<dots> db'" using f by (auto simp: flush_deleted_def same_outboxes_def split: if_splits)
  finally show ?thesis .
qed

lemma scans_same: "run_deposit_scans reg db client ctx scan_from = Inr (rep, db') \<Longrightarrow> same_outboxes db db'"
  by (auto simp: run_deposit_scans_def Let_def split: prod.splits dest!: cursor_same record_deposits_same
      record_nfts_same confirm_and_credit_same credit_nfts_same handle_reorgs_same nft_reorgs_same)
    (meson same_outboxes_trans)+

end
