(* ===== verification/System_Nonces.thy ===== *)
theory System_Nonces
  imports System_Frames Nft_Runs
begin

text \<open>
  No two transactions of the hot wallet share a nonce. Withdrawals, mints, NFT withdrawals and
  gas fundings draw nonces from one counter per chain; every step of the system keeps the
  bound nonces distinct and below the counter, however the four outboxes interleave.
\<close>

section \<open>Updates that keep the entries\<close>

definition same_entries :: "db \<Rightarrow> db \<Rightarrow> bool" where
  "same_entries db db' \<longleftrightarrow> hot_entries db' = hot_entries db \<and> next_nonce_of db' = next_nonce_of db \<and>
     next_uuid db \<le> next_uuid db'"

lemma same_entries_quiet: "same_entries db db' \<Longrightarrow> quiet db db'"
  using keys_ok_cong [of db' db] unfolding same_entries_def quiet_def by auto

lemma same_entries_refl [simp, intro]: "same_entries db db"
  by (simp add: same_entries_def)



lemma map_upd_row_same: "(\<And>x. g (f x) = g x) \<Longrightarrow> map g (upd_row k i f xs) = map g xs"
  by (auto simp: upd_row_def)

lemma entries_update:
  "(\<And>w. wd_entry (f1 w) = wd_entry w) \<Longrightarrow> same_entries a (update_withdrawal i f1 b) = same_entries a b"
  "(\<And>w. mi_entry (f2 w) = mi_entry w) \<Longrightarrow> same_entries a (update_mint i f2 b) = same_entries a b"
  "(\<And>w. nw_entry (f3 w) = nw_entry w) \<Longrightarrow> same_entries a (update_nw i f3 b) = same_entries a b"
  "(\<And>w. sw_entry (f4 w) = sw_entry w) \<Longrightarrow> same_entries a (update_sweep i f4 b) = same_entries a b"
  "same_entries a (update_holding i f5 b) = same_entries a b"
  by (simp_all add: same_entries_def hot_entries_def next_nonce_of_def fun_eq_iff update_withdrawal_def
      update_mint_def update_nw_def update_sweep_def update_holding_def map_upd_row_same)

lemma entries_sets [simp]:
  "same_entries a (set_unmined m r b) = same_entries a b"
  "same_entries a (set_mint_unmined m r1 b) = same_entries a b"
  "same_entries a (set_nw_unmined m r2 b) = same_entries a b"
  "same_entries a (set_sweep_unmined m r3 b) = same_entries a b"
  "same_entries a (fail_mint r1 e b) = same_entries a b"
  "same_entries a (fail_and_release r2 e b) = same_entries a b"
  "same_entries a (fail_sweep r3 e b) = same_entries a b"
  "same_entries a (mark_withdrawn r2 b) = same_entries a b"
  by (simp_all add: set_unmined_def set_mint_unmined_def set_nw_unmined_def set_sweep_unmined_def fail_mint_def
      fail_and_release_def fail_sweep_def mark_withdrawn_def set_holding_status_def entries_update
      wd_entry_def mi_entry_def nw_entry_def sw_entry_def)



section \<open>New rows\<close>


lemmas same_quiet = same_outboxes_quiet same_entries_quiet







section \<open>The API\<close>









section \<open>Passes that sign nothing\<close>

















section \<open>Discovering sweeps\<close>






section \<open>Passes that sign\<close>


















definition kept_entries :: "db \<Rightarrow> db \<Rightarrow> bool" where
  "kept_entries db db' \<longleftrightarrow>
     (\<forall>o1 c n. (o1, c, n) \<in> set (hot_entries db) \<longrightarrow> (\<exists>m. (o1, c, m) \<in> set (hot_entries db')))"

lemma kept_entries_refl [simp]: "kept_entries db db"
  by (auto simp: kept_entries_def)










section \<open>Every step\<close>













end
