(* ===== verification/System_Books.thy ===== *)
theory System_Books
  imports System_Nonces Withdrawal_Facts Deposit_Facts
begin

text \<open>
  The books of the whole system: the ledger stays well formed, matches the withdrawals and
  matches the deposits in every reachable state. Operations of one component leave what the
  other components' invariants speak of alone, or move it by a ledger step on other accounts.
\<close>

section \<open>Operations outside the books\<close>

definition same_books :: "db \<Rightarrow> db \<Rightarrow> bool" where
  "same_books db db' \<longleftrightarrow> ledger_accounts db' = ledger_accounts db \<and>
     ledger_transactions db' = ledger_transactions db \<and> ledger_entries db' = ledger_entries db \<and>
     withdrawal_requests db' = withdrawal_requests db \<and> onchain_deposits db' = onchain_deposits db \<and>
     next_uuid db \<le> next_uuid db'"

lemma same_books_refl [simp, intro]: "same_books db db"
  by (simp add: same_books_def)




lemma same_books_updates [simp]:
  "same_books a (update_mint i f1 b) = same_books a b"
  "same_books a (update_nw i f2 b) = same_books a b"
  "same_books a (update_sweep i f3 b) = same_books a b"
  "same_books a (update_nd i f4 b) = same_books a b"
  "same_books a (mark_nfts_confirmed b c t) = same_books a b"
  "same_books a (update_holding i f5 b) = same_books a b"
  "same_books a (rewind_cursor b c l) = same_books a b"
  "same_books a (set_next_nonce c n b) = same_books a b"
  "same_books a (set_mint_unmined m r b) = same_books a b"
  "same_books a (set_nw_unmined m r2 b) = same_books a b"
  "same_books a (set_sweep_unmined m r3 b) = same_books a b"
  "same_books a (fail_mint r e b) = same_books a b"
  "same_books a (fail_and_release r2 e b) = same_books a b"
  "same_books a (fail_sweep r3 e b) = same_books a b"
  "same_books a (mark_withdrawn r2 b) = same_books a b"
  by (auto simp: same_books_def update_mint_def update_nw_def update_sweep_def update_nd_def mark_nfts_confirmed_def
      update_holding_def rewind_cursor_def update_cursor_def set_next_nonce_def set_mint_unmined_def
      set_nw_unmined_def set_sweep_unmined_def fail_mint_def fail_and_release_def fail_sweep_def mark_withdrawn_def
      set_holding_status_def split: option.splits)



section \<open>Accounts, assets and holdings\<close>










section \<open>The outboxes of the NFTs\<close>










section \<open>Sweeps\<close>





section \<open>NFT deposits\<close>




section \<open>Ledger steps of other components\<close>



lemma keys_apart [simp]:
  "\<not> deposit_key (settle_key i)" "\<not> deposit_key (reverse_key i)" "\<not> deposit_key (withdraw_key u k)"
  "\<not> deposit_key (transfer_key u k)" "\<not> settlement_key (credit_key i r)" "\<not> settlement_key (uncredit_key i r)"
  by (simp_all add: deposit_key_def settlement_key_def settle_key_def reverse_key_def withdraw_key_def
      transfer_key_def credit_key_def uncredit_key_def scoped_idempotency_key_def startswith_def)

lemma accounts_apart [simp]:
  "in_transit_key a \<noteq> reserved_key b" "in_transit_key a \<noteq> settled_key b"
  "reserved_key b \<noteq> in_transit_key a" "settled_key b \<noteq> in_transit_key a"
  "wallet_key u a \<noteq> reserved_key b" "wallet_key u a \<noteq> settled_key b"
  "reserved_key b \<noteq> wallet_key u a" "settled_key b \<noteq> wallet_key u a"
  by (auto simp: in_transit_key_def reserved_key_def settled_key_def wallet_key_def system_key_def
      DEPOSITS_IN_TRANSIT_ACCOUNT_def WITHDRAWALS_RESERVED_ACCOUNT_def WITHDRAWALS_SETTLED_ACCOUNT_def)

text \<open>Tables beside the ledger that one invariant speaks of and the other does not.\<close>

lemma withdrawal_rows_deposits_ok [simp]:
  "deposits_ok (update_withdrawal i f db) = deposits_ok db"
  "deposits_ok (set_unmined m r db) = deposits_ok db"
proof -
  have step: "deposits_ok a \<Longrightarrow> deposits_ok b" if "ledger_accounts b = ledger_accounts a"
    "ledger_transactions b = ledger_transactions a" "ledger_entries b = ledger_entries a"
    "next_uuid b = next_uuid a" "onchain_deposits b = onchain_deposits a" for a b
    using ledger_frame [OF that(1-3)] that(4,5) deposits_ok_frame [of a b] deposits_ok_D(1) [of a] by simp
  show "deposits_ok (update_withdrawal i f db) = deposits_ok db" for i f
    using step [of db "update_withdrawal i f db"] step [of "update_withdrawal i f db" db]
    by (auto simp: update_withdrawal_def)
  then show "deposits_ok (set_unmined m r db) = deposits_ok db" by (simp add: set_unmined_def)
qed

lemma deposit_rows_withdrawals_ok [simp]:
  "withdrawals_ok (update_deposit i f db) = withdrawals_ok db"
  "withdrawals_ok (mark_confirmed db c t) = withdrawals_ok db"
proof -
  have step: "withdrawals_ok a \<Longrightarrow> withdrawals_ok b" if "ledger_accounts b = ledger_accounts a"
    "ledger_transactions b = ledger_transactions a" "ledger_entries b = ledger_entries a"
    "next_uuid b = next_uuid a" "withdrawal_requests b = withdrawal_requests a" for a b
    using ledger_frame [OF that(1-3)] that(4,5) withdrawals_ok_frame [of a b] by (simp add: withdrawals_ok_def)
  show "withdrawals_ok (update_deposit i f db) = withdrawals_ok db"
    using step [of db "update_deposit i f db"] step [of "update_deposit i f db" db]
    by (auto simp: update_deposit_def)
  show "withdrawals_ok (mark_confirmed db c t) = withdrawals_ok db"
    using step [of db "mark_confirmed db c t"] step [of "mark_confirmed db c t" db]
    by (auto simp: mark_confirmed_def)
qed




section \<open>Requests\<close>








section \<open>The withdrawal outbox\<close>






section \<open>The deposit scan\<close>










section \<open>Every step\<close>











end
