(* ===== verification/Schema.thy ===== *)
theory Schema
  imports Registry
begin

text \<open>
  The database schema: what the migrations of \<open>alembic/versions\<close> build, one list of operations
  per \<open>upgrade\<close> and \<open>downgrade\<close>, and what the mapped classes of \<open>app/models/tables.py\<close> declare.
  Alembic's \<open>op\<close> functions are operations on a schema that fail where PostgreSQL refuses them;
  the order of the columns and constraints of a table has no meaning to the database.
  \<open>sa.func.now()\<close> as a server default is written \<open>now()\<close>.
\<close>

section \<open>Schemas\<close>

datatype sql_type = SqlUuid | SqlText | SqlCitext | SqlInteger | SqlBigInteger | SqlNumeric nat nat | SqlTimestamp

record column_def =
  co_name :: string
  co_type :: sql_type
  co_nullable :: bool
  co_server_default :: "string option"

text \<open>The check constraints: a list of values, or a bound on an amount.\<close>

datatype check = OneOf string "string list" | Positive string | NonNegative string

datatype key_part = Col string | LowerCol string | UpperCol string

text \<open>\<open>postgresql_where\<close>: none, \<open>c IS NULL\<close>, or \<open>c IS NOT NULL AND lower(c) <> zero address\<close>.\<close>

datatype index_where = Always | WhereNull string | WhereNonzero string

text \<open>A constraint without a name is one that PostgreSQL names.\<close>

datatype constraint =
    Check string check
  | PrimaryKey "string list"
  | ForeignKey string string string
  | Unique string "string list"

record table_def =
  tb_name :: string
  tb_columns :: "column_def set"
  tb_constraints :: "constraint set"

record index_def =
  ix_name :: string
  ix_table :: string
  ix_parts :: "key_part list"
  ix_unique :: bool
  ix_where :: index_where

record schema =
  sc_extensions :: "string set"
  sc_tables :: "table_def list"
  sc_indexes :: "index_def list"

definition empty_schema :: schema where
  "empty_schema = \<lparr>sc_extensions = {}, sc_tables = [], sc_indexes = []\<rparr>"

definition column :: "string \<Rightarrow> sql_type \<Rightarrow> bool \<Rightarrow> string option \<Rightarrow> column_def" where
  "column n t nullable server_default =
     \<lparr>co_name = n, co_type = t, co_nullable = nullable, co_server_default = server_default\<rparr>"

definition table :: "string \<Rightarrow> column_def list \<Rightarrow> constraint list \<Rightarrow> table_def" where
  "table n cols items = \<lparr>tb_name = n, tb_columns = set cols, tb_constraints = set items\<rparr>"

definition index :: "string \<Rightarrow> string \<Rightarrow> key_part list \<Rightarrow> bool \<Rightarrow> index_where \<Rightarrow> index_def" where
  "index n t parts unique cond =
     \<lparr>ix_name = n, ix_table = t, ix_parts = parts, ix_unique = unique, ix_where = cond\<rparr>"

fun constraint_name :: "constraint \<Rightarrow> string option" where
  "constraint_name (Check n c) = Some n"
| "constraint_name (Unique n cs) = Some n"
| "constraint_name _ = None"

fun refers_to :: "constraint \<Rightarrow> string option" where
  "refers_to (ForeignKey c t r) = Some t"
| "refers_to _ = None"

fun key_column :: "key_part \<Rightarrow> string" where
  "key_column (Col c) = c"
| "key_column (LowerCol c) = c"
| "key_column (UpperCol c) = c"

fun check_column :: "check \<Rightarrow> string" where
  "check_column (OneOf c vs) = c"
| "check_column (Positive c) = c"
| "check_column (NonNegative c) = c"

fun constraint_columns :: "constraint \<Rightarrow> string list" where
  "constraint_columns (Check n c) = [check_column c]"
| "constraint_columns (PrimaryKey cs) = cs"
| "constraint_columns (ForeignKey c t r) = [c]"
| "constraint_columns (Unique n cs) = cs"

definition find_table :: "schema \<Rightarrow> string \<Rightarrow> table_def option" where
  "find_table s n = find (\<lambda>t. tb_name t = n) (sc_tables s)"

definition column_names :: "table_def \<Rightarrow> string set" where
  "column_names t = co_name ` tb_columns t"

definition update_table :: "string \<Rightarrow> (table_def \<Rightarrow> table_def) \<Rightarrow> schema \<Rightarrow> schema" where
  "update_table n f s = s\<lparr>sc_tables := map (\<lambda>t. if tb_name t = n then f t else t) (sc_tables s)\<rparr>"

section \<open>Operations\<close>

datatype schema_op =
    CreateExtension string
  | CreateTable string "column_def list" "constraint list"
  | DropTable string
  | AddColumn string column_def
  | DropColumn string string
  | CreateIndex index_def
  | DropIndex string string
  | AddUnique string string "string list"
  | DropConstraint string string

definition programming_error :: "error + schema" where
  "programming_error = Inl (OtherError ''ProgrammingError'')"

text \<open>
  Dropping a table drops its indexes and is refused while another table refers to it; dropping a
  column drops the constraints and indexes it is part of.
\<close>

fun apply_op :: "schema_op \<Rightarrow> schema \<Rightarrow> error + schema" where
  "apply_op (CreateExtension n) s = Inr (s\<lparr>sc_extensions := insert n (sc_extensions s)\<rparr>)"
| "apply_op (CreateTable n cols items) s =
     (if find_table s n \<noteq> None
         \<or> (\<exists>i \<in> set items. \<exists>c \<in> set (constraint_columns i). c \<notin> co_name ` set cols)
         \<or> (\<exists>i \<in> set items. case refers_to i of None \<Rightarrow> False | Some t \<Rightarrow> t \<noteq> n \<and> find_table s t = None)
      then programming_error
      else Inr (s\<lparr>sc_tables := sc_tables s @ [table n cols items]\<rparr>))"
| "apply_op (DropTable n) s =
     (if find_table s n = None
         \<or> (\<exists>t \<in> set (sc_tables s). tb_name t \<noteq> n \<and> (\<exists>i \<in> tb_constraints t. refers_to i = Some n))
      then programming_error
      else Inr (s\<lparr>sc_tables := filter (\<lambda>t. tb_name t \<noteq> n) (sc_tables s),
                  sc_indexes := filter (\<lambda>i. ix_table i \<noteq> n) (sc_indexes s)\<rparr>))"
| "apply_op (AddColumn n c) s =
     (case find_table s n of
        None \<Rightarrow> programming_error
      | Some t \<Rightarrow>
          if co_name c \<in> column_names t then programming_error
          else Inr (update_table n (\<lambda>t. t\<lparr>tb_columns := insert c (tb_columns t)\<rparr>) s))"
| "apply_op (DropColumn n c) s =
     (case find_table s n of
        None \<Rightarrow> programming_error
      | Some t \<Rightarrow>
          if c \<notin> column_names t then programming_error
          else Inr ((update_table n (\<lambda>t. t\<lparr>tb_columns := {x \<in> tb_columns t. co_name x \<noteq> c},
                  tb_constraints := {i \<in> tb_constraints t. c \<notin> set (constraint_columns i)}\<rparr>) s)
                \<lparr>sc_indexes := filter (\<lambda>i. ix_table i \<noteq> n \<or> c \<notin> key_column ` set (ix_parts i)) (sc_indexes s)\<rparr>))"
| "apply_op (CreateIndex i) s =
     (case find_table s (ix_table i) of
        None \<Rightarrow> programming_error
      | Some t \<Rightarrow>
          if ix_name i \<in> ix_name ` set (sc_indexes s) \<or> \<not> key_column ` set (ix_parts i) \<subseteq> column_names t
          then programming_error
          else Inr (s\<lparr>sc_indexes := sc_indexes s @ [i]\<rparr>))"
| "apply_op (DropIndex n t) s =
     (if n \<notin> ix_name ` set (sc_indexes s) then programming_error
      else Inr (s\<lparr>sc_indexes := filter (\<lambda>i. ix_name i \<noteq> n) (sc_indexes s)\<rparr>))"
| "apply_op (AddUnique n u cols) s =
     (case find_table s n of
        None \<Rightarrow> programming_error
      | Some t \<Rightarrow>
          if (\<exists>i \<in> tb_constraints t. constraint_name i = Some u) \<or> \<not> set cols \<subseteq> column_names t
          then programming_error
          else Inr (update_table n (\<lambda>t. t\<lparr>tb_constraints := insert (Unique u cols) (tb_constraints t)\<rparr>) s))"
| "apply_op (DropConstraint n u) s =
     (case find_table s n of
        None \<Rightarrow> programming_error
      | Some t \<Rightarrow>
          if \<forall>i \<in> tb_constraints t. constraint_name i \<noteq> Some u then programming_error
          else Inr (update_table n (\<lambda>t. t\<lparr>tb_constraints := {i \<in> tb_constraints t. constraint_name i \<noteq> Some u}\<rparr>) s))"

definition migrate :: "schema_op list \<Rightarrow> schema \<Rightarrow> error + schema" where
  "migrate ops s = for_each apply_op ops s"

section \<open>The migrations\<close>

definition upgrade_0001_ledger :: "schema_op list" where
  "upgrade_0001_ledger =
    [CreateExtension ''citext'',
     CreateTable ''users''
      [column ''id'' SqlUuid False None,
       column ''email'' SqlCitext False None,
       column ''password_hash'' SqlText False None,
       column ''role'' SqlText False None,
       column ''hd_index'' SqlBigInteger False None,
       column ''created_at'' SqlTimestamp False (Some ''now()'')]
      [Check ''ck_users_role'' (OneOf ''role'' [''user'', ''admin'']),
       PrimaryKey [''id''],
       Unique ''uq_users_email'' [''email''],
       Unique ''uq_users_hd_index'' [''hd_index'']],
     CreateTable ''assets''
      [column ''id'' SqlUuid False None,
       column ''chain_id'' SqlInteger False None,
       column ''symbol'' SqlText False None,
       column ''type'' SqlText False None,
       column ''contract_address'' SqlText True None,
       column ''decimals'' SqlInteger False None]
      [Check ''ck_assets_type'' (OneOf ''type'' [''native'', ''erc20'', ''erc721'']),
       PrimaryKey [''id''],
       Unique ''uq_assets_chain_symbol'' [''chain_id'', ''symbol'']],
     CreateIndex (index ''uq_assets_chain_symbol_upper'' ''assets'' [Col ''chain_id'', UpperCol ''symbol''] True Always),
     CreateIndex (index ''uq_assets_chain_contract_lower'' ''assets'' [Col ''chain_id'', LowerCol ''contract_address''] True (WhereNonzero ''contract_address'')),
     CreateTable ''deposit_addresses''
      [column ''id'' SqlUuid False None,
       column ''user_id'' SqlUuid False None,
       column ''address'' SqlText False None,
       column ''derivation_path'' SqlText False None]
      [ForeignKey ''user_id'' ''users'' ''id'',
       PrimaryKey [''id''],
       Unique ''uq_deposit_addresses_address'' [''address''],
       Unique ''uq_deposit_addresses_user_id'' [''user_id'']],
     CreateTable ''ledger_accounts''
      [column ''id'' SqlUuid False None,
       column ''owner_type'' SqlText False None,
       column ''user_id'' SqlUuid True None,
       column ''asset_id'' SqlUuid False None,
       column ''name'' SqlText False None]
      [Check ''ck_ledger_accounts_owner_type'' (OneOf ''owner_type'' [''user'', ''system'']),
       ForeignKey ''asset_id'' ''assets'' ''id'',
       ForeignKey ''user_id'' ''users'' ''id'',
       PrimaryKey [''id''],
       Unique ''uq_ledger_accounts_owner_user_asset_name'' [''owner_type'', ''user_id'', ''asset_id'', ''name'']],
     CreateTable ''ledger_transactions''
      [column ''id'' SqlUuid False None,
       column ''type'' SqlText False None,
       column ''ref_type'' SqlText False None,
       column ''ref_id'' SqlText False None,
       column ''idempotency_key'' SqlText False None,
       column ''created_at'' SqlTimestamp False (Some ''now()'')]
      [PrimaryKey [''id''],
       Unique ''uq_ledger_transactions_idempotency_key'' [''idempotency_key'']],
     CreateTable ''ledger_entries''
      [column ''id'' SqlUuid False None,
       column ''transaction_id'' SqlUuid False None,
       column ''account_id'' SqlUuid False None,
       column ''asset_id'' SqlUuid False None,
       column ''amount'' (SqlNumeric 78 0) False None,
       column ''created_at'' SqlTimestamp False (Some ''now()'')]
      [ForeignKey ''account_id'' ''ledger_accounts'' ''id'',
       ForeignKey ''asset_id'' ''assets'' ''id'',
       ForeignKey ''transaction_id'' ''ledger_transactions'' ''id'',
       PrimaryKey [''id'']]]"

definition upgrade_0001_chain :: "schema_op list" where
  "upgrade_0001_chain =
    [CreateTable ''onchain_deposits''
      [column ''id'' SqlUuid False None,
       column ''chain_id'' SqlInteger False None,
       column ''tx_hash'' SqlText False None,
       column ''log_index'' SqlInteger True None,
       column ''block_number'' SqlBigInteger False None,
       column ''block_hash'' SqlText False None,
       column ''to_address'' SqlText False None,
       column ''asset_id'' SqlUuid False None,
       column ''amount'' (SqlNumeric 78 0) False None,
       column ''status'' SqlText False None,
       column ''user_id'' SqlUuid True None,
       column ''created_at'' SqlTimestamp False (Some ''now()'')]
      [Check ''ck_onchain_deposits_amount_nonnegative'' (NonNegative ''amount''),
       Check ''ck_onchain_deposits_status'' (OneOf ''status'' [''seen'', ''confirmed'', ''credited'', ''orphaned'']),
       ForeignKey ''asset_id'' ''assets'' ''id'',
       ForeignKey ''user_id'' ''users'' ''id'',
       PrimaryKey [''id''],
       Unique ''uq_onchain_deposits_chain_tx_log'' [''chain_id'', ''tx_hash'', ''log_index'']],
     CreateTable ''withdrawal_requests''
      [column ''id'' SqlUuid False None,
       column ''user_id'' SqlUuid False None,
       column ''asset_id'' SqlUuid False None,
       column ''chain_id'' SqlInteger False None,
       column ''to_address'' SqlText False None,
       column ''amount'' (SqlNumeric 78 0) False None,
       column ''status'' SqlText False None,
       column ''tx_hash'' SqlText True None,
       column ''nonce'' SqlBigInteger True None,
       column ''attempts'' SqlInteger False (Some ''0''),
       column ''error'' SqlText True None,
       column ''created_at'' SqlTimestamp False (Some ''now()'')]
      [Check ''ck_withdrawal_requests_amount_positive'' (Positive ''amount''),
       Check ''ck_withdrawal_requests_status'' (OneOf ''status'' [''requested'', ''approved'', ''signing'', ''broadcast'', ''confirmed'', ''failed'', ''rejected'']),
       ForeignKey ''asset_id'' ''assets'' ''id'',
       ForeignKey ''user_id'' ''users'' ''id'',
       PrimaryKey [''id'']],
     CreateTable ''chain_cursors''
      [column ''chain_id'' SqlInteger False None,
       column ''last_scanned_block'' SqlBigInteger False None,
       column ''last_finalized_block'' SqlBigInteger False None,
       column ''updated_at'' SqlTimestamp False (Some ''now()'')]
      [PrimaryKey [''chain_id'']],
     CreateTable ''hot_wallet_nonces''
      [column ''chain_id'' SqlInteger False None,
       column ''address'' SqlText False None,
       column ''next_nonce'' SqlBigInteger False None,
       column ''updated_at'' SqlTimestamp False (Some ''now()'')]
      [PrimaryKey [''chain_id'']]]"

definition downgrade_0001 :: "schema_op list" where
  "downgrade_0001 =
    [DropTable ''hot_wallet_nonces'',
     DropTable ''chain_cursors'',
     DropTable ''withdrawal_requests'',
     DropTable ''onchain_deposits'',
     DropTable ''ledger_entries'',
     DropTable ''ledger_transactions'',
     DropTable ''ledger_accounts'',
     DropTable ''deposit_addresses'',
     DropIndex ''uq_assets_chain_contract_lower'' ''assets'',
     DropIndex ''uq_assets_chain_symbol_upper'' ''assets'',
     DropTable ''assets'',
     DropTable ''users'']"

definition upgrade_0003 :: "schema_op list" where
  "upgrade_0003 =
    [AddColumn ''onchain_deposits'' (column ''credit_revision'' SqlInteger False (Some ''0''))]"

definition downgrade_0003 :: "schema_op list" where
  "downgrade_0003 =
    [DropColumn ''onchain_deposits'' ''credit_revision'']"

definition upgrade_0004 :: "schema_op list" where
  "upgrade_0004 =
    [CreateIndex (index ''uq_ledger_accounts_system_owner_asset_name'' ''ledger_accounts'' [Col ''owner_type'', Col ''asset_id'', Col ''name''] True (WhereNull ''user_id''))]"

definition downgrade_0004 :: "schema_op list" where
  "downgrade_0004 =
    [DropIndex ''uq_ledger_accounts_system_owner_asset_name'' ''ledger_accounts'']"

definition upgrade_0005 :: "schema_op list" where
  "upgrade_0005 =
    [DropConstraint ''deposit_addresses'' ''uq_deposit_addresses_address'',
     CreateIndex (index ''uq_deposit_addresses_address_lower'' ''deposit_addresses'' [LowerCol ''address''] True Always)]"

definition downgrade_0005 :: "schema_op list" where
  "downgrade_0005 =
    [DropIndex ''uq_deposit_addresses_address_lower'' ''deposit_addresses'',
     AddUnique ''deposit_addresses'' ''uq_deposit_addresses_address'' [''address'']]"

definition upgrade_0006 :: "schema_op list" where
  "upgrade_0006 =
    [AddColumn ''withdrawal_requests'' (column ''signed_tx'' SqlText True None)]"

definition downgrade_0006 :: "schema_op list" where
  "downgrade_0006 =
    [DropColumn ''withdrawal_requests'' ''signed_tx'']"

definition upgrade_0007 :: "schema_op list" where
  "upgrade_0007 =
    [CreateTable ''nft_holdings''
      [column ''id'' SqlUuid False None,
       column ''user_id'' SqlUuid False None,
       column ''chain_id'' SqlInteger False None,
       column ''contract'' SqlText False None,
       column ''token_id'' SqlText False None,
       column ''status'' SqlText False None,
       column ''acquired_at'' SqlTimestamp False (Some ''now()'')]
      [Check ''ck_nft_holdings_status'' (OneOf ''status'' [''held'', ''withdrawing'', ''withdrawn'']),
       ForeignKey ''user_id'' ''users'' ''id'',
       PrimaryKey [''id'']],
     CreateIndex (index ''uq_nft_holdings_chain_contract_token'' ''nft_holdings'' [Col ''chain_id'', LowerCol ''contract'', Col ''token_id''] True Always),
     CreateTable ''nft_transfers''
      [column ''id'' SqlUuid False None,
       column ''nft_holding_id'' SqlUuid False None,
       column ''sender_user_id'' SqlUuid False None,
       column ''recipient_user_id'' SqlUuid False None,
       column ''status'' SqlText False None,
       column ''idempotency_key'' SqlText False None,
       column ''created_at'' SqlTimestamp False (Some ''now()'')]
      [Check ''ck_nft_transfers_status'' (OneOf ''status'' [''pending'', ''submitted'', ''confirmed'', ''failed'']),
       ForeignKey ''nft_holding_id'' ''nft_holdings'' ''id'',
       ForeignKey ''recipient_user_id'' ''users'' ''id'',
       ForeignKey ''sender_user_id'' ''users'' ''id'',
       PrimaryKey [''id''],
       Unique ''uq_nft_transfers_idempotency_key'' [''idempotency_key'']]]"

definition downgrade_0007 :: "schema_op list" where
  "downgrade_0007 =
    [DropTable ''nft_transfers'',
     DropIndex ''uq_nft_holdings_chain_contract_token'' ''nft_holdings'',
     DropTable ''nft_holdings'']"

definition upgrade_0008 :: "schema_op list" where
  "upgrade_0008 =
    [CreateTable ''nft_mint_requests''
      [column ''id'' SqlUuid False None,
       column ''user_id'' SqlUuid False None,
       column ''chain_id'' SqlInteger False None,
       column ''contract'' SqlText False None,
       column ''to_address'' SqlText False None,
       column ''status'' SqlText False None,
       column ''nonce'' SqlBigInteger True None,
       column ''signed_tx'' SqlText True None,
       column ''tx_hash'' SqlText True None,
       column ''token_id'' SqlText True None,
       column ''error'' SqlText True None,
       column ''attempts'' SqlInteger False (Some ''0''),
       column ''created_at'' SqlTimestamp False (Some ''now()'')]
      [Check ''ck_nft_mint_requests_status'' (OneOf ''status'' [''requested'', ''signing'', ''broadcast'', ''confirmed'', ''failed'']),
       ForeignKey ''user_id'' ''users'' ''id'',
       PrimaryKey [''id'']]]"

definition downgrade_0008 :: "schema_op list" where
  "downgrade_0008 =
    [DropTable ''nft_mint_requests'']"

definition upgrade_0009 :: "schema_op list" where
  "upgrade_0009 =
    [CreateTable ''nft_deposits''
      [column ''id'' SqlUuid False None,
       column ''user_id'' SqlUuid True None,
       column ''chain_id'' SqlInteger False None,
       column ''contract'' SqlText False None,
       column ''token_id'' SqlText False None,
       column ''from_address'' SqlText False None,
       column ''to_address'' SqlText False None,
       column ''tx_hash'' SqlText False None,
       column ''log_index'' SqlInteger True None,
       column ''block_number'' SqlBigInteger False None,
       column ''block_hash'' SqlText False None,
       column ''status'' SqlText False None,
       column ''credit_revision'' SqlInteger False (Some ''0''),
       column ''created_at'' SqlTimestamp False (Some ''now()'')]
      [Check ''ck_nft_deposits_status'' (OneOf ''status'' [''seen'', ''confirmed'', ''credited'', ''orphaned'']),
       ForeignKey ''user_id'' ''users'' ''id'',
       PrimaryKey [''id''],
       Unique ''uq_nft_deposits_chain_tx_log'' [''chain_id'', ''tx_hash'', ''log_index'']]]"

definition downgrade_0009 :: "schema_op list" where
  "downgrade_0009 =
    [DropTable ''nft_deposits'']"

definition upgrade_0010 :: "schema_op list" where
  "upgrade_0010 =
    [CreateTable ''nft_withdrawal_requests''
      [column ''id'' SqlUuid False None,
       column ''user_id'' SqlUuid False None,
       column ''nft_holding_id'' SqlUuid False None,
       column ''chain_id'' SqlInteger False None,
       column ''contract'' SqlText False None,
       column ''token_id'' SqlText False None,
       column ''to_address'' SqlText False None,
       column ''status'' SqlText False None,
       column ''nonce'' SqlBigInteger True None,
       column ''signed_tx'' SqlText True None,
       column ''tx_hash'' SqlText True None,
       column ''error'' SqlText True None,
       column ''attempts'' SqlInteger False (Some ''0''),
       column ''idempotency_key'' SqlText True None,
       column ''created_at'' SqlTimestamp False (Some ''now()'')]
      [Check ''ck_nft_withdrawal_requests_status'' (OneOf ''status'' [''requested'', ''approved'', ''signing'', ''broadcast'', ''confirmed'', ''failed'']),
       ForeignKey ''nft_holding_id'' ''nft_holdings'' ''id'',
       ForeignKey ''user_id'' ''users'' ''id'',
       PrimaryKey [''id''],
       Unique ''uq_nft_withdrawal_requests_idempotency_key'' [''idempotency_key'']]]"

definition downgrade_0010 :: "schema_op list" where
  "downgrade_0010 =
    [DropTable ''nft_withdrawal_requests'']"

definition upgrade_0011 :: "schema_op list" where
  "upgrade_0011 =
    [CreateTable ''rate_limit_events''
      [column ''id'' SqlUuid False None,
       column ''scope_key'' SqlText False None,
       column ''action'' SqlText False None,
       column ''created_at'' SqlTimestamp False (Some ''now()'')]
      [PrimaryKey [''id'']],
     CreateIndex (index ''ix_rate_limit_events_action_scope_created_at'' ''rate_limit_events'' [Col ''action'', Col ''scope_key'', Col ''created_at''] False Always)]"

definition downgrade_0011 :: "schema_op list" where
  "downgrade_0011 =
    [DropIndex ''ix_rate_limit_events_action_scope_created_at'' ''rate_limit_events'',
     DropTable ''rate_limit_events'']"

definition upgrade_0012 :: "schema_op list" where
  "upgrade_0012 =
    [AddColumn ''withdrawal_requests'' (column ''unmined_since_block'' SqlBigInteger True None),
     AddColumn ''nft_withdrawal_requests'' (column ''unmined_since_block'' SqlBigInteger True None)]"

definition downgrade_0012 :: "schema_op list" where
  "downgrade_0012 =
    [DropColumn ''nft_withdrawal_requests'' ''unmined_since_block'',
     DropColumn ''withdrawal_requests'' ''unmined_since_block'']"

definition upgrade_0013 :: "schema_op list" where
  "upgrade_0013 =
    [AddColumn ''nft_mint_requests'' (column ''unmined_since_block'' SqlBigInteger True None)]"

definition downgrade_0013 :: "schema_op list" where
  "downgrade_0013 =
    [DropColumn ''nft_mint_requests'' ''unmined_since_block'']"

definition upgrade_0014 :: "schema_op list" where
  "upgrade_0014 =
    [CreateTable ''nft_sweeps''
      [column ''id'' SqlUuid False None,
       column ''chain_id'' SqlInteger False None,
       column ''contract'' SqlText False None,
       column ''token_id'' SqlText False None,
       column ''deposit_address'' SqlText False None,
       column ''hd_index'' SqlInteger False None,
       column ''nft_deposit_id'' SqlUuid False None,
       column ''status'' SqlText False None,
       column ''gas_fund_tx_hash'' SqlText True None,
       column ''gas_fund_nonce'' SqlBigInteger True None,
       column ''sweep_signed_tx'' SqlText True None,
       column ''sweep_tx_hash'' SqlText True None,
       column ''sweep_nonce'' SqlBigInteger True None,
       column ''unmined_since_block'' SqlBigInteger True None,
       column ''attempts'' SqlInteger False (Some ''0''),
       column ''error'' SqlText True None,
       column ''created_at'' SqlTimestamp False (Some ''now()'')]
      [Check ''ck_nft_sweeps_status'' (OneOf ''status'' [''pending'', ''funding'', ''funded'', ''sweeping'', ''swept'', ''failed'']),
       ForeignKey ''nft_deposit_id'' ''nft_deposits'' ''id'',
       PrimaryKey [''id'']],
     CreateIndex (index ''uq_nft_sweeps_chain_contract_token'' ''nft_sweeps'' [Col ''chain_id'', LowerCol ''contract'', Col ''token_id''] True Always)]"

definition downgrade_0014 :: "schema_op list" where
  "downgrade_0014 =
    [DropIndex ''uq_nft_sweeps_chain_contract_token'' ''nft_sweeps'',
     DropTable ''nft_sweeps'']"

text \<open>The revisions in the order of \<open>down_revision\<close>; 0002 writes rows and changes no schema.\<close>

definition revisions :: "(string \<times> schema_op list \<times> schema_op list) list" where
  "revisions =
    [(''0001_initial_schema'', upgrade_0001_ledger @ upgrade_0001_chain, downgrade_0001),
     (''0002_seed_registry_assets'', [], []),
     (''0003_deposit_credit_revision'', upgrade_0003, downgrade_0003),
     (''0004_ledger_system_unique'', upgrade_0004, downgrade_0004),
     (''0005_deposit_addr_unique'', upgrade_0005, downgrade_0005),
     (''0006_withdrawal_signed_tx'', upgrade_0006, downgrade_0006),
     (''0007_nft_holdings'', upgrade_0007, downgrade_0007),
     (''0008_nft_mint_requests'', upgrade_0008, downgrade_0008),
     (''0009_nft_deposits'', upgrade_0009, downgrade_0009),
     (''0010_nft_withdrawals'', upgrade_0010, downgrade_0010),
     (''0011_rate_limit_events'', upgrade_0011, downgrade_0011),
     (''0012_withdrawal_unmined_since'', upgrade_0012, downgrade_0012),
     (''0013_mint_unmined_since'', upgrade_0013, downgrade_0013),
     (''0014_nft_sweeps'', upgrade_0014, downgrade_0014)]"

text \<open>\<open>alembic upgrade\<close> to the k-th revision of an empty database, and \<open>upgrade head\<close>.\<close>

definition upgraded :: "nat \<Rightarrow> error + schema" where
  "upgraded k = migrate (concat (map (\<lambda>(r, up, down). up) (take k revisions))) empty_schema"

definition head_schema :: schema where
  "head_schema = projr (upgraded (length revisions))"

section \<open>The mapped classes\<close>

text \<open>A class with its indexes; the order is that of the file.\<close>

type_synonym model = "table_def \<times> index_def list"

definition users_model :: model where
  "users_model =
    (table ''users''
      [column ''id'' SqlUuid False None,
       column ''email'' SqlCitext False None,
       column ''password_hash'' SqlText False None,
       column ''role'' SqlText False None,
       column ''hd_index'' SqlBigInteger False None,
       column ''created_at'' SqlTimestamp False (Some ''now()'')]
      [Check ''ck_users_role'' (OneOf ''role'' [''user'', ''admin'']),
       PrimaryKey [''id''],
       Unique '''' [''email''],
       Unique '''' [''hd_index'']],
     [])"

definition assets_model :: model where
  "assets_model =
    (table ''assets''
      [column ''id'' SqlUuid False None,
       column ''chain_id'' SqlInteger False None,
       column ''symbol'' SqlText False None,
       column ''type'' SqlText False None,
       column ''contract_address'' SqlText True None,
       column ''decimals'' SqlInteger False None]
      [Check ''ck_assets_type'' (OneOf ''type'' [''native'', ''erc20'', ''erc721'']),
       Unique ''uq_assets_chain_symbol'' [''chain_id'', ''symbol''],
       PrimaryKey [''id'']],
     [index ''uq_assets_chain_symbol_upper'' ''assets'' [Col ''chain_id'', UpperCol ''symbol''] True Always,
      index ''uq_assets_chain_contract_lower'' ''assets'' [Col ''chain_id'', LowerCol ''contract_address''] True (WhereNonzero ''contract_address'')])"

definition deposit_addresses_model :: model where
  "deposit_addresses_model =
    (table ''deposit_addresses''
      [column ''id'' SqlUuid False None,
       column ''user_id'' SqlUuid False None,
       column ''address'' SqlText False None,
       column ''derivation_path'' SqlText False None]
      [Unique ''uq_deposit_addresses_user_id'' [''user_id''],
       ForeignKey ''user_id'' ''users'' ''id'',
       PrimaryKey [''id''],
       Unique '''' [''address'']],
     [])"

definition ledger_accounts_model :: model where
  "ledger_accounts_model =
    (table ''ledger_accounts''
      [column ''id'' SqlUuid False None,
       column ''owner_type'' SqlText False None,
       column ''user_id'' SqlUuid True None,
       column ''asset_id'' SqlUuid False None,
       column ''name'' SqlText False None]
      [Check ''ck_ledger_accounts_owner_type'' (OneOf ''owner_type'' [''user'', ''system'']),
       Unique ''uq_ledger_accounts_owner_user_asset_name'' [''owner_type'', ''user_id'', ''asset_id'', ''name''],
       ForeignKey ''user_id'' ''users'' ''id'',
       ForeignKey ''asset_id'' ''assets'' ''id'',
       PrimaryKey [''id'']],
     [])"

definition ledger_transactions_model :: model where
  "ledger_transactions_model =
    (table ''ledger_transactions''
      [column ''id'' SqlUuid False None,
       column ''type'' SqlText False None,
       column ''ref_type'' SqlText False None,
       column ''ref_id'' SqlText False None,
       column ''idempotency_key'' SqlText False None,
       column ''created_at'' SqlTimestamp False (Some ''now()'')]
      [PrimaryKey [''id''],
       Unique '''' [''idempotency_key'']],
     [])"

definition ledger_entries_model :: model where
  "ledger_entries_model =
    (table ''ledger_entries''
      [column ''id'' SqlUuid False None,
       column ''transaction_id'' SqlUuid False None,
       column ''account_id'' SqlUuid False None,
       column ''asset_id'' SqlUuid False None,
       column ''amount'' (SqlNumeric 78 0) False None,
       column ''created_at'' SqlTimestamp False (Some ''now()'')]
      [ForeignKey ''transaction_id'' ''ledger_transactions'' ''id'',
       ForeignKey ''account_id'' ''ledger_accounts'' ''id'',
       ForeignKey ''asset_id'' ''assets'' ''id'',
       PrimaryKey [''id'']],
     [])"

definition onchain_deposits_model :: model where
  "onchain_deposits_model =
    (table ''onchain_deposits''
      [column ''id'' SqlUuid False None,
       column ''chain_id'' SqlInteger False None,
       column ''tx_hash'' SqlText False None,
       column ''log_index'' SqlInteger True None,
       column ''block_number'' SqlBigInteger False None,
       column ''block_hash'' SqlText False None,
       column ''to_address'' SqlText False None,
       column ''asset_id'' SqlUuid False None,
       column ''amount'' (SqlNumeric 78 0) False None,
       column ''status'' SqlText False None,
       column ''user_id'' SqlUuid True None,
       column ''credit_revision'' SqlInteger False (Some ''0''),
       column ''created_at'' SqlTimestamp False (Some ''now()'')]
      [Check ''ck_onchain_deposits_amount_nonnegative'' (NonNegative ''amount''),
       Check ''ck_onchain_deposits_status'' (OneOf ''status'' [''seen'', ''confirmed'', ''credited'', ''orphaned'']),
       Unique ''uq_onchain_deposits_chain_tx_log'' [''chain_id'', ''tx_hash'', ''log_index''],
       ForeignKey ''asset_id'' ''assets'' ''id'',
       ForeignKey ''user_id'' ''users'' ''id'',
       PrimaryKey [''id'']],
     [])"

definition nft_deposits_model :: model where
  "nft_deposits_model =
    (table ''nft_deposits''
      [column ''id'' SqlUuid False None,
       column ''user_id'' SqlUuid True None,
       column ''chain_id'' SqlInteger False None,
       column ''contract'' SqlText False None,
       column ''token_id'' SqlText False None,
       column ''from_address'' SqlText False None,
       column ''to_address'' SqlText False None,
       column ''tx_hash'' SqlText False None,
       column ''log_index'' SqlInteger True None,
       column ''block_number'' SqlBigInteger False None,
       column ''block_hash'' SqlText False None,
       column ''status'' SqlText False None,
       column ''credit_revision'' SqlInteger False (Some ''0''),
       column ''created_at'' SqlTimestamp False (Some ''now()'')]
      [Check ''ck_nft_deposits_status'' (OneOf ''status'' [''seen'', ''confirmed'', ''credited'', ''orphaned'']),
       Unique ''uq_nft_deposits_chain_tx_log'' [''chain_id'', ''tx_hash'', ''log_index''],
       ForeignKey ''user_id'' ''users'' ''id'',
       PrimaryKey [''id'']],
     [])"

definition nft_holdings_model :: model where
  "nft_holdings_model =
    (table ''nft_holdings''
      [column ''id'' SqlUuid False None,
       column ''user_id'' SqlUuid False None,
       column ''chain_id'' SqlInteger False None,
       column ''contract'' SqlText False None,
       column ''token_id'' SqlText False None,
       column ''status'' SqlText False None,
       column ''acquired_at'' SqlTimestamp False (Some ''now()'')]
      [Check ''ck_nft_holdings_status'' (OneOf ''status'' [''held'', ''withdrawing'', ''withdrawn'']),
       ForeignKey ''user_id'' ''users'' ''id'',
       PrimaryKey [''id'']],
     [index ''uq_nft_holdings_chain_contract_token'' ''nft_holdings'' [Col ''chain_id'', LowerCol ''contract'', Col ''token_id''] True Always])"

definition nft_transfers_model :: model where
  "nft_transfers_model =
    (table ''nft_transfers''
      [column ''id'' SqlUuid False None,
       column ''nft_holding_id'' SqlUuid False None,
       column ''sender_user_id'' SqlUuid False None,
       column ''recipient_user_id'' SqlUuid False None,
       column ''status'' SqlText False None,
       column ''idempotency_key'' SqlText False None,
       column ''created_at'' SqlTimestamp False (Some ''now()'')]
      [Check ''ck_nft_transfers_status'' (OneOf ''status'' [''pending'', ''submitted'', ''confirmed'', ''failed'']),
       Unique ''uq_nft_transfers_idempotency_key'' [''idempotency_key''],
       ForeignKey ''nft_holding_id'' ''nft_holdings'' ''id'',
       ForeignKey ''sender_user_id'' ''users'' ''id'',
       ForeignKey ''recipient_user_id'' ''users'' ''id'',
       PrimaryKey [''id'']],
     [])"

definition nft_mint_requests_model :: model where
  "nft_mint_requests_model =
    (table ''nft_mint_requests''
      [column ''id'' SqlUuid False None,
       column ''user_id'' SqlUuid False None,
       column ''chain_id'' SqlInteger False None,
       column ''contract'' SqlText False None,
       column ''to_address'' SqlText False None,
       column ''status'' SqlText False None,
       column ''nonce'' SqlBigInteger True None,
       column ''unmined_since_block'' SqlBigInteger True None,
       column ''signed_tx'' SqlText True None,
       column ''tx_hash'' SqlText True None,
       column ''token_id'' SqlText True None,
       column ''error'' SqlText True None,
       column ''attempts'' SqlInteger False (Some ''0''),
       column ''created_at'' SqlTimestamp False (Some ''now()'')]
      [Check ''ck_nft_mint_requests_status'' (OneOf ''status'' [''requested'', ''signing'', ''broadcast'', ''confirmed'', ''failed'']),
       ForeignKey ''user_id'' ''users'' ''id'',
       PrimaryKey [''id'']],
     [])"

definition nft_withdrawal_requests_model :: model where
  "nft_withdrawal_requests_model =
    (table ''nft_withdrawal_requests''
      [column ''id'' SqlUuid False None,
       column ''user_id'' SqlUuid False None,
       column ''nft_holding_id'' SqlUuid False None,
       column ''chain_id'' SqlInteger False None,
       column ''contract'' SqlText False None,
       column ''token_id'' SqlText False None,
       column ''to_address'' SqlText False None,
       column ''status'' SqlText False None,
       column ''nonce'' SqlBigInteger True None,
       column ''unmined_since_block'' SqlBigInteger True None,
       column ''signed_tx'' SqlText True None,
       column ''tx_hash'' SqlText True None,
       column ''error'' SqlText True None,
       column ''attempts'' SqlInteger False (Some ''0''),
       column ''idempotency_key'' SqlText True None,
       column ''created_at'' SqlTimestamp False (Some ''now()'')]
      [Check ''ck_nft_withdrawal_requests_status'' (OneOf ''status'' [''requested'', ''approved'', ''signing'', ''broadcast'', ''confirmed'', ''failed'']),
       Unique ''uq_nft_withdrawal_requests_idempotency_key'' [''idempotency_key''],
       ForeignKey ''user_id'' ''users'' ''id'',
       ForeignKey ''nft_holding_id'' ''nft_holdings'' ''id'',
       PrimaryKey [''id'']],
     [])"

definition nft_sweeps_model :: model where
  "nft_sweeps_model =
    (table ''nft_sweeps''
      [column ''id'' SqlUuid False None,
       column ''chain_id'' SqlInteger False None,
       column ''contract'' SqlText False None,
       column ''token_id'' SqlText False None,
       column ''deposit_address'' SqlText False None,
       column ''hd_index'' SqlInteger False None,
       column ''nft_deposit_id'' SqlUuid False None,
       column ''status'' SqlText False None,
       column ''gas_fund_tx_hash'' SqlText True None,
       column ''gas_fund_nonce'' SqlBigInteger True None,
       column ''sweep_signed_tx'' SqlText True None,
       column ''sweep_tx_hash'' SqlText True None,
       column ''sweep_nonce'' SqlBigInteger True None,
       column ''unmined_since_block'' SqlBigInteger True None,
       column ''attempts'' SqlInteger False (Some ''0''),
       column ''error'' SqlText True None,
       column ''created_at'' SqlTimestamp False (Some ''now()'')]
      [Check ''ck_nft_sweeps_status'' (OneOf ''status'' [''pending'', ''funding'', ''funded'', ''sweeping'', ''swept'', ''failed'']),
       ForeignKey ''nft_deposit_id'' ''nft_deposits'' ''id'',
       PrimaryKey [''id'']],
     [index ''uq_nft_sweeps_chain_contract_token'' ''nft_sweeps'' [Col ''chain_id'', LowerCol ''contract'', Col ''token_id''] True Always])"

definition withdrawal_requests_model :: model where
  "withdrawal_requests_model =
    (table ''withdrawal_requests''
      [column ''id'' SqlUuid False None,
       column ''user_id'' SqlUuid False None,
       column ''asset_id'' SqlUuid False None,
       column ''chain_id'' SqlInteger False None,
       column ''to_address'' SqlText False None,
       column ''amount'' (SqlNumeric 78 0) False None,
       column ''status'' SqlText False None,
       column ''tx_hash'' SqlText True None,
       column ''signed_tx'' SqlText True None,
       column ''nonce'' SqlBigInteger True None,
       column ''unmined_since_block'' SqlBigInteger True None,
       column ''attempts'' SqlInteger False (Some ''0''),
       column ''error'' SqlText True None,
       column ''created_at'' SqlTimestamp False (Some ''now()'')]
      [Check ''ck_withdrawal_requests_amount_positive'' (Positive ''amount''),
       Check ''ck_withdrawal_requests_status'' (OneOf ''status'' [''requested'', ''approved'', ''signing'', ''broadcast'', ''confirmed'', ''failed'', ''rejected'']),
       ForeignKey ''user_id'' ''users'' ''id'',
       ForeignKey ''asset_id'' ''assets'' ''id'',
       PrimaryKey [''id'']],
     [])"

definition chain_cursors_model :: model where
  "chain_cursors_model =
    (table ''chain_cursors''
      [column ''chain_id'' SqlInteger False None,
       column ''last_scanned_block'' SqlBigInteger False None,
       column ''last_finalized_block'' SqlBigInteger False None,
       column ''updated_at'' SqlTimestamp False (Some ''now()'')]
      [PrimaryKey [''chain_id'']],
     [])"

definition hot_wallet_nonces_model :: model where
  "hot_wallet_nonces_model =
    (table ''hot_wallet_nonces''
      [column ''chain_id'' SqlInteger False None,
       column ''address'' SqlText False None,
       column ''next_nonce'' SqlBigInteger False None,
       column ''updated_at'' SqlTimestamp False (Some ''now()'')]
      [PrimaryKey [''chain_id'']],
     [])"

definition rate_limit_events_model :: model where
  "rate_limit_events_model =
    (table ''rate_limit_events''
      [column ''id'' SqlUuid False None,
       column ''scope_key'' SqlText False None,
       column ''action'' SqlText False None,
       column ''created_at'' SqlTimestamp False (Some ''now()'')]
      [PrimaryKey [''id'']],
     [index ''ix_rate_limit_events_action_scope_created_at'' ''rate_limit_events'' [Col ''action'', Col ''scope_key'', Col ''created_at''] False Always])"

definition models :: "model list" where
  "models = [users_model, assets_model, deposit_addresses_model, ledger_accounts_model, ledger_transactions_model, ledger_entries_model, onchain_deposits_model, nft_deposits_model, nft_holdings_model, nft_transfers_model, nft_mint_requests_model, nft_withdrawal_requests_model, nft_sweeps_model, withdrawal_requests_model, chain_cursors_model, hot_wallet_nonces_model, rate_limit_events_model]"

definition metadata :: schema where
  "metadata = \<lparr>sc_extensions = {}, sc_tables = map fst models, sc_indexes = concat (map snd models)\<rparr>"

section \<open>The data migration\<close>

text \<open>
  Revision 0002 upserts the registry's assets with an \<open>_asset_id\<close> of its own; its downgrade
  deletes them by chain and symbol, which the foreign keys refuse for an asset in use.
\<close>

definition migration_asset_id :: "(string \<Rightarrow> string \<Rightarrow> uuid) \<Rightarrow> int \<Rightarrow> string \<Rightarrow> string \<Rightarrow> string option \<Rightarrow> uuid" where
  "migration_asset_id uuid5 chain_id asset_type symbol address = uuid5 ASSET_NAMESPACE
     (int_str chain_id @ '':'' @ asset_type @ '':'' @ upper symbol @ '':''
      @ lower (case address of None \<Rightarrow> [] | Some a \<Rightarrow> a))"

definition migration_rows :: "(string \<Rightarrow> string \<Rightarrow> uuid) \<Rightarrow> registry \<Rightarrow> asset list" where
  "migration_rows uuid5 reg = concat (map (\<lambda>chain. map (\<lambda>a.
     let address = asset_address a in
     \<lparr>ast_id = migration_asset_id uuid5 (ch_chain_id chain) (asset_type_str (ra_type a)) (ra_symbol a) address,
      ast_chain_id = ch_chain_id chain, ast_symbol = upper (ra_symbol a), ast_type = ra_type a,
      ast_contract_address = address, ast_decimals = ra_decimals a\<rparr>) (ch_assets chain))
     (map snd (rg_chains reg)))"

definition upgrade_0002 :: "(string \<Rightarrow> string \<Rightarrow> uuid) \<Rightarrow> registry \<Rightarrow> db \<Rightarrow> error + db" where
  "upgrade_0002 uuid5 reg db =
     (let rows = migration_rows uuid5 reg in
      if rows = [] then Inr db
      else if \<not> distinct (map asset_key rows)
      then Inl (OtherError ''ON CONFLICT DO UPDATE command cannot affect row a second time'')
      else for_each upsert_asset rows db)"

definition asset_in_use :: "db \<Rightarrow> uuid \<Rightarrow> bool" where
  "asset_in_use db i \<longleftrightarrow> i \<in> acc_asset_id ` set (ledger_accounts db) \<or> i \<in> ent_asset_id ` set (ledger_entries db)
     \<or> i \<in> dep_asset_id ` set (onchain_deposits db) \<or> i \<in> wd_asset_id ` set (withdrawal_requests db)"

definition delete_asset :: "int \<times> string \<Rightarrow> db \<Rightarrow> error + db" where
  "delete_asset k db =
     (if \<exists>a \<in> set (assets db). asset_key a = k \<and> asset_in_use db (ast_id a) then Inl IntegrityError
      else Inr (db\<lparr>assets := filter (\<lambda>a. asset_key a \<noteq> k) (assets db)\<rparr>))"

definition downgrade_0002 :: "registry \<Rightarrow> db \<Rightarrow> error + db" where
  "downgrade_0002 reg db = for_each delete_asset
     (concat (map (\<lambda>chain. map (\<lambda>a. (ch_chain_id chain, upper (ra_symbol a))) (ch_assets chain))
       (map snd (rg_chains reg)))) db"

end
