(* ===== verification/Migration_Facts.thy ===== *)
theory Migration_Facts
  imports Schema
begin

text \<open>
  The migrations can be undone: a well-formedness invariant of schemas that every operation
  keeps, the operation that undoes each operation, and that every \<open>downgrade\<close> consists of these
  in reverse.
\<close>

section \<open>Well-formed schemas\<close>

text \<open>Names are unique, constraints and indexes speak of columns that exist, keys refer to tables that exist.\<close>

definition schema_ok :: "schema \<Rightarrow> bool" where
  "schema_ok s \<longleftrightarrow> distinct (map tb_name (sc_tables s)) \<and> distinct (map ix_name (sc_indexes s)) \<and>
     (\<forall>t \<in> set (sc_tables s). \<forall>i \<in> tb_constraints t. set (constraint_columns i) \<subseteq> column_names t
        \<and> (\<forall>r. refers_to i = Some r \<longrightarrow> r \<in> tb_name ` set (sc_tables s))) \<and>
     (\<forall>i \<in> set (sc_indexes s). \<exists>t \<in> set (sc_tables s).
        tb_name t = ix_table i \<and> key_column ` set (ix_parts i) \<subseteq> column_names t)"

lemma schema_okD:
  assumes "schema_ok s"
  shows "distinct (map tb_name (sc_tables s))" "distinct (map ix_name (sc_indexes s))"
    "t \<in> set (sc_tables s) \<Longrightarrow> i \<in> tb_constraints t \<Longrightarrow> set (constraint_columns i) \<subseteq> column_names t"
    "t \<in> set (sc_tables s) \<Longrightarrow> i \<in> tb_constraints t \<Longrightarrow> refers_to i = Some r \<Longrightarrow> r \<in> tb_name ` set (sc_tables s)"
    "x \<in> set (sc_indexes s) \<Longrightarrow>
      \<exists>t \<in> set (sc_tables s). tb_name t = ix_table x \<and> key_column ` set (ix_parts x) \<subseteq> column_names t"
  using assms unfolding schema_ok_def by blast+

lemma schema_ok_empty: "schema_ok empty_schema"
  by (simp add: schema_ok_def empty_schema_def)

lemma find_table_None: "find_table s n = None \<longleftrightarrow> n \<notin> tb_name ` set (sc_tables s)"
  by (auto simp: find_table_def find_None_iff)

lemma find_table_Some: "find_table s n = Some t \<Longrightarrow> t \<in> set (sc_tables s) \<and> tb_name t = n"
  by (auto simp: find_table_def find_Some_iff)

lemma table_unique:
  "distinct (map tb_name ts) \<Longrightarrow> t \<in> set ts \<Longrightarrow> u \<in> set ts \<Longrightarrow> tb_name t = tb_name u \<Longrightarrow> t = u"
  by (simp add: distinct_map inj_on_def)

lemma update_table_sel [simp]:
  "sc_indexes (update_table n f s) = sc_indexes s" "sc_extensions (update_table n f s) = sc_extensions s"
  "sc_tables (update_table n f s) = map (\<lambda>t. if tb_name t = n then f t else t) (sc_tables s)"
  by (simp_all add: update_table_def)

text \<open>Changing one table and leaving out indexes keeps well-formedness when the rest still fits it.\<close>

lemma bex_imageI: "\<exists>x \<in> A. P (f x) \<Longrightarrow> \<exists>y \<in> f ` A. P y"
  by blast

lemma schema_ok_update:
  assumes ok: "schema_ok s" and t: "find_table s n = Some t"
    and name: "tb_name (f t) = n" and ix: "distinct (map ix_name ix)" "set ix \<subseteq> set (sc_indexes s)"
    and con: "\<And>i. i \<in> tb_constraints (f t) \<Longrightarrow> set (constraint_columns i) \<subseteq> column_names (f t)
      \<and> (\<forall>r. refers_to i = Some r \<longrightarrow> r \<in> tb_name ` set (sc_tables s))"
    and key: "\<And>i. i \<in> set ix \<Longrightarrow> ix_table i = n \<Longrightarrow> key_column ` set (ix_parts i) \<subseteq> column_names t \<Longrightarrow>
      key_column ` set (ix_parts i) \<subseteq> column_names (f t)"
  shows "schema_ok ((update_table n f s)\<lparr>sc_indexes := ix\<rparr>)"
proof -
  note t = find_table_Some [OF t]
  let ?g = "\<lambda>u. if tb_name u = n then f u else u"
  have same: "u = t" if "u \<in> set (sc_tables s)" "tb_name u = n" for u
    using table_unique [OF schema_okD(1) [OF ok] that(1)] t that by blast
  have g: "tb_name (?g u) = tb_name u" if "u \<in> set (sc_tables s)" for u
    using same [OF that] name by (cases "tb_name u = n") simp_all
  have names: "map (tb_name \<circ> ?g) (sc_tables s) = map tb_name (sc_tables s)"
    by (rule map_cong) (simp_all add: g del: if_image_distrib)
  have nameset: "tb_name ` ?g ` set (sc_tables s) = tb_name ` set (sc_tables s)"
    unfolding image_image by (rule image_cong) (simp_all add: g)
  have cons: "set (constraint_columns i) \<subseteq> column_names (?g u) \<and>
      (\<forall>r. refers_to i = Some r \<longrightarrow> r \<in> tb_name ` set (sc_tables s))"
    if "u \<in> set (sc_tables s)" "i \<in> tb_constraints (?g u)" for u i
    using that same [OF that(1)] con schema_okD(3,4) [OF ok that(1)] by (auto split: if_splits)
  have keys: "\<exists>u \<in> set (sc_tables s). tb_name (?g u) = ix_table i \<and> key_column ` set (ix_parts i) \<subseteq> column_names (?g u)"
    if i: "i \<in> set ix" for i
  proof -
    obtain u where u: "u \<in> set (sc_tables s)" "tb_name u = ix_table i" "key_column ` set (ix_parts i) \<subseteq> column_names u"
      using schema_okD(5) [OF ok] i ix(2) by blast
    then show ?thesis using same [OF u(1)] key [OF i] name by (intro bexI [OF _ u(1)]) auto
  qed
  have tables: "sc_tables ((update_table n f s)\<lparr>sc_indexes := ix\<rparr>) = map ?g (sc_tables s)"
    "sc_indexes ((update_table n f s)\<lparr>sc_indexes := ix\<rparr>) = ix" by simp_all
  show ?thesis
    unfolding schema_ok_def tables list.set_map nameset map_map names
  proof (intro conjI ballI)
    fix u i assume "u \<in> ?g ` set (sc_tables s)" "i \<in> tb_constraints u"
    then obtain v where "v \<in> set (sc_tables s)" "i \<in> tb_constraints (?g v)" "u = ?g v" by blast
    then show "set (constraint_columns i) \<subseteq> column_names u"
      "\<forall>r. refers_to i = Some r \<longrightarrow> r \<in> tb_name ` set (sc_tables s)" using cons by blast+
  next
    fix i assume "i \<in> set ix"
    from keys [OF this] show "\<exists>u \<in> ?g ` set (sc_tables s).
        tb_name u = ix_table i \<and> key_column ` set (ix_parts i) \<subseteq> column_names u" by (rule bex_imageI)
  qed (use ix(1) schema_okD(1) [OF ok] in auto)
qed

lemma co_name_without: "co_name ` {x \<in> cs. co_name x \<noteq> n} = co_name ` cs - {n}"
  by auto

lemma column_names_simps [simp]:
  "column_names (t\<lparr>tb_columns := insert c cs\<rparr>) = insert (co_name c) (co_name ` cs)"
  "column_names (t\<lparr>tb_constraints := cons\<rparr>) = column_names t"
  "column_names (t\<lparr>tb_columns := {x \<in> cs. co_name x \<noteq> n}\<rparr>) = co_name ` cs - {n}"
  "column_names (t\<lparr>tb_columns := {x \<in> cs. co_name x \<noteq> n}, tb_constraints := cons\<rparr>) = co_name ` cs - {n}"
  by (auto simp: column_names_def)

lemma column_names_table [simp]: "column_names (table n cols items) = co_name ` set cols"
  "tb_name (table n cols items) = n" "tb_constraints (table n cols items) = set items"
  by (simp_all add: table_def column_names_def)

lemma schema_ok_same_indexes:
  "schema_ok (update_table n f s\<lparr>sc_indexes := sc_indexes s\<rparr>) \<Longrightarrow> schema_ok (update_table n f s)"
  by (simp add: update_table_def)

lemma apply_op_ok:
  assumes ok: "schema_ok s" and ap: "apply_op op s = Inr s'"
  shows "schema_ok s'"
proof (cases op)
  case (CreateExtension n)
  then have "s' = s\<lparr>sc_extensions := insert n (sc_extensions s)\<rparr>" using ap by simp
  then show ?thesis using ok by (simp add: schema_ok_def)
next
  case (CreateTable n cols items)
  have new: "n \<notin> tb_name ` set (sc_tables s)" and s': "s' = s\<lparr>sc_tables := sc_tables s @ [table n cols items]\<rparr>"
    and fits: "\<forall>i \<in> set items. set (constraint_columns i) \<subseteq> co_name ` set cols \<and>
      (\<forall>r. refers_to i = Some r \<longrightarrow> r = n \<or> r \<in> tb_name ` set (sc_tables s))"
    using ap unfolding CreateTable by (auto simp: programming_error_def find_table_None split: if_splits option.splits)
  show ?thesis
    using schema_okD [OF ok] new fits unfolding schema_ok_def s'
    by (simp del: not_None_eq)
next
  case (DropTable n)
  have s': "s' = s\<lparr>sc_tables := filter (\<lambda>t. tb_name t \<noteq> n) (sc_tables s),
      sc_indexes := filter (\<lambda>i. ix_table i \<noteq> n) (sc_indexes s)\<rparr>"
    and free: "\<forall>t \<in> set (sc_tables s). tb_name t \<noteq> n \<longrightarrow> (\<forall>i \<in> tb_constraints t. refers_to i \<noteq> Some n)"
    using ap unfolding DropTable by (auto simp: programming_error_def split: if_splits)
  show ?thesis
    unfolding schema_ok_def
  proof (intro conjI ballI)
    fix t i assume t: "t \<in> set (sc_tables s')" and i: "i \<in> tb_constraints t"
    then have t': "t \<in> set (sc_tables s)" "tb_name t \<noteq> n" by (auto simp: s')
    show "set (constraint_columns i) \<subseteq> column_names t" by (rule schema_okD(3) [OF ok t'(1) i])
    show "\<forall>r. refers_to i = Some r \<longrightarrow> r \<in> tb_name ` set (sc_tables s')"
      using schema_okD(4) [OF ok t'(1) i] free t' i by (fastforce simp: s')
  next
    fix i assume i: "i \<in> set (sc_indexes s')"
    then obtain u where "u \<in> set (sc_tables s)" "tb_name u = ix_table i" "key_column ` set (ix_parts i) \<subseteq> column_names u"
      using schema_okD(5) [OF ok, of i] by (auto simp: s')
    then show "\<exists>u \<in> set (sc_tables s'). tb_name u = ix_table i \<and> key_column ` set (ix_parts i) \<subseteq> column_names u"
      using i by (auto simp: s')
  qed (use schema_okD(1,2) [OF ok] in \<open>auto simp: s' distinct_map_filter\<close>)
next
  case (AddColumn n c)
  then obtain t where t: "find_table s n = Some t" and s': "s' = update_table n (\<lambda>t. t\<lparr>tb_columns := insert c (tb_columns t)\<rparr>) s"
    using ap by (auto simp: programming_error_def split: if_splits option.splits)
  note T = find_table_Some [OF t]
  show ?thesis unfolding s'
    by (rule schema_ok_same_indexes, rule schema_ok_update [OF ok t])
       (use T schema_okD [OF ok] in \<open>auto simp: column_names_def\<close>)
next
  case (DropColumn n c)
  then obtain t where t: "find_table s n = Some t"
    and s': "s' = (update_table n (\<lambda>t. t\<lparr>tb_columns := {x \<in> tb_columns t. co_name x \<noteq> c},
                  tb_constraints := {i \<in> tb_constraints t. c \<notin> set (constraint_columns i)}\<rparr>) s)
                \<lparr>sc_indexes := filter (\<lambda>i. ix_table i \<noteq> n \<or> c \<notin> key_column ` set (ix_parts i)) (sc_indexes s)\<rparr>"
    using ap by (auto simp: programming_error_def split: if_splits option.splits)
  note T = find_table_Some [OF t]
  have cols: "i \<in> tb_constraints t \<Longrightarrow> x \<in> set (constraint_columns i) \<Longrightarrow> x \<in> co_name ` tb_columns t" for i x
    using schema_okD(3) [OF ok, of t i] T by (auto simp: column_names_def)
  have keys: "key_column ` A \<subseteq> column_names t \<Longrightarrow> x \<in> A \<Longrightarrow> key_column x \<in> co_name ` tb_columns t" for A x
    by (auto simp: column_names_def)
  show ?thesis unfolding s'
    by (rule schema_ok_update [OF ok t])
       (use T schema_okD(2) [OF ok] schema_okD(4) [OF ok] cols in \<open>auto simp: distinct_map_filter intro: cols keys\<close>)
next
  case (CreateIndex i)
  then obtain t where t: "find_table s (ix_table i) = Some t" and s': "s' = s\<lparr>sc_indexes := sc_indexes s @ [i]\<rparr>"
    and i: "ix_name i \<notin> ix_name ` set (sc_indexes s)" "key_column ` set (ix_parts i) \<subseteq> column_names t"
    using ap by (auto simp: programming_error_def split: if_splits option.splits)
  show ?thesis using schema_okD [OF ok] find_table_Some [OF t] i unfolding schema_ok_def s' by simp blast
next
  case (DropIndex n t)
  then have "s' = s\<lparr>sc_indexes := filter (\<lambda>i. ix_name i \<noteq> n) (sc_indexes s)\<rparr>"
    using ap by (auto simp: programming_error_def split: if_splits)
  then show ?thesis using schema_okD [OF ok] unfolding schema_ok_def by (simp add: distinct_map_filter)
next
  case (AddUnique n u cols)
  then obtain t where t: "find_table s n = Some t" and cols: "set cols \<subseteq> column_names t"
    and s': "s' = update_table n (\<lambda>t. t\<lparr>tb_constraints := insert (Unique u cols) (tb_constraints t)\<rparr>) s"
    using ap by (auto simp: programming_error_def split: if_splits option.splits)
  note T = find_table_Some [OF t]
  show ?thesis unfolding s'
    by (rule schema_ok_same_indexes, rule schema_ok_update [OF ok t])
       (use T cols schema_okD [OF ok] in auto)
next
  case (DropConstraint n u)
  then obtain t where t: "find_table s n = Some t"
    and s': "s' = update_table n (\<lambda>t. t\<lparr>tb_constraints := {i \<in> tb_constraints t. constraint_name i \<noteq> Some u}\<rparr>) s"
    using ap by (auto simp: programming_error_def split: if_splits option.splits)
  note T = find_table_Some [OF t]
  show ?thesis unfolding s'
    by (rule schema_ok_same_indexes, rule schema_ok_update [OF ok t])
       (use T schema_okD [OF ok] in auto)
qed

section \<open>Undoing\<close>

text \<open>The second operation undoes the first in the given schema.\<close>

fun undone_by :: "schema \<Rightarrow> schema_op \<Rightarrow> schema_op \<Rightarrow> bool" where
  "undone_by s (CreateTable n cols items) (DropTable m) \<longleftrightarrow> n = m"
| "undone_by s (AddColumn n c) (DropColumn m d) \<longleftrightarrow> n = m \<and> co_name c = d"
| "undone_by s (CreateIndex i) (DropIndex j t) \<longleftrightarrow> ix_name i = j"
| "undone_by s (DropConstraint n u) (AddUnique m v cols) \<longleftrightarrow> n = m \<and> u = v \<and>
     (case find_table s n of None \<Rightarrow> False
      | Some t \<Rightarrow> Unique u cols \<in> tb_constraints t \<and> (\<forall>i \<in> tb_constraints t. constraint_name i = Some u \<longrightarrow> i = Unique u cols))"
| "undone_by s _ _ \<longleftrightarrow> False"

abbreviation extended :: "string set \<Rightarrow> schema \<Rightarrow> schema" where
  "extended e s \<equiv> s\<lparr>sc_extensions := e\<rparr>"

lemma find_extended [simp]: "find_table (extended e s) n = find_table s n"
  by (simp add: find_table_def)

lemma map_same_id: "\<forall>x \<in> set xs. f x = x \<Longrightarrow> map f xs = xs"
  by (simp add: map_idI)

lemma update_undo:
  assumes ok: "schema_ok s" and t: "find_table s n = Some t" and f: "tb_name (f t) = n" and g: "g (f t) = t"
  shows "update_table n g (extended e (update_table n f s)) = extended e s"
    "find_table (extended e (update_table n f s)) n = Some (f t)"
proof -
  have same: "u = t" if "u \<in> set (sc_tables s)" "tb_name u = n" for u
    using table_unique [OF schema_okD(1) [OF ok] that(1)] find_table_Some [OF t] that by blast
  have "map (\<lambda>u. if tb_name u = n then g u else u) (map (\<lambda>u. if tb_name u = n then f u else u) (sc_tables s)) = sc_tables s"
    unfolding map_map using same f g by (intro map_idI) fastforce
  then show "update_table n g (extended e (update_table n f s)) = extended e s"
    unfolding update_table_def by (cases s) (simp del: map_map)
  have "find (\<lambda>u. tb_name u = n) (map (\<lambda>u. if tb_name u = n then f u else u) us) = Some (f t)"
    if "find (\<lambda>u. tb_name u = n) us = Some t" for us
    using that f by (induction us) (auto split: if_splits)
  then show "find_table (extended e (update_table n f s)) n = Some (f t)" using t by (simp add: find_table_def)
qed

lemma index_table_found: "schema_ok s \<Longrightarrow> x \<in> set (sc_indexes s) \<Longrightarrow> ix_table x \<in> tb_name ` set (sc_tables s)"
  by (drule schema_okD(5)) (auto intro: rev_image_eqI)

lemma undo_create_table:
  assumes "schema_ok s" "apply_op (CreateTable n cols items) s = Inr s'"
  shows "apply_op (DropTable n) (extended e s') = Inr (extended e s)"
proof -
  have new: "n \<notin> tb_name ` set (sc_tables s)" and s': "s' = s\<lparr>sc_tables := sc_tables s @ [table n cols items]\<rparr>"
    using assms(2) by (auto simp: programming_error_def find_table_None split: if_splits)
  have "filter (\<lambda>t. tb_name t \<noteq> n) (sc_tables s) = sc_tables s" "filter (\<lambda>i. ix_table i \<noteq> n) (sc_indexes s) = sc_indexes s"
    using new index_table_found [OF assms(1)] by (auto simp: filter_id_conv)
  moreover have "find_table s' n \<noteq> None" by (simp add: find_table_None s')
  moreover have "refers_to i \<noteq> Some n" if "t \<in> set (sc_tables s)" "i \<in> tb_constraints t" for t i
    using schema_okD(4) [OF assms(1) that] new by blast
  ultimately show ?thesis using new by (auto simp: s' programming_error_def)
qed

lemma undo_add_column:
  assumes ok: "schema_ok s" and ap: "apply_op (AddColumn n c) s = Inr s'"
  shows "apply_op (DropColumn n (co_name c)) (extended e s') = Inr (extended e s)"
proof -
  let ?f = "\<lambda>t. t\<lparr>tb_columns := insert c (tb_columns t)\<rparr>"
  let ?g = "\<lambda>t. t\<lparr>tb_columns := {x \<in> tb_columns t. co_name x \<noteq> co_name c},
      tb_constraints := {i \<in> tb_constraints t. co_name c \<notin> set (constraint_columns i)}\<rparr>"
  obtain t where t: "find_table s n = Some t" and c: "co_name c \<notin> column_names t" and s': "s' = update_table n ?f s"
    using ap by (auto simp: programming_error_def split: if_splits option.splits)
  note T = find_table_Some [OF t]
  have cons: "{i \<in> tb_constraints t. co_name c \<notin> set (constraint_columns i)} = tb_constraints t"
    using schema_okD(3) [OF ok, of t] T c by blast
  have undone: "?g (?f t) = t" using c cons by (cases t) (auto simp: column_names_def image_iff)
  have same_ix: "sc_indexes (extended e s') = sc_indexes s" by (simp add: s')
  have ix: "filter (\<lambda>i. ix_table i \<noteq> n \<or> co_name c \<notin> key_column ` set (ix_parts i)) (sc_indexes (extended e s')) = sc_indexes s"
    unfolding same_ix filter_id_conv
  proof
    fix i assume "i \<in> set (sc_indexes s)"
    then obtain u where u: "u \<in> set (sc_tables s)" "tb_name u = ix_table i" "key_column ` set (ix_parts i) \<subseteq> column_names u"
      using schema_okD(5) [OF ok] by blast
    have "u = t" if "ix_table i = n"
      using table_unique [OF schema_okD(1) [OF ok] u(1)] T u(2) that by simp
    then show "ix_table i \<noteq> n \<or> co_name c \<notin> key_column ` set (ix_parts i)" using u(3) c by blast
  qed
  have f: "tb_name (?f t) = n" using T by simp
  note up = update_undo [OF ok t, of ?f ?g, OF f undone, of e, folded s']
  show ?thesis unfolding apply_op.simps up ix by (cases s) simp
qed

lemma undo_create_index:
  assumes "apply_op (CreateIndex i) s = Inr s'"
  shows "apply_op (DropIndex (ix_name i) t) (extended e s') = Inr (extended e s)"
proof -
  have "ix_name i \<notin> ix_name ` set (sc_indexes s)" and s': "s' = s\<lparr>sc_indexes := sc_indexes s @ [i]\<rparr>"
    using assms by (auto simp: programming_error_def split: if_splits option.splits)
  then have "filter (\<lambda>x. ix_name x \<noteq> ix_name i) (sc_indexes s) = sc_indexes s" by (auto simp: filter_id_conv image_iff)
  then show ?thesis by (simp add: s')
qed

lemma undo_drop_constraint:
  assumes ok: "schema_ok s" and ap: "apply_op (DropConstraint n u) s = Inr s'"
    and how: "undone_by s (DropConstraint n u) (AddUnique n u cols)"
  shows "apply_op (AddUnique n u cols) (extended e s') = Inr (extended e s)"
proof -
  let ?f = "\<lambda>t. t\<lparr>tb_constraints := {i \<in> tb_constraints t. constraint_name i \<noteq> Some u}\<rparr>"
  let ?g = "\<lambda>t. t\<lparr>tb_constraints := insert (Unique u cols) (tb_constraints t)\<rparr>"
  obtain t where t: "find_table s n = Some t" and s': "s' = update_table n ?f s"
    using ap by (auto simp: programming_error_def split: if_splits option.splits)
  note T = find_table_Some [OF t]
  have u: "Unique u cols \<in> tb_constraints t" "\<forall>i \<in> tb_constraints t. constraint_name i = Some u \<longrightarrow> i = Unique u cols"
    using how t by auto
  have "insert (Unique u cols) {i \<in> tb_constraints t. constraint_name i \<noteq> Some u} = tb_constraints t" using u by blast
  then have undone: "?g (?f t) = t" by (cases t) simp
  have f: "tb_name (?f t) = n" using T by simp
  note up = update_undo [OF ok t, of ?f ?g, OF f undone, of e, folded s']
  have "set cols \<subseteq> column_names t" using schema_okD(3) [OF ok, of t "Unique u cols"] T u(1) by simp
  then show ?thesis unfolding apply_op.simps up by simp
qed

lemma undo_op:
  assumes "schema_ok s" "apply_op op s = Inr s'" "undone_by s op op'"
  shows "apply_op op' (extended e s') = Inr (extended e s)"
  using assms undo_create_table undo_add_column undo_create_index undo_drop_constraint
  by (cases op; cases op') (auto simp del: apply_op.simps)

lemma migrate_ok: "migrate ops s = Inr s' \<Longrightarrow> schema_ok s \<Longrightarrow> schema_ok s'"
  unfolding migrate_def by (erule for_each_inv) (auto intro: apply_op_ok)

lemma migrate_append: "migrate (xs @ ys) s = bind_res (migrate xs s) (migrate ys)"
  by (induction xs arbitrary: s) (auto simp: migrate_def bind_res_def split: sum.splits)

lemma migrate_simps [simp]: "migrate [] s = Inr s" "migrate (op # ops) s = bind_res (apply_op op s) (migrate ops)"
  by (simp_all add: migrate_def [abs_def])

text \<open>A list of operations undone by another one, last operation first; extensions stay.\<close>

fun undone_list :: "schema \<Rightarrow> schema_op list \<Rightarrow> schema_op list \<Rightarrow> bool" where
  "undone_list s [] ops' \<longleftrightarrow> ops' = []"
| "undone_list s (op # ops) ops' \<longleftrightarrow>
     (case op of CreateExtension x \<Rightarrow> undone_list (s\<lparr>sc_extensions := insert x (sc_extensions s)\<rparr>) ops ops'
      | _ \<Rightarrow> (case ops' of [] \<Rightarrow> False
         | op' # rest \<Rightarrow> undone_by s op op' \<and>
             (case apply_op op s of Inl e \<Rightarrow> False | Inr t \<Rightarrow> undone_list t ops rest)))"

lemma undone_list_cases:
  assumes "undone_list s (op # ops) ops'"
  obtains x where "op = CreateExtension x" "undone_list (s\<lparr>sc_extensions := insert x (sc_extensions s)\<rparr>) ops ops'"
  | op' rest t where "ops' = op' # rest" "undone_by s op op'" "apply_op op s = Inr t" "undone_list t ops rest"
proof (cases "\<exists>x. op = CreateExtension x")
  case True
  then show ?thesis using assms that(1) by auto
next
  case False
  then have "case ops' of [] \<Rightarrow> False | op' # rest \<Rightarrow> undone_by s op op' \<and>
      (case apply_op op s of Inl e \<Rightarrow> False | Inr t \<Rightarrow> undone_list t ops rest)"
    using assms by (cases ops'; cases op) (simp_all del: apply_op.simps undone_by.simps)
  then show ?thesis using that(2) by (auto simp del: apply_op.simps split: list.splits sum.splits)
qed

lemma undone_list_migrate:
  "undone_list s ops ops' \<Longrightarrow> schema_ok s \<Longrightarrow> migrate ops s = Inr s' \<Longrightarrow>
   migrate (rev ops') (extended e s') = Inr (extended e s)"
proof (induction ops arbitrary: s ops')
  case (Cons op ops)
  from Cons.prems(1) show ?case
  proof (cases rule: undone_list_cases)
    case (1 x)
    have "schema_ok (s\<lparr>sc_extensions := insert x (sc_extensions s)\<rparr>)"
      using apply_op_ok [OF Cons.prems(2), of "CreateExtension x"] by simp
    then show ?thesis using Cons.IH [OF 1(2)] Cons.prems(3) by (simp add: 1(1))
  next
    case (2 op' rest t)
    have "migrate (rev rest) (extended e s') = Inr (extended e t)"
      using Cons.IH [OF 2(4) apply_op_ok [OF Cons.prems(2) 2(3)]] Cons.prems(3) 2(3) by simp
    then show ?thesis using undo_op [OF Cons.prems(2) 2(3,2), of e] by (simp add: 2(1) migrate_append)
  qed
qed simp

text \<open>Each revision is undone by its downgrade, in the schema the earlier ones leave.\<close>

fun chain_undone :: "schema \<Rightarrow> (string \<times> schema_op list \<times> schema_op list) list \<Rightarrow> bool" where
  "chain_undone s [] \<longleftrightarrow> True"
| "chain_undone s ((r, up, down) # rs) \<longleftrightarrow> undone_list s up (rev down) \<and>
     (case migrate up s of Inl e \<Rightarrow> False | Inr t \<Rightarrow> chain_undone t rs)"

lemma chain_undone_all: "chain_undone empty_schema revisions"
  by code_simp

abbreviation ups :: "(string \<times> schema_op list \<times> schema_op list) list \<Rightarrow> schema_op list" where
  "ups rs \<equiv> concat (map (\<lambda>(r, up, down). up) rs)"

lemma chain_undone_nth:
  "chain_undone s rs \<Longrightarrow> schema_ok s \<Longrightarrow> k < length rs \<Longrightarrow>
   \<exists>t t'. migrate (ups (take k rs)) s = Inr t \<and> migrate (ups (take (Suc k) rs)) s = Inr t' \<and>
     migrate (snd (snd (rs ! k))) t' = Inr (extended (sc_extensions t') t)"
proof (induction rs arbitrary: s k)
  case (Cons r rs)
  obtain n up down where r: "r = (n, up, down)" by (cases r)
  obtain t where t: "migrate up s = Inr t" "chain_undone t rs" and und: "undone_list s up (rev down)"
    using Cons.prems(1) by (auto simp: r split: sum.splits)
  note ok = migrate_ok [OF t(1) Cons.prems(2)]
  show ?case
  proof (cases k)
    case 0
    have "extended (sc_extensions t) t = t" by (cases t) simp
    then show ?thesis using undone_list_migrate [OF und Cons.prems(2) t(1), of "sc_extensions t"] t(1) by (simp add: 0 r)
  next
    case (Suc j)
    then show ?thesis using Cons.IH [OF t(2) ok, of j] Cons.prems(3) t(1) by (simp add: r migrate_append)
  qed
qed simp

text \<open>
  C39: From an empty database every revision of the schema applies, and from the schema after it
  its downgrade returns to exactly the schema before it, whose extensions alone may have grown:
  no downgrade forgets a table, column, index or constraint that its upgrade made or dropped.
\<close>

theorem downgrade_undoes_upgrade:
  assumes "k < length revisions"
  shows "\<exists>before after. upgraded k = Inr before \<and> upgraded (Suc k) = Inr after \<and>
    migrate (snd (snd (revisions ! k))) after = Inr (before\<lparr>sc_extensions := sc_extensions after\<rparr>)"
  unfolding upgraded_def by (rule chain_undone_nth [OF chain_undone_all schema_ok_empty assms])

theorem downgrade_undoes_upgrade_witness:
  "fst (revisions ! 4) = ''0005_deposit_addr_unique'' \<and>
   (\<exists>before after. upgraded 4 = Inr before \<and> upgraded 5 = Inr after \<and>
      migrate downgrade_0005 after = Inr (before\<lparr>sc_extensions := sc_extensions after\<rparr>))"
  using downgrade_undoes_upgrade [of 4] by (simp add: revisions_def)

end
