(* ===== verification/Schema_Facts.thy ===== *)
theory Schema_Facts
  imports Migration_Facts Auth Nft_Sweeper Nft_Watcher Wallet Samples
begin

text \<open>
  The migrations end in the tables the mapped classes declare; the uniqueness checks of the
  model's inserts are exactly the unique rules of the migrated schema; the data migration is the
  seeding of the running backend.
\<close>

section \<open>The head of the migrations\<close>

lemma head_upgraded: "upgraded (length revisions) = Inr head_schema"
proof -
  obtain s where "upgraded (length revisions) = Inr s"
    using chain_undone_nth [OF chain_undone_all schema_ok_empty, of "length revisions - 1"]
    by (auto simp: upgraded_def revisions_def)
  then show ?thesis by (simp add: head_schema_def)
qed

section \<open>Unique rules\<close>

fun unique_rule :: "constraint \<Rightarrow> (key_part list \<times> index_where) option" where
  "unique_rule (Unique n cs) = Some (map Col cs, Always)"
| "unique_rule (PrimaryKey cs) = (if cs = [''id''] then None else Some (map Col cs, Always))"
| "unique_rule _ = None"

text \<open>The unique rules of a table beside the primary key of its generated ids.\<close>

definition rules_of :: "schema \<Rightarrow> string \<Rightarrow> (key_part list \<times> index_where) set" where
  "rules_of s n =
     (case find_table s n of
        None \<Rightarrow> {}
      | Some t \<Rightarrow> (\<lambda>i. the (unique_rule i)) ` {i \<in> tb_constraints t. unique_rule i \<noteq> None}
          \<union> set (map (\<lambda>i. (ix_parts i, ix_where i)) (filter (\<lambda>i. ix_table i = n \<and> ix_unique i) (sc_indexes s))))"

definition citext_columns :: "schema \<Rightarrow> string \<Rightarrow> string set" where
  "citext_columns s n = (case find_table s n of None \<Rightarrow> {}
     | Some t \<Rightarrow> co_name ` {c \<in> tb_columns t. co_type c = SqlCitext})"

section \<open>Rows\<close>

text \<open>
  A row as its columns' values; a column that is not listed is null. PostgreSQL compares citext
  values by their lower case, applies a partial index only to rows that meet its condition and
  lets rows with a null in the key pass.
\<close>

datatype sql_value = SqlNull | SqlString string | SqlNumber int | SqlId uuid

type_synonym sql_row = "(string \<times> sql_value) list"

fun lower_value :: "sql_value \<Rightarrow> sql_value" where
  "lower_value (SqlString s) = SqlString (lower s)"
| "lower_value v = v"

fun upper_value :: "sql_value \<Rightarrow> sql_value" where
  "upper_value (SqlString s) = SqlString (upper s)"
| "upper_value v = v"

definition column_value :: "sql_row \<Rightarrow> string \<Rightarrow> sql_value" where
  "column_value r c = (case map_of r c of None \<Rightarrow> SqlNull | Some v \<Rightarrow> v)"

fun part_value :: "string set \<Rightarrow> sql_row \<Rightarrow> key_part \<Rightarrow> sql_value" where
  "part_value citext r (Col c) =
     (if c \<in> citext then lower_value (column_value r c) else column_value r c)"
| "part_value citext r (LowerCol c) = lower_value (column_value r c)"
| "part_value citext r (UpperCol c) = upper_value (column_value r c)"

fun applies :: "index_where \<Rightarrow> sql_row \<Rightarrow> bool" where
  "applies Always r \<longleftrightarrow> True"
| "applies (WhereNull c) r \<longleftrightarrow> column_value r c = SqlNull"
| "applies (WhereNonzero c) r \<longleftrightarrow>
     column_value r c \<noteq> SqlNull \<and> lower_value (column_value r c) \<noteq> SqlString ZERO_ADDRESS"

definition conflict :: "string set \<Rightarrow> key_part list \<times> index_where \<Rightarrow> sql_row \<Rightarrow> sql_row \<Rightarrow> bool" where
  "conflict citext rule x r \<longleftrightarrow> applies (snd rule) x \<and> applies (snd rule) r \<and>
     (\<forall>p \<in> set (fst rule). part_value citext r p \<noteq> SqlNull \<and> part_value citext x p = part_value citext r p)"

text \<open>An insert of \<open>r\<close> into table \<open>n\<close> violates one of its unique rules.\<close>

definition rejects :: "schema \<Rightarrow> string \<Rightarrow> sql_row list \<Rightarrow> sql_row \<Rightarrow> bool" where
  "rejects s n rows r \<longleftrightarrow> (\<exists>rule \<in> rules_of s n. \<exists>x \<in> set rows. conflict (citext_columns s n) rule x r)"

fun sql_opt :: "('a \<Rightarrow> sql_value) \<Rightarrow> 'a option \<Rightarrow> sql_value" where
  "sql_opt f None = SqlNull"
| "sql_opt f (Some x) = f x"

lemma sql_opt_simps [simp]:
  "sql_opt SqlId a = SqlNull \<longleftrightarrow> a = None" "sql_opt SqlString b = SqlNull \<longleftrightarrow> b = None"
  "sql_opt SqlNumber c = SqlNull \<longleftrightarrow> c = None"
  "sql_opt SqlId a = SqlId i \<longleftrightarrow> a = Some i" "sql_opt SqlString b = SqlString s \<longleftrightarrow> b = Some s"
  "sql_opt SqlNumber c = SqlNumber n \<longleftrightarrow> c = Some n"
  by (cases a; cases b; cases c; simp)+

fun owner_type_str :: "owner_type \<Rightarrow> string" where
  "owner_type_str OwUser = ''user''"
| "owner_type_str OwSystem = ''system''"

lemma owner_type_str_inject [simp]: "owner_type_str a = owner_type_str b \<longleftrightarrow> a = b"
  by (cases a; cases b) simp_all

text \<open>The columns of each table that its unique rules read.\<close>

definition user_row :: "string \<Rightarrow> int \<Rightarrow> sql_row" where
  "user_row email hd_index = [(''email'', SqlString email), (''hd_index'', SqlNumber hd_index)]"

definition deposit_address_row :: "uuid \<Rightarrow> string \<Rightarrow> sql_row" where
  "deposit_address_row user_id address = [(''user_id'', SqlId user_id), (''address'', SqlString address)]"

definition account_row :: "ledger_account \<Rightarrow> sql_row" where
  "account_row a = [(''owner_type'', SqlString (owner_type_str (acc_owner_type a))),
     (''user_id'', sql_opt SqlId (acc_user_id a)), (''asset_id'', SqlId (acc_asset_id a)),
     (''name'', SqlString (acc_name a))]"

definition transaction_row :: "string \<Rightarrow> sql_row" where
  "transaction_row key = [(''idempotency_key'', SqlString key)]"

definition deposit_row :: "onchain_deposit \<Rightarrow> sql_row" where
  "deposit_row d = [(''chain_id'', SqlNumber (dep_chain_id d)), (''tx_hash'', SqlString (dep_tx_hash d)),
     (''log_index'', sql_opt SqlNumber (dep_log_index d))]"

definition token_row :: "int \<Rightarrow> string \<Rightarrow> string \<Rightarrow> sql_row" where
  "token_row chain_id contract token_id = [(''chain_id'', SqlNumber chain_id),
     (''contract'', SqlString contract), (''token_id'', SqlString token_id)]"

definition nft_withdrawal_row :: "nft_withdrawal_request \<Rightarrow> sql_row" where
  "nft_withdrawal_row w = [(''idempotency_key'', sql_opt SqlString (nw_idempotency_key w))]"

definition chain_row :: "int \<Rightarrow> sql_row" where
  "chain_row chain_id = [(''chain_id'', SqlNumber chain_id)]"

lemmas row_defs = user_row_def deposit_address_row_def account_row_def transaction_row_def deposit_row_def
  token_row_def nft_withdrawal_row_def chain_row_def

section \<open>The rules of the migrated schema\<close>

definition head_rules :: "(string \<times> (key_part list \<times> index_where) set \<times> string set) list" where
  "head_rules =
    [(''users'', {([Col ''email''], Always), ([Col ''hd_index''], Always)}, {''email''}),
     (''deposit_addresses'', {([Col ''user_id''], Always), ([LowerCol ''address''], Always)}, {}),
     (''ledger_accounts'', {([Col ''owner_type'', Col ''user_id'', Col ''asset_id'', Col ''name''], Always),
       ([Col ''owner_type'', Col ''asset_id'', Col ''name''], WhereNull ''user_id'')}, {}),
     (''ledger_transactions'', {([Col ''idempotency_key''], Always)}, {}),
     (''onchain_deposits'', {([Col ''chain_id'', Col ''tx_hash'', Col ''log_index''], Always)}, {}),
     (''nft_holdings'', {([Col ''chain_id'', LowerCol ''contract'', Col ''token_id''], Always)}, {}),
     (''nft_transfers'', {([Col ''idempotency_key''], Always)}, {}),
     (''nft_withdrawal_requests'', {([Col ''idempotency_key''], Always)}, {}),
     (''nft_sweeps'', {([Col ''chain_id'', LowerCol ''contract'', Col ''token_id''], Always)}, {}),
     (''hot_wallet_nonces'', {([Col ''chain_id''], Always)}, {})]"

definition rules_from :: "schema \<Rightarrow> string list \<Rightarrow> (string \<times> (key_part list \<times> index_where) set \<times> string set) list" where
  "rules_from s ns = map (\<lambda>n. (n, rules_of s n, citext_columns s n)) ns"

lemma head_rules: "rules_from head_schema (map fst head_rules) = head_rules"
  by code_simp

lemma rules_of_head: "map_of head_rules n = Some (rules, citext) \<Longrightarrow>
    rules_of head_schema n = rules \<and> citext_columns head_schema n = citext"
proof -
  assume "map_of head_rules n = Some (rules, citext)"
  then have "(n, rules, citext) \<in> set (rules_from head_schema (map fst head_rules))"
    by (simp add: head_rules map_of_SomeD)
  then show ?thesis by (auto simp: rules_from_def)
qed

lemma rejects_head: "map_of head_rules n = Some (rules, citext) \<Longrightarrow>
    rejects head_schema n rows r \<longleftrightarrow> (\<exists>rule \<in> rules. \<exists>x \<in> set rows. conflict citext rule x r)"
  using rules_of_head by (simp add: rejects_def)

lemmas schema_simps = rejects_head head_rules_def conflict_def row_defs column_value_def

section \<open>Inserts\<close>

lemma in_image: "k \<in> f ` A \<longleftrightarrow> (\<exists>x \<in> A. f x = k)"
  by auto

lemma account_rejected:
  "rejects head_schema ''ledger_accounts'' (map account_row as) (account_row a) \<longleftrightarrow>
   account_key a \<in> account_key ` set as"
  by (cases "acc_user_id a") (simp_all add: schema_simps account_key_def in_image, blast+)

lemma token_rejected:
  assumes "n \<in> {''nft_holdings'', ''nft_sweeps''}"
  shows "rejects head_schema n (map (\<lambda>x. token_row (f x) (g x) (h x)) xs) (token_row c k t) \<longleftrightarrow>
   (c, lower k, t) \<in> (\<lambda>x. (f x, lower (g x), h x)) ` set xs"
  using assms by (elim insertE emptyE) (simp_all add: schema_simps in_image)

lemma key_rejected:
  assumes "n \<in> {''ledger_transactions'', ''nft_transfers''}"
  shows "rejects head_schema n (map (\<lambda>x. transaction_row (f x)) xs) (transaction_row k) \<longleftrightarrow> k \<in> f ` set xs"
  using assms by (elim insertE emptyE) (simp_all add: schema_simps in_image)

lemma user_rejected:
  "rejects head_schema ''users'' (map (\<lambda>u. user_row (f u) (g u)) us) (user_row email i) \<longleftrightarrow>
   (\<exists>u \<in> set us. lower (f u) = lower email \<or> g u = i)"
  by (simp add: schema_simps) blast

lemma deposit_address_rejected:
  "rejects head_schema ''deposit_addresses'' (map (\<lambda>a. deposit_address_row (f a) (g a)) as) (deposit_address_row u k) \<longleftrightarrow>
   (\<exists>a \<in> set as. f a = u \<or> lower (g a) = lower k)"
  by (simp add: schema_simps) blast

lemma deposit_rejected:
  "rejects head_schema ''onchain_deposits'' (map deposit_row ds) (deposit_row (d\<lparr>dep_log_index := Some li\<rparr>)) \<longleftrightarrow>
   dep_key (d\<lparr>dep_log_index := Some li\<rparr>) \<in> dep_key ` set ds"
  by (simp add: schema_simps dep_key_def in_image)

lemma deposit_key_taken:
  "rejects head_schema ''onchain_deposits'' (map deposit_row ds) (deposit_row d) \<Longrightarrow> dep_key d \<in> dep_key ` set ds"
  by (cases "dep_log_index d") (simp_all add: schema_simps dep_key_def in_image)

lemma nft_withdrawal_rejected:
  "rejects head_schema ''nft_withdrawal_requests'' (map nft_withdrawal_row ws) (nft_withdrawal_row w) \<longleftrightarrow>
   nw_idempotency_key w \<noteq> None \<and> nw_idempotency_key w \<in> nw_idempotency_key ` set ws"
  by (cases "nw_idempotency_key w") (simp_all add: schema_simps in_image)

lemma nonce_rejected:
  "rejects head_schema ''hot_wallet_nonces'' (map (\<lambda>r. chain_row (f r)) rs) (chain_row c) \<longleftrightarrow> c \<in> f ` set rs"
  by (simp add: schema_simps in_image)

text \<open>
  C38: The uniqueness checks the model's inserts make are the database's: for ten tables, an
  insert of the model answers IntegrityError exactly when PostgreSQL, after all migrations,
  refuses the row next to the stored ones, by a unique constraint, a primary key, a unique index
  over lower-cased columns, a partial index over rows whose user is null or a citext column. So
  an email or an address that differs in case only counts as taken, and system accounts are
  unique although their user is null.
\<close>

theorem inserts_check_the_schema:
  "(flush_user db email pw role i = Inl IntegrityError \<longleftrightarrow>
      rejects head_schema ''users'' (map (\<lambda>u. user_row (usr_email u) (usr_hd_index u)) (users db)) (user_row email i)) \<and>
   (flush_deposit_address db user derived = Inl IntegrityError \<longleftrightarrow>
      rejects head_schema ''deposit_addresses'' (map (\<lambda>a. deposit_address_row (da_user_id a) (da_address a))
        (deposit_addresses db)) (deposit_address_row user (der_address derived))) \<and>
   (insert_account db account = Inl IntegrityError \<longleftrightarrow>
      rejects head_schema ''ledger_accounts'' (map account_row (ledger_accounts db)) (account_row account)) \<and>
   (flush_transaction db ty rt ri key = Inl IntegrityError \<longleftrightarrow>
      rejects head_schema ''ledger_transactions'' (map (\<lambda>t. transaction_row (txn_idempotency_key t))
        (ledger_transactions db)) (transaction_row key)) \<and>
   (flush_deposit db (d\<lparr>dep_log_index := Some li\<rparr>) = Inl IntegrityError \<longleftrightarrow>
      rejects head_schema ''onchain_deposits'' (map deposit_row (onchain_deposits db))
        (deposit_row (d\<lparr>dep_log_index := Some li\<rparr>))) \<and>
   (flush_holding (owner, chain, contract, token) db = Inl IntegrityError \<longleftrightarrow>
      rejects head_schema ''nft_holdings'' (map (\<lambda>h. token_row (ho_chain_id h) (ho_contract h) (ho_token_id h))
        (nft_holdings db)) (token_row chain contract token)) \<and>
   (flush_nft_transfer db transfer = Inl IntegrityError \<longleftrightarrow>
      rejects head_schema ''nft_transfers'' (map (\<lambda>t. transaction_row (nt_idempotency_key t)) (nft_transfers db))
        (transaction_row (nt_idempotency_key transfer))) \<and>
   (flush_nft_withdrawal db withdrawal = Inl IntegrityError \<longleftrightarrow>
      rejects head_schema ''nft_withdrawal_requests'' (map nft_withdrawal_row (nft_withdrawal_requests db))
        (nft_withdrawal_row withdrawal)) \<and>
   (flush_sweep sweep db = Inl IntegrityError \<longleftrightarrow>
      rejects head_schema ''nft_sweeps'' (map (\<lambda>w. token_row (sw_chain_id w) (sw_contract w) (sw_token_id w))
        (nft_sweeps db)) (token_row (sw_chain_id sweep) (sw_contract sweep) (sw_token_id sweep))) \<and>
   (insert_nonce_row db nonce = Inl IntegrityError \<longleftrightarrow>
      rejects head_schema ''hot_wallet_nonces'' (map (\<lambda>r. chain_row (hw_chain_id r)) (hot_wallet_nonces db))
        (chain_row (hw_chain_id nonce)))"
  by (intro conjI)
    (simp_all add: flush_user_def user_rejected flush_deposit_address_def deposit_address_rejected
      insert_account_def account_rejected flush_transaction_def flush_deposit_def deposit_rejected
      flush_nft_transfer_def flush_nft_withdrawal_def nft_withdrawal_rejected flush_sweep_def
      insert_nonce_row_def nonce_rejected key_rejected token_rejected Let_def
      sw_key_def [abs_def] ho_key_def [abs_def])

section \<open>Tables\<close>

text \<open>A table whose rows could be inserted one after the other.\<close>

fun consistent :: "schema \<Rightarrow> string \<Rightarrow> sql_row list \<Rightarrow> bool" where
  "consistent s n [] \<longleftrightarrow> True"
| "consistent s n (r # rs) \<longleftrightarrow> \<not> rejects s n rs r \<and> consistent s n rs"

lemma consistent_accounts:
  "consistent head_schema ''ledger_accounts'' (map account_row as) \<longleftrightarrow> distinct (map account_key as)"
  by (induction as) (simp_all add: account_rejected)

lemma consistent_transactions:
  "consistent head_schema ''ledger_transactions'' (map (\<lambda>t. transaction_row (f t)) ts) \<longleftrightarrow> distinct (map f ts)"
  by (induction ts) (simp_all add: key_rejected)

lemma consistent_deposits:
  "distinct (map dep_key ds) \<Longrightarrow> consistent head_schema ''onchain_deposits'' (map deposit_row ds)"
  by (induction ds) (auto dest: deposit_key_taken)

section \<open>The mapped classes\<close>

fun is_unique :: "constraint \<Rightarrow> bool" where
  "is_unique (Unique n cs) = True"
| "is_unique c = False"

definition table_shape :: "table_def \<Rightarrow> string \<times> column_def set \<times> constraint set" where
  "table_shape t = (tb_name t, tb_columns t, {i \<in> tb_constraints t. \<not> is_unique i})"

definition table_rules :: "schema \<Rightarrow> (string \<times> (key_part list \<times> index_where) set) list" where
  "table_rules s = map (\<lambda>t. (tb_name t, rules_of s (tb_name t))) (sc_tables s)"

lemma models_match_migrations:
  "set (map table_shape (sc_tables metadata)) = set (map table_shape (sc_tables head_schema)) \<and>
   (\<forall>(n, rules) \<in> set (table_rules metadata). n \<notin> {''deposit_addresses'', ''ledger_accounts''} \<longrightarrow>
      rules = rules_of head_schema n) \<and>
   filter (\<lambda>i. \<not> ix_unique i) (sc_indexes metadata) = filter (\<lambda>i. \<not> ix_unique i) (sc_indexes head_schema) \<and>
   rules_of metadata ''deposit_addresses'' = {([Col ''user_id''], Always), ([Col ''address''], Always)} \<and>
   rules_of metadata ''ledger_accounts'' =
     {([Col ''owner_type'', Col ''user_id'', Col ''asset_id'', Col ''name''], Always)}"
  by (intro conjI; code_simp)

section \<open>The data migration\<close>

lemma migration_rows_eq: "migration_rows uuid5 reg = asset_rows uuid5 reg"
  by (simp add: migration_rows_def asset_rows_def migration_asset_id_def asset_id_for_def list_chains_def Let_def)

lemma asset_in_use_assets [simp]: "asset_in_use (db\<lparr>assets := as\<rparr>) i = asset_in_use db i"
  by (simp add: asset_in_use_def)

lemma delete_assets:
  "for_each delete_asset ks db =
     (if \<exists>a \<in> set (assets db). asset_key a \<in> set ks \<and> asset_in_use db (ast_id a) then Inl IntegrityError
      else Inr (db\<lparr>assets := filter (\<lambda>a. asset_key a \<notin> set ks) (assets db)\<rparr>))"
proof (induction ks arbitrary: db)
  case (Cons k ks)
  show ?case
  proof (cases "\<exists>a \<in> set (assets db). asset_key a = k \<and> asset_in_use db (ast_id a)")
    case True
    then show ?thesis by (auto simp: delete_asset_def)
  next
    case False
    let ?db = "db\<lparr>assets := filter (\<lambda>a. asset_key a \<noteq> k) (assets db)\<rparr>"
    have one: "delete_asset k db = Inr ?db" unfolding delete_asset_def using False by (simp only: if_False)
    have used: "(\<exists>a \<in> set (assets ?db). asset_key a \<in> set ks \<and> asset_in_use ?db (ast_id a)) \<longleftrightarrow>
        (\<exists>a \<in> set (assets db). asset_key a \<in> set (k # ks) \<and> asset_in_use db (ast_id a))" using False by auto
    have rest: "?db\<lparr>assets := filter (\<lambda>a. asset_key a \<notin> set ks) (assets ?db)\<rparr> =
        db\<lparr>assets := filter (\<lambda>a. asset_key a \<notin> set (k # ks)) (assets db)\<rparr>" by (simp add: conj_commute)
    show ?thesis unfolding for_each.simps one bind_res_simps Cons.IH used rest ..
  qed
qed simp

text \<open>
  The data migration 0002 writes exactly what the seeding of the running backend writes,
  with the same ids, so that the two cannot create different rows for an asset; its downgrade
  removes exactly the rows of the registry's assets, and is refused as a whole when an account,
  an entry, a deposit or a withdrawal still refers to one of them.
\<close>

theorem seed_migration_is_seeding:
  "upgrade_0002 uuid5 reg db = seed_assets uuid5 reg db \<and>
   downgrade_0002 reg db =
     (if \<exists>a \<in> set (assets db). asset_key a \<in> asset_key ` set (migration_rows uuid5 reg) \<and> asset_in_use db (ast_id a)
      then Inl IntegrityError
      else Inr (db\<lparr>assets := filter (\<lambda>a. asset_key a \<notin> asset_key ` set (migration_rows uuid5 reg)) (assets db)\<rparr>))"
proof -
  have "asset_key ` set (migration_rows uuid5 reg) =
      set (concat (map (\<lambda>chain. map (\<lambda>a. (ch_chain_id chain, upper (ra_symbol a))) (ch_assets chain)) (map snd (rg_chains reg))))"
    by (simp add: migration_rows_def image_UN image_image asset_key_def Let_def)
  moreover have "upgrade_0002 uuid5 reg db = seed_assets uuid5 reg db"
    by (simp add: upgrade_0002_def seed_assets_def migration_rows_eq Let_def)
  ultimately show ?thesis unfolding downgrade_0002_def delete_assets by simp
qed

end
