(* ===== verification/Rate_Facts.thy ===== *)
theory Rate_Facts
  imports Samples Rate_Limit
begin

text \<open>
  The rate limits over time: any sequence of calls, by any users and for any actions, as the
  clock moves on. A refused call leaves no trace, so it cannot use up anybody's allowance.
\<close>

section \<open>Calls in time\<close>

text \<open>A call is its time, its action and its user; the state also lists the accepted calls.\<close>

type_synonym rate_call = "int \<times> string \<times> uuid"

definition rate_attempt :: "settings \<Rightarrow> rate_call \<Rightarrow> db \<times> rate_call list \<Rightarrow> db \<times> rate_call list" where
  "rate_attempt st c s =
     (case (c, s) of ((t, action, u), (db, accepted)) \<Rightarrow>
        case enforce_rate_limit st (db\<lparr>db_now := t\<rparr>) action u None of
          Inl e \<Rightarrow> s
        | Inr db' \<Rightarrow> (db', accepted @ [c]))"

definition rate_run :: "settings \<Rightarrow> rate_call list \<Rightarrow> db \<Rightarrow> db \<times> rate_call list" where
  "rate_run st calls db = fold (rate_attempt st) calls (db, [])"

text \<open>The accepted calls for an action from a time on, of one scope or of all.\<close>

definition accepted_since :: "rate_call list \<Rightarrow> string \<Rightarrow> int \<Rightarrow> string option \<Rightarrow> rate_call list" where
  "accepted_since cs action since scope = filter (\<lambda>(t, a, u). a = action \<and> since \<le> t
     \<and> (case scope of None \<Rightarrow> True | Some k \<Rightarrow> user_scope u = k)) cs"

definition accepted_within :: "rate_call list \<Rightarrow> string \<Rightarrow> int \<Rightarrow> int \<Rightarrow> uuid option \<Rightarrow> rate_call list" where
  "accepted_within cs action from_t to_t user = filter (\<lambda>(t, a, u). a = action \<and> from_t \<le> t \<and> t \<le> to_t
     \<and> (case user of None \<Rightarrow> True | Some v \<Rightarrow> u = v)) cs"

definition longest_window :: "string \<Rightarrow> int" where
  "longest_window action = (case map_of LIMITS action of None \<Rightarrow> 0
     | Some (pu, gl) \<Rightarrow> seconds (Max (set (map fst (pu @ gl)))))"

section \<open>What the table remembers\<close>

text \<open>Every accepted call that some window can still reach is in the table.\<close>

definition remembered :: "db \<Rightarrow> rate_call list \<Rightarrow> bool" where
  "remembered db accepted \<longleftrightarrow> (\<forall>action since scope. map_of LIMITS action \<noteq> None \<longrightarrow>
     (\<forall>(t, a, u) \<in> set accepted. a = action \<longrightarrow> t - longest_window action \<le> since) \<longrightarrow>
     int (length (accepted_since accepted action since scope)) \<le> count_events db action since scope)"

lemma count_add:
  "count_events (add_event db (user_scope u) a t) action since scope = count_events db action since scope +
     int (length (accepted_since [(t, a, u)] action since scope))"
  by (auto simp: count_events_def add_event_def accepted_since_def split: option.splits)

lemma count_prune_other:
  "a \<noteq> action \<Longrightarrow> count_events (prune_events db a before) action since scope = count_events db action since scope"
  unfolding count_events_def prune_events_def
  by simp (metis (mono_tags, lifting) filter_cong)

lemma enforce_counts:
  assumes e: "enforce_rate_limit st db a u None = Inr db'" and on: "rate_limit_enabled st"
    and lim: "map_of LIMITS a \<noteq> None" and since: "a = action \<Longrightarrow> db_now db - longest_window a \<le> since"
  shows "count_events db' action since scope = count_events db action since scope +
     int (length (accepted_since [(db_now db, a, u)] action since scope))"
proof -
  obtain pu gl where l: "map_of LIMITS a = Some (pu, gl)" using lim by auto
  let ?add = "add_event db (user_scope u) a (db_now db)"
  have "db' = ?add \<or> db' = prune_events ?add a (db_now db - longest_window a)"
    using e on l by (auto simp: enforce_rate_limit_def Let_def longest_window_def split: if_splits)
  then have "count_events db' action since scope = count_events ?add action since scope"
    using count_prune_eq [of "db_now db - longest_window a" since] count_prune_other [of a action] since
    by (cases "a = action") auto
  then show ?thesis by (simp add: count_add)
qed

lemma accepted_since_append:
  "accepted_since (xs @ ys) action since scope =
     accepted_since xs action since scope @ accepted_since ys action since scope"
  by (simp add: accepted_since_def)

lemma count_now [simp]: "count_events (db\<lparr>db_now := t\<rparr>) action since scope = count_events db action since scope"
  by (simp add: count_events_def)

lemma remembered_now [simp]: "remembered (db\<lparr>db_now := t\<rparr>) accepted = remembered db accepted"
  by (simp add: remembered_def)

lemma remembered_enforce:
  assumes r: "remembered db accepted" and on: "rate_limit_enabled st"
    and e: "enforce_rate_limit st db a u None = Inr db'"
  shows "remembered db' (accepted @ [(db_now db, a, u)])"
  unfolding remembered_def
proof (intro allI impI)
  fix action since scope
  assume lim: "map_of LIMITS action \<noteq> None"
    and reach: "\<forall>(t, a', u') \<in> set (accepted @ [(db_now db, a, u)]). a' = action \<longrightarrow>
      t - longest_window action \<le> since"
  have old: "int (length (accepted_since accepted action since scope)) \<le> count_events db action since scope"
    using r lim reach unfolding remembered_def by auto
  show "int (length (accepted_since (accepted @ [(db_now db, a, u)]) action since scope)) \<le>
      count_events db' action since scope"
  proof (cases "map_of LIMITS a = None")
    case True
    then have "db' = db" "a \<noteq> action" using e on lim by (auto simp: enforce_rate_limit_def)
    then show ?thesis using old by (simp add: accepted_since_append) (simp add: accepted_since_def)
  next
    case False
    then show ?thesis using enforce_counts [OF e on False, of action since scope] old reach
      by (auto simp: accepted_since_append)
  qed
qed

lemma remembered_count:
  assumes "remembered db accepted" "map_of LIMITS action \<noteq> None" "\<forall>(t', a, u) \<in> set accepted. t' \<le> t"
    and "w \<le> longest_window action"
  shows "int (length (accepted_since accepted action (t - w) scope)) \<le> count_events db action (t - w) scope"
proof -
  have "\<forall>(t', a, u) \<in> set accepted. a = action \<longrightarrow> t' - longest_window action \<le> t - w"
    using assms(3,4) by fastforce
  then show ?thesis using assms(1,2) unfolding remembered_def by blast
qed

section \<open>The limits\<close>

text \<open>One user's calls and all calls for an action in any window.\<close>

definition within_limits :: "rate_call list \<Rightarrow> bool" where
  "within_limits accepted \<longleftrightarrow> (\<forall>action pu gl w l t. map_of LIMITS action = Some (pu, gl) \<longrightarrow>
     ((w, l) \<in> set pu \<longrightarrow> (\<forall>u. int (length (accepted_within accepted action (t - seconds w) t (Some u))) \<le> l)) \<and>
     ((w, l) \<in> set gl \<longrightarrow> int (length (accepted_within accepted action (t - seconds w) t None)) \<le> l))"

lemma limits_positive: "map_of LIMITS action = Some (pu, gl) \<Longrightarrow> (w, l) \<in> set pu \<union> set gl \<Longrightarrow> 0 < l \<and> 0 < w"
  by (auto simp: LIMITS_def split: if_splits)

lemma limits_nonneg:
  assumes "map_of LIMITS action = Some (pu, gl)"
  shows "(w, l) \<in> set pu \<Longrightarrow> 0 \<le> l" "(w, l) \<in> set gl \<Longrightarrow> 0 \<le> l"
  using limits_positive [OF assms, of w l] by auto

lemma within_since:
  assumes "\<forall>(t', a, u) \<in> set cs. t' \<le> t" "t \<le> T"
  shows "length (accepted_within cs action (T - w) T None) \<le> length (accepted_since cs action (t - w) None)"
    "length (accepted_within cs action (T - w) T (Some v)) \<le>
       length (accepted_since cs action (t - w) (Some (user_scope v)))"
  using assms by (induction cs) (auto simp: accepted_within_def accepted_since_def)

lemma within_limits_snoc:
  assumes L: "within_limits accepted" and r: "remembered db' (accepted @ [(t, a, u)])"
    and before: "\<forall>(t', a', u') \<in> set accepted. t' \<le> t" and on: "rate_limit_enabled st"
    and e: "enforce_rate_limit st db a u None = Inr db'" and now: "db_now db = t"
  shows "within_limits (accepted @ [(t, a, u)])"
  unfolding within_limits_def
proof (intro allI impI)
  fix action pu gl w l T
  assume lim: "map_of LIMITS action = Some (pu, gl)"
  let ?cs = "accepted @ [(t, a, u)]"
  have all: "\<forall>(t', a', u') \<in> set ?cs. t' \<le> t" using before by auto
  have old: "(w, l) \<in> set pu \<Longrightarrow> int (length (accepted_within accepted action (T - seconds w) T (Some v))) \<le> l"
    "(w, l) \<in> set gl \<Longrightarrow> int (length (accepted_within accepted action (T - seconds w) T None)) \<le> l" for v
    using L lim unfolding within_limits_def by blast+
  have max: "(w, l) \<in> set pu \<union> set gl \<Longrightarrow> seconds w \<le> longest_window action"
    using window_le_Max [of w l "pu @ gl"] lim by (simp add: longest_window_def seconds_def)
  have count: "int (length (accepted_since ?cs action (t - seconds w) scope)) \<le>
      count_events db' action (t - seconds w) scope" if "(w, l) \<in> set pu \<union> set gl" for scope
    using remembered_count [OF r _ all max [OF that]] lim by simp
  have hit: "int (length (accepted_within ?cs action (T - seconds w) T (Some v))) \<le> l"
    if pu: "(w, l) \<in> set pu" and new: "a = action" "u = v" "t \<le> T" for v
  proof -
    have "count_events db' action (t - seconds w) (Some (user_scope v)) \<le> l"
      using enforce_accepts(1) [OF e on _ _ pu, of gl t] lim new now by simp
    then show ?thesis using within_since(2) [OF all new(3), of action "seconds w" v] count [of "Some (user_scope v)"] pu
      by simp
  qed
  have hit_all: "int (length (accepted_within ?cs action (T - seconds w) T None)) \<le> l"
    if gl: "(w, l) \<in> set gl" and new: "a = action" "t \<le> T"
  proof -
    have "count_events db' action (t - seconds w) None \<le> l"
      using enforce_accepts(2) [OF e on _ _ gl, of pu t] lim new now by simp
    then show ?thesis using within_since(1) [OF all new(2), of action "seconds w"] count [of None] gl by simp
  qed
  have miss: "accepted_within ?cs action (T - seconds w) T sc = accepted_within accepted action (T - seconds w) T sc"
    if "\<not> (a = action \<and> t \<le> T \<and> (case sc of None \<Rightarrow> True | Some v \<Rightarrow> u = v))" for sc
    using that by (auto simp: accepted_within_def split: option.splits)
  show "((w, l) \<in> set pu \<longrightarrow> (\<forall>v. int (length (accepted_within ?cs action (T - seconds w) T (Some v))) \<le> l)) \<and>
     ((w, l) \<in> set gl \<longrightarrow> int (length (accepted_within ?cs action (T - seconds w) T None)) \<le> l)"
  proof (intro conjI impI allI)
    fix v assume pu: "(w, l) \<in> set pu"
    show "int (length (accepted_within ?cs action (T - seconds w) T (Some v))) \<le> l"
    proof (cases "(a = action \<and> t \<le> T) \<and> u = v")
      case True
      then show ?thesis using hit [OF pu] by blast
    next
      case False
      then show ?thesis using old(1) [OF pu, of v] miss [of "Some v"] by (auto simp del: of_nat_le_iff)
    qed
  next
    assume gl: "(w, l) \<in> set gl"
    show "int (length (accepted_within ?cs action (T - seconds w) T None)) \<le> l"
    proof (cases "a = action \<and> t \<le> T")
      case True
      then show ?thesis using hit_all [OF gl] by blast
    next
      case False
      then show ?thesis using old(2) [OF gl] miss [of None] by simp
    qed
  qed
qed

definition rate_inv :: "rate_call list \<Rightarrow> db \<times> rate_call list \<Rightarrow> bool" where
  "rate_inv rest s \<longleftrightarrow> remembered (fst s) (snd s) \<and> within_limits (snd s) \<and>
     (\<forall>(t, a, u) \<in> set (snd s). \<forall>(t', a', u') \<in> set rest. t \<le> t')"

lemma rate_attempt_inv:
  assumes I: "rate_inv (c # rest) s" and st: "sorted (map fst (c # rest))" and on: "rate_limit_enabled st"
  shows "rate_inv rest (rate_attempt st c s)"
proof -
  obtain t a u where c: "c = (t, a, u)" by (cases c) blast
  obtain db acc where s: "s = (db, acc)" by (cases s)
  have R: "remembered (db\<lparr>db_now := t\<rparr>) acc" "within_limits acc" "\<forall>(t', a', u') \<in> set acc. t' \<le> t"
    and rest: "\<forall>(t', a', u') \<in> set acc. \<forall>(t'', a'', u'') \<in> set rest. t' \<le> t''"
    using I by (auto simp: rate_inv_def s c)
  have later: "\<forall>(t', a', u') \<in> set rest. t \<le> t'" using st by (auto simp: c)
  show ?thesis
  proof (cases "enforce_rate_limit st (db\<lparr>db_now := t\<rparr>) a u None")
    case Inl
    then show ?thesis using R rest by (simp add: rate_attempt_def c s rate_inv_def)
  next
    case (Inr db')
    note m = remembered_enforce [OF R(1) on Inr, simplified]
    have "within_limits (acc @ [(t, a, u)])" by (rule within_limits_snoc [OF R(2) m R(3) on Inr]) simp
    then show ?thesis using Inr m rest later by (auto simp: rate_attempt_def c s rate_inv_def)
  qed
qed

lemma rate_run_inv:
  "rate_inv calls s \<Longrightarrow> sorted (map fst calls) \<Longrightarrow> rate_limit_enabled st \<Longrightarrow>
   rate_inv [] (fold (rate_attempt st) calls s)"
proof (induction calls arbitrary: s)
  case (Cons c calls)
  then show ?case using rate_attempt_inv [OF Cons.prems] by simp
qed simp

text \<open>
  C37: With rate limiting on, whatever calls arrive in whatever order of users and actions as
  time passes, and whatever the table held before: in any window of a per-user limit, wherever
  it lies, no user has more accepted calls than the limit, and in any window of a global limit
  all users together have no more than the limit. In particular the pruning never lets a call
  be forgotten that a window can still reach.
\<close>

theorem rate_limits_bound_every_window:
  assumes "rate_limit_enabled st" "sorted (map fst calls)"
    and "map_of LIMITS action = Some (per_user, global_limits)"
  shows "((w, l) \<in> set per_user \<longrightarrow>
      int (length (accepted_within (snd (rate_run st calls db)) action (t - seconds w) t (Some u))) \<le> l) \<and>
    ((w, l) \<in> set global_limits \<longrightarrow>
      int (length (accepted_within (snd (rate_run st calls db)) action (t - seconds w) t None)) \<le> l)"
proof -
  have "rate_inv calls (db, [])"
    by (auto simp: rate_inv_def remembered_def within_limits_def accepted_since_def accepted_within_def count_events_def
        intro: limits_nonneg)
  then have "within_limits (snd (rate_run st calls db))"
    using rate_run_inv [OF _ assms(2,1)] by (simp add: rate_run_def rate_inv_def)
  then show ?thesis using assms(3) unfolding within_limits_def by blast
qed

text \<open>Alice asks for a withdrawal three times within 40 seconds; the second call is refused.\<close>

definition demo_calls :: "rate_call list" where
  "demo_calls = [(1000000, ''withdrawal'', 1), (11000000, ''withdrawal'', 1), (40000000, ''withdrawal'', 1)]"

theorem rate_limits_bound_every_window_witness:
  "snd (rate_run default_settings demo_calls demo_db) =
     [(1000000, ''withdrawal'', 1), (40000000, ''withdrawal'', 1)] \<and>
   int (length (accepted_within (snd (rate_run default_settings demo_calls demo_db)) ''withdrawal''
     (40000000 - seconds 30) 40000000 (Some 1))) \<le> 1"
proof
  show "snd (rate_run default_settings demo_calls demo_db) =
     [(1000000, ''withdrawal'', 1), (40000000, ''withdrawal'', 1)]" by code_simp
  have "rate_limit_enabled default_settings" "sorted (map fst demo_calls)" by code_simp+
  note bound = rate_limits_bound_every_window [OF this, of "''withdrawal''" "[(30, 1), (3600, 10), (86400, 30)]"
      "[(3600, 60), (86400, 300)]" 30 1 demo_db 40000000 1]
  show "int (length (accepted_within (snd (rate_run default_settings demo_calls demo_db)) ''withdrawal''
     (40000000 - seconds 30) 40000000 (Some 1))) \<le> 1"
    using bound [THEN conjunct1] by (simp add: LIMITS_def del: One_nat_def)
qed

end
