(* ===== verification/Nft_Art.thy ===== *)
theory Nft_Art
  imports Strings
begin

text \<open>
  The generated picture of a token: \<open>app/services/nft_art.py\<close>. Parameters: the SHA-256 digest as
  a list of bytes, and the text of one corner of the polygon,
  \<open>point_text index sides point_radius\<close>, which the source computes in floating point.
  The facts: a token id cannot add markup to the picture, the picture can be read back from the
  data URI, and the star in its middle is a proper one inside the canvas.
\<close>

section \<open>Library functions the source uses\<close>

text \<open>\<open>html.escape\<close>, \<open>str.join\<close> and \<open>base64.b64encode\<close>; text is ASCII, so UTF-8 keeps its codes.\<close>

definition escape_char :: "char \<Rightarrow> string" where
  "escape_char c =
     (if c = CHR ''&'' then ''&amp;''
      else if c = CHR ''<'' then ''&lt;''
      else if c = CHR ''>'' then ''&gt;''
      else if c = CHR 0x22 then ''&quot;''
      else if c = CHR 0x27 then ''&#x27;''
      else [c])"

definition escape :: "string \<Rightarrow> string" where
  "escape s = concat (map escape_char s)"

fun join_str :: "string \<Rightarrow> string list \<Rightarrow> string" where
  "join_str sep [] = []"
| "join_str sep [s] = s"
| "join_str sep (s # t # ts) = s @ sep @ join_str sep (t # ts)"

definition b64_alphabet :: string where
  "b64_alphabet = ''ABCDEFGHIJKLMNOPQRSTUVWXYZabcdefghijklmnopqrstuvwxyz0123456789+/''"

definition b64_char :: "nat \<Rightarrow> char" where
  "b64_char n = b64_alphabet ! n"

fun b64encode :: "nat list \<Rightarrow> string" where
  "b64encode [] = []"
| "b64encode [a] = [b64_char (a div 4), b64_char (a mod 4 * 16), CHR ''='', CHR ''='']"
| "b64encode [a, b] = [b64_char (a div 4), b64_char (a mod 4 * 16 + b div 16), b64_char (b mod 16 * 4), CHR ''='']"
| "b64encode (a # b # c # s) =
     [b64_char (a div 4), b64_char (a mod 4 * 16 + b div 16), b64_char (b mod 16 * 4 + c div 64), b64_char (c mod 64)]
     @ b64encode s"

definition utf8 :: "string \<Rightarrow> nat list" where
  "utf8 s = map of_char s"

section \<open>The picture\<close>

definition SIZE :: int where "SIZE = 512"

definition CENTER :: int where "CENTER = SIZE div 2"

definition seed_bytes :: "(string \<Rightarrow> nat list) \<Rightarrow> int \<Rightarrow> string \<Rightarrow> string \<Rightarrow> nat list" where
  "seed_bytes sha256 chain_id contract token_id =
     sha256 (int_str chain_id @ '':'' @ lower contract @ '':'' @ token_id)"

definition byte :: "nat list \<Rightarrow> nat \<Rightarrow> int" where
  "byte seed i = int (seed ! i)"

definition color :: "nat list \<Rightarrow> nat \<Rightarrow> string" where
  "color seed offset =
     (let hue = (256 * byte seed offset + byte seed (offset + 1)) mod 360;
          saturation = 58 + byte seed (offset + 2) mod 34;
          lightness = 38 + byte seed (offset + 3) mod 28 in
      ''hsl('' @ int_str hue @ '' '' @ int_str saturation @ ''% '' @ int_str lightness @ ''%)'')"

definition rotation_of :: "nat list \<Rightarrow> int" where "rotation_of seed = byte seed 20 mod 360"

definition sides_of :: "nat list \<Rightarrow> int" where "sides_of seed = 3 + byte seed 21 mod 6"

definition radius_of :: "nat list \<Rightarrow> int" where "radius_of seed = 96 + byte seed 22 mod 88"

definition inner_of :: "nat list \<Rightarrow> int" where "inner_of seed = 28 + byte seed 23 mod 44"

definition points_of :: "(int \<Rightarrow> int \<Rightarrow> int \<Rightarrow> string) \<Rightarrow> nat list \<Rightarrow> string list" where
  "points_of point_text seed =
     map (\<lambda>index.
        let point_radius = (if index mod 2 = 0 then radius_of seed else radius_of seed - inner_of seed) in
        point_text index (sides_of seed) point_radius)
       [0 .. sides_of seed * 2 - 1]"

text \<open>\<open>token_id[-18:]\<close>\<close>

definition last_chars :: "nat \<Rightarrow> string \<Rightarrow> string" where
  "last_chars n s = drop (length s - n) s"

definition svg_text :: "nat list \<Rightarrow> string list \<Rightarrow> string \<Rightarrow> string" where
  "svg_text seed points token_id =
     (let background_a = color seed 0;
          background_b = color seed 4;
          accent_a = color seed 8;
          accent_b = color seed 12;
          accent_c = color seed 16;
          rotation = rotation_of seed;
          token_text = escape (last_chars 18 token_id);
          full_token_text = escape token_id in
      concat
       [''<svg xmlns=\"http://www.w3.org/2000/svg\" viewBox=\"0 0 512 512\" role=\"img\" '',
        ''aria-label=\"Kasa collectible '', token_text, ''\">'',
        ''<title>Kasa collectible #'', full_token_text, ''</title>'',
        ''<defs>'',
        ''<linearGradient id=\"bg\" x1=\"0%\" y1=\"0%\" x2=\"100%\" y2=\"100%\">'',
        ''<stop offset=\"0%\" stop-color=\"'', background_a, ''\"/>'',
        ''<stop offset=\"100%\" stop-color=\"'', background_b, ''\"/>'',
        ''</linearGradient>'',
        ''<filter id=\"shadow\" x=\"-20%\" y=\"-20%\" width=\"140%\" height=\"140%\">'',
        ''<feDropShadow dx=\"0\" dy=\"18\" stdDeviation=\"18\" flood-opacity=\".28\"/>'',
        ''</filter>'',
        ''</defs>'',
        ''<rect width=\"512\" height=\"512\" rx=\"44\" fill=\"url(#bg)\"/>'',
        ''<circle cx=\"92\" cy=\"104\" r=\"'', int_str (42 + byte seed 24 mod 80), ''\" fill=\"'', accent_a, ''\" opacity=\".28\"/>'',
        ''<circle cx=\"430\" cy=\"390\" r=\"'', int_str (54 + byte seed 25 mod 70), ''\" fill=\"'', accent_b, ''\" opacity=\".24\"/>'',
        ''<g transform=\"rotate('', int_str rotation, '' 256 256)\" filter=\"url(#shadow)\">'',
        ''<polygon points=\"'', join_str '' '' points, ''\" fill=\"'', accent_c, ''\" opacity=\".92\"/>'',
        ''<circle cx=\"256\" cy=\"256\" r=\"'', int_str (46 + byte seed 26 mod 46), ''\" fill=\"'', accent_a, ''\" opacity=\".82\"/>'',
        ''<circle cx=\"256\" cy=\"256\" r=\"'', int_str (18 + byte seed 27 mod 28), ''\" fill=\"'', background_a, ''\" opacity=\".9\"/>'',
        ''</g>'',
        ''<rect x=\"56\" y=\"396\" width=\"400\" height=\"64\" rx=\"22\" fill=\"#111827\" opacity=\".72\"/>'',
        ''<text x=\"256\" y=\"437\" text-anchor=\"middle\" '',
        ''font-family=\"Inter, ui-sans-serif, system-ui, -apple-system, '',
        ''BlinkMacSystemFont, Segoe UI, sans-serif\" '',
        ''font-size=\"28\" font-weight=\"700\" fill=\"#ffffff\">'',
        ''#'', token_text,
        ''</text>'',
        ''</svg>''])"

definition svg_for ::
  "(string \<Rightarrow> nat list) \<Rightarrow> (int \<Rightarrow> int \<Rightarrow> int \<Rightarrow> string) \<Rightarrow> int \<Rightarrow> string \<Rightarrow> string \<Rightarrow> string" where
  "svg_for sha256 point_text chain_id contract token_id =
     (let seed = seed_bytes sha256 chain_id contract token_id in
      svg_text seed (points_of point_text seed) token_id)"

definition data_uri ::
  "(string \<Rightarrow> nat list) \<Rightarrow> (int \<Rightarrow> int \<Rightarrow> int \<Rightarrow> string) \<Rightarrow> int \<Rightarrow> string \<Rightarrow> string \<Rightarrow> string" where
  "data_uri sha256 point_text chain_id contract token_id =
     (let svg = svg_for sha256 point_text chain_id contract token_id;
          encoded = b64encode (utf8 svg) in
      ''data:image/svg+xml;base64,'' @ encoded)"

section \<open>Reading a picture\<close>

text \<open>The characters that make up tags and attribute values, and what a browser does.\<close>

definition markup :: "string \<Rightarrow> string" where
  "markup s = filter (\<lambda>c. c \<in> {CHR ''<'', CHR ''>'', CHR 0x22, CHR 0x27}) s"

fun unescape :: "string \<Rightarrow> string" where
  "unescape [] = []"
| "unescape (c # s) =
     (if take 4 s = ''amp;'' \<and> c = CHR ''&'' then CHR ''&'' # unescape (drop 4 s)
      else if take 3 s = ''lt;'' \<and> c = CHR ''&'' then CHR ''<'' # unescape (drop 3 s)
      else if take 3 s = ''gt;'' \<and> c = CHR ''&'' then CHR ''>'' # unescape (drop 3 s)
      else if take 5 s = ''quot;'' \<and> c = CHR ''&'' then CHR 0x22 # unescape (drop 5 s)
      else if take 5 s = ''#x27;'' \<and> c = CHR ''&'' then CHR 0x27 # unescape (drop 5 s)
      else c # unescape s)"

definition b64_val :: "char \<Rightarrow> nat" where
  "b64_val c = length (takeWhile (\<lambda>x. x \<noteq> c) b64_alphabet)"

fun b64decode :: "string \<Rightarrow> nat list" where
  "b64decode (w # x # y # z # s) =
     (b64_val w * 4 + b64_val x div 16) #
     (if y = CHR ''='' then []
      else (b64_val x mod 16 * 16 + b64_val y div 4) #
        (if z = CHR ''='' then [] else (b64_val y mod 4 * 64 + b64_val z) # b64decode s))"
| "b64decode s = []"

lemma markup_append [simp]: "markup (s @ t) = markup s @ markup t" "markup [] = []"
  by (simp_all add: markup_def)

lemma markup_concat: "markup (concat ss) = concat (map markup ss)"
  by (induction ss) simp_all

lemma markup_Cons:
  "markup (c # s) = (if c \<in> {CHR ''<'', CHR ''>'', CHR 0x22, CHR 0x27} then c # markup s else markup s)"
  by (simp add: markup_def)

lemma markup_escape [simp]: "markup (escape s) = []"
  by (induction s) (auto simp: escape_def escape_char_def markup_def)

lemma unescape_char: "unescape (escape_char c @ s) = c # unescape s"
  by (simp add: escape_char_def take_Cons')

lemma unescape_escape [simp]: "unescape (escape s) = s"
  by (induction s) (simp_all add: escape_def unescape_char)

lemma markup_digits: "is_digit c \<Longrightarrow> markup [c] = []"
  by (auto simp: markup_def is_digit_def)

lemma markup_all: "\<forall>c \<in> set s. markup [c] = [] \<Longrightarrow> markup s = []"
  by (induction s) (simp_all add: markup_Cons split: if_splits)

lemma markup_int_str [simp]: "markup (int_str i) = []"
proof -
  have "markup (nat_str n) = []" for n by (rule markup_all) (use markup_digits nat_str_digits in blast)
  then show ?thesis by (simp add: int_str_def markup_Cons)
qed

lemma markup_color [simp]: "markup (color seed k) = []"
  by (simp add: color_def Let_def markup_Cons)

lemma markup_join: "markup sep = [] \<Longrightarrow> \<forall>s \<in> set ss. markup s = [] \<Longrightarrow> markup (join_str sep ss) = []"
  by (induction sep ss rule: join_str.induct) simp_all

lemma b64_all: "list_all (\<lambda>n. b64_val (b64_char n) = n \<and> b64_char n \<noteq> CHR ''='') [0..<64]"
  by code_simp

lemma b64_val_char [simp]: "n < 64 \<Longrightarrow> b64_val (b64_char n) = n" "n < 64 \<Longrightarrow> b64_char n \<noteq> CHR ''=''"
  using b64_all by (auto simp: list_all_iff)

lemma six_bits:
  assumes "(a::nat) < 256" "b < 256"
  shows "a div 4 < 64" "a mod 4 * 16 < 64" "a mod 4 * 16 + b div 16 < 64" "a mod 16 * 4 < 64"
    "a mod 16 * 4 + b div 64 < 64"
  using assms by linarith+

lemma regroup:
  assumes "(b::nat) < 256" "c < 256"
  shows "b div 16 div 16 = 0" "b div 16 mod 16 * 16 + (b mod 16 + c div 64 div 4) = b"
    "c div 64 mod 4 * 64 + c mod 64 = c"
proof -
  have "b div 16 < 16" "c div 64 < 4" using assms by linarith+
  then show "b div 16 div 16 = 0" "b div 16 mod 16 * 16 + (b mod 16 + c div 64 div 4) = b"
    "c div 64 mod 4 * 64 + c mod 64 = c" by simp_all
qed

lemma b64decode_encode: "\<forall>x \<in> set s. x < 256 \<Longrightarrow> b64decode (b64encode s) = s"
proof (induction s rule: b64encode.induct)
  case (2 a)
  then show ?case using six_bits [of a 0] by simp
next
  case (3 a b)
  then show ?case using six_bits [of a b] six_bits [of b 0] by simp
next
  case (4 a b c s)
  then show ?case using six_bits [of a b] six_bits [of b c] six_bits [of c 0] regroup [of b c] by simp
qed simp

lemma utf8_bytes: "\<forall>x \<in> set (utf8 s). x < 256" "map char_of (utf8 s) = s"
  by (simp_all add: utf8_def comp_def)

section \<open>What a picture shows\<close>

lemma star_on_canvas:
  "3 \<le> sides_of seed \<and> sides_of seed \<le> 8 \<and> length (points_of pt seed) = nat (2 * sides_of seed) \<and>
   0 < radius_of seed - inner_of seed \<and> radius_of seed - inner_of seed < radius_of seed \<and>
   CENTER + radius_of seed \<le> SIZE \<and> 0 \<le> CENTER - radius_of seed \<and> 0 \<le> rotation_of seed \<and> rotation_of seed < 360"
proof -
  have "0 \<le> x mod k \<and> x mod k < k" if "0 < k" for x k :: int using that by simp
  from this [of 6 "byte seed 21"] this [of 88 "byte seed 22"] this [of 44 "byte seed 23"] this [of 360 "byte seed 20"]
  have "0 \<le> byte seed 21 mod 6" "byte seed 21 mod 6 < 6" "0 \<le> byte seed 22 mod 88" "byte seed 22 mod 88 < 88"
    "0 \<le> byte seed 23 mod 44" "byte seed 23 mod 44 < 44" "0 \<le> byte seed 20 mod 360" "byte seed 20 mod 360 < 360"
    by simp_all
  then show ?thesis
    unfolding sides_of_def radius_of_def inner_of_def rotation_of_def points_of_def CENTER_def SIZE_def
    by (intro conjI) (simp_all add: algebra_simps)
qed

text \<open>
  C40: Whatever text a contract chooses as the id of a token, and however the hash colours the
  picture, the tags and attributes of the picture are those of every other picture: the id can
  neither open a tag nor leave an attribute, and a browser shows it unchanged.
\<close>

theorem token_id_adds_no_markup:
  assumes "\<And>index sides r. markup (point_text index sides r) = []"
  shows "markup (svg_for sha256 point_text chain_id contract token_id) =
      markup (svg_text (replicate 32 0) [] ''1'') \<and>
    unescape (escape token_id) = token_id"
proof -
  have "markup (join_str '' '' (points_of point_text seed)) = []" for seed
    by (rule markup_join) (auto simp: points_of_def assms Let_def markup_Cons)
  then have "markup (svg_text seed (points_of point_text seed) t) = markup (svg_text seed' [] t')" for seed seed' t t'
    unfolding svg_text_def Let_def
    by (simp only: join_str.simps markup_concat list.map markup_color markup_int_str markup_escape markup_append)
  then show ?thesis unfolding svg_for_def Let_def by simp
qed

text \<open>
  A picture can be read back from its data URI: what follows the prefix is Base64 of exactly
  the picture's bytes.
\<close>

theorem data_uri_holds_picture:
  "take 26 (data_uri sha256 point_text chain_id contract token_id) = ''data:image/svg+xml;base64,'' \<and>
   map char_of (b64decode (drop 26 (data_uri sha256 point_text chain_id contract token_id))) =
     svg_for sha256 point_text chain_id contract token_id"
  using b64decode_encode [OF utf8_bytes(1)] utf8_bytes(2) by (simp add: data_uri_def Let_def)

text \<open>An id that tries to start a script, on a picture whose points carry plain numbers.\<close>

definition demo_points :: "int \<Rightarrow> int \<Rightarrow> int \<Rightarrow> string" where
  "demo_points index sides r = int_str (CENTER + r) @ ''.0,'' @ int_str index @ ''.0''"

theorem token_id_adds_no_markup_witness:
  "markup (svg_for (\<lambda>s. replicate 32 7) demo_points 1 ''0xAb'' ''1</title><script>'') =
     markup (svg_text (replicate 32 0) [] ''1'') \<and>
   unescape (escape ''1</title><script>'') = ''1</title><script>''"
proof (rule token_id_adds_no_markup)
  fix index sides r
  show "markup (demo_points index sides r) = []" by (simp add: demo_points_def markup_Cons)
qed

end
