(* ===== verification/Spec2Isabelle.thy ===== *)
theory Spec2Isabelle
  imports Withdrawal_Facts Deposit_Facts Registry_Facts Wallet_Facts Nft_Runs Nft_Mint_Facts Nft_Sweep_Facts Chain_Facts Worker_Main Auth_Facts Api_Facts Routes_Facts System_Books Schema_Facts Rate_Facts Nft_Art
begin

text \<open>
  Kasa is a custodial wallet: a web backend whose users hold balances in a double-entry ledger,
  and workers that move value between that ledger and several EVM chains. This development
  models the Python backend under \<open>src/backend\<close> and the shared package under
  \<open>src/packages/shared/python\<close>. Paths below are relative to \<open>src/backend\<close>.

  \<^bold>\<open>The parts and how they interact.\<close> A request reaches a route, which checks the caller and calls
  a service; services read and write the database and post to the ledger. Five worker loops read
  and write the same database and talk to the chains: the deposit watcher records, credits and
  takes back deposits; the withdrawal outbox claims, signs, broadcasts and confirms withdrawals;
  the mint and NFT withdrawal outboxes do so for NFTs; the sweeper moves deposited NFTs to the hot
  wallet. The four signing outboxes share one nonce counter per chain.

  \<^bold>\<open>How code becomes definitions.\<close> The database is the record \<open>db\<close> of theory Tables: one list of
  rows per table, the row records with the source's columns, the clock \<open>db_now\<close> in microseconds
  and a counter \<open>next_uuid\<close> for \<open>uuid4\<close>. A function that raises returns \<open>Inl\<close> the exception, else
  \<open>Inr\<close> the result and the new database; the caller of a failed request keeps the old one, as the
  session rolls back. Loops over rows are \<open>for_each\<close> over the rows the query selected, each reading
  the current row again. What is not in the repository is a parameter: hashes, key derivation,
  EIP-55 checksums (\<open>ck\<close>), JWT and password functions, \<open>uuid5\<close>; a chain is a record of operations
  that answer or raise (\<open>chain_client\<close>), and below it the web3 client over an explicit state of the
  network.

  \<^bold>\<open>Theories.\<close>
  \<^item> Prelude: results, loops, tables as keyed lists and their lemmas. Strings: the Python string
    operations. Tables: \<open>app/models/tables.py\<close>, \<open>app/core/enums.py\<close>, \<open>app/services/errors.py\<close>.
  \<^item> Ledger, Ledger_Laws: \<open>app/services/ledger.py\<close>. \<open>post\<close> writes balanced entries under a fresh
    key; the abstract ledger is the balance of each account key, and the locale \<open>ledger_client\<close>
    states what every posting operation of a worker does to it.
  \<^item> Requests, Transfers, Withdrawals, Wallet, Wallet_Facts: requests with an idempotency key
    (\<open>app/services/transfer_service.py\<close>, \<open>withdrawal_service.py\<close>, \<open>wallet_service.py\<close>). The locale
    \<open>idempotent_request\<close> states what a retry may do and is interpreted for each of them: effects,
    refusals in the order the code checks them, retries.
  \<^item> Config, Amount, Rate_Limit, Rate_Facts: \<open>app/core/config.py\<close>, \<open>app/services/limits.py\<close> and
    \<open>idempotency.py\<close>, \<open>app/types/amount.py\<close> with the shared \<open>amounts.py\<close>,
    \<open>app/services/rate_limit.py\<close>. The last bounds the accepted calls in every window of a run.
  \<^item> Chain_Types, Outbox, Bindings: \<open>app/chain/types.py\<close>, \<open>worker/_nonce.py\<close> and what the outboxes
    share. Locales state the signing loop (\<open>nonce_outbox\<close>: gap-free nonces), the broadcast loop
    (\<open>raw_broadcaster\<close>: only stored transactions are sent) and loops over rows (\<open>row_worker\<close>).
  \<^item> Withdrawer, Withdrawal_Facts: \<open>worker/withdrawer.py\<close>. A row moves from requested to approved,
    signing, broadcast and then confirmed or failed; facts: the nonces bound, what is sent again,
    on which evidence a row is settled or refunded.
  \<^item> Watcher, Deposits, Deposit_Phases, Deposit_Facts: \<open>worker/watcher.py\<close>. The invariant
    \<open>deposits_ok\<close> ties the deposits to their credits on the ledger; recording, crediting and
    reorganisations keep it.
  \<^item> Registry, Registry_Facts: \<open>kasa_shared/registry.py\<close>, \<open>models.py\<close>,
    \<open>app/services/registry_projection.py\<close>, \<open>scripts/seed_assets.py\<close>.
  \<^item> Nft_Service, Nft_Withdrawer, Nft_Minter, Nft_Holdings, Nft_Watcher, Nft_Sweeper with
    Nft_Facts, Nft_Outbox_Facts, Nft_Mint_Facts, Nft_Deposit_Facts, Nft_Sweep_Facts, Nft_Runs:
    \<open>app/services/nft_service.py\<close> and the four NFT workers; custody and locks of tokens, the
    nonces, the evidence of each decision. Nft_Art: the picture of a token,
    \<open>app/services/nft_art.py\<close>.
  \<^item> Chain_Logs, Chain_Rpc, Chain_Facts: \<open>app/chain/client.py\<close>: chunked scans, decoding, failover
    between providers, broadcasting; facts: each block is read once, absence needs all providers,
    what a broadcast reports.
  \<^item> Auth, Auth_Facts, Admin, Api, Api_Facts, Routes, Routes_Facts: accounts and tokens,
    administration, listings with cursors, every route of \<open>app/main.py\<close> with what it demands.
  \<^item> Schema, Migration_Facts, Schema_Facts: \<open>alembic/versions\<close> as lists of operations on a schema,
    the mapped classes as the schema they declare. Every downgrade undoes its upgrade, and the
    uniqueness checks of the model's inserts are the unique rules of the migrated schema.
  \<^item> Worker_Main, System, System_Frames, System_Nonces, System_Books: the loops of
    \<open>worker/main.py\<close>, and the whole system as a step relation in which requests, phases on any
    chain, restarts and time come in any order. Invariants of all reachable states: the books
    match, nonces are never shared. Samples: the concrete states of the witnesses.

  \<^bold>\<open>Bounds and termination.\<close> No definition uses fuel: the loops run over finite lists or
  count down, and paging is shown to end. Integers are unbounded as in Python; \<open>NUMERIC(78, 0)\<close> and
  \<open>BIGINT\<close> columns are not cut off. Texts are ASCII and texts of integers shorter than
  the 4300 digits Python accepts.

  \<^bold>\<open>Simplifications.\<close> A step is one committed transaction, so row locks have no effect and races
  between transactions are outside the model. Foreign keys are checked where an operation deletes
  rows. Responses that only copy fields are not repeated.

  \<^bold>\<open>Not modelled.\<close> \<open>app/db.py\<close>, \<open>app/models/base.py\<close> and \<open>alembic/env.py\<close>: engine, sessions and the
  runner of the migrations, which only call libraries. Of the other files: logging, signals,
  asyncio scheduling, CORS, JSON and routing of the framework. The floating-point corners of the
  polygon in a token's picture are a parameter. The front end and the contracts are other
  languages.
\<close>

section \<open>The system and its schema\<close>



end
